(* ===== verification/Prelude.thy ===== *)
theory Prelude
  imports Main "HOL-Library.Word"
begin

text \<open>
  Vocabulary shared by every component of the model of the perun node: the outcome of
  running a piece of Go code (it returns, it panics, or it waits for ever on a mutex or
  a wait group), indexing of slices with the run-time check that Go makes, the few
  functions of \<open>fmt\<close> and \<open>strings\<close> that the node uses to build identifiers and messages,
  and the generic lemmas the component theories rest on.
\<close>

subsection \<open>Outcomes of Go code\<close>

datatype panic =
    IndexOutOfRange
  | NilDereference
  | CloseOfNilChannel
  | CloseOfClosedChannel
  | AssignToNilMap
  | MakeSliceOutOfRange
  | PanicCall string

datatype 'a run =
    Done 'a
  | Panic panic
  | Blocked

named_theorems run_simps \<open>rewrite rules that execute sequenced Go code\<close>

primrec andThen :: "'a run \<Rightarrow> ('a \<Rightarrow> 'b run) \<Rightarrow> 'b run" where
  "andThen (Done x) f = f x"
| "andThen (Panic p) f = Panic p"
| "andThen Blocked f = Blocked"

lemma andThen_Done_iff [run_simps]:
  "andThen m f = Done y \<longleftrightarrow> (\<exists>x. m = Done x \<and> f x = Done y)"
  by (cases m) auto

lemma andThen_Done_sym_iff [run_simps]:
  "Done y = andThen m f \<longleftrightarrow> (\<exists>x. m = Done x \<and> f x = Done y)"
  by (cases m) auto

lemma andThen_DoneE:
  assumes "andThen m f = Done y"
  obtains x where "m = Done x" and "f x = Done y"
  using assms by (auto simp: andThen_Done_iff)

lemma andThen_assoc: "andThen (andThen m f) g = andThen m (\<lambda>x. andThen (f x) g)"
  by (cases m) simp_all

lemma andThen_Done_right [simp]: "andThen m Done = m"
  by (cases m) simp_all

lemma andThen_cong [cong]: "m = m' \<Longrightarrow> (\<And>x. m' = Done x \<Longrightarrow> f x = g x) \<Longrightarrow> andThen m f = andThen m' g"
  by (cases m) auto

text \<open>\<open>returns m\<close>: the code comes back to its caller.\<close>

primrec returns :: "'a run \<Rightarrow> bool" where
  "returns (Done x) = True"
| "returns (Panic p) = False"
| "returns Blocked = False"

lemma returns_iff: "returns m \<longleftrightarrow> (\<exists>x. m = Done x)"
  by (cases m) auto

lemma returns_andThen [simp]: "returns (andThen m f) \<longleftrightarrow> (\<exists>x. m = Done x \<and> returns (f x))"
  by (cases m) auto

text \<open>Running a fallible step on every element of a slice, in order.\<close>

primrec mapRun :: "('a \<Rightarrow> 'b run) \<Rightarrow> 'a list \<Rightarrow> 'b list run" where
  "mapRun f [] = Done []"
| "mapRun f (x # xs) = andThen (f x) (\<lambda>y. andThen (mapRun f xs) (\<lambda>ys. Done (y # ys)))"

lemma mapRun_Done_iff:
  "mapRun f xs = Done ys \<longleftrightarrow> list_all2 (\<lambda>x y. f x = Done y) xs ys"
  by (induction xs arbitrary: ys) (auto simp: run_simps list_all2_Cons1)

lemma mapRun_total: "mapRun (\<lambda>x. Done (f x)) xs = Done (map f xs)"
  by (induction xs) auto

lemma mapRun_cong_Done: "(\<And>x. x \<in> set xs \<Longrightarrow> g x = Done (f x)) \<Longrightarrow> mapRun g xs = Done (map f xs)"
  by (induction xs) auto

lemma mapRun_length: "mapRun f xs = Done ys \<Longrightarrow> length ys = length xs"
  by (auto simp: mapRun_Done_iff dest: list_all2_lengthD)

subsection \<open>Slices\<close>

text \<open>\<open>xs[i]\<close> and \<open>xs[i] = v\<close>, with Go's bounds check.\<close>

definition idx_at :: "'a list \<Rightarrow> nat \<Rightarrow> 'a run" where
  "idx_at xs i = (if i < length xs then Done (xs ! i) else Panic IndexOutOfRange)"

definition put_at :: "'a list \<Rightarrow> nat \<Rightarrow> 'a \<Rightarrow> 'a list run" where
  "put_at xs i v = (if i < length xs then Done (xs[i := v]) else Panic IndexOutOfRange)"

lemma idx_at_Done [run_simps]: "idx_at xs i = Done x \<longleftrightarrow> i < length xs \<and> x = xs ! i"
  by (auto simp: idx_at_def)

lemma put_at_Done [run_simps]: "put_at xs i v = Done ys \<longleftrightarrow> i < length xs \<and> ys = xs[i := v]"
  by (auto simp: put_at_def)

lemma idx_at_in_range [simp]: "i < length xs \<Longrightarrow> idx_at xs i = Done (xs ! i)"
  by (simp add: idx_at_def)

lemma idx_at_out_of_range [simp]: "length xs \<le> i \<Longrightarrow> idx_at xs i = Panic IndexOutOfRange"
  by (simp add: idx_at_def)

lemma put_at_in_range [simp]: "i < length xs \<Longrightarrow> put_at xs i v = Done (xs[i := v])"
  by (simp add: put_at_def)

subsection \<open>The verbs of \<open>fmt\<close> and \<open>strings.Join\<close>\<close>

definition digit_char :: "nat \<Rightarrow> char" where
  "digit_char d = char_of (48 + d)"

definition char_digit :: "char \<Rightarrow> nat" where
  "char_digit c = of_char c - 48"

lemma char_digit_digit_char [simp]: "d < 10 \<Longrightarrow> char_digit (digit_char d) = d"
  by (simp add: char_digit_def digit_char_def)

text \<open>\<open>%d\<close> of an unsigned integer.\<close>

fun show_nat :: "nat \<Rightarrow> string" where
  "show_nat n = (if n < 10 then [digit_char n] else show_nat (n div 10) @ [digit_char (n mod 10)])"

declare show_nat.simps [simp del]

definition show_int :: "int \<Rightarrow> string" where
  "show_int i = (if i < 0 then ''-'' @ show_nat (nat (- i)) else show_nat (nat i))"

definition read_nat :: "string \<Rightarrow> nat" where
  "read_nat s = foldl (\<lambda>a c. a * 10 + char_digit c) 0 s"

lemma read_nat_snoc: "read_nat (s @ [c]) = read_nat s * 10 + char_digit c"
  by (simp add: read_nat_def)

lemma read_show_nat [simp]: "read_nat (show_nat n) = n"
proof (induction n rule: show_nat.induct)
  case (1 n)
  show ?case
  proof (cases "n < 10")
    case True
    then show ?thesis by (subst show_nat.simps) (simp add: read_nat_def)
  next
    case False
    then show ?thesis
      using 1 by (subst show_nat.simps) (simp add: read_nat_snoc)
  qed
qed

lemma show_nat_inj [simp]: "show_nat m = show_nat n \<longleftrightarrow> m = n"
  by (metis read_show_nat)

text \<open>\<open>%x\<close> of a byte slice: two lower-case hexadecimal digits for each byte.\<close>

definition hex_digit :: "nat \<Rightarrow> char" where
  "hex_digit d = (if d < 10 then char_of (48 + d) else char_of (87 + d))"

definition hex_val :: "char \<Rightarrow> nat" where
  "hex_val c = (if of_char c < (58 :: nat) then of_char c - 48 else of_char c - 87)"

lemma hex_val_hex_digit [simp]: "d < 16 \<Longrightarrow> hex_val (hex_digit d) = d"
  by (simp add: hex_val_def hex_digit_def)

definition hex_byte :: "8 word \<Rightarrow> string" where
  "hex_byte b = [hex_digit (unat b div 16), hex_digit (unat b mod 16)]"

definition hex_bytes :: "8 word list \<Rightarrow> string" where
  "hex_bytes bs = concat (map hex_byte bs)"

lemma hex_byte_inj: "hex_byte a = hex_byte b \<Longrightarrow> a = b"
proof -
  assume eq: "hex_byte a = hex_byte b"
  have val: "unat w = hex_val (hex_byte w ! 0) * 16 + hex_val (hex_byte w ! 1)" for w :: "8 word"
  proof -
    have "unat w < 2 ^ LENGTH(8)"
      by (rule unsigned_less)
    then have "unat w div 16 < 16" by simp
    then show ?thesis by (simp add: hex_byte_def)
  qed
  from eq have "unat a = unat b" by (metis val)
  then show "a = b" by (simp add: word_unat_eq_iff)
qed

lemma hex_bytes_inj: "hex_bytes as = hex_bytes bs \<Longrightarrow> as = bs"
proof (induction as arbitrary: bs)
  case Nil
  then show ?case by (cases bs) (simp_all add: hex_bytes_def hex_byte_def)
next
  case (Cons a as)
  then obtain b bs' where bs: "bs = b # bs'"
    by (cases bs) (simp_all add: hex_bytes_def hex_byte_def)
  with Cons.prems have "hex_byte a = hex_byte b" and "hex_bytes as = hex_bytes bs'"
    by (simp_all add: hex_bytes_def hex_byte_def)
  with bs show ?case using Cons.IH hex_byte_inj by blast
qed

text \<open>\<open>strings.Join\<close>.\<close>

fun join :: "string list \<Rightarrow> string \<Rightarrow> string" where
  "join [] sep = []"
| "join [s] sep = s"
| "join (s # t # ts) sep = s @ sep @ join (t # ts) sep"

text \<open>\<open>%v\<close> of a slice of strings.\<close>

definition show_slice :: "string list \<Rightarrow> string" where
  "show_slice xs = ''['' @ join xs '' '' @ '']''"

text \<open>A separator that does not occur in what follows it splits a string in one way only.\<close>

lemma append_sep_inj:
  assumes "xs @ c # ys = xs' @ c # ys'" and "c \<notin> set ys" and "c \<notin> set ys'"
  shows "xs = xs' \<and> ys = ys'"
proof -
  have "rev ys @ c # rev xs = rev ys' @ c # rev xs'"
    using arg_cong [OF assms(1), of rev] by simp
  moreover have "takeWhile (\<lambda>d. d \<noteq> c) (rev zs @ c # ws) = rev zs"
    if "c \<notin> set zs" for zs ws :: "'a list"
    using that by (subst takeWhile_append2) auto
  ultimately have "rev ys = rev ys'"
    using assms(2,3) by metis
  with assms(1) show ?thesis by simp
qed

text \<open>The characters of a number are digits.\<close>

lemma show_nat_digits: "c \<in> set (show_nat n) \<Longrightarrow> 48 \<le> (of_char c :: nat) \<and> of_char c < (58 :: nat)"
proof (induction n rule: show_nat.induct)
  case (1 n)
  show ?case
  proof (cases "n < 10")
    case True
    with "1.prems" show ?thesis by (simp add: show_nat.simps [of n] digit_char_def)
  next
    case False
    with "1.prems" have "c \<in> set (show_nat (n div 10)) \<or> c = digit_char (n mod 10)"
      by (auto simp: show_nat.simps [of n])
    then show ?thesis
      using "1.IH" [OF False] by (auto simp: digit_char_def)
  qed
qed

lemma not_in_show_nat:
  assumes "of_char c < (48 :: nat) \<or> 58 \<le> (of_char c :: nat)"
  shows "c \<notin> set (show_nat n)"
  using assms show_nat_digits [of c n] by auto

lemma show_nat_nonempty [simp]: "show_nat n \<noteq> []"
  by (subst show_nat.simps) simp

lemma underscore_not_in_show_nat: "CHR ''_'' \<notin> set (show_nat n)"
  by (rule not_in_show_nat) simp

definition read_int :: "string \<Rightarrow> int" where
  "read_int s = (case s of
       c # cs \<Rightarrow> if c = CHR ''-'' then - int (read_nat cs) else int (read_nat s)
     | [] \<Rightarrow> 0)"

lemma read_show_int [simp]: "read_int (show_int i) = i"
proof (cases "i < 0")
  case True
  then show ?thesis by (simp add: show_int_def read_int_def)
next
  case False
  obtain c cs where c: "show_nat (nat i) = c # cs"
    by (cases "show_nat (nat i)") auto
  have "c \<noteq> CHR ''-''"
    using not_in_show_nat [of "CHR ''-''" "nat i"] c by auto
  with False c show ?thesis
    using read_show_nat [of "nat i"] by (simp add: show_int_def read_int_def)
qed

end
