(* ===== verification/Perun_Types.thy ===== *)
theory Perun_Types
  imports Prelude
begin

text \<open>
  The data of \<^verbatim>\<open>perun.go\<close>: peer IDs, balance and channel infos, the errors of the API with
  their categories, codes and additional infos, and the notifications sent to the user;
  with the error values of the packages that construct them.

  Values of the go-perun SDK that the node only stores and passes on (an app, its data, a
  responder, a wallet) are opaque references, a natural number each. A blockchain address
  is its twenty bytes. An \<open>error\<close> of Go is the tree of the wrappers around it:
  \<open>EWith e m\<close> is what \<open>errors.WithMessage(e, m)\<close> and \<open>errors.Wrap(e, m)\<close> return; an error of
  the SDK that the node inspects has a constructor of its own, with the fields the node reads
  and its text; any other error is \<open>ENew\<close> of its text.
\<close>

subsection \<open>References and addresses\<close>

type_synonym ref = nat
type_synonym address = "160 word"

definition OwnAlias :: string where
  "OwnAlias = ''self''"

record peer_id =
  pAlias :: string
  pOffChainAddr :: "address option"
  pOffChainAddrString :: string
  pCommAddr :: string
  pCommType :: string

definition nil_peer_id :: peer_id where
  "nil_peer_id = \<lparr>pAlias = [], pOffChainAddr = None, pOffChainAddrString = [], pCommAddr = [], pCommType = []\<rparr>"

record bal_info =
  biCurrencies :: "string list"
  biParts :: "string list"
  biBals :: "string list list"

record app =
  appDef :: ref
  appData :: ref

record ch_info =
  ciChID :: string
  ciBalInfo :: bal_info
  ciApp :: "app option"
  ciVersion :: string

record pay_ch_info =
  pciChID :: string
  pciBalInfo :: bal_info
  pciVersion :: string

definition nil_bal_info :: bal_info where
  "nil_bal_info = \<lparr>biCurrencies = [], biParts = [], biBals = []\<rparr>"

definition nil_ch_info :: ch_info where
  "nil_ch_info = \<lparr>ciChID = [], ciBalInfo = nil_bal_info, ciApp = None, ciVersion = []\<rparr>"

subsection \<open>Errors of the API\<close>

datatype err_category = ParticipantError | ClientError | ProtocolFatalError | InternalError

datatype err_code =
    ErrPeerRequestTimedOut | ErrPeerRejected | ErrPeerNotFunded | ErrUserResponseTimedOut
  | ErrResourceNotFound | ErrResourceExists | ErrInvalidArgument | ErrFailedPreCondition
  | ErrInvalidConfig | ErrInvalidContracts
  | ErrTxTimedOut | ErrChainNotReachable
  | ErrUnknownInternal

fun category_num :: "err_category \<Rightarrow> nat" where
  "category_num ParticipantError = 0"
| "category_num ClientError = 1"
| "category_num ProtocolFatalError = 2"
| "category_num InternalError = 3"

fun category_String :: "err_category \<Rightarrow> string" where
  "category_String ParticipantError = ''Participant''"
| "category_String ClientError = ''Client''"
| "category_String ProtocolFatalError = ''Protocol Fatal''"
| "category_String InternalError = ''Internal''"

fun code_num :: "err_code \<Rightarrow> nat" where
  "code_num ErrPeerRequestTimedOut = 101"
| "code_num ErrPeerRejected = 102"
| "code_num ErrPeerNotFunded = 103"
| "code_num ErrUserResponseTimedOut = 104"
| "code_num ErrResourceNotFound = 201"
| "code_num ErrResourceExists = 202"
| "code_num ErrInvalidArgument = 203"
| "code_num ErrFailedPreCondition = 204"
| "code_num ErrInvalidConfig = 205"
| "code_num ErrInvalidContracts = 206"
| "code_num ErrTxTimedOut = 301"
| "code_num ErrChainNotReachable = 302"
| "code_num ErrUnknownInternal = 401"

record contract_err_info =
  ceName :: string
  ceAddress :: string
  ceError :: string

text \<open>
  The values of the \<open>addInfo\<close> field, an \<open>interface\<close> value in the code: nothing, one of the
  \<open>ErrInfo\<close> structs of \<^verbatim>\<open>perun.go\<close>, or the struct of \<^verbatim>\<open>app/payment/session.go\<close> that replaces
  the list of channel infos.
\<close>

datatype add_info =
    NoInfo
  | ErrInfoPeerRequestTimedOut string string
  | ErrInfoPeerRejected string string
  | ErrInfoPeerNotFunded string
  | ErrInfoUserResponseTimedOut int int
  | ErrInfoResourceNotFound string string
  | ErrInfoResourceExists string string
  | ErrInfoInvalidArgument string string string
  | ErrInfoFailedPreCondUnclosedChs "ch_info list"
  | ErrInfoFailedPreCondUnclosedPayChs "pay_ch_info list"
  | ErrInfoInvalidConfig string string
  | ErrInfoInvalidContracts "contract_err_info list"
  | ErrInfoTxTimedOut string string string
  | ErrInfoChainNotReachable string

datatype goerr =
    EConst string
  | ENew string
  | EWith goerr string
  | ERequestTimedOut string
  | EPeerRejected string string
  | EFundingTimeout "nat list list" string
  | ETxTimedout string string string
  | EChainNotReachable string
  | EAssetERC20Registered string string
  | EInvalidContract string string goerr
  | EAPI err_category err_code goerr add_info

record api_err =
  aeCategory :: err_category
  aeCode :: err_code
  aeErr :: goerr
  aeAddInfo :: add_info

text \<open>\<open>err.Error()\<close>.\<close>

primrec err_Error :: "goerr \<Rightarrow> string" where
  "err_Error (EConst s) = s"
| "err_Error (ENew s) = s"
| "err_Error (EWith e m) = m @ '': '' @ err_Error e"
| "err_Error (ERequestTimedOut s) = s"
| "err_Error (EPeerRejected r s) = s"
| "err_Error (EFundingTimeout ps s) = s"
| "err_Error (ETxTimedout t i s) = s"
| "err_Error (EChainNotReachable s) = s"
| "err_Error (EAssetERC20Registered a y) =
     ''already registered asset ('' @ a @ '') for the symbol '' @ y"
| "err_Error (EInvalidContract n a e) =
     ''invalid asset '' @ n @ '' contract at address '' @ a @ '': '' @ err_Error e"
| "err_Error (EAPI cat cod e i) =
     category_String cat @ '' '' @ show_nat (code_num cod) @ '':'' @ err_Error e"

text \<open>
  \<open>errors.As\<close> and \<open>errors.Is\<close>: the target is looked for at the error itself and then along
  the chain of its \<open>Unwrap\<close> methods.
\<close>

primrec errors_As :: "(goerr \<Rightarrow> 'a option) \<Rightarrow> goerr \<Rightarrow> 'a option" where
  "errors_As p (EConst s) = p (EConst s)"
| "errors_As p (ENew s) = p (ENew s)"
| "errors_As p (EWith e m) = (case p (EWith e m) of Some x \<Rightarrow> Some x | None \<Rightarrow> errors_As p e)"
| "errors_As p (ERequestTimedOut s) = p (ERequestTimedOut s)"
| "errors_As p (EPeerRejected r s) = p (EPeerRejected r s)"
| "errors_As p (EFundingTimeout ps s) = p (EFundingTimeout ps s)"
| "errors_As p (ETxTimedout t i s) = p (ETxTimedout t i s)"
| "errors_As p (EChainNotReachable s) = p (EChainNotReachable s)"
| "errors_As p (EAssetERC20Registered a y) = p (EAssetERC20Registered a y)"
| "errors_As p (EInvalidContract n a e) =
     (case p (EInvalidContract n a e) of Some x \<Rightarrow> Some x | None \<Rightarrow> errors_As p e)"
| "errors_As p (EAPI cat cod e i) =
     (case p (EAPI cat cod e i) of Some x \<Rightarrow> Some x | None \<Rightarrow> errors_As p e)"

fun as_RequestTimedOut :: "goerr \<Rightarrow> unit option" where
  "as_RequestTimedOut (ERequestTimedOut s) = Some ()"
| "as_RequestTimedOut e = None"

fun as_PeerRejected :: "goerr \<Rightarrow> string option" where
  "as_PeerRejected (EPeerRejected r s) = Some r"
| "as_PeerRejected e = None"

fun as_FundingTimeout :: "goerr \<Rightarrow> nat list list option" where
  "as_FundingTimeout (EFundingTimeout ps s) = Some ps"
| "as_FundingTimeout e = None"

fun as_TxTimedout :: "goerr \<Rightarrow> (string \<times> string) option" where
  "as_TxTimedout (ETxTimedout t i s) = Some (t, i)"
| "as_TxTimedout e = None"

fun as_ChainNotReachable :: "goerr \<Rightarrow> unit option" where
  "as_ChainNotReachable (EChainNotReachable s) = Some ()"
| "as_ChainNotReachable e = None"

fun as_AssetERC20Registered :: "goerr \<Rightarrow> (string \<times> string) option" where
  "as_AssetERC20Registered (EAssetERC20Registered a y) = Some (a, y)"
| "as_AssetERC20Registered e = None"

fun as_InvalidContract :: "goerr \<Rightarrow> (string \<times> string \<times> goerr) option" where
  "as_InvalidContract (EInvalidContract n a e) = Some (n, a, e)"
| "as_InvalidContract e = None"

fun as_const :: "string \<Rightarrow> goerr \<Rightarrow> unit option" where
  "as_const s (EConst t) = (if s = t then Some () else None)"
| "as_const s e = None"

definition errors_Is :: "string \<Rightarrow> goerr \<Rightarrow> bool" where
  "errors_Is s e \<longleftrightarrow> errors_As (as_const s) e \<noteq> None"

text \<open>A wrapper neither adds nor hides any of the errors the node looks for.\<close>

lemma errors_As_EWith [simp]:
  "errors_As as_RequestTimedOut (EWith e m) = errors_As as_RequestTimedOut e"
  "errors_As as_PeerRejected (EWith e m) = errors_As as_PeerRejected e"
  "errors_As as_FundingTimeout (EWith e m) = errors_As as_FundingTimeout e"
  "errors_As as_TxTimedout (EWith e m) = errors_As as_TxTimedout e"
  "errors_As as_ChainNotReachable (EWith e m) = errors_As as_ChainNotReachable e"
  "errors_As as_AssetERC20Registered (EWith e m) = errors_As as_AssetERC20Registered e"
  "errors_As as_InvalidContract (EWith e m) = errors_As as_InvalidContract e"
  "errors_As (as_const s) (EWith e m) = errors_As (as_const s) e"
  by simp_all

lemma errors_Is_EWith [simp]: "errors_Is s (EWith e m) = errors_Is s e"
  by (simp add: errors_Is_def)

lemma errors_Is_EConst [simp]: "errors_Is s (EConst t) \<longleftrightarrow> s = t"
  by (simp add: errors_Is_def)

end
