(* ===== verification/Perun_Errors.thy ===== *)
theory Perun_Errors
  imports Perun_Types
begin

text \<open>
  \<^verbatim>\<open>errors.go\<close>: the constructors of API errors, one for each error code, and the projections
  of an API error; with the error constants of the packages \<^verbatim>\<open>session\<close> and \<^verbatim>\<open>idprovider\<close> and
  the constructors of \<^verbatim>\<open>blockchain/errors.go\<close>. The lemmas say that every constructor pairs a
  code with its own category and its own kind of additional information, which
  \<open>toGrpcError\<close> and the clients rely on.
\<close>

subsection \<open>Constants\<close>

definition ErrChClosed :: goerr where
  "ErrChClosed = EConst ''action not allowed on a closed channel''"
definition ErrSessionClosed :: goerr where
  "ErrSessionClosed = EConst ''action not allowed on a closed session''"
definition ErrUnsupportedType :: goerr where
  "ErrUnsupportedType = EConst ''type not supported, see node config for supported types''"
definition ErrRepeatedPeerAlias :: goerr where
  "ErrRepeatedPeerAlias = EConst ''found repeated entries but each value should be unique''"
definition ErrEntryForSelfNotFound :: goerr where
  "ErrEntryForSelfNotFound = EConst ''own peer alias (self) not found''"

definition ErrPeerIDNotFound_text :: string where
  "ErrPeerIDNotFound_text = ''peer id not found''"
definition ErrPeerAliasAlreadyUsed_text :: string where
  "ErrPeerAliasAlreadyUsed_text = ''peer alias is already used for another peer id''"
definition ErrPeerIDAlreadyRegistered_text :: string where
  "ErrPeerIDAlreadyRegistered_text = ''peer id already regsitered''"
definition ErrParsingOffChainAddress_text :: string where
  "ErrParsingOffChainAddress_text = ''parsing off-chain address''"

datatype resource_type =
    ResTypeUpdate | ResTypeUpdateSub | ResTypeChannel | ResTypeProposal | ResTypeProposalSub
  | ResTypePeerID | ResTypeSession | ResTypeCurrency

fun resType_string :: "resource_type \<Rightarrow> string" where
  "resType_string ResTypeUpdate = ''update''"
| "resType_string ResTypeUpdateSub = ''updatesSub''"
| "resType_string ResTypeChannel = ''channel''"
| "resType_string ResTypeProposal = ''proposal''"
| "resType_string ResTypeProposalSub = ''proposalsSub''"
| "resType_string ResTypePeerID = ''peerID''"
| "resType_string ResTypeSession = ''session''"
| "resType_string ResTypeCurrency = ''currency''"

datatype argument_name =
    ArgNameAmount | ArgNameCurrency | ArgNamePeerAlias | ArgNameOffChainAddr
  | ArgNameConfigFile | ArgNamePayee | ArgNameToken | ArgNameAsset

fun argName_string :: "argument_name \<Rightarrow> string" where
  "argName_string ArgNameAmount = ''amount''"
| "argName_string ArgNameCurrency = ''currency''"
| "argName_string ArgNamePeerAlias = ''peerAlias''"
| "argName_string ArgNameOffChainAddr = ''offChainAddress''"
| "argName_string ArgNameConfigFile = ''configFile''"
| "argName_string ArgNamePayee = ''payee''"
| "argName_string ArgNameToken = ''token''"
| "argName_string ArgNameAsset = ''asset''"

lemma resType_string_inj [simp]: "resType_string a = resType_string b \<longleftrightarrow> a = b"
  by (cases a; cases b) simp_all

lemma argName_string_inj [simp]: "argName_string a = argName_string b \<longleftrightarrow> a = b"
  by (cases a; cases b) simp_all

subsection \<open>Projections\<close>

definition Message :: "api_err \<Rightarrow> string" where
  "Message e = err_Error (aeErr e)"

definition apiError_Error :: "api_err \<Rightarrow> string" where
  "apiError_Error e =
     category_String (aeCategory e) @ '' '' @ show_nat (code_num (aeCode e)) @ '':'' @ Message e"

text \<open>An API error used as an \<open>error\<close>: its \<open>Unwrap\<close> is the error inside.\<close>

definition as_error :: "api_err \<Rightarrow> goerr" where
  "as_error e = EAPI (aeCategory e) (aeCode e) (aeErr e) (aeAddInfo e)"

lemma err_Error_as_error: "err_Error (as_error e) = apiError_Error e"
  by (simp add: as_error_def apiError_Error_def Message_def)

datatype log_value = LStr string | LCode err_code

definition APIErrAsMap :: "string \<Rightarrow> api_err \<Rightarrow> (string \<rightharpoonup> log_value)" where
  "APIErrAsMap meth e =
     [''method'' \<mapsto> LStr meth,
      ''category'' \<mapsto> LStr (category_String (aeCategory e)),
      ''code'' \<mapsto> LCode (aeCode e)]"

subsection \<open>Constructors\<close>

definition NewAPIErr :: "err_category \<Rightarrow> err_code \<Rightarrow> goerr \<Rightarrow> add_info \<Rightarrow> api_err" where
  "NewAPIErr cat cod e info = \<lparr>aeCategory = cat, aeCode = cod, aeErr = e, aeAddInfo = info\<rparr>"

definition NewAPIErrPeerRequestTimedOut :: "goerr \<Rightarrow> string \<Rightarrow> string \<Rightarrow> api_err" where
  "NewAPIErrPeerRequestTimedOut e peerAlias timeout =
     (let message = ''timed out waiting for response from '' @ peerAlias @ '' for '' @ timeout
      in NewAPIErr ParticipantError ErrPeerRequestTimedOut (EWith e message)
           (ErrInfoPeerRequestTimedOut peerAlias timeout))"

definition NewAPIErrPeerRejected :: "goerr \<Rightarrow> string \<Rightarrow> string \<Rightarrow> api_err" where
  "NewAPIErrPeerRejected e peerAlias reason =
     (let message = ''peer '' @ peerAlias @ '' rejected with reason '' @ reason
      in NewAPIErr ParticipantError ErrPeerRejected (EWith e message)
           (ErrInfoPeerRejected peerAlias reason))"

definition NewAPIErrPeerNotFunded :: "goerr \<Rightarrow> string \<Rightarrow> api_err" where
  "NewAPIErrPeerNotFunded e peerAlias =
     (let message = ''peer '' @ peerAlias @ '' did not fund within expected time''
      in NewAPIErr ParticipantError ErrPeerNotFunded (EWith e message)
           (ErrInfoPeerNotFunded peerAlias))"

definition NewAPIErrUserResponseTimedOut :: "int \<Rightarrow> int \<Rightarrow> api_err" where
  "NewAPIErrUserResponseTimedOut expiry receivedAt =
     (let message = ''response received (at '' @ show_int receivedAt @
            '') after timeout expired (at '' @ show_int expiry @ '')''
      in NewAPIErr ParticipantError ErrUserResponseTimedOut (ENew message)
           (ErrInfoUserResponseTimedOut expiry receivedAt))"

definition NewAPIErrResourceNotFound :: "resource_type \<Rightarrow> string \<Rightarrow> api_err" where
  "NewAPIErrResourceNotFound resourceType resourceID =
     (let message = ''cannot find '' @ resType_string resourceType @ '' with ID: '' @ resourceID
      in NewAPIErr ClientError ErrResourceNotFound (ENew message)
           (ErrInfoResourceNotFound (resType_string resourceType) resourceID))"

definition NewAPIErrResourceExists :: "resource_type \<Rightarrow> string \<Rightarrow> api_err" where
  "NewAPIErrResourceExists resourceType resourceID =
     (let message = resType_string resourceType @ '' with ID: '' @ resourceID @ '' already exists''
      in NewAPIErr ClientError ErrResourceExists (ENew message)
           (ErrInfoResourceExists (resType_string resourceType) resourceID))"

definition NewAPIErrInvalidArgument :: "goerr \<Rightarrow> argument_name \<Rightarrow> string \<Rightarrow> api_err" where
  "NewAPIErrInvalidArgument e name val =
     (let message = ''invalid value for '' @ argName_string name @ '': '' @ val
      in NewAPIErr ClientError ErrInvalidArgument (EWith e message)
           (ErrInfoInvalidArgument (argName_string name) val []))"

definition newAPIErrFailedPreCondition :: "goerr \<Rightarrow> add_info \<Rightarrow> api_err" where
  "newAPIErrFailedPreCondition e info =
     (let message = ''failed pre-condition''
      in NewAPIErr ClientError ErrFailedPreCondition (EWith e message) info)"

definition NewAPIErrFailedPreCondition :: "goerr \<Rightarrow> api_err" where
  "NewAPIErrFailedPreCondition e = newAPIErrFailedPreCondition e NoInfo"

definition NewAPIErrFailedPreConditionUnclosedChs :: "goerr \<Rightarrow> ch_info list \<Rightarrow> api_err" where
  "NewAPIErrFailedPreConditionUnclosedChs e chs =
     newAPIErrFailedPreCondition e (ErrInfoFailedPreCondUnclosedChs chs)"

definition NewAPIErrInvalidConfig :: "goerr \<Rightarrow> string \<Rightarrow> string \<Rightarrow> api_err" where
  "NewAPIErrInvalidConfig e name val =
     (let message = ''invalid value for '' @ name @ '': '' @ val
      in NewAPIErr ClientError ErrInvalidConfig (EWith e message) (ErrInfoInvalidConfig name val))"

definition NewAPIErrInvalidContracts :: "contract_err_info list \<Rightarrow> api_err" where
  "NewAPIErrInvalidContracts infos =
     (let contractsMsg = concat (map (\<lambda>c. ''('' @ ceName c @ '' at address '' @ ceAddress c @
            '': '' @ ceError c @ '') '') infos);
          message = ''invalid contracts: '' @ contractsMsg
      in NewAPIErr ClientError ErrInvalidContracts (ENew message) (ErrInfoInvalidContracts infos))"

definition NewAPIErrTxTimedOut :: "goerr \<Rightarrow> string \<Rightarrow> string \<Rightarrow> string \<Rightarrow> api_err" where
  "NewAPIErrTxTimedOut e txType txID txTimeout =
     (let message = ''timed out waiting for '' @ txType @ '' tx (ID:'' @ txID @
            '') to be mined in '' @ txTimeout @ '': '' @ err_Error e
      in NewAPIErr ProtocolFatalError ErrTxTimedOut (EWith e message)
           (ErrInfoTxTimedOut txType txID txTimeout))"

definition NewAPIErrChainNotReachable :: "goerr \<Rightarrow> string \<Rightarrow> api_err" where
  "NewAPIErrChainNotReachable e chainURL =
     (let message = ''chain not reachable at URL '' @ chainURL
      in NewAPIErr ProtocolFatalError ErrChainNotReachable (EWith e message)
           (ErrInfoChainNotReachable chainURL))"

definition NewAPIErrUnknownInternal :: "goerr \<Rightarrow> api_err" where
  "NewAPIErrUnknownInternal e =
     (let message = ''unknown internal error''
      in NewAPIErr InternalError ErrUnknownInternal (EWith e message) NoInfo)"

text \<open>\<^verbatim>\<open>blockchain/errors.go\<close>; \<open>errors.WithStack\<close> adds no text and hides nothing.\<close>

definition NewInvalidContractError :: "string \<Rightarrow> string \<Rightarrow> goerr \<Rightarrow> goerr" where
  "NewInvalidContractError name address e = EInvalidContract name address e"

definition NewAssetERC20RegisteredError :: "string \<Rightarrow> string \<Rightarrow> goerr" where
  "NewAssetERC20RegisteredError asset symbol = EAssetERC20Registered asset symbol"

lemmas api_err_constructor_defs =
  NewAPIErrPeerRequestTimedOut_def NewAPIErrPeerRejected_def NewAPIErrPeerNotFunded_def
  NewAPIErrUserResponseTimedOut_def NewAPIErrResourceNotFound_def NewAPIErrResourceExists_def
  NewAPIErrInvalidArgument_def newAPIErrFailedPreCondition_def NewAPIErrFailedPreCondition_def
  NewAPIErrFailedPreConditionUnclosedChs_def NewAPIErrInvalidConfig_def
  NewAPIErrInvalidContracts_def NewAPIErrTxTimedOut_def NewAPIErrChainNotReachable_def
  NewAPIErrUnknownInternal_def

subsection \<open>Well-formed API errors\<close>

definition category_of_code :: "err_code \<Rightarrow> err_category" where
  "category_of_code c =
     (if code_num c < 200 then ParticipantError
      else if code_num c < 300 then ClientError
      else if code_num c < 400 then ProtocolFatalError else InternalError)"

definition info_fits :: "err_code \<Rightarrow> add_info \<Rightarrow> bool" where
  "info_fits c i =
     (case i of
        NoInfo \<Rightarrow> c = ErrFailedPreCondition \<or> c = ErrUnknownInternal
      | ErrInfoPeerRequestTimedOut _ _ \<Rightarrow> c = ErrPeerRequestTimedOut
      | ErrInfoPeerRejected _ _ \<Rightarrow> c = ErrPeerRejected
      | ErrInfoPeerNotFunded _ \<Rightarrow> c = ErrPeerNotFunded
      | ErrInfoUserResponseTimedOut _ _ \<Rightarrow> c = ErrUserResponseTimedOut
      | ErrInfoResourceNotFound _ _ \<Rightarrow> c = ErrResourceNotFound
      | ErrInfoResourceExists _ _ \<Rightarrow> c = ErrResourceExists
      | ErrInfoInvalidArgument _ _ _ \<Rightarrow> c = ErrInvalidArgument
      | ErrInfoFailedPreCondUnclosedChs _ \<Rightarrow> c = ErrFailedPreCondition
      | ErrInfoFailedPreCondUnclosedPayChs _ \<Rightarrow> c = ErrFailedPreCondition
      | ErrInfoInvalidConfig _ _ \<Rightarrow> c = ErrInvalidConfig
      | ErrInfoInvalidContracts _ \<Rightarrow> c = ErrInvalidContracts
      | ErrInfoTxTimedOut _ _ _ \<Rightarrow> c = ErrTxTimedOut
      | ErrInfoChainNotReachable _ \<Rightarrow> c = ErrChainNotReachable)"

definition api_ok :: "api_err \<Rightarrow> bool" where
  "api_ok e \<longleftrightarrow> aeCategory e = category_of_code (aeCode e) \<and> info_fits (aeCode e) (aeAddInfo e)"

lemma NewAPIErr_fields [simp]:
  "aeCategory (NewAPIErr cat cod e i) = cat" "aeCode (NewAPIErr cat cod e i) = cod"
  "aeErr (NewAPIErr cat cod e i) = e" "aeAddInfo (NewAPIErr cat cod e i) = i"
  by (simp_all add: NewAPIErr_def)

lemma api_ok_constructors [simp]:
  "api_ok (NewAPIErrPeerRequestTimedOut e s t)"
  "api_ok (NewAPIErrPeerRejected e s t)"
  "api_ok (NewAPIErrPeerNotFunded e s)"
  "api_ok (NewAPIErrUserResponseTimedOut i j)"
  "api_ok (NewAPIErrResourceNotFound r s)"
  "api_ok (NewAPIErrResourceExists r s)"
  "api_ok (NewAPIErrInvalidArgument e a s)"
  "api_ok (NewAPIErrFailedPreCondition e)"
  "api_ok (NewAPIErrFailedPreConditionUnclosedChs e cs)"
  "api_ok (NewAPIErrInvalidConfig e s t)"
  "api_ok (NewAPIErrInvalidContracts ces)"
  "api_ok (NewAPIErrTxTimedOut e s t u)"
  "api_ok (NewAPIErrChainNotReachable e s)"
  "api_ok (NewAPIErrUnknownInternal e)"
  by (simp_all add: api_ok_def info_fits_def api_err_constructor_defs category_of_code_def)

lemma aeCode_constructors [simp]:
  "aeCode (NewAPIErrPeerRequestTimedOut e s t) = ErrPeerRequestTimedOut"
  "aeCode (NewAPIErrPeerRejected e s t) = ErrPeerRejected"
  "aeCode (NewAPIErrPeerNotFunded e s) = ErrPeerNotFunded"
  "aeCode (NewAPIErrUserResponseTimedOut i j) = ErrUserResponseTimedOut"
  "aeCode (NewAPIErrResourceNotFound r s) = ErrResourceNotFound"
  "aeCode (NewAPIErrResourceExists r s) = ErrResourceExists"
  "aeCode (NewAPIErrInvalidArgument e a s) = ErrInvalidArgument"
  "aeCode (NewAPIErrFailedPreCondition e) = ErrFailedPreCondition"
  "aeCode (NewAPIErrFailedPreConditionUnclosedChs e cs) = ErrFailedPreCondition"
  "aeCode (NewAPIErrInvalidConfig e s t) = ErrInvalidConfig"
  "aeCode (NewAPIErrInvalidContracts ces) = ErrInvalidContracts"
  "aeCode (NewAPIErrTxTimedOut e s t u) = ErrTxTimedOut"
  "aeCode (NewAPIErrChainNotReachable e s) = ErrChainNotReachable"
  "aeCode (NewAPIErrUnknownInternal e) = ErrUnknownInternal"
  by (simp_all add: api_err_constructor_defs)

end
