(* ===== verification/Timeouts.thy ===== *)
theory Timeouts
  imports Prelude
begin

text \<open>
  \<^verbatim>\<open>session/timeout.go\<close>: how long each kind of request may take. A \<open>time.Duration\<close> is a signed
  64-bit count of nanoseconds, kept here at its width: \<open>sint\<close> reads it, and every sum and
  product wraps around as in the code. The challenge duration comes from the user's request
  as an unsigned 64-bit count of seconds.
\<close>

type_synonym duration = "64 word"

definition Second :: duration where
  "Second = 1000000000"

definition processingTime :: duration where
  "processingTime = 5 * Second"

record timeout_config =
  tcOnChainTx :: duration
  tcResponse :: duration

definition proposeCh :: "timeout_config \<Rightarrow> 64 word \<Rightarrow> duration" where
  "proposeCh t challengeDurSecs =
     (let challengeDur = challengeDurSecs * Second
      in 2 * tcResponse t + 3 * tcOnChainTx t + 2 * challengeDur + processingTime)"

definition respChProposalAccept :: "timeout_config \<Rightarrow> 64 word \<Rightarrow> duration" where
  "respChProposalAccept t challengeDurSecs = proposeCh t challengeDurSecs"

definition respChProposalReject :: "timeout_config \<Rightarrow> duration" where
  "respChProposalReject t = tcResponse t + processingTime"

definition chUpdate :: "timeout_config \<Rightarrow> duration" where
  "chUpdate t = tcResponse t + processingTime"

definition respChUpdate :: "timeout_config \<Rightarrow> duration" where
  "respChUpdate t = tcResponse t + processingTime"

definition register_timeout :: "timeout_config \<Rightarrow> 64 word \<Rightarrow> duration" where
  "register_timeout t challengeDurSecs =
     (let challengeDur = challengeDurSecs * Second
      in 1 * tcOnChainTx t + 1 * challengeDur + processingTime)"

definition settle_timeout :: "timeout_config \<Rightarrow> 64 word \<Rightarrow> duration" where
  "settle_timeout t challengeDurSecs =
     (let challengeDur = challengeDurSecs * Second
      in 2 * tcOnChainTx t + 1 * challengeDur + processingTime)"

subsection \<open>\<open>Duration.String\<close>, Unix time\<close>

text \<open>
  \<open>String\<close> of the standard library: the largest unit first, the fraction without its
  trailing zeros, and a unit smaller than a second only for durations below one second (the
  micro sign is two bytes of UTF-8).
\<close>

primrec pad_digits :: "nat \<Rightarrow> nat \<Rightarrow> string" where
  "pad_digits 0 v = []"
| "pad_digits (Suc k) v = pad_digits k (v div 10) @ [digit_char (v mod 10)]"

definition fmtFrac :: "nat \<Rightarrow> nat \<Rightarrow> string" where
  "fmtFrac v prec =
     (let ds = rev (dropWhile (\<lambda>c. c = CHR ''0'') (rev (pad_digits prec (v mod 10 ^ prec))))
      in if ds = [] then [] else ''.'' @ ds)"

definition dur_String :: "duration \<Rightarrow> string" where
  "dur_String d =
     (let i = sint d; u = nat \<bar>i\<bar>; neg = (if i < 0 then ''-'' else []);
          s = u div 1000000000;
          secs = show_nat (s mod 60) @ fmtFrac u 9 @ ''s'';
          m = s div 60; h = m div 60
      in if u = 0 then ''0s''
         else neg @
          (if u < 1000 then show_nat u @ ''ns''
           else if u < 1000000 then show_nat (u div 1000) @ fmtFrac u 3 @ [char_of (194::nat), char_of (181::nat)] @ ''s''
           else if u < 1000000000 then show_nat (u div 1000000) @ fmtFrac u 6 @ ''ms''
           else if m = 0 then secs
           else if h = 0 then show_nat (m mod 60) @ ''m'' @ secs
           else show_nat h @ ''h'' @ show_nat (m mod 60) @ ''m'' @ secs))"

text \<open>The clock is a count of nanoseconds; \<open>Unix\<close> is in whole seconds, rounded down.\<close>

definition unix :: "int \<Rightarrow> int" where
  "unix now = now div 1000000000"

definition unix_after :: "int \<Rightarrow> duration \<Rightarrow> int" where
  "unix_after now d = unix (now + sint d)"

subsection \<open>No wrap-around within the bounds\<close>

text \<open>
  The bound under which no sum of the component wraps around: non-negative configured times
  and a challenge duration that together stay below the largest duration, \<open>2 ^ 63\<close> ns.
\<close>

definition timeouts_fit :: "timeout_config \<Rightarrow> 64 word \<Rightarrow> bool" where
  "timeouts_fit t c \<longleftrightarrow>
     0 \<le> sint (tcResponse t) \<and> 0 \<le> sint (tcOnChainTx t) \<and>
     2 * sint (tcResponse t) + 3 * sint (tcOnChainTx t) + 2 * (uint c * 1000000000) + 5000000000 < 2 ^ 63"

lemma sint_word_of_int_64:
  "- (2 ^ 63) \<le> k \<Longrightarrow> k < 2 ^ 63 \<Longrightarrow> sint (word_of_int k :: 64 word) = k"
  by (simp add: sint_sbintrunc' signed_take_bit_int_eq_self)

lemma proposeCh_of_int:
  "proposeCh t c = word_of_int
     (2 * sint (tcResponse t) + 3 * sint (tcOnChainTx t) + 2 * (uint c * 1000000000) + 5000000000)"
  by (simp add: proposeCh_def Second_def processingTime_def)

lemma register_timeout_of_int:
  "register_timeout t c = word_of_int (sint (tcOnChainTx t) + uint c * 1000000000 + 5000000000)"
  by (simp add: register_timeout_def Second_def processingTime_def)

lemma settle_timeout_of_int:
  "settle_timeout t c = word_of_int (2 * sint (tcOnChainTx t) + uint c * 1000000000 + 5000000000)"
  by (simp add: settle_timeout_def Second_def processingTime_def)

lemma chUpdate_of_int: "chUpdate t = word_of_int (sint (tcResponse t) + 5000000000)"
  by (simp add: chUpdate_def Second_def processingTime_def)

lemmas timeout_of_int =
  proposeCh_of_int register_timeout_of_int settle_timeout_of_int chUpdate_of_int

lemma timeouts_exact:
  assumes "timeouts_fit t c"
  shows "sint (proposeCh t c) =
      2 * sint (tcResponse t) + 3 * sint (tcOnChainTx t) + 2 * (uint c * 1000000000) + 5000000000"
    and "sint (register_timeout t c) = sint (tcOnChainTx t) + uint c * 1000000000 + 5000000000"
    and "sint (settle_timeout t c) = 2 * sint (tcOnChainTx t) + uint c * 1000000000 + 5000000000"
    and "sint (chUpdate t) = sint (tcResponse t) + 5000000000"
proof -
  have "0 \<le> uint c" by simp
  with assms show "sint (proposeCh t c) =
      2 * sint (tcResponse t) + 3 * sint (tcOnChainTx t) + 2 * (uint c * 1000000000) + 5000000000"
    "sint (register_timeout t c) = sint (tcOnChainTx t) + uint c * 1000000000 + 5000000000"
    "sint (settle_timeout t c) = 2 * sint (tcOnChainTx t) + uint c * 1000000000 + 5000000000"
    "sint (chUpdate t) = sint (tcResponse t) + 5000000000"
    unfolding timeout_of_int timeouts_fit_def
    by (subst sint_word_of_int_64; linarith)+
qed

subsection \<open>Properties\<close>

text \<open>
  Within the bounds every timeout is the sum its worst case path asks for, without
  wrap-around, so all are positive, settling has one more on-chain transaction than
  registering, and proposing a channel leaves time for a settlement.
\<close>

theorem timeouts_ordered:
  assumes "timeouts_fit t c"
  shows "0 < sint (chUpdate t) \<and> 0 < sint (register_timeout t c)
    \<and> sint (settle_timeout t c) = sint (register_timeout t c) + sint (tcOnChainTx t)
    \<and> sint (proposeCh t c) = sint (settle_timeout t c)
        + sint (tcOnChainTx t) + 2 * sint (tcResponse t) + uint c * 1000000000
    \<and> sint (settle_timeout t c) \<le> sint (proposeCh t c)"
proof -
  have "0 \<le> uint c" by simp
  with assms show ?thesis
    unfolding timeouts_exact [OF assms] timeouts_fit_def by (intro conjI; linarith)
qed

definition default_timeouts :: timeout_config where
  "default_timeouts = \<lparr>tcOnChainTx = 10 * Second, tcResponse = 10 * Second\<rparr>"

theorem timeouts_ordered_witness:
  "sint (settle_timeout default_timeouts 10) \<le> sint (proposeCh default_timeouts 10)"
  using timeouts_ordered [of default_timeouts 10]
  by (simp add: timeouts_fit_def default_timeouts_def Second_def)

text \<open>
  the challenge duration of a request is not bounded by the code. For every
  configuration with times of at most one hour, a request with a challenge duration of
  4611686019 seconds makes the timeout of the proposal negative: its context has expired
  before the proposal is sent.
\<close>

theorem proposeCh_wraps:
  assumes "0 \<le> sint (tcResponse t)" and "sint (tcResponse t) \<le> 3600000000000"
    and "0 \<le> sint (tcOnChainTx t)" and "sint (tcOnChainTx t) \<le> 3600000000000"
  shows "sint (proposeCh t 4611686019) < 0"
proof -
  let ?s = "2 * sint (tcResponse t) + 3 * sint (tcOnChainTx t) + 2 * (4611686019 * 1000000000) + 5000000000"
  have "proposeCh t 4611686019 = (word_of_int (?s - 2 ^ 64) :: 64 word)"
    unfolding proposeCh_of_int by simp
  moreover have "sint (word_of_int (?s - 2 ^ 64) :: 64 word) = ?s - 2 ^ 64"
    using assms by (intro sint_word_of_int_64) simp_all
  ultimately show ?thesis using assms by simp
qed

theorem proposeCh_wraps_witness: "sint (proposeCh default_timeouts 4611686019) < 0"
  by (rule proposeCh_wraps) (simp_all add: default_timeouts_def Second_def)

end
