(* ===== verification/Notifications.thy ===== *)
theory Notifications
  imports Perun_Errors Timeouts
begin

text \<open>
  What channels and sessions have in common: the functions of \<^verbatim>\<open>session/session.go\<close> that turn an
  error of the SDK into an API error, the loop that sends the cached notifications to a new
  subscriber, and the notification of a channel update.
\<close>

subsection \<open>Errors of the SDK\<close>

definition handleProposalError :: "string \<Rightarrow> string \<Rightarrow> goerr \<Rightarrow> api_err option" where
  "handleProposalError peerAlias responseTimeout e =
     (case errors_As as_RequestTimedOut e of
        Some _ \<Rightarrow> Some (NewAPIErrPeerRequestTimedOut e peerAlias responseTimeout)
      | None \<Rightarrow>
          (case errors_As as_PeerRejected e of
             Some reason \<Rightarrow> Some (NewAPIErrPeerRejected e peerAlias reason)
           | None \<Rightarrow> None))"

definition handleChainError :: "string \<Rightarrow> string \<Rightarrow> goerr \<Rightarrow> api_err option" where
  "handleChainError chainURL onChainTxTimeout e =
     (case errors_As as_TxTimedout e of
        Some (txType, txID) \<Rightarrow> Some (NewAPIErrTxTimedOut e txType txID onChainTxTimeout)
      | None \<Rightarrow>
          (case errors_As as_ChainNotReachable e of
             Some _ \<Rightarrow> Some (NewAPIErrChainNotReachable e chainURL)
           | None \<Rightarrow> None))"

text \<open>
  The timed-out peers of the funding errors are given per asset. Indexing \<open>Errors[0]\<close> follows
  the check of the length.
\<close>

definition handleFundingTimeoutError :: "string \<Rightarrow> nat \<Rightarrow> goerr \<Rightarrow> api_err option" where
  "handleFundingTimeoutError peerAlias peerIdx e =
     (case errors_As as_FundingTimeout e of
        None \<Rightarrow> None
      | Some assetErrs \<Rightarrow>
          (case assetErrs of
             [timedOutPeers] \<Rightarrow>
               (case timedOutPeers of
                  [p] \<Rightarrow>
                    if p \<noteq> peerIdx
                    then Some (NewAPIErrUnknownInternal (EWith e (''index of peer must be '' @ show_nat peerIdx)))
                    else Some (NewAPIErrPeerNotFunded e peerAlias)
                | _ \<Rightarrow> Some (NewAPIErrUnknownInternal
                    (EWith e ''channel can contain only one participant other than self'')))
           | _ \<Rightarrow> Some (NewAPIErrUnknownInternal (EWith e ''channel can contain only one asset''))))"

lemma api_ok_handlers:
  "handleProposalError al t e = Some ae \<Longrightarrow> api_ok ae"
  "handleChainError u t e = Some ae \<Longrightarrow> api_ok ae"
  "handleFundingTimeoutError al i e = Some ae \<Longrightarrow> api_ok ae"
  by (auto simp: handleProposalError_def handleChainError_def handleFundingTimeoutError_def
      split: option.splits list.splits if_splits)

subsection \<open>Sending the cache\<close>

definition slice :: "'a list \<Rightarrow> nat \<Rightarrow> nat \<Rightarrow> 'a list run" where
  "slice xs lo hi = (if lo \<le> hi \<and> hi \<le> length xs then Done (drop lo (take hi xs)) else Panic IndexOutOfRange)"

primrec flush_loop ::
  "nat \<Rightarrow> ('n \<Rightarrow> 'ev) \<Rightarrow> 'n list \<Rightarrow> 'ev list \<Rightarrow> ('n list \<times> 'ev list) run" where
  "flush_loop 0 f cache out = Done (cache, out)"
| "flush_loop (Suc i) f cache out =
     andThen (idx_at cache 0) (\<lambda>n.
     andThen (slice cache 1 (Suc i)) (\<lambda>cache'.
     flush_loop i f cache' (out @ [f n])))"

text \<open>The loop sends the whole cache, oldest first, and never indexes out of range.\<close>

lemma flush_loop_all: "flush_loop (length cache) f cache out = Done ([], out @ map f cache)"
proof (induction cache arbitrary: out)
  case (Cons n ns)
  then show ?case by (simp add: slice_def)
qed simp

subsection \<open>Notifications of channel updates\<close>

datatype ch_update_type = ChUpdateTypeOpen | ChUpdateTypeFinal | ChUpdateTypeClosed

record ch_update_notif =
  cunUpdateID :: string
  cunCurrChInfo :: ch_info
  cunProposedChInfo :: ch_info
  cunType :: ch_update_type
  cunExpiry :: int
  cunError :: "api_err option"

record ch_proposal_notif =
  cpnProposalID :: string
  cpnOpeningBalInfo :: bal_info
  cpnApp :: app
  cpnChallengeDurSecs :: "64 word"
  cpnExpiry :: int

end
