(* ===== verification/Interfaces.thy ===== *)
theory Interfaces
  imports Prelude
begin

text \<open>
  The contracts that several components of the node share, as locales. A component that
  provides one interprets it on its own operations; the components that call it use the
  facts of the interpretation.
\<close>

subsection \<open>Registries that only grow\<close>

text \<open>
  The currency registry, the contract registry, the cache of the ID provider and the table
  of open sessions are keyed collections to which an entry is added under a key that has
  none yet, and from which the callers read. The law: an addition under a free key changes
  the lookup at this key only.
\<close>

locale grow_registry =
  fixes lookup :: "'r \<Rightarrow> 'k \<Rightarrow> 'v option"
    and add :: "'k \<Rightarrow> 'e \<Rightarrow> 'r \<Rightarrow> 'r"
    and val :: "'k \<Rightarrow> 'e \<Rightarrow> 'v"
    and inv :: "'r \<Rightarrow> bool"
  assumes lookup_add: "inv r \<Longrightarrow> lookup r k = None \<Longrightarrow> lookup (add k e r) = (lookup r)(k \<mapsto> val k e)"
    and inv_add: "inv r \<Longrightarrow> lookup r k = None \<Longrightarrow> inv (add k e r)"
begin

lemma lookup_added: "inv r \<Longrightarrow> lookup r k = None \<Longrightarrow> lookup (add k e r) k = Some (val k e)"
  by (simp add: lookup_add)

lemma lookup_other: "inv r \<Longrightarrow> lookup r k = None \<Longrightarrow> k' \<noteq> k \<Longrightarrow> lookup (add k e r) k' = lookup r k'"
  by (simp add: lookup_add)

lemma lookup_stable:
  assumes "inv r" and "lookup r k = None" and "lookup r k' = Some v"
  shows "lookup (add k e r) k' = Some v"
proof -
  from assms(2,3) have "k' \<noteq> k" by auto
  with assms show ?thesis by (simp add: lookup_other)
qed

lemma dom_add: "inv r \<Longrightarrow> lookup r k = None \<Longrightarrow> dom (lookup (add k e r)) = insert k (dom (lookup r))"
  by (simp add: lookup_add)

lemma map_le_add: "inv r \<Longrightarrow> lookup r k = None \<Longrightarrow> lookup r \<subseteq>\<^sub>m lookup (add k e r)"
  by (auto simp: map_le_def lookup_add)

text \<open>A sequence of additions under distinct free keys.\<close>

primrec add_all :: "('k \<times> 'e) list \<Rightarrow> 'r \<Rightarrow> 'r" where
  "add_all [] r = r"
| "add_all (x # xs) r = add_all xs (add (fst x) (snd x) r)"

lemma add_all_spec:
  assumes "inv r" and "distinct (map fst xs)" and "set (map fst xs) \<inter> dom (lookup r) = {}"
  shows "inv (add_all xs r) \<and>
    lookup (add_all xs r) = lookup r ++ map_of (map (\<lambda>(k, e). (k, val k e)) xs)"
  using assms
proof (induction xs arbitrary: r)
  case Nil
  then show ?case by simp
next
  case (Cons x xs)
  obtain k e where x: "x = (k, e)" by (cases x)
  from Cons.prems x have free: "lookup r k = None" and kn: "k \<notin> set (map fst xs)" by auto
  let ?M = "map_of (map (\<lambda>(k, e). (k, val k e)) xs)"
  have "?M k = None"
    using kn by (force simp: map_of_eq_None_iff)
  then have eq: "(lookup r)(k \<mapsto> val k e) ++ ?M = lookup r ++ map_of (map (\<lambda>(k, e). (k, val k e)) (x # xs))"
    using x by (auto simp: map_add_def fun_eq_iff split: option.splits)
  have "set (map fst xs) \<inter> dom (lookup (add k e r)) = {}"
    using Cons.prems free kn x by (auto simp: dom_add)
  then have "inv (add_all xs (add k e r)) \<and> lookup (add_all xs (add k e r)) = lookup (add k e r) ++ ?M"
    using Cons.prems free by (intro Cons.IH) (simp_all add: inv_add)
  then have "inv (add_all xs (add k e r)) \<and> lookup (add_all xs (add k e r))
      = lookup r ++ map_of (map (\<lambda>(k, e). (k, val k e)) (x # xs))"
    by (simp only: lookup_add [OF Cons.prems(1) free] eq)
  with x show ?case by (simp only: add_all.simps fst_conv snd_conv)
qed

end

subsection \<open>Subscriptions with a cache\<close>

text \<open>
  Channel updates and channel proposals are passed to the user in the same way. There is at
  most one subscriber; a notification that arrives without one is kept in a cache and sent,
  in the order of arrival, when a subscriber comes. A notifier is the function value that
  the subscriber registered: calling it on a notification produces an event.

  The law a provider promises is about \<open>seen\<close>, the notifications emitted so far together with
  those still in the cache: notifying appends one, subscribing and unsubscribing keep them.
\<close>

locale subscription =
  fixes notifier :: "'s \<Rightarrow> ('n \<Rightarrow> 'ev) option"
    and cache :: "'s \<Rightarrow> 'n list"
    and sent :: "'s \<Rightarrow> 'ev list"
    and sub :: "('n \<Rightarrow> 'ev) \<Rightarrow> 's \<Rightarrow> 's"
    and unsub :: "'s \<Rightarrow> 's"
    and notify :: "'n \<Rightarrow> 's \<Rightarrow> 's"
  assumes sub_notifier: "notifier s = None \<Longrightarrow> notifier (sub f s) = Some f"
    and sub_cache: "notifier s = None \<Longrightarrow> cache (sub f s) = []"
    and sub_sent: "notifier s = None \<Longrightarrow> sent (sub f s) = sent s @ map f (cache s)"
    and sub_again: "notifier s \<noteq> None \<Longrightarrow> sub f s = s"
    and unsub_notifier: "notifier (unsub s) = None"
    and unsub_cache: "cache (unsub s) = cache s"
    and unsub_sent: "sent (unsub s) = sent s"
    and notify_cached: "notifier s = None \<Longrightarrow>
          cache (notify n s) = cache s @ [n] \<and> sent (notify n s) = sent s \<and> notifier (notify n s) = None"
    and notify_sent: "notifier s = Some f \<Longrightarrow>
          cache (notify n s) = cache s \<and> sent (notify n s) = sent s @ [f n] \<and> notifier (notify n s) = Some f"
begin

definition cache_inv :: "'s \<Rightarrow> bool" where
  "cache_inv s \<longleftrightarrow> (notifier s \<noteq> None \<longrightarrow> cache s = [])"

lemma cache_inv_sub: "cache_inv s \<Longrightarrow> cache_inv (sub f s)"
  by (cases "notifier s") (auto simp: cache_inv_def sub_cache sub_again)

lemma cache_inv_unsub: "cache_inv (unsub s)"
  by (simp add: cache_inv_def unsub_notifier)

lemma cache_inv_notify: "cache_inv s \<Longrightarrow> cache_inv (notify n s)"
  by (cases "notifier s") (auto simp: cache_inv_def notify_cached notify_sent)

lemma notify_all_cached:
  "notifier s = None \<Longrightarrow> notifier (fold notify ns s) = None \<and>
     cache (fold notify ns s) = cache s @ ns \<and> sent (fold notify ns s) = sent s"
  by (induction ns arbitrary: s) (auto simp: notify_cached)

lemma notify_all_sent:
  "notifier s = Some f \<Longrightarrow> notifier (fold notify ns s) = Some f \<and>
     cache (fold notify ns s) = cache s \<and> sent (fold notify ns s) = sent s @ map f ns"
  by (induction ns arbitrary: s) (auto simp: notify_sent)

text \<open>
  Nothing is lost and nothing is reordered: what arrives before the subscription is sent at
  the subscription, and what arrives after it is sent when it arrives.
\<close>

lemma no_notification_lost:
  assumes "notifier s = None"
  shows "sent (fold notify ms (sub f (fold notify ns s))) = sent s @ map f (cache s @ ns @ ms)
    \<and> cache (fold notify ms (sub f (fold notify ns s))) = []"
proof -
  let ?t = "fold notify ns s"
  from assms have t: "notifier ?t = None" "cache ?t = cache s @ ns" "sent ?t = sent s"
    by (simp_all add: notify_all_cached)
  have "sent (sub f ?t) = sent s @ map f (cache s @ ns)" "cache (sub f ?t) = []"
    "notifier (sub f ?t) = Some f"
    using t by (simp_all add: sub_sent sub_cache sub_notifier)
  then show ?thesis by (simp add: notify_all_sent)
qed

end

end
