(* ===== verification/Currencies.thy ===== *)
theory Currencies
  imports Complex_Main Perun_Types Interfaces
begin

text \<open>
  The package \<^verbatim>\<open>currency\<close>: the interpreter that converts between the amount strings of the
  API and integers in the base unit, and the registry of interpreters.

  The arithmetic is that of \<open>github.com/shopspring/decimal\<close>, which is not part of the
  repository: its type is the parameter \<open>'d\<close> and its functions are the fields of a
  \<open>decimal_lib\<close>. What is relied on is \<open>decimal_ok\<close>, the documented behaviour of the library:
  its operations are exact on the values they represent, except division, which rounds to 16
  decimal places. An interface value \<open>perun.Currency\<close> is the record of its three methods.
\<close>

subsection \<open>The decimal library\<close>

record 'd decimal_lib =
  dNewFromString :: "string \<Rightarrow> goerr + 'd"
  dNewFromInt :: "int \<Rightarrow> 'd"
  dNewFromBigInt :: "int \<Rightarrow> int \<Rightarrow> 'd"
  dNew :: "int \<Rightarrow> int \<Rightarrow> 'd"
  dMul :: "'d \<Rightarrow> 'd \<Rightarrow> 'd"
  dDiv :: "'d \<Rightarrow> 'd \<Rightarrow> 'd"
  dLessThan :: "'d \<Rightarrow> 'd \<Rightarrow> bool"
  dBigInt :: "'d \<Rightarrow> int"
  dString :: "'d \<Rightarrow> string"

definition truncate_rat :: "rat \<Rightarrow> int" where
  "truncate_rat q = (if q < 0 then - \<lfloor>- q\<rfloor> else \<lfloor>q\<rfloor>)"

definition decimal_ok :: "'d decimal_lib \<Rightarrow> ('d \<Rightarrow> rat) \<Rightarrow> bool" where
  "decimal_ok D dval \<longleftrightarrow>
     (\<forall>a b. dval (dMul D a b) = dval a * dval b) \<and>
     (\<forall>a b. dLessThan D a b \<longleftrightarrow> dval a < dval b) \<and>
     (\<forall>n. dval (dNewFromInt D n) = of_int n) \<and>
     (\<forall>n. dval (dNewFromBigInt D n 0) = of_int n) \<and>
     (\<forall>k. dval (dNew D 1 (int k)) = 10 ^ k) \<and>
     (\<forall>a. dBigInt D a = truncate_rat (dval a)) \<and>
     (\<forall>a b. dval b \<noteq> 0 \<longrightarrow> \<bar>dval (dDiv D a b) - dval a / dval b\<bar> \<le> 1 / (2 * 10 ^ 16)
        \<and> (\<exists>m. dval (dDiv D a b) = of_int m / 10 ^ 16)) \<and>
     (\<forall>a. \<exists>a'. dNewFromString D (dString D a) = Inr a' \<and> dval a' = dval a)"

subsection \<open>The interpreter\<close>

record 'd currency =
  cySymbol :: string
  cyDecimals :: 'd

definition currency_Parse :: "'d decimal_lib \<Rightarrow> 'd currency \<Rightarrow> string \<Rightarrow> goerr + int" where
  "currency_Parse D c input =
     (case dNewFromString D input of
        Inl e \<Rightarrow> Inl (EWith e ''invalid decimal string'')
      | Inr amount \<Rightarrow>
          (let amountBaseUnit = dMul D amount (cyDecimals c)
           in if dLessThan D amountBaseUnit (dNewFromInt D 1)
              then Inl (ENew ''amount is too small, should be larger than 1e-18'')
              else Inr (dBigInt D amountBaseUnit)))"

definition currency_Print :: "'d decimal_lib \<Rightarrow> 'd currency \<Rightarrow> int \<Rightarrow> string" where
  "currency_Print D c input =
     (let amountBaseUnit = dNewFromBigInt D input 0
      in dString D (dDiv D amountBaseUnit (cyDecimals c)))"

record currency_if =
  cuParse :: "string \<Rightarrow> goerr + int"
  cuPrint :: "int \<Rightarrow> string"
  cuSymbol :: string

definition as_Currency :: "'d decimal_lib \<Rightarrow> 'd currency \<Rightarrow> currency_if" where
  "as_Currency D c = \<lparr>cuParse = currency_Parse D c, cuPrint = currency_Print D c, cuSymbol = cySymbol c\<rparr>"

subsection \<open>The registry\<close>

definition ETHSymbol :: string where
  "ETHSymbol = ''ETH''"

definition ETHMaxDecimals :: nat where
  "ETHMaxDecimals = 18"

record currency_registry =
  crSymbols :: "string list"
  crCurrencies :: "string \<rightharpoonup> currency_if"

definition NewRegistry :: currency_registry where
  "NewRegistry = \<lparr>crSymbols = [], crCurrencies = Map.empty\<rparr>"

definition Symbols :: "currency_registry \<Rightarrow> string list" where
  "Symbols r = crSymbols r"

definition isRegistered :: "currency_registry \<Rightarrow> string \<Rightarrow> bool" where
  "isRegistered r symbol \<longleftrightarrow> crCurrencies r symbol \<noteq> None"

definition Currency :: "currency_registry \<Rightarrow> string \<Rightarrow> currency_if option" where
  "Currency r symbol = crCurrencies r symbol"

definition new_currency :: "'d decimal_lib \<Rightarrow> string \<Rightarrow> nat \<Rightarrow> 'd currency" where
  "new_currency D symbol maxDecimals = \<lparr>cySymbol = symbol, cyDecimals = dNew D 1 (int maxDecimals)\<rparr>"

definition put_currency :: "string \<Rightarrow> currency_if \<Rightarrow> currency_registry \<Rightarrow> currency_registry" where
  "put_currency symbol c r =
     r\<lparr>crCurrencies := (crCurrencies r)(symbol \<mapsto> c), crSymbols := crSymbols r @ [symbol]\<rparr>"

definition Register ::
  "'d decimal_lib \<Rightarrow> string \<Rightarrow> nat \<Rightarrow> currency_registry \<Rightarrow> (goerr + currency_if) \<times> currency_registry" where
  "Register D symbol maxDecimals r =
     (if isRegistered r symbol
      then (Inl (ENew ''currency parser already registered for the given symbol''), r)
      else let c = as_Currency D (new_currency D symbol maxDecimals)
           in (Inr c, put_currency symbol c r))"

subsection \<open>Laws of the interpreter\<close>

definition unit_value :: "('d \<Rightarrow> rat) \<Rightarrow> 'd currency \<Rightarrow> 'd \<Rightarrow> rat" where
  "unit_value dval c a = dval a * dval (cyDecimals c)"

lemma truncate_rat_pos [simp]: "0 \<le> q \<Longrightarrow> truncate_rat q = \<lfloor>q\<rfloor>"
  by (simp add: truncate_rat_def)

lemma decimal_okD:
  assumes "decimal_ok D dval"
  shows "dval (dMul D a b) = dval a * dval b"
    and "dLessThan D a b \<longleftrightarrow> dval a < dval b"
    and "dval (dNewFromInt D n) = of_int n"
    and "dval (dNewFromBigInt D n 0) = of_int n"
    and "dval (dNew D 1 (int k)) = 10 ^ k"
    and "dBigInt D a = truncate_rat (dval a)"
    and "dval b \<noteq> 0 \<Longrightarrow> \<bar>dval (dDiv D a b) - dval a / dval b\<bar> \<le> 1 / (2 * 10 ^ 16)"
    and "dval b \<noteq> 0 \<Longrightarrow> \<exists>m. dval (dDiv D a b) = of_int m / 10 ^ 16"
    and "\<exists>a'. dNewFromString D (dString D a) = Inr a' \<and> dval a' = dval a"
  using assms unfolding decimal_ok_def by blast+

lemma Parse_Inr_iff:
  assumes "decimal_ok D dval"
  shows "currency_Parse D c s = Inr n \<longleftrightarrow>
    (\<exists>a. dNewFromString D s = Inr a \<and> 1 \<le> unit_value dval c a \<and> n = \<lfloor>unit_value dval c a\<rfloor>)"
  using assms
  by (auto simp: currency_Parse_def unit_value_def Let_def decimal_okD [OF assms] split: sum.splits)

lemma new_currency_decimals [simp]:
  "decimal_ok D dval \<Longrightarrow> dval (cyDecimals (new_currency D s k)) = 10 ^ k"
  by (simp add: new_currency_def decimal_okD)

lemma currency_parse_spec_aux:
  "decimal_ok D dval \<Longrightarrow> currency_Parse D (new_currency D y k) s = Inr n \<longleftrightarrow>
    (\<exists>a. dNewFromString D s = Inr a \<and> 1 \<le> dval a * 10 ^ k \<and> n = \<lfloor>dval a * 10 ^ k\<rfloor>)"
  using Parse_Inr_iff [of D dval "new_currency D y k" s n] by (simp add: unit_value_def)

text \<open>What \<open>Print\<close> writes: the quotient rounded to a multiple of \<open>10 ^ -16\<close>.\<close>

lemma Print_value:
  assumes "decimal_ok D dval"
  obtains a m where "dNewFromString D (currency_Print D (new_currency D s k) n) = Inr a"
    and "dval a = of_int m / 10 ^ 16"
    and "\<bar>dval a - of_int n / 10 ^ k\<bar> \<le> 1 / (2 * 10 ^ 16)"
proof -
  let ?q = "dDiv D (dNewFromBigInt D n 0) (cyDecimals (new_currency D s k))"
  have nz: "dval (cyDecimals (new_currency D s k)) \<noteq> 0" using assms by simp
  obtain a where a: "dNewFromString D (dString D ?q) = Inr a" "dval a = dval ?q"
    using decimal_okD(9) [OF assms, of ?q] by blast
  obtain m where "dval ?q = of_int m / 10 ^ 16"
    using decimal_okD(8) [OF assms nz] by blast
  moreover have "\<bar>dval ?q - of_int n / 10 ^ k\<bar> \<le> 1 / (2 * 10 ^ 16)"
    using decimal_okD(7) [OF assms nz, of "dNewFromBigInt D n 0"] assms
    by (simp add: decimal_okD(4) [OF assms])
  ultimately show ?thesis
    using that [of a m] a by (simp add: currency_Print_def Let_def)
qed

lemma multiple_close_eq:
  fixes x y :: int
  assumes "\<bar>of_int x / 10 ^ 16 - of_int y / (10 ^ 16 :: rat)\<bar> \<le> 1 / (2 * 10 ^ 16)"
  shows "x = y"
proof (rule ccontr)
  assume "x \<noteq> y"
  then have "1 \<le> \<bar>x - y\<bar>" by simp
  then have "(1 :: rat) \<le> \<bar>of_int x - of_int y\<bar>"
    by (metis of_int_1_le_iff of_int_abs of_int_diff)
  moreover have "\<bar>of_int x / 10 ^ 16 - of_int y / (10 ^ 16 :: rat)\<bar> = \<bar>of_int x - of_int y\<bar> / 10 ^ 16"
    by (simp flip: diff_divide_distrib)
  ultimately show False using assms by (simp add: field_simps)
qed

text \<open>
  An amount that a multiple of \<open>10 ^ -16\<close> of the currency represents survives printing and
  parsing; in particular every amount of a currency with at most 16 decimals.
\<close>

lemma Print_exact:
  assumes "decimal_ok D dval" and "of_int n / 10 ^ k = of_int m / (10 ^ 16 :: rat)" and "1 \<le> n"
  shows "currency_Parse D (new_currency D s k) (currency_Print D (new_currency D s k) n) = Inr n"
proof -
  obtain a m' where a: "dNewFromString D (currency_Print D (new_currency D s k) n) = Inr a"
    and m': "dval a = of_int m' / 10 ^ 16"
    and near: "\<bar>dval a - of_int n / 10 ^ k\<bar> \<le> 1 / (2 * 10 ^ 16)"
    by (rule Print_value [OF assms(1)])
  have "m' = m"
    using near unfolding m' assms(2) by (rule multiple_close_eq)
  with m' assms(2) have "dval a = of_int n / 10 ^ k" by (simp only:)
  then have "unit_value dval (new_currency D s k) a = of_int n"
    using assms(1) by (simp add: unit_value_def)
  with a assms(3) show ?thesis
    by (auto simp: Parse_Inr_iff [OF assms(1)])
qed

subsection \<open>Laws of the registry\<close>

definition currency_registry_inv :: "currency_registry \<Rightarrow> bool" where
  "currency_registry_inv r \<longleftrightarrow>
     distinct (crSymbols r) \<and> set (crSymbols r) = dom (crCurrencies r) \<and>
     (\<forall>s c. crCurrencies r s = Some c \<longrightarrow> cuSymbol c = s)"

lemma currency_registry_inv_New [simp]: "currency_registry_inv NewRegistry"
  by (simp add: currency_registry_inv_def NewRegistry_def)

lemma currency_registry_inv_put:
  assumes "currency_registry_inv r" and "Currency r symbol = None" and "cuSymbol c = symbol"
  shows "currency_registry_inv (put_currency symbol c r)"
  using assms by (auto simp: currency_registry_inv_def put_currency_def Currency_def)

lemma cuSymbol_as_Currency [simp]: "cuSymbol (as_Currency D (new_currency D s k)) = s"
  by (simp add: as_Currency_def new_currency_def)

lemma Register_Inr:
  "Register D s k r = (Inr c, r') \<longleftrightarrow>
     Currency r s = None \<and> c = as_Currency D (new_currency D s k) \<and> r' = put_currency s c r"
  by (auto simp: Register_def isRegistered_def Currency_def Let_def)

lemma Register_Inl: "Register D s k r = (Inl e, r') \<Longrightarrow> r' = r \<and> Currency r s \<noteq> None"
  by (auto simp: Register_def isRegistered_def Currency_def Let_def split: if_splits)

lemma currency_registry_inv_Register:
  assumes "currency_registry_inv r"
  shows "currency_registry_inv (snd (Register D s k r))"
proof (cases "Currency r s")
  case None
  with assms show ?thesis
    by (auto simp: Register_def isRegistered_def Currency_def Let_def intro!: currency_registry_inv_put)
next
  case Some
  with assms show ?thesis by (simp add: Register_def isRegistered_def Currency_def)
qed

interpretation cur: grow_registry Currency
  "\<lambda>s k r. put_currency s (as_Currency D (new_currency D s k)) r"
  "\<lambda>s k. as_Currency D (new_currency D s k)" currency_registry_inv for D
  by unfold_locales
     (auto simp: Currency_def put_currency_def intro: currency_registry_inv_put [unfolded put_currency_def Currency_def])

subsection \<open>A concrete decimal library\<close>

text \<open>
  The hypothesis \<open>decimal_ok\<close> can hold: decimals as a coefficient and a number of decimal
  places, written \<open>c e-p\<close>.
\<close>

fun dec_value :: "int \<times> nat \<Rightarrow> rat" where
  "dec_value (c, p) = of_int c / 10 ^ p"

definition dec_parse :: "string \<Rightarrow> goerr + int \<times> nat" where
  "dec_parse s =
     (if s = [] then Inl (ENew ''empty string'')
      else Inr (read_int (takeWhile (\<lambda>c. c \<noteq> CHR ''e'') s),
                read_nat (drop 2 (dropWhile (\<lambda>c. c \<noteq> CHR ''e'') s))))"

definition dec_round_div :: "int \<times> nat \<Rightarrow> int \<times> nat \<Rightarrow> int \<times> nat" where
  "dec_round_div x y = (round (dec_value x / dec_value y * 10 ^ 16), 16)"

definition dec_lib :: "(int \<times> nat) decimal_lib" where
  "dec_lib = \<lparr>dNewFromString = dec_parse,
     dNewFromInt = (\<lambda>n. (n, 0)),
     dNewFromBigInt = (\<lambda>n e. (n, 0)),
     dNew = (\<lambda>v k. (v * 10 ^ nat k, 0)),
     dMul = (\<lambda>(a, p) (b, q). (a * b, p + q)),
     dDiv = dec_round_div,
     dLessThan = (\<lambda>x y. dec_value x < dec_value y),
     dBigInt = (\<lambda>x. truncate_rat (dec_value x)),
     dString = (\<lambda>(c, p). show_int c @ ''e-'' @ show_nat p)\<rparr>"

lemma dec_parse_print: "dec_parse (show_int c @ ''e-'' @ show_nat p) = Inr (c, p)"
proof -
  have "CHR ''e'' \<notin> set (show_int c)"
    using not_in_show_nat [of "CHR ''e''"] by (auto simp: show_int_def)
  then have "takeWhile (\<lambda>d. d \<noteq> CHR ''e'') (show_int c @ ''e-'' @ show_nat p) = show_int c"
    and "dropWhile (\<lambda>d. d \<noteq> CHR ''e'') (show_int c @ ''e-'' @ show_nat p) = ''e-'' @ show_nat p"
    by (subst takeWhile_append2 dropWhile_append2; auto)+
  then show ?thesis by (simp add: dec_parse_def)
qed

lemma dec_round_div_close:
  "\<bar>dec_value (dec_round_div x y) - dec_value x / dec_value y\<bar> \<le> 1 / (2 * 10 ^ 16)"
proof -
  let ?q = "dec_value x / dec_value y"
  have "\<bar>of_int (round (?q * 10 ^ 16)) - ?q * 10 ^ 16\<bar> \<le> 1 / 2"
    by (rule of_int_round_abs_le)
  then show ?thesis by (simp add: dec_round_div_def abs_le_iff field_simps)
qed

lemma dec_lib_ok: "decimal_ok dec_lib dec_value"
  unfolding decimal_ok_def
proof (intro conjI allI impI)
  show "\<And>a b. dec_value (dMul dec_lib a b) = dec_value a * dec_value b"
    by (auto simp: dec_lib_def power_add)
  show "\<And>a. \<exists>a'. dNewFromString dec_lib (dString dec_lib a) = Inr a' \<and> dec_value a' = dec_value a"
    using dec_parse_print by (auto simp: dec_lib_def)
  show "\<And>a b. \<bar>dec_value (dDiv dec_lib a b) - dec_value a / dec_value b\<bar> \<le> 1 / (2 * 10 ^ 16)"
    using dec_round_div_close by (simp add: dec_lib_def)
  show "\<And>a b. \<exists>m. dec_value (dDiv dec_lib a b) = of_int m / 10 ^ 16"
    by (auto simp: dec_lib_def dec_round_div_def)
qed (simp_all add: dec_lib_def)

subsection \<open>Properties\<close>

text \<open>
  Parsing an amount. The interpreter returns \<open>n\<close> exactly when the string is a decimal
  that is worth at least one base unit of the currency, and then \<open>n\<close> is its value in base
  units rounded down: nothing is ever rounded up, at most the fraction of one base unit is
  lost, and zero, negative and dust amounts are refused.
\<close>

theorem currency_parse_spec:
  assumes "decimal_ok D dval"
  shows "currency_Parse D (new_currency D y k) s = Inr n \<longleftrightarrow>
    (\<exists>a. dNewFromString D s = Inr a \<and> 1 \<le> dval a * 10 ^ k \<and> n = \<lfloor>dval a * 10 ^ k\<rfloor>)"
  using assms by (rule currency_parse_spec_aux)

theorem currency_parse_spec_witness:
  "currency_Parse dec_lib (new_currency dec_lib ETHSymbol 18) ''5e-1'' = Inr 500000000000000000"
proof -
  have "dNewFromString dec_lib ''5e-1'' = Inr (5, 1)"
    by code_simp
  then show ?thesis
    unfolding currency_parse_spec [OF dec_lib_ok] by (auto simp: floor_eq_iff)
qed



text \<open>
  An amount of ether is printed without loss exactly when it is a multiple of one
  hundred wei: ETH is registered with 18 decimals, and the division of the decimal library
  keeps 16. The comment on \<open>Print\<close> promises no loss of accuracy.
\<close>

theorem eth_roundtrip_iff:
  assumes "decimal_ok D dval" and "1 \<le> n"
  defines "eth \<equiv> new_currency D ETHSymbol ETHMaxDecimals"
  shows "currency_Parse D eth (currency_Print D eth n) = Inr n \<longleftrightarrow> 100 dvd n"
proof
  assume "100 dvd n"
  then obtain m where "n = 100 * m" by (rule dvdE)
  then have "of_int n / 10 ^ ETHMaxDecimals = of_int m / (10 ^ 16 :: rat)"
    by (simp add: ETHMaxDecimals_def)
  from Print_exact [OF assms(1) this assms(2)]
  show "currency_Parse D eth (currency_Print D eth n) = Inr n" by (simp add: eth_def)
next
  assume roundtrip: "currency_Parse D eth (currency_Print D eth n) = Inr n"
  obtain a m where a: "dNewFromString D (currency_Print D eth n) = Inr a"
    and m: "dval a = of_int m / 10 ^ 16"
    using Print_value [OF assms(1)] unfolding eth_def by metis
  have "n = \<lfloor>dval a * 10 ^ ETHMaxDecimals\<rfloor>"
    using roundtrip a unfolding eth_def currency_parse_spec_aux [OF assms(1)] by auto
  also have "\<dots> = \<lfloor>of_int (100 * m) :: rat\<rfloor>"
    by (simp add: m ETHMaxDecimals_def)
  finally show "100 dvd n" by (simp only: floor_of_int dvd_triv_left)
qed

theorem eth_roundtrip_iff_witness:
  "(let eth = new_currency dec_lib ETHSymbol ETHMaxDecimals
    in currency_Parse dec_lib eth (currency_Print dec_lib eth 5) \<noteq> Inr 5
     \<and> currency_Parse dec_lib eth (currency_Print dec_lib eth 500) = Inr 500)"
  using eth_roundtrip_iff [OF dec_lib_ok, of 5] eth_roundtrip_iff [OF dec_lib_ok, of 500]
  by (simp add: Let_def)

text \<open>
  the registry of currencies. Registering a symbol succeeds exactly when the symbol has
  no interpreter yet; it then gives the symbol an interpreter of that symbol, changes no
  other entry, appends the symbol to the list of symbols and keeps the list free of
  repetitions and equal to the symbols that have an interpreter. A failed registration
  changes nothing.
\<close>

theorem currency_Register_spec:
  assumes "currency_registry_inv r"
  shows "case Register D s k r of
      (Inr c, r') \<Rightarrow> Currency r s = None \<and> cuSymbol c = s \<and> Currency r' = (Currency r)(s \<mapsto> c)
        \<and> Symbols r' = Symbols r @ [s] \<and> currency_registry_inv r'
    | (Inl e, r') \<Rightarrow> Currency r s \<noteq> None \<and> r' = r"
proof (cases "Currency r s")
  case None
  with assms show ?thesis
    using cur.lookup_add [OF assms None, of D k] cur.inv_add [OF assms None, of D k]
    by (simp add: Register_def isRegistered_def Currency_def Let_def Symbols_def put_currency_def)
next
  case (Some c)
  with assms show ?thesis by (simp add: Register_def isRegistered_def Currency_def)
qed

theorem currency_Register_spec_witness:
  "Currency (snd (Register dec_lib ''ETH'' 18 NewRegistry)) ''ETH'' \<noteq> None"
  using currency_Register_spec [OF currency_registry_inv_New, where D = dec_lib and s = "''ETH''" and k = 18]
  by (auto simp: Register_def isRegistered_def NewRegistry_def Let_def)

end
