(* ===== verification/Channel.thy ===== *)
theory Channel
  imports Notifications Currencies
begin

unbundle bit_operations_syntax

text \<open>
  \<^verbatim>\<open>session/channel.go\<close>: a payment channel of the node. The state channel controller of go-perun,
  the interface \<open>PChannel\<close> of the code, is not part of the repository: its state is the type
  parameter \<open>'p\<close> and its methods, with those of the responder of an update, are the fields of
  \<open>pchannel_api\<close>. A method gets the timeout of the context the code makes for it.

  Every operation is run on the state of the channel and returns its results with the new
  state. \<open>chLocked\<close> is the mutex: an operation that finds it taken waits. Notifiers are function
  values; the events they produce are collected, in the order in which the code starts
  them, in \<open>chOut\<close>.
\<close>

subsection \<open>The controller of go-perun\<close>

record pstate =
  psID :: "8 word list"
  psVersion :: "64 word"
  psApp :: ref
  psData :: ref
  psAssets :: "address list"
  psBalances :: "int list list"
  psIsFinal :: bool

datatype phase = Acting | Withdrawn | OtherPhase nat

type_synonym updater = "pstate \<Rightarrow> (pstate \<times> goerr option) run"

record 'p pchannel_api =
  pID :: "'p \<Rightarrow> 8 word list"
  pIdx :: "'p \<Rightarrow> nat"
  pPhase :: "'p \<Rightarrow> phase"
  pState :: "'p \<Rightarrow> pstate"
  pPeers :: "'p \<Rightarrow> address option list"
  pChallengeDuration :: "'p \<Rightarrow> 64 word"
  pUpdateBy :: "duration \<Rightarrow> updater \<Rightarrow> 'p \<Rightarrow> ('p \<times> goerr option) run"
  pRegister :: "duration \<Rightarrow> 'p \<Rightarrow> 'p \<times> goerr option"
  pSettle :: "duration \<Rightarrow> bool \<Rightarrow> 'p \<Rightarrow> 'p \<times> goerr option"
  pClose :: "'p \<Rightarrow> 'p \<times> goerr option"
  pWatchReturned :: "'p \<Rightarrow> bool"
  rAccept :: "duration \<Rightarrow> ref \<Rightarrow> 'p \<Rightarrow> 'p \<times> goerr option"
  rReject :: "duration \<Rightarrow> ref \<Rightarrow> string \<Rightarrow> 'p \<Rightarrow> 'p \<times> goerr option"

subsection \<open>State\<close>

datatype ch_status = StatusOpen | StatusClosed

record upd_entry =
  ueNotif :: ch_update_notif
  ueResponder :: ref
  ueNotifExpiry :: int

record ('p, 'ev) channel =
  chID :: string
  chCurrencies :: "currency_if list"
  chSymbols :: "string \<rightharpoonup> nat"
  chParts :: "string list"
  chTimeoutCfg :: timeout_config
  chChallengeDurSecs :: "64 word"
  chChainURL :: string
  chPch :: 'p
  chStatus :: ch_status
  chWasCloseInitiated :: bool
  chNotifier :: "(ch_update_notif \<Rightarrow> 'ev) option"
  chNotifCache :: "ch_update_notif list"
  chResponders :: "string \<rightharpoonup> upd_entry"
  chLocked :: bool
  chOut :: "'ev list"

definition with_lock ::
  "('p, 'ev) channel \<Rightarrow> (('p, 'ev) channel \<Rightarrow> ('a \<times> ('p, 'ev) channel) run)
     \<Rightarrow> ('a \<times> ('p, 'ev) channel) run" where
  "with_lock ch body =
     (if chLocked ch then Blocked
      else andThen (body (ch\<lparr>chLocked := True\<rparr>)) (\<lambda>(x, ch'). Done (x, ch'\<lparr>chLocked := False\<rparr>)))"

primrec symbols_loop :: "currency_if list \<Rightarrow> nat \<Rightarrow> (string \<rightharpoonup> nat) \<Rightarrow> (string \<rightharpoonup> nat)" where
  "symbols_loop [] i m = m"
| "symbols_loop (c # cs) i m = symbols_loop cs (Suc i) (m(cuSymbol c \<mapsto> i))"

definition newCh ::
  "'p pchannel_api \<Rightarrow> 'p \<Rightarrow> string \<Rightarrow> currency_if list \<Rightarrow> string list \<Rightarrow> timeout_config \<Rightarrow> 64 word
     \<Rightarrow> ('p, 'ev) channel" where
  "newCh P pch chainURL currencies parts cfg challengeDurSecs =
     \<lparr>chID = hex_bytes (pID P pch), chCurrencies = currencies,
      chSymbols = symbols_loop currencies 0 Map.empty, chParts = parts, chTimeoutCfg = cfg,
      chChallengeDurSecs = challengeDurSecs, chChainURL = chainURL, chPch = pch,
      chStatus = StatusOpen, chWasCloseInitiated = False, chNotifier = None, chNotifCache = [],
      chResponders = Map.empty, chLocked = False, chOut = []\<rparr>"

subsection \<open>Channel infos\<close>

text \<open>
  \<open>balInfo.Currencies[i] = currencies[i].Symbol()\<close> reads and writes at the row's index.
\<close>

primrec balInfo_loop ::
  "currency_if list \<Rightarrow> int list list \<Rightarrow> nat \<Rightarrow> string list \<Rightarrow> (string list \<times> string list list) run" where
  "balInfo_loop currencies [] i syms = Done (syms, [])"
| "balInfo_loop currencies (row # rows) i syms =
     andThen (idx_at currencies i) (\<lambda>c.
     andThen (put_at syms i (cuSymbol c)) (\<lambda>syms'.
     andThen (balInfo_loop currencies rows (Suc i) syms') (\<lambda>(syms'', bals).
     Done (syms'', map (cuPrint c) row # bals))))"

definition makeBalInfoFromRawBal ::
  "string list \<Rightarrow> currency_if list \<Rightarrow> int list list \<Rightarrow> bal_info run" where
  "makeBalInfoFromRawBal parts currencies rawBal =
     andThen (balInfo_loop currencies rawBal 0 (replicate (length currencies) [])) (\<lambda>(syms, bals).
     Done \<lparr>biCurrencies = syms, biParts = parts, biBals = bals\<rparr>)"

definition makeBalInfoFromState ::
  "string list \<Rightarrow> currency_if list \<Rightarrow> pstate \<Rightarrow> bal_info run" where
  "makeBalInfoFromState parts currencies state =
     makeBalInfoFromRawBal parts currencies (psBalances state)"

definition makeApp :: "ref \<Rightarrow> ref \<Rightarrow> app" where
  "makeApp def data = \<lparr>appDef = def, appData = data\<rparr>"

definition makeChInfo :: "('p, 'ev) channel \<Rightarrow> pstate option \<Rightarrow> ch_info run" where
  "makeChInfo ch state =
     (case state of
        None \<Rightarrow> Done nil_ch_info
      | Some st \<Rightarrow>
          andThen (makeBalInfoFromState (chParts ch) (chCurrencies ch) st) (\<lambda>bi.
          Done \<lparr>ciChID = chID ch, ciBalInfo = bi, ciApp = Some (makeApp (psApp st) (psData st)),
                ciVersion = show_nat (unat (psVersion st))\<rparr>))"

definition getChInfo :: "'p pchannel_api \<Rightarrow> ('p, 'ev) channel \<Rightarrow> ch_info run" where
  "getChInfo P ch = makeChInfo ch (Some (pState P (chPch ch)))"

definition GetChInfo :: "'p pchannel_api \<Rightarrow> ('p, 'ev) channel \<Rightarrow> (ch_info \<times> ('p, 'ev) channel) run" where
  "GetChInfo P ch = with_lock ch (\<lambda>ch. andThen (getChInfo P ch) (\<lambda>i. Done (i, ch)))"

definition ch_Currency :: "('p, 'ev) channel \<Rightarrow> string \<Rightarrow> (nat \<times> currency_if) option run" where
  "ch_Currency ch symbol =
     (case chSymbols ch symbol of
        None \<Rightarrow> Done None
      | Some idx \<Rightarrow> andThen (idx_at (chCurrencies ch) idx) (\<lambda>c. Done (Some (idx, c))))"

subsection \<open>Sending updates\<close>

definition handleSendChUpdateError ::
  "'p pchannel_api \<Rightarrow> ('p, 'ev) channel \<Rightarrow> goerr \<Rightarrow> api_err run" where
  "handleSendChUpdateError P ch e =
     andThen (idx_at (chParts ch) (pIdx P (chPch ch) XOR 1)) (\<lambda>peerAlias.
     Done (case handleProposalError peerAlias (dur_String (tcResponse (chTimeoutCfg ch))) e of
             Some ae \<Rightarrow> ae
           | None \<Rightarrow> NewAPIErrUnknownInternal e))"

definition with_info ::
  "'p pchannel_api \<Rightarrow> api_err option \<Rightarrow> ('p, 'ev) channel
     \<Rightarrow> ((ch_info \<times> api_err option) \<times> ('p, 'ev) channel) run" where
  "with_info P ae ch = andThen (getChInfo P ch) (\<lambda>i. Done ((i, ae), ch))"

definition SendChUpdate ::
  "'p pchannel_api \<Rightarrow> updater \<Rightarrow> ('p, 'ev) channel
     \<Rightarrow> ((ch_info \<times> api_err option) \<times> ('p, 'ev) channel) run" where
  "SendChUpdate P upd ch = with_lock ch (\<lambda>ch.
     if chStatus ch = StatusClosed then with_info P (Some (NewAPIErrFailedPreCondition ErrChClosed)) ch
     else andThen (pUpdateBy P (chUpdate (chTimeoutCfg ch)) upd (chPch ch)) (\<lambda>(pch, err).
       let ch' = ch\<lparr>chPch := pch\<rparr>
       in case err of
            Some e \<Rightarrow>
              andThen (handleSendChUpdateError P ch' (EWith e ''sending channel update'')) (\<lambda>ae.
              Done ((nil_ch_info, Some ae), ch'))
          | None \<Rightarrow> with_info P None ch'))"

subsection \<open>Incoming updates\<close>

definition makeChUpdateNotif ::
  "('p, 'ev) channel \<Rightarrow> ch_info \<Rightarrow> pstate \<Rightarrow> int \<Rightarrow> ch_update_notif run" where
  "makeChUpdateNotif ch currChInfo proposedState expiry =
     andThen (makeChInfo ch (Some proposedState)) (\<lambda>proposedChInfo.
     Done \<lparr>cunUpdateID = chID ch @ ''_'' @ show_nat (unat (psVersion proposedState)),
           cunCurrChInfo = currChInfo, cunProposedChInfo = proposedChInfo,
           cunType = (if psIsFinal proposedState then ChUpdateTypeFinal else ChUpdateTypeOpen),
           cunExpiry = expiry, cunError = None\<rparr>)"

definition sendChUpdateNotif :: "ch_update_notif \<Rightarrow> ('p, 'ev) channel \<Rightarrow> ('p, 'ev) channel" where
  "sendChUpdateNotif notif ch =
     (case chNotifier ch of
        None \<Rightarrow> ch\<lparr>chNotifCache := chNotifCache ch @ [notif]\<rparr>
      | Some f \<Rightarrow> ch\<lparr>chOut := chOut ch @ [f notif]\<rparr>)"

definition storeUpdResponder ::
  "ch_update_notif \<Rightarrow> ref \<Rightarrow> int \<Rightarrow> ('p, 'ev) channel \<Rightarrow> ('p, 'ev) channel" where
  "storeUpdResponder notif responder expiry ch =
     (let entry = \<lparr>ueNotif = notif, ueResponder = responder, ueNotifExpiry = expiry\<rparr>
      in if expiry \<noteq> 0
         then ch\<lparr>chResponders := (chResponders ch)(cunUpdateID notif \<mapsto> entry)\<rparr>
         else ch)"

definition ch_HandleUpdate ::
  "int \<Rightarrow> pstate option \<Rightarrow> pstate \<Rightarrow> ref \<Rightarrow> ('p, 'ev) channel \<Rightarrow> (unit \<times> ('p, 'ev) channel) run" where
  "ch_HandleUpdate now currState proposed responder ch = with_lock ch (\<lambda>ch.
     if chStatus ch = StatusClosed then Done ((), ch)
     else
       let expiry = unix_after now (tcResponse (chTimeoutCfg ch))
       in andThen (makeChInfo ch currState) (\<lambda>currChInfo.
          andThen (makeChUpdateNotif ch currChInfo proposed expiry) (\<lambda>notif.
          Done ((), sendChUpdateNotif notif (storeUpdResponder notif responder expiry ch)))))"

definition SubChUpdates ::
  "(ch_update_notif \<Rightarrow> 'ev) \<Rightarrow> ('p, 'ev) channel \<Rightarrow> (api_err option \<times> ('p, 'ev) channel) run" where
  "SubChUpdates notifier ch = with_lock ch (\<lambda>ch.
     if chStatus ch = StatusClosed then Done (Some (NewAPIErrFailedPreCondition ErrChClosed), ch)
     else if chNotifier ch \<noteq> None then Done (Some (NewAPIErrResourceExists ResTypeUpdateSub (chID ch)), ch)
     else
       andThen (flush_loop (length (chNotifCache ch)) notifier (chNotifCache ch) (chOut ch)) (\<lambda>(cache, out).
       Done (None, ch\<lparr>chNotifier := Some notifier, chNotifCache := cache, chOut := out\<rparr>)))"

definition unsubChUpdates :: "('p, 'ev) channel \<Rightarrow> ('p, 'ev) channel" where
  "unsubChUpdates ch = ch\<lparr>chNotifier := None\<rparr>"

definition UnsubChUpdates :: "('p, 'ev) channel \<Rightarrow> (api_err option \<times> ('p, 'ev) channel) run" where
  "UnsubChUpdates ch = with_lock ch (\<lambda>ch.
     if chStatus ch = StatusClosed then Done (Some (NewAPIErrFailedPreCondition ErrChClosed), ch)
     else if chNotifier ch = None then Done (Some (NewAPIErrResourceNotFound ResTypeUpdateSub (chID ch)), ch)
     else Done (None, unsubChUpdates ch))"

subsection \<open>Responding to updates\<close>

definition acceptChUpdate ::
  "'p pchannel_api \<Rightarrow> upd_entry \<Rightarrow> ('p, 'ev) channel \<Rightarrow> api_err option \<times> ('p, 'ev) channel" where
  "acceptChUpdate P entry ch =
     (case rAccept P (respChUpdate (chTimeoutCfg ch)) (ueResponder entry) (chPch ch) of
        (pch, err) \<Rightarrow>
          (map_option (\<lambda>e. NewAPIErrUnknownInternal (EWith e ''accepting update'')) err,
           ch\<lparr>chPch := pch\<rparr>))"

definition rejectChUpdate ::
  "'p pchannel_api \<Rightarrow> upd_entry \<Rightarrow> string \<Rightarrow> ('p, 'ev) channel
     \<Rightarrow> api_err option \<times> ('p, 'ev) channel" where
  "rejectChUpdate P entry reason ch =
     (case rReject P (respChUpdate (chTimeoutCfg ch)) (ueResponder entry) reason (chPch ch) of
        (pch, err) \<Rightarrow>
          (map_option (\<lambda>e. NewAPIErrUnknownInternal (EWith e ''rejecting update'')) err,
           ch\<lparr>chPch := pch\<rparr>))"

definition handleChRegisterError :: "('p, 'ev) channel \<Rightarrow> goerr \<Rightarrow> api_err" where
  "handleChRegisterError ch e =
     (case handleChainError (chChainURL ch) (dur_String (tcOnChainTx (chTimeoutCfg ch))) e of
        Some ae \<Rightarrow> ae
      | None \<Rightarrow> NewAPIErrUnknownInternal e)"

definition ch_register ::
  "'p pchannel_api \<Rightarrow> ('p, 'ev) channel \<Rightarrow> api_err option \<times> ('p, 'ev) channel" where
  "ch_register P ch =
     (case pRegister P (register_timeout (chTimeoutCfg ch) (chChallengeDurSecs ch)) (chPch ch) of
        (pch, err) \<Rightarrow>
          (map_option (\<lambda>e. handleChRegisterError ch (EWith e ''registering channel state'')) err,
           ch\<lparr>chPch := pch\<rparr>))"

definition answerUpdate ::
  "'p pchannel_api \<Rightarrow> int \<Rightarrow> upd_entry \<Rightarrow> bool \<Rightarrow> ('p, 'ev) channel
     \<Rightarrow> api_err option \<times> ('p, 'ev) channel" where
  "answerUpdate P now entry accept ch =
     (let currTime = unix now
      in if ueNotifExpiry entry < currTime
         then (Some (NewAPIErrUserResponseTimedOut (cunExpiry (ueNotif entry)) currTime), ch)
         else if accept
         then (case acceptChUpdate P entry ch of
                 (apiErr, ch') \<Rightarrow>
                   if apiErr = None \<and> cunType (ueNotif entry) = ChUpdateTypeFinal
                   then ch_register P ch'
                   else (apiErr, ch'))
         else rejectChUpdate P entry ''rejected by user'' ch)"

definition RespondChUpdate ::
  "'p pchannel_api \<Rightarrow> int \<Rightarrow> string \<Rightarrow> bool \<Rightarrow> ('p, 'ev) channel
     \<Rightarrow> ((ch_info \<times> api_err option) \<times> ('p, 'ev) channel) run" where
  "RespondChUpdate P now updateID accept ch = with_lock ch (\<lambda>ch.
     if chStatus ch = StatusClosed then with_info P (Some (NewAPIErrFailedPreCondition ErrChClosed)) ch
     else
       (case chResponders ch updateID of
          None \<Rightarrow> with_info P (Some (NewAPIErrResourceNotFound ResTypeUpdate updateID)) ch
        | Some entry \<Rightarrow>
            (case answerUpdate P now entry accept
                    (ch\<lparr>chResponders := (chResponders ch)(updateID := None)\<rparr>) of
               (apiErr, ch') \<Rightarrow> with_info P apiErr ch')))"

subsection \<open>Closing\<close>

definition chFinalizer :: updater where
  "chFinalizer state = Done (state\<lparr>psIsFinal := True\<rparr>, None)"

text \<open>The error of the finalizing update is only logged, but it is converted first.\<close>

definition finalize :: "'p pchannel_api \<Rightarrow> ('p, 'ev) channel \<Rightarrow> ('p, 'ev) channel run" where
  "finalize P ch =
     andThen (pUpdateBy P (chUpdate (chTimeoutCfg ch)) chFinalizer (chPch ch)) (\<lambda>(pch, err).
       let ch' = ch\<lparr>chPch := pch\<rparr>
       in case err of
            Some e \<Rightarrow> andThen (handleSendChUpdateError P ch' e) (\<lambda>_. Done ch')
          | None \<Rightarrow> Done ch')"

definition ch_Close ::
  "'p pchannel_api \<Rightarrow> ('p, 'ev) channel \<Rightarrow> ((ch_info \<times> api_err option) \<times> ('p, 'ev) channel) run" where
  "ch_Close P ch = with_lock ch (\<lambda>ch.
     if chStatus ch = StatusClosed then with_info P (Some (NewAPIErrFailedPreCondition ErrChClosed)) ch
     else andThen (finalize P ch) (\<lambda>ch1.
       case ch_register P ch1 of
         (apiErr, ch2) \<Rightarrow> with_info P apiErr (ch2\<lparr>chWasCloseInitiated := True\<rparr>)))"

subsection \<open>Events of the adjudicator\<close>

datatype adj_event =
    RegisteredEvent "goerr option"
  | ConcludedEvent
  | OtherAdjudicatorEvent

definition handleChSettleError :: "('p, 'ev) channel \<Rightarrow> goerr \<Rightarrow> api_err" where
  "handleChSettleError ch e =
     (case handleChainError (chChainURL ch) (dur_String (tcOnChainTx (chTimeoutCfg ch))) e of
        Some ae \<Rightarrow> ae
      | None \<Rightarrow> NewAPIErrUnknownInternal e)"

definition settle :: "'p pchannel_api \<Rightarrow> ('p, 'ev) channel \<Rightarrow> api_err option \<times> ('p, 'ev) channel" where
  "settle P ch =
     (case pSettle P (settle_timeout (chTimeoutCfg ch) (chChallengeDurSecs ch))
             (\<not> chWasCloseInitiated ch) (chPch ch) of
        (pch, err) \<Rightarrow>
          (map_option (\<lambda>e. handleChSettleError ch (EWith e ''settling channel'')) err,
           ch\<lparr>chPch := pch\<rparr>))"

text \<open>
  \<open>close\<close> waits for the goroutine of the watcher: it returns when the watcher has returned.
\<close>

definition close_resources :: "'p pchannel_api \<Rightarrow> ('p, 'ev) channel \<Rightarrow> ('p, 'ev) channel run" where
  "close_resources P ch =
     (let pch = fst (pClose P (chPch ch))
      in if pWatchReturned P pch then Done (ch\<lparr>chPch := pch, chStatus := StatusClosed\<rparr>) else Blocked)"

definition makeChCloseNotif :: "ch_info \<Rightarrow> api_err option \<Rightarrow> ch_update_notif" where
  "makeChCloseNotif currChInfo e =
     \<lparr>cunUpdateID = ciChID currChInfo @ ''_'' @ ciVersion currChInfo @ ''_'' @ ''closed'',
      cunCurrChInfo = currChInfo, cunProposedChInfo = nil_ch_info, cunType = ChUpdateTypeClosed,
      cunExpiry = 0, cunError = e\<rparr>"

definition closeAndNotify ::
  "'p pchannel_api \<Rightarrow> api_err option \<Rightarrow> ('p, 'ev) channel \<Rightarrow> ('p, 'ev) channel run" where
  "closeAndNotify P e ch =
     andThen (close_resources P ch) (\<lambda>ch1.
       case chNotifier ch1 of
         None \<Rightarrow> Done ch1
       | Some f \<Rightarrow>
           andThen (getChInfo P ch1) (\<lambda>i.
           Done (unsubChUpdates (ch1\<lparr>chOut := chOut ch1 @ [f (makeChCloseNotif i e)]\<rparr>))))"

definition HandleAdjudicatorEvent ::
  "'p pchannel_api \<Rightarrow> adj_event \<Rightarrow> ('p, 'ev) channel \<Rightarrow> (unit \<times> ('p, 'ev) channel) run" where
  "HandleAdjudicatorEvent P e ch = with_lock ch (\<lambda>ch.
     case e of
       RegisteredEvent waitErr \<Rightarrow>
         if \<not> psIsFinal (pState P (chPch ch))
         then (case settle P ch of
                 (apiErr, ch1) \<Rightarrow> andThen (closeAndNotify P apiErr ch1) (\<lambda>ch2. Done ((), ch2)))
         else Done ((), ch)
     | ConcludedEvent \<Rightarrow>
         if psIsFinal (pState P (chPch ch))
         then (case settle P ch of
                 (apiErr, ch1) \<Rightarrow> andThen (closeAndNotify P apiErr ch1) (\<lambda>ch2. Done ((), ch2)))
         else Done ((), ch)
     | OtherAdjudicatorEvent \<Rightarrow> Done ((), ch))"

subsection \<open>Laws of the constructors\<close>

lemma symbols_loop_spec:
  "symbols_loop cs i m s = Some k \<Longrightarrow>
     (i \<le> k \<and> k < i + length cs \<and> cuSymbol (cs ! (k - i)) = s) \<or> m s = Some k"
proof (induction cs arbitrary: i m)
  case (Cons c cs)
  then have "(Suc i \<le> k \<and> k < Suc i + length cs \<and> cuSymbol (cs ! (k - Suc i)) = s)
      \<or> (m(cuSymbol c \<mapsto> i)) s = Some k"
    by (metis symbols_loop.simps(2))
  then show ?case
    by (auto simp: nth_Cons' split: if_splits)
qed simp

lemma balInfo_loop_Done:
  assumes "i + length rows \<le> length cs" and "length syms = length cs"
  shows "balInfo_loop cs rows i syms =
    Done (take i syms @ map cuSymbol (take (length rows) (drop i cs)) @ drop (i + length rows) syms,
          map (\<lambda>(c, row). map (cuPrint c) row) (zip (drop i cs) rows))"
  using assms
proof (induction rows arbitrary: i syms)
  case Nil
  then show ?case by simp
next
  case (Cons row rows)
  then have i: "i < length cs" "i < length syms" by simp_all
  then have d: "drop i cs = cs ! i # drop (Suc i) cs" by (simp add: Cons_nth_drop_Suc)
  have "take (Suc i) (syms[i := cuSymbol (cs ! i)]) = take i syms @ [cuSymbol (cs ! i)]"
    using i by (simp add: take_Suc_conv_app_nth)
  moreover have "drop (Suc (i + length rows)) (syms[i := cuSymbol (cs ! i)])
      = drop (Suc (i + length rows)) syms"
    by simp
  ultimately show ?case
    using Cons.prems i Cons.IH [of "Suc i" "syms[i := cuSymbol (cs ! i)]"] by (simp add: d)
qed

lemma balInfo_loop_Panic:
  assumes "length cs < i + length rows" and "i \<le> length cs" and "length syms = length cs"
  shows "balInfo_loop cs rows i syms = Panic IndexOutOfRange"
  using assms
proof (induction rows arbitrary: i syms)
  case (Cons row rows)
  show ?case
  proof (cases "i < length cs")
    case True
    with Cons show ?thesis by simp
  next
    case False
    then show ?thesis by simp
  qed
qed simp

lemma makeBalInfo_Done:
  assumes "length rawBal \<le> length cs"
  shows "makeBalInfoFromRawBal parts cs rawBal = Done
    \<lparr>biCurrencies = map cuSymbol (take (length rawBal) cs) @ replicate (length cs - length rawBal) [],
     biParts = parts, biBals = map (\<lambda>(c, row). map (cuPrint c) row) (zip cs rawBal)\<rparr>"
  using assms balInfo_loop_Done [of 0 rawBal cs "replicate (length cs) []"]
  by (simp add: makeBalInfoFromRawBal_def)

lemma makeBalInfo_Panic:
  "length cs < length rawBal \<Longrightarrow> makeBalInfoFromRawBal parts cs rawBal = Panic IndexOutOfRange"
  using balInfo_loop_Panic [of cs 0 rawBal "replicate (length cs) []"]
  by (simp add: makeBalInfoFromRawBal_def)

lemma makeBalInfo_returns:
  "returns (makeBalInfoFromRawBal parts cs rawBal) \<longleftrightarrow> length rawBal \<le> length cs"
  using makeBalInfo_Done [of rawBal cs parts] makeBalInfo_Panic [of cs rawBal parts]
  by (cases "length rawBal \<le> length cs") simp_all

subsection \<open>Invariant\<close>

text \<open>
  What the operations keep: the index of a symbol is that of a currency with this symbol; an
  entry that waits for a response is filed under the ID of its notification and carries its
  expiry; a subscriber has an empty cache; a closed channel has no subscriber.
\<close>

definition ch_inv :: "('p, 'ev) channel \<Rightarrow> bool" where
  "ch_inv ch \<longleftrightarrow>
     (\<forall>s i. chSymbols ch s = Some i \<longrightarrow>
        i < length (chCurrencies ch) \<and> cuSymbol (chCurrencies ch ! i) = s) \<and>
     (\<forall>u e. chResponders ch u = Some e \<longrightarrow>
        cunUpdateID (ueNotif e) = u \<and> cunExpiry (ueNotif e) = ueNotifExpiry e
        \<and> cunType (ueNotif e) \<noteq> ChUpdateTypeClosed) \<and>
     (chNotifier ch \<noteq> None \<longrightarrow> chNotifCache ch = []) \<and>
     (chStatus ch = StatusClosed \<longrightarrow> chNotifier ch = None)"

text \<open>The fields of \<open>params\<close> never change.\<close>

definition same_params :: "('p, 'ev) channel \<Rightarrow> ('p, 'ev) channel \<Rightarrow> bool" where
  "same_params ch ch' \<longleftrightarrow>
     chID ch' = chID ch \<and> chCurrencies ch' = chCurrencies ch \<and> chSymbols ch' = chSymbols ch \<and>
     chParts ch' = chParts ch \<and> chTimeoutCfg ch' = chTimeoutCfg ch \<and>
     chChallengeDurSecs ch' = chChallengeDurSecs ch \<and> chChainURL ch' = chChainURL ch"

definition frozen :: "('p, 'ev) channel \<Rightarrow> ('p, 'ev) channel \<Rightarrow> bool" where
  "frozen ch ch' \<longleftrightarrow>
     chStatus ch' = chStatus ch \<and> chNotifier ch' = chNotifier ch \<and> chNotifCache ch' = chNotifCache ch \<and>
     chResponders ch' = chResponders ch \<and> chOut ch' = chOut ch"

definition evolves :: "('p, 'ev) channel \<Rightarrow> ('p, 'ev) channel \<Rightarrow> bool" where
  "evolves ch ch' \<longleftrightarrow> same_params ch ch' \<and>
     (ch_inv ch \<longrightarrow> ch_inv ch' \<and> (chStatus ch = StatusClosed \<longrightarrow> frozen ch ch'))"

lemma ch_inv_irrelevant [simp]:
  "ch_inv (ch\<lparr>chPch := p\<rparr>) = ch_inv ch"
  "ch_inv (ch\<lparr>chLocked := b\<rparr>) = ch_inv ch"
  "ch_inv (ch\<lparr>chWasCloseInitiated := b\<rparr>) = ch_inv ch"
  by (simp_all add: ch_inv_def)

lemma evolves_refl [simp]: "evolves ch ch"
  by (simp add: evolves_def same_params_def frozen_def)

lemma evolves_trans [trans]: "evolves a b \<Longrightarrow> evolves b c \<Longrightarrow> evolves a c"
  by (auto simp: evolves_def same_params_def frozen_def)

lemma evolves_irrelevant [simp]:
  "evolves ch (ch'\<lparr>chPch := p\<rparr>) = evolves ch ch'"
  "evolves ch (ch'\<lparr>chLocked := b\<rparr>) = evolves ch ch'"
  "evolves ch (ch'\<lparr>chWasCloseInitiated := b\<rparr>) = evolves ch ch'"
  "evolves (ch\<lparr>chLocked := b\<rparr>) ch' = evolves ch ch'"
  "evolves (ch\<lparr>chPch := p\<rparr>) ch' = evolves ch ch'"
  by (simp_all add: evolves_def same_params_def frozen_def)

lemma with_lock_Done [run_simps]:
  "with_lock ch body = Done (x, ch') \<longleftrightarrow>
     \<not> chLocked ch \<and> (\<exists>c. body (ch\<lparr>chLocked := True\<rparr>) = Done (x, c) \<and> ch' = c\<lparr>chLocked := False\<rparr>)"
  by (auto simp: with_lock_def run_simps)

lemma with_lock_evolves:
  assumes "with_lock ch body = Done (x, ch')"
    and "\<And>c x c'. \<not> chLocked ch \<Longrightarrow> body c = Done (x, c') \<Longrightarrow> evolves c c'"
  shows "evolves ch ch'"
proof -
  from assms(1) obtain c where "\<not> chLocked ch" "body (ch\<lparr>chLocked := True\<rparr>) = Done (x, c)"
      "ch' = c\<lparr>chLocked := False\<rparr>"
    by (auto simp: run_simps)
  with assms(2) [of "ch\<lparr>chLocked := True\<rparr>" x c] show ?thesis by simp
qed

lemma with_info_Done [run_simps]:
  "with_info P ae ch = Done (r, ch') \<longleftrightarrow> ch' = ch \<and> (\<exists>i. getChInfo P ch = Done i \<and> r = (i, ae))"
  by (auto simp: with_info_def run_simps)

lemma ch_inv_new [simp]: "ch_inv (newCh P pch url cs parts cfg dur)"
  using symbols_loop_spec [of cs 0 Map.empty] by (simp add: ch_inv_def newCh_def)

subsection \<open>Every operation keeps the invariant\<close>

lemma GetChInfo_evolves: "GetChInfo P ch = Done (r, ch') \<Longrightarrow> evolves ch ch'"
  unfolding GetChInfo_def by (erule with_lock_evolves) (auto simp: run_simps)

lemma SendChUpdate_evolves: "SendChUpdate P upd ch = Done (r, ch') \<Longrightarrow> evolves ch ch'"
  unfolding SendChUpdate_def
  by (erule with_lock_evolves) (auto simp: run_simps Let_def split: if_splits option.splits)

lemma acceptChUpdate_evolves: "acceptChUpdate P e ch = (r, ch') \<Longrightarrow> evolves ch ch'"
  by (auto simp: acceptChUpdate_def split: prod.splits)

lemma rejectChUpdate_evolves: "rejectChUpdate P e s ch = (r, ch') \<Longrightarrow> evolves ch ch'"
  by (auto simp: rejectChUpdate_def split: prod.splits)

lemma ch_register_evolves: "ch_register P ch = (r, ch') \<Longrightarrow> evolves ch ch'"
  by (auto simp: ch_register_def split: prod.splits)

lemma ch_register_snd: "evolves ch (snd (ch_register P ch))"
  by (rule ch_register_evolves [OF prod.collapse [symmetric]])

lemma settle_evolves: "settle P ch = (r, ch') \<Longrightarrow> evolves ch ch'"
  by (auto simp: settle_def split: prod.splits)

lemma finalize_evolves: "finalize P ch = Done ch' \<Longrightarrow> evolves ch ch'"
  by (auto simp: finalize_def run_simps Let_def split: option.splits)

lemma ch_inv_sendNotif:
  assumes "ch_inv ch"
  shows "ch_inv (sendChUpdateNotif n ch)"
  using assms by (auto simp: ch_inv_def sendChUpdateNotif_def split: option.splits)

lemma evolves_open:
  "same_params ch ch' \<Longrightarrow> (ch_inv ch \<Longrightarrow> ch_inv ch') \<Longrightarrow> chStatus ch \<noteq> StatusClosed \<Longrightarrow> evolves ch ch'"
  by (simp add: evolves_def)

lemma makeChUpdateNotif_Done:
  "makeChUpdateNotif ch ci prop ex = Done n \<Longrightarrow>
     cunUpdateID n = chID ch @ ''_'' @ show_nat (unat (psVersion prop)) \<and> cunCurrChInfo n = ci \<and>
     cunType n = (if psIsFinal prop then ChUpdateTypeFinal else ChUpdateTypeOpen) \<and>
     cunExpiry n = ex \<and> cunError n = None \<and> makeChInfo ch (Some prop) = Done (cunProposedChInfo n)"
  by (auto simp: makeChUpdateNotif_def run_simps)

lemma storeUpdResponder_evolves:
  assumes "cunExpiry n = ex" and "cunType n \<noteq> ChUpdateTypeClosed" and "chStatus ch \<noteq> StatusClosed"
  shows "evolves ch (storeUpdResponder n resp ex ch)"
  using assms by (intro evolves_open) (auto simp: storeUpdResponder_def Let_def same_params_def ch_inv_def)

lemma sendChUpdateNotif_evolves: "chStatus ch \<noteq> StatusClosed \<Longrightarrow> evolves ch (sendChUpdateNotif n ch)"
  by (intro evolves_open ch_inv_sendNotif)
     (auto simp: sendChUpdateNotif_def same_params_def split: option.splits)

lemma storeUpdResponder_status [simp]: "chStatus (storeUpdResponder n resp ex ch) = chStatus ch"
  by (simp add: storeUpdResponder_def Let_def)

lemma store_send_evolves:
  assumes "makeChUpdateNotif c ci prop ex = Done n" and "chStatus c \<noteq> StatusClosed"
  shows "evolves c (sendChUpdateNotif n (storeUpdResponder n resp ex c))"
proof -
  from makeChUpdateNotif_Done [OF assms(1)] assms(2)
  have "evolves c (storeUpdResponder n resp ex c)"
    by (intro storeUpdResponder_evolves) auto
  also have "evolves \<dots> (sendChUpdateNotif n (storeUpdResponder n resp ex c))"
    using assms(2) by (intro sendChUpdateNotif_evolves) simp
  finally show ?thesis .
qed

lemma ch_HandleUpdate_evolves: "ch_HandleUpdate now cur prop resp ch = Done (r, ch') \<Longrightarrow> evolves ch ch'"
  unfolding ch_HandleUpdate_def
  by (erule with_lock_evolves)
     (auto simp: run_simps Let_def split: if_splits intro: store_send_evolves)

lemma SubChUpdates_evolves: "SubChUpdates f ch = Done (r, ch') \<Longrightarrow> evolves ch ch'"
  unfolding SubChUpdates_def
  by (erule with_lock_evolves)
     (auto simp: flush_loop_all same_params_def ch_inv_def intro!: evolves_open split: if_splits)

lemma UnsubChUpdates_evolves: "UnsubChUpdates ch = Done (r, ch') \<Longrightarrow> evolves ch ch'"
  unfolding UnsubChUpdates_def
  by (erule with_lock_evolves)
     (auto simp: unsubChUpdates_def same_params_def ch_inv_def intro!: evolves_open split: if_splits)

lemma take_responder_evolves:
  "chStatus ch \<noteq> StatusClosed \<Longrightarrow> evolves ch (ch\<lparr>chResponders := (chResponders ch)(u := None)\<rparr>)"
  by (rule evolves_open) (auto simp: same_params_def ch_inv_def)

text \<open>Answering an update changes the controller, and nothing else of the channel.\<close>

definition answer_pch ::
  "'p pchannel_api \<Rightarrow> int \<Rightarrow> upd_entry \<Rightarrow> bool \<Rightarrow> ('p, 'ev) channel \<Rightarrow> 'p \<times> goerr option option" where
  "answer_pch P now e acc ch =
     (let d = respChUpdate (chTimeoutCfg ch);
          accepted = rAccept P d (ueResponder e) (chPch ch);
          registered = pRegister P (register_timeout (chTimeoutCfg ch) (chChallengeDurSecs ch)) (fst accepted);
          rejected = rReject P d (ueResponder e) ''rejected by user'' (chPch ch)
      in if ueNotifExpiry e < unix now then (chPch ch, None)
         else if acc
         then (if snd accepted = None \<and> cunType (ueNotif e) = ChUpdateTypeFinal
               then (fst registered, Some (snd registered))
               else (fst accepted, Some (snd accepted)))
         else (fst rejected, Some (snd rejected)))"

lemma answerUpdate_pch:
  "snd (answerUpdate P now e acc ch) = ch\<lparr>chPch := fst (answer_pch P now e acc ch)\<rparr>"
  by (cases ch) (auto simp: answerUpdate_def answer_pch_def Let_def acceptChUpdate_def
      rejectChUpdate_def ch_register_def case_prod_unfold)

lemma answerUpdate_err:
  "fst (answerUpdate P now e acc ch) = None \<longleftrightarrow> snd (answer_pch P now e acc ch) = Some None"
  by (auto simp: answerUpdate_def answer_pch_def Let_def acceptChUpdate_def
      rejectChUpdate_def ch_register_def case_prod_unfold)

lemma answer_pch_frame [simp]:
  "answer_pch P now e acc (ch\<lparr>chLocked := b\<rparr>) = answer_pch P now e acc ch"
  "answer_pch P now e acc (ch\<lparr>chResponders := m\<rparr>) = answer_pch P now e acc ch"
  by (simp_all add: answer_pch_def Let_def)

lemma RespondChUpdate_Done:
  assumes "RespondChUpdate P now u acc ch = Done ((i, ae), ch')"
  shows "\<not> chLocked ch \<and>
    (if chStatus ch = StatusClosed then ae = Some (NewAPIErrFailedPreCondition ErrChClosed) \<and> ch' = ch
     else case chResponders ch u of
         None \<Rightarrow> ae = Some (NewAPIErrResourceNotFound ResTypeUpdate u) \<and> ch' = ch
       | Some e \<Rightarrow> ch' = ch\<lparr>chResponders := (chResponders ch)(u := None),
                          chPch := fst (answer_pch P now e acc ch)\<rparr>
           \<and> (ae = None \<longleftrightarrow> snd (answer_pch P now e acc ch) = Some None))"
proof -
  have unlock: "ch\<lparr>chLocked := True, chResponders := m, chPch := p, chLocked := False\<rparr>
      = ch\<lparr>chResponders := m, chPch := p\<rparr>" if "\<not> chLocked ch" for m p
    using that by (cases ch) simp
  have unlock': "ch\<lparr>chLocked := True, chLocked := False\<rparr> = ch" if "\<not> chLocked ch"
    using that by (cases ch) simp
  from assms show ?thesis
    by (auto simp: RespondChUpdate_def run_simps case_prod_unfold answerUpdate_pch
        answerUpdate_err unlock unlock' split: option.splits if_splits)
qed

lemma RespondChUpdate_evolves:
  assumes "RespondChUpdate P now u acc ch = Done (r, ch')"
  shows "evolves ch ch'"
proof -
  obtain i ae where "r = (i, ae)" by (cases r)
  with RespondChUpdate_Done [of P now u acc ch i ae ch'] assms show ?thesis
    by (auto split: if_splits option.splits intro: take_responder_evolves)
qed

lemma ch_Close_evolves: "ch_Close P ch = Done (r, ch') \<Longrightarrow> evolves ch ch'"
  unfolding ch_Close_def
  by (erule with_lock_evolves)
     (auto simp: run_simps case_prod_unfold split: if_splits
       dest!: finalize_evolves intro: evolves_trans [OF _ ch_register_snd])

lemma close_resources_Done:
  "close_resources P ch = Done ch' \<longleftrightarrow> pWatchReturned P (fst (pClose P (chPch ch))) \<and>
     ch' = ch\<lparr>chPch := fst (pClose P (chPch ch)), chStatus := StatusClosed\<rparr>"
  by (auto simp: close_resources_def Let_def)

text \<open>What closing leaves: a closed channel without subscriber; the subscriber, if any, has
  been told.\<close>

lemma closeAndNotify_Done:
  assumes "closeAndNotify P e ch = Done ch'"
  shows "chStatus ch' = StatusClosed \<and> chNotifier ch' = None \<and> chNotifCache ch' = chNotifCache ch
    \<and> chResponders ch' = chResponders ch \<and> same_params ch ch' \<and> chLocked ch' = chLocked ch \<and>
    (case chNotifier ch of
       None \<Rightarrow> chOut ch' = chOut ch
     | Some f \<Rightarrow> \<exists>i. getChInfo P ch' = Done i \<and> chOut ch' = chOut ch @ [f (makeChCloseNotif i e)])"
  using assms
  by (auto simp: closeAndNotify_def run_simps close_resources_Done unsubChUpdates_def same_params_def
      getChInfo_def makeChInfo_def split: option.splits)

lemma closeAndNotify_evolves:
  assumes "closeAndNotify P e ch = Done ch'"
  shows "evolves ch ch'"
  using closeAndNotify_Done [OF assms]
  by (auto simp: evolves_def ch_inv_def frozen_def same_params_def)

lemma HandleAdjudicatorEvent_evolves:
  "HandleAdjudicatorEvent P e ch = Done (r, ch') \<Longrightarrow> evolves ch ch'"
  unfolding HandleAdjudicatorEvent_def
  by (erule with_lock_evolves)
     (auto simp: run_simps split: adj_event.splits if_splits prod.splits
       dest!: settle_evolves closeAndNotify_evolves intro: evolves_trans)

lemmas op_evolves =
  GetChInfo_evolves SendChUpdate_evolves ch_HandleUpdate_evolves SubChUpdates_evolves
  UnsubChUpdates_evolves RespondChUpdate_evolves ch_Close_evolves HandleAdjudicatorEvent_evolves

end
