(* ===== verification/Wallets.thy ===== *)
theory Wallets
  imports Perun_Errors "HOL-Library.Sublist"
begin

text \<open>
  The wallet backend of \<^verbatim>\<open>blockchain/ethereum/internal/wallet.go\<close>. The conversions between
  addresses and strings are those of go-ethereum, which is not part of the repository: they
  are the fields of an \<open>addr_lib\<close>, and what is relied on is \<open>addr_ok\<close>: the canonical string of
  an address is \<open>0x\<close> and forty hexadecimal digits, and converts back to the address.
  A keystore is outside the repository as well: \<open>wlMissing\<close>, \<open>wlNewWallet\<close> and \<open>wlUnlock\<close> say
  what looking for the keystore directory, opening it with some parameters of scrypt, and
  unlocking an account in it return.
\<close>

record addr_lib =
  alHexToAddress :: "string \<Rightarrow> address"
  alString :: "address \<Rightarrow> string"

definition addr_ok :: "addr_lib \<Rightarrow> bool" where
  "addr_ok L \<longleftrightarrow> (\<forall>a. alHexToAddress L (alString L a) = a \<and> length (alString L a) = 42
     \<and> prefix ''0x'' (alString L a))"

definition addressLengthHex :: nat where
  "addressLengthHex = 40"

definition ParseAddr :: "addr_lib \<Rightarrow> string \<Rightarrow> goerr + address" where
  "ParseAddr L str =
     (let hasPrefix = prefix ''0x'' str \<or> prefix ''0X'' str
      in if \<not> hasPrefix \<and> addressLengthHex < length str \<or> addressLengthHex + 2 < length str
         then Inl (ENew ''hex string too long, should be <= 40 chars'')
         else let addr = alHexToAddress L str
              in if addr = 0 \<and> \<not> sublist str (alString L 0)
                 then Inl (ENew ''invalid string'')
                 else Inr addr)"

record scrypt_params =
  spN :: int
  spP :: int

definition WeakScryptN :: int where "WeakScryptN = 2"
definition WeakScryptP :: int where "WeakScryptP = 1"

record wallet_backend =
  wbEncParams :: scrypt_params

definition NewWalletBackend :: wallet_backend where
  "NewWalletBackend = \<lparr>wbEncParams = \<lparr>spN = WeakScryptN, spP = WeakScryptP\<rparr>\<rparr>"

definition NewTestWalletBackend :: wallet_backend where
  "NewTestWalletBackend = \<lparr>wbEncParams = \<lparr>spN = WeakScryptN, spP = WeakScryptP\<rparr>\<rparr>"

record wallet_lib =
  wlMissing :: "string \<Rightarrow> goerr option"
  wlNewWallet :: "scrypt_params \<Rightarrow> string \<Rightarrow> string \<Rightarrow> goerr + ref"
  wlUnlock :: "ref \<Rightarrow> address \<Rightarrow> goerr option"

definition NewWallet :: "wallet_lib \<Rightarrow> wallet_backend \<Rightarrow> string \<Rightarrow> string \<Rightarrow> goerr + ref" where
  "NewWallet W wb keystorePath password =
     (case wlMissing W keystorePath of
        Some e \<Rightarrow> Inl (EWith e ''initializing new wallet, cannot find keystore directory'')
      | None \<Rightarrow> (case wlNewWallet W (wbEncParams wb) keystorePath password of
          Inl e \<Rightarrow> Inl (EWith e ''initializing new wallet'') | Inr w \<Rightarrow> Inr w))"

definition UnlockAccount :: "wallet_lib \<Rightarrow> ref \<Rightarrow> address \<Rightarrow> goerr option" where
  "UnlockAccount W w addr = map_option (\<lambda>e. EWith e ''unlocking account'') (wlUnlock W w addr)"

lemma ParseAddr_String [simp]: "addr_ok L \<Longrightarrow> ParseAddr L (alString L a) = Inr a"
  by (auto simp: ParseAddr_def addr_ok_def Let_def addressLengthHex_def)

lemma ParseAddr_length:
  "ParseAddr L str = Inr a \<Longrightarrow> length str \<le> 42 \<and> a = alHexToAddress L str"
  by (auto simp: ParseAddr_def Let_def addressLengthHex_def split: if_splits)

text \<open>A concrete pair of conversions: forty hexadecimal digits, most significant first.\<close>

primrec hex_string :: "nat \<Rightarrow> nat \<Rightarrow> string" where
  "hex_string 0 n = []"
| "hex_string (Suc k) n = hex_string k (n div 16) @ [hex_digit (n mod 16)]"

definition hex_value :: "string \<Rightarrow> nat" where
  "hex_value s = foldl (\<lambda>a c. a * 16 + hex_val c) 0 s"

definition hex_addr_lib :: addr_lib where
  "hex_addr_lib = \<lparr>
     alHexToAddress = (\<lambda>s. word_of_nat (hex_value (if prefix ''0x'' s then drop 2 s else s))),
     alString = (\<lambda>a. ''0x'' @ hex_string 40 (unat a))\<rparr>"

lemma length_hex_string [simp]: "length (hex_string k n) = k"
  by (induction k arbitrary: n) simp_all

lemma hex_value_string [simp]: "n < 16 ^ k \<Longrightarrow> hex_value (hex_string k n) = n"
proof (induction k arbitrary: n)
  case 0
  then show ?case by (simp add: hex_value_def)
next
  case (Suc k)
  then have "n div 16 < 16 ^ k" by (simp add: div_less_iff_less_mult mult.commute)
  from Suc.IH [OF this] show ?case by (simp add: hex_value_def)
qed

lemma hex_addr_lib_ok: "addr_ok hex_addr_lib"
proof -
  have "unat a < 16 ^ 40" for a :: address
    using unsigned_less [of a, where ?'a = nat] by simp
  then show ?thesis by (simp add: addr_ok_def hex_addr_lib_def)
qed

end
