(* ===== verification/ID_Provider.thy ===== *)
theory ID_Provider
  imports Wallets Interfaces
begin

text \<open>
  The package \<^verbatim>\<open>idprovider/local\<close>: the cache of peer IDs, indexed by alias and by the string of
  the off-chain address, and its operations. The second result of a read in the code,
  \<open>isPresent\<close>, is the \<open>option\<close> of the model.
\<close>

record id_cache =
  idByAlias :: "string \<rightharpoonup> peer_id"
  idAliasByAddr :: "string \<rightharpoonup> string"

definition PeerIDEqual :: "peer_id \<Rightarrow> peer_id \<Rightarrow> bool" where
  "PeerIDEqual p1 p2 \<longleftrightarrow> pAlias p1 = pAlias p2 \<and> pOffChainAddrString p1 = pOffChainAddrString p2 \<and>
     pCommType p1 = pCommType p2 \<and> pCommAddr p1 = pCommAddr p2"

text \<open>
  The constructor runs over the map decoded from the ID provider file; its entries are given
  in the order in which the run visits them.
\<close>

fun newIDProviderCache_loop ::
  "addr_lib \<Rightarrow> (string \<times> peer_id) list \<Rightarrow> id_cache \<Rightarrow> goerr + id_cache" where
  "newIDProviderCache_loop L [] c = Inr c"
| "newIDProviderCache_loop L ((al, peer) # rest) c =
     (case ParseAddr L (pOffChainAddrString peer) of
        Inl e \<Rightarrow> Inl e
      | Inr a \<Rightarrow> newIDProviderCache_loop L rest
          (c\<lparr>idByAlias := (idByAlias c)(al \<mapsto> peer\<lparr>pOffChainAddr := Some a\<rparr>),
             idAliasByAddr := (idAliasByAddr c)(pOffChainAddrString peer \<mapsto> pAlias peer)\<rparr>))"

definition newIDProviderCache :: "addr_lib \<Rightarrow> (string \<times> peer_id) list \<Rightarrow> goerr + id_cache" where
  "newIDProviderCache L entries =
     newIDProviderCache_loop L entries \<lparr>idByAlias = map_of entries, idAliasByAddr = Map.empty\<rparr>"

definition ReadByAlias :: "id_cache \<Rightarrow> string \<Rightarrow> peer_id option" where
  "ReadByAlias c al = idByAlias c al"

definition ReadByOffChainAddr :: "addr_lib \<Rightarrow> id_cache \<Rightarrow> address option \<Rightarrow> peer_id option" where
  "ReadByOffChainAddr L c addr =
     (case addr of
        None \<Rightarrow> None
      | Some a \<Rightarrow> (case idAliasByAddr c (alString L a) of
            None \<Rightarrow> None
          | Some al \<Rightarrow> ReadByAlias c al))"

definition put_peer :: "string \<Rightarrow> peer_id \<Rightarrow> id_cache \<Rightarrow> id_cache" where
  "put_peer al p c =
     c\<lparr>idByAlias := (idByAlias c)(al \<mapsto> p),
       idAliasByAddr := (idAliasByAddr c)(pOffChainAddrString p \<mapsto> al)\<rparr>"

definition Write :: "addr_lib \<Rightarrow> string \<Rightarrow> peer_id \<Rightarrow> id_cache \<Rightarrow> goerr option \<times> id_cache" where
  "Write L al p c =
     (case idByAlias c al of
        Some oldPeerID \<Rightarrow>
          if PeerIDEqual oldPeerID p then (Some (EConst ErrPeerIDAlreadyRegistered_text), c)
          else (Some (EConst ErrPeerAliasAlreadyUsed_text), c)
      | None \<Rightarrow>
          (case ParseAddr L (pOffChainAddrString p) of
             Inl e \<Rightarrow> (Some (EWith (EConst ErrParsingOffChainAddress_text) (err_Error e)), c)
           | Inr a \<Rightarrow> (None, put_peer al (p\<lparr>pOffChainAddr := Some a\<rparr>) c)))"

definition Delete :: "string \<Rightarrow> id_cache \<Rightarrow> goerr option \<times> id_cache" where
  "Delete al c =
     (case idByAlias c al of
        None \<Rightarrow> (Some (ENew ''peer not found in ID Provider''), c)
      | Some _ \<Rightarrow> (None, c\<lparr>idByAlias := (idByAlias c)(al := None)\<rparr>))"

subsection \<open>Laws\<close>

text \<open>
  Every peer ID in the cache carries the address its string parses to, and its string is
  indexed.
\<close>

definition id_cache_inv :: "addr_lib \<Rightarrow> id_cache \<Rightarrow> bool" where
  "id_cache_inv L c \<longleftrightarrow>
     (\<forall>al p. idByAlias c al = Some p \<longrightarrow>
        (\<exists>a. pOffChainAddr p = Some a \<and> ParseAddr L (pOffChainAddrString p) = Inr a)
        \<and> idAliasByAddr c (pOffChainAddrString p) \<noteq> None)"

definition parsed_peer :: "addr_lib \<Rightarrow> peer_id \<Rightarrow> bool" where
  "parsed_peer L p \<longleftrightarrow>
     (\<exists>a. pOffChainAddr p = Some a \<and> ParseAddr L (pOffChainAddrString p) = Inr a)"

lemma id_cache_inv_put:
  "id_cache_inv L c \<Longrightarrow> parsed_peer L p \<Longrightarrow> id_cache_inv L (put_peer al p c)"
  by (auto simp: id_cache_inv_def put_peer_def parsed_peer_def)

lemma id_cache_inv_Delete: "id_cache_inv L c \<Longrightarrow> id_cache_inv L (snd (Delete al c))"
  by (auto simp: id_cache_inv_def Delete_def split: option.splits)

lemma Write_cases:
  obtains (exists) old where "idByAlias c al = Some old" and "snd (Write L al p c) = c"
      and "fst (Write L al p c) \<noteq> None"
  | (bad_addr) e where "idByAlias c al = None" and "ParseAddr L (pOffChainAddrString p) = Inl e"
      and "Write L al p c = (Some (EWith (EConst ErrParsingOffChainAddress_text) (err_Error e)), c)"
  | (ok) a where "idByAlias c al = None" and "ParseAddr L (pOffChainAddrString p) = Inr a"
      and "Write L al p c = (None, put_peer al (p\<lparr>pOffChainAddr := Some a\<rparr>) c)"
proof (cases "idByAlias c al")
  case None
  then show ?thesis
    using that by (cases "ParseAddr L (pOffChainAddrString p)") (simp_all add: Write_def)
next
  case (Some old)
  then show ?thesis using exists by (simp add: Write_def)
qed

lemma id_cache_inv_Write: "id_cache_inv L c \<Longrightarrow> id_cache_inv L (snd (Write L al p c))"
  by (cases rule: Write_cases [of c al L p]) (auto intro!: id_cache_inv_put simp: parsed_peer_def)

text \<open>
  The constructor first takes the map of the file as it is; when it returns, every entry has
  been visited.
\<close>

lemma newIDProviderCache_loop_inv:
  assumes "newIDProviderCache_loop L entries c = Inr c'"
    and "\<forall>al p. idByAlias c al = Some p \<longrightarrow> al \<in> fst ` set entries
           \<or> parsed_peer L p \<and> idAliasByAddr c (pOffChainAddrString p) \<noteq> None"
  shows "id_cache_inv L c'"
  using assms
proof (induction L entries c rule: newIDProviderCache_loop.induct)
  case (1 L c)
  then show ?case by (auto simp: id_cache_inv_def parsed_peer_def)
next
  case (2 L al peer rest c)
  then obtain a where a: "ParseAddr L (pOffChainAddrString peer) = Inr a"
    by (auto split: sum.splits)
  let ?c = "c\<lparr>idByAlias := (idByAlias c)(al \<mapsto> peer\<lparr>pOffChainAddr := Some a\<rparr>),
     idAliasByAddr := (idAliasByAddr c)(pOffChainAddrString peer \<mapsto> pAlias peer)\<rparr>"
  from "2.prems"(1) a have "newIDProviderCache_loop L rest ?c = Inr c'" by simp
  moreover have "x \<in> fst ` set rest \<or> parsed_peer L p \<and> idAliasByAddr ?c (pOffChainAddrString p) \<noteq> None"
    if "idByAlias ?c x = Some p" for x p
  proof (cases "x = al")
    case True
    with that a show ?thesis by (auto simp: parsed_peer_def)
  next
    case False
    with that have "idByAlias c x = Some p" by simp
    from "2.prems"(2) [rule_format, OF this] False show ?thesis by auto
  qed
  ultimately show ?case by (intro "2.IH" [OF a]) blast+
qed

lemma id_cache_inv_New: "newIDProviderCache L entries = Inr c \<Longrightarrow> id_cache_inv L c"
  unfolding newIDProviderCache_def
  by (erule newIDProviderCache_loop_inv) (auto dest!: map_of_SomeD intro: rev_image_eqI)

interpretation ids: grow_registry ReadByAlias put_peer "\<lambda>al p. p" "\<lambda>c. True"
  by unfold_locales (simp_all add: ReadByAlias_def put_peer_def fun_eq_iff)

subsection \<open>Properties\<close>

definition NewIDCache :: id_cache where
  "NewIDCache = \<lparr>idByAlias = Map.empty, idAliasByAddr = Map.empty\<rparr>"

definition sample_peer :: "string \<Rightarrow> string \<Rightarrow> peer_id" where
  "sample_peer al addr = \<lparr>pAlias = al, pOffChainAddr = None, pOffChainAddrString = addr,
     pCommAddr = ''127.0.0.1:5751'', pCommType = ''tcp''\<rparr>"

text \<open>
  writing a peer ID. A used alias is refused, with an error that tells whether it is used
  for the same peer ID; a free alias is refused when the off-chain address does not parse,
  with an error that \<open>AddPeerID\<close> recognises; otherwise the peer ID, with the parsed address
  filled in, becomes what the alias reads, and no other alias reads anything new. A refused
  write changes nothing.
\<close>

theorem id_Write_spec:
  "case Write L al p c of
      (None, c') \<Rightarrow> ReadByAlias c al = None \<and>
        (\<exists>a. ParseAddr L (pOffChainAddrString p) = Inr a \<and>
             ReadByAlias c' = (ReadByAlias c)(al \<mapsto> p\<lparr>pOffChainAddr := Some a\<rparr>))
    | (Some e, c') \<Rightarrow> c' = c \<and>
        (errors_Is ErrPeerIDAlreadyRegistered_text e \<longleftrightarrow>
           (\<exists>q. ReadByAlias c al = Some q \<and> PeerIDEqual q p)) \<and>
        (errors_Is ErrPeerAliasAlreadyUsed_text e \<longleftrightarrow>
           (\<exists>q. ReadByAlias c al = Some q \<and> \<not> PeerIDEqual q p)) \<and>
        (errors_Is ErrParsingOffChainAddress_text e \<longleftrightarrow> ReadByAlias c al = None)"
proof (cases "idByAlias c al")
  case None
  then show ?thesis
    using ids.lookup_add [of c al]
    by (cases "ParseAddr L (pOffChainAddrString p)")
       (simp_all add: Write_def ReadByAlias_def ErrPeerIDAlreadyRegistered_text_def
         ErrPeerAliasAlreadyUsed_text_def ErrParsingOffChainAddress_text_def)
next
  case (Some q)
  then show ?thesis
    by (simp add: Write_def ReadByAlias_def ErrPeerIDAlreadyRegistered_text_def
         ErrPeerAliasAlreadyUsed_text_def ErrParsingOffChainAddress_text_def)
qed

text \<open>
  C40: a peer ID that has been written is found by its off-chain address exactly when the
  user gave the address in the canonical form of the backend. The index is keyed with the
  string of the request, and read with the string of the address: a peer added with a
  lower-case or unpadded address string is never recognised in an incoming proposal.
\<close>

theorem written_peer_found_by_address_iff:
  assumes "fst (Write L al p c) = None" and "ParseAddr L (pOffChainAddrString p) = Inr a"
    and "idAliasByAddr c (alString L a) = None"
  shows "ReadByOffChainAddr L (snd (Write L al p c)) (Some a) \<noteq> None
    \<longleftrightarrow> pOffChainAddrString p = alString L a"
proof -
  have "Write L al p c = (None, put_peer al (p\<lparr>pOffChainAddr := Some a\<rparr>) c)"
    using assms(1,2) by (cases rule: Write_cases [of c al L p]) auto
  then show ?thesis
    using assms(3) by (simp add: ReadByOffChainAddr_def ReadByAlias_def put_peer_def)
qed

theorem written_peer_found_by_address_iff_witness:
  "ReadByOffChainAddr hex_addr_lib
     (snd (Write hex_addr_lib ''bob'' (sample_peer ''bob'' ''0x5'') NewIDCache)) (Some 5) = None"
proof -
  have canonical: "alString hex_addr_lib (5 :: address) \<noteq> ''0x5''"
    using hex_addr_lib_ok by (auto simp: addr_ok_def dest!: spec [of _ 5])
  have parsed: "ParseAddr hex_addr_lib ''0x5'' = Inr 5"
    by (simp add: ParseAddr_def Let_def addressLengthHex_def hex_addr_lib_def hex_value_def hex_val_def)
  have "fst (Write hex_addr_lib ''bob'' (sample_peer ''bob'' ''0x5'') NewIDCache) = None"
    by (simp add: Write_def NewIDCache_def sample_peer_def parsed)
  from written_peer_found_by_address_iff [OF this, of 5] canonical show ?thesis
    by (auto simp: sample_peer_def parsed NewIDCache_def)
qed

text \<open>
  deleting a peer ID leaves its address in the index. When the alias is then given to
  another peer ID, the address of the deleted peer reads the other one.
\<close>

theorem deleted_address_reads_other_peer:
  assumes "ReadByOffChainAddr L c (Some a1) = Some p1" and "idAliasByAddr c (alString L a1) = Some al"
    and "ParseAddr L (pOffChainAddrString p2) = Inr a2" and "pOffChainAddrString p2 \<noteq> alString L a1"
  shows "fst (Delete al c) = None
    \<and> ReadByOffChainAddr L (snd (Delete al c)) (Some a1) = None
    \<and> ReadByOffChainAddr L (snd (Write L al p2 (snd (Delete al c)))) (Some a1)
        = Some (p2\<lparr>pOffChainAddr := Some a2\<rparr>)"
proof -
  have del: "Delete al c = (None, c\<lparr>idByAlias := (idByAlias c)(al := None)\<rparr>)"
    using assms(1,2) by (simp add: ReadByOffChainAddr_def ReadByAlias_def Delete_def)
  then have "Write L al p2 (snd (Delete al c))
      = (None, put_peer al (p2\<lparr>pOffChainAddr := Some a2\<rparr>) (snd (Delete al c)))"
    using assms(3) by (simp add: Write_def)
  with del assms(2,4) show ?thesis
    by (simp add: ReadByOffChainAddr_def ReadByAlias_def put_peer_def)
qed

theorem deleted_address_reads_other_peer_witness:
  "let L = hex_addr_lib;
       p1 = sample_peer ''bob'' (alString L 5);
       c = snd (Write L ''bob'' p1 NewIDCache);
       p2 = sample_peer ''bob'' (alString L 6)
   in ReadByOffChainAddr L (snd (Write L ''bob'' p2 (snd (Delete ''bob'' c)))) (Some 5)
        = Some (p2\<lparr>pOffChainAddr := Some 6\<rparr>)"
proof -
  let ?L = hex_addr_lib
  have inj: "alString ?L (6 :: address) \<noteq> alString ?L 5"
  proof
    assume "alString ?L (6 :: address) = alString ?L 5"
    then have "alHexToAddress ?L (alString ?L 6) = alHexToAddress ?L (alString ?L 5)" by simp
    then show False using hex_addr_lib_ok by (simp add: addr_ok_def)
  qed
  let ?c = "snd (Write ?L ''bob'' (sample_peer ''bob'' (alString ?L 5)) NewIDCache)"
  have idx: "idAliasByAddr ?c (alString ?L 5) = Some ''bob''"
    and rd: "ReadByOffChainAddr ?L ?c (Some 5)
      = Some ((sample_peer ''bob'' (alString ?L 5))\<lparr>pOffChainAddr := Some 5\<rparr>)"
    by (simp_all add: Write_def NewIDCache_def sample_peer_def ParseAddr_String [OF hex_addr_lib_ok]
        ReadByOffChainAddr_def ReadByAlias_def put_peer_def)
  from deleted_address_reads_other_peer [OF rd idx, of "sample_peer ''bob'' (alString ?L 6)" 6] inj
  show ?thesis
    by (simp add: Let_def sample_peer_def ParseAddr_String [OF hex_addr_lib_ok])
qed

end
