(* ===== verification/Contracts.thy ===== *)
theory Contracts
  imports Wallets Interfaces "HOL-Library.AList"
begin

text \<open>
  \<^verbatim>\<open>blockchain/ethereum/registry.go\<close>, the registry of the adjudicator and asset contracts, and
  the validations of \<^verbatim>\<open>blockchain/ethereum/internal/chain.go\<close> that guard it. What the contract
  bindings of go-perun read from the blockchain is the parameter \<open>eth_lib\<close>.

  The code iterates over its map of symbols, so the map is kept as its list of entries, in
  whatever order the iteration takes; the invariant and the laws do not depend on the order.
\<close>

subsection \<open>Validation of contracts\<close>

record eth_lib =
  elNewPerunToken :: "address \<Rightarrow> goerr option"
  elSymbol :: "address \<Rightarrow> goerr + string"
  elDecimals :: "address \<Rightarrow> goerr + nat"
  elValidateAdjudicator :: "address \<Rightarrow> goerr option"
  elValidateAssetHolderETH :: "address \<Rightarrow> address \<Rightarrow> goerr option"
  elValidateAssetHolderERC20 :: "address \<Rightarrow> address \<Rightarrow> address \<Rightarrow> goerr option"
  elIsErrInvalidContractCode :: "goerr \<Rightarrow> bool"

definition ERC20Info :: "eth_lib \<Rightarrow> address \<Rightarrow> goerr + string \<times> nat" where
  "ERC20Info E addr =
     (case elNewPerunToken E addr of
        Some e \<Rightarrow> Inl (EWith e ''binding to erc20 token contract'')
      | None \<Rightarrow>
          (case elSymbol E addr of
             Inl e \<Rightarrow> Inl (EWith e ''reading symbol from the contract'')
           | Inr symbol \<Rightarrow>
               (case elDecimals E addr of
                  Inl e \<Rightarrow> Inl (EWith e ''reading decimals from the contract'')
                | Inr decimal \<Rightarrow> Inr (symbol, decimal))))"

definition ValidateAdjudicator :: "eth_lib \<Rightarrow> addr_lib \<Rightarrow> address \<Rightarrow> goerr option" where
  "ValidateAdjudicator E L adjAddr =
     (case elValidateAdjudicator E adjAddr of
        None \<Rightarrow> None
      | Some e \<Rightarrow>
          if elIsErrInvalidContractCode E e
          then Some (NewInvalidContractError ''adjudicator'' (alString L adjAddr) e)
          else Some (EWith e ''validating adjudicator contract''))"

definition ValidateAssetETH :: "eth_lib \<Rightarrow> addr_lib \<Rightarrow> address \<Rightarrow> address \<Rightarrow> goerr option" where
  "ValidateAssetETH E L adjAddr assetETHAddr =
     (case elValidateAssetHolderETH E assetETHAddr adjAddr of
        None \<Rightarrow> None
      | Some e \<Rightarrow>
          if elIsErrInvalidContractCode E e
          then Some (NewInvalidContractError ''ETH'' (alString L assetETHAddr) e)
          else Some (EWith e ''validating asset ETH contract''))"

definition ValidateAssetERC20 ::
  "eth_lib \<Rightarrow> addr_lib \<Rightarrow> address \<Rightarrow> address \<Rightarrow> address \<Rightarrow> goerr + string \<times> nat" where
  "ValidateAssetERC20 E L adj tokenERC20 assetERC20 =
     (case ERC20Info E tokenERC20 of
        Inl e \<Rightarrow> Inl (EWith e ''reading symbol and decimal values from token contract'')
      | Inr (symbol, decimals) \<Rightarrow>
          (case elValidateAssetHolderERC20 E assetERC20 adj tokenERC20 of
             None \<Rightarrow> Inr (symbol, decimals)
           | Some e \<Rightarrow>
               if elIsErrInvalidContractCode E e
               then Inl (NewInvalidContractError symbol (alString L assetERC20) e)
               else Inl (EWith e ''validating asset ERC20 contract'')))"

subsection \<open>The registry\<close>

record contract_registry =
  ctAdjudicator :: address
  ctCurrencies :: "(string \<times> nat) list"
  ctAssets :: "address list"
  ctTokens :: "address option list"

definition NewContractRegistry ::
  "eth_lib \<Rightarrow> addr_lib \<Rightarrow> address \<Rightarrow> address \<Rightarrow> goerr + contract_registry" where
  "NewContractRegistry E L adjudicator assetETH =
     (case ValidateAdjudicator E L adjudicator of
        Some e \<Rightarrow> Inl e
      | None \<Rightarrow>
          (case ValidateAssetETH E L adjudicator assetETH of
             Some e \<Rightarrow> Inl e
           | None \<Rightarrow> Inr \<lparr>ctAdjudicator = adjudicator, ctCurrencies = [(''ETH'', 0)],
                ctAssets = [assetETH], ctTokens = [None]\<rparr>))"

definition isSymbolRegistered :: "contract_registry \<Rightarrow> string \<Rightarrow> nat option" where
  "isSymbolRegistered r symbol = map_of (ctCurrencies r) symbol"

fun symbol_at_index :: "nat \<Rightarrow> (string \<times> nat) list \<Rightarrow> string option" where
  "symbol_at_index assetIdx [] = None"
| "symbol_at_index assetIdx ((symbol, i) # rest) =
     (if assetIdx = i then Some symbol else symbol_at_index assetIdx rest)"

fun asset_loop :: "nat \<Rightarrow> address list \<Rightarrow> (string \<times> nat) list \<Rightarrow> address \<Rightarrow> string option" where
  "asset_loop assetIdx [] cs asset = None"
| "asset_loop assetIdx (gotAsset # rest) cs asset =
     (if gotAsset = asset
      then (case symbol_at_index assetIdx cs of
              Some symbol \<Rightarrow> Some symbol
            | None \<Rightarrow> asset_loop (Suc assetIdx) rest cs asset)
      else asset_loop (Suc assetIdx) rest cs asset)"

definition isAssetRegistered :: "contract_registry \<Rightarrow> address \<Rightarrow> string option" where
  "isAssetRegistered r asset = asset_loop 0 (ctAssets r) (ctCurrencies r) asset"

definition put_asset :: "string \<Rightarrow> address option \<times> address \<Rightarrow> contract_registry \<Rightarrow> contract_registry" where
  "put_asset symbol ta r =
     (let nextIdx = length (ctAssets r)
      in r\<lparr>ctCurrencies := AList.update symbol nextIdx (ctCurrencies r),
           ctAssets := ctAssets r @ [snd ta], ctTokens := ctTokens r @ [fst ta]\<rparr>)"

definition RegisterAssetERC20 ::
  "eth_lib \<Rightarrow> addr_lib \<Rightarrow> address \<Rightarrow> address \<Rightarrow> contract_registry
     \<Rightarrow> ((goerr + string \<times> nat) \<times> contract_registry) run" where
  "RegisterAssetERC20 E L token asset r =
     (case isAssetRegistered r asset of
        Some symbol \<Rightarrow> Done (Inl (NewAssetERC20RegisteredError (alString L asset) symbol), r)
      | None \<Rightarrow>
          (case ValidateAssetERC20 E L (ctAdjudicator r) token asset of
             Inl e \<Rightarrow> Done (Inl e, r)
           | Inr (symbol, maxDecimals) \<Rightarrow>
               (case isSymbolRegistered r symbol of
                  Some idx \<Rightarrow> andThen (idx_at (ctAssets r) idx) (\<lambda>alreadyRegisteredAsset.
                    Done (Inl (NewAssetERC20RegisteredError (alString L alreadyRegisteredAsset) symbol), r))
                | None \<Rightarrow> Done (Inr (symbol, maxDecimals), put_asset symbol (Some token, asset) r))))"

definition Adjudicator :: "contract_registry \<Rightarrow> address" where
  "Adjudicator r = ctAdjudicator r"

text \<open>A symbol that is not in the map reads index 0.\<close>

definition AssetETH :: "contract_registry \<Rightarrow> address run" where
  "AssetETH r = idx_at (ctAssets r) (case map_of (ctCurrencies r) ''ETH'' of Some i \<Rightarrow> i | None \<Rightarrow> 0)"

definition Assets :: "addr_lib \<Rightarrow> contract_registry \<Rightarrow> (string \<times> string) list run" where
  "Assets L r = mapRun (\<lambda>(symbol, idx).
     andThen (idx_at (ctAssets r) idx) (\<lambda>a. Done (symbol, alString L a))) (ctCurrencies r)"

definition Asset :: "contract_registry \<Rightarrow> string \<Rightarrow> address option run" where
  "Asset r symbol =
     (case isSymbolRegistered r symbol of
        None \<Rightarrow> Done None
      | Some idx \<Rightarrow> andThen (idx_at (ctAssets r) idx) (\<lambda>a. Done (Some a)))"

definition Token :: "contract_registry \<Rightarrow> string \<Rightarrow> address option run" where
  "Token r symbol =
     (if symbol = ''ETH'' then Done None
      else (case isSymbolRegistered r symbol of
              None \<Rightarrow> Done None
            | Some idx \<Rightarrow> idx_at (ctTokens r) idx))"

definition Symbol :: "contract_registry \<Rightarrow> address \<Rightarrow> string option" where
  "Symbol r asset = isAssetRegistered r asset"

subsection \<open>Laws\<close>

text \<open>
  The invariant of the registry: every symbol has its own index and every index its own
  symbol, the assets are distinct, and ether, the entry with index 0, is the only one without
  a token contract.
\<close>

definition contract_inv :: "contract_registry \<Rightarrow> bool" where
  "contract_inv r \<longleftrightarrow>
     distinct (map fst (ctCurrencies r)) \<and> distinct (map snd (ctCurrencies r)) \<and>
     set (map snd (ctCurrencies r)) = {..<length (ctAssets r)} \<and>
     distinct (ctAssets r) \<and> length (ctTokens r) = length (ctAssets r) \<and>
     map_of (ctCurrencies r) ''ETH'' = Some 0 \<and>
     (\<forall>(s, i) \<in> set (ctCurrencies r). ctTokens r ! i = None \<longleftrightarrow> s = ''ETH'')"

definition asset_of :: "contract_registry \<Rightarrow> string \<Rightarrow> address option" where
  "asset_of r s = map_option ((!) (ctAssets r)) (map_of (ctCurrencies r) s)"

lemma contract_invD:
  assumes "contract_inv r"
  shows "map_of (ctCurrencies r) s = Some i \<longleftrightarrow> (s, i) \<in> set (ctCurrencies r)"
    and "(s, i) \<in> set (ctCurrencies r) \<Longrightarrow> i < length (ctAssets r)"
    and "i < length (ctAssets r) \<Longrightarrow> \<exists>s. (s, i) \<in> set (ctCurrencies r)"
    and "(s, i) \<in> set (ctCurrencies r) \<Longrightarrow> (t, i) \<in> set (ctCurrencies r) \<Longrightarrow> s = t"
proof -
  show "map_of (ctCurrencies r) s = Some i \<longleftrightarrow> (s, i) \<in> set (ctCurrencies r)"
    using assms by (simp add: contract_inv_def)
  have rng: "snd ` set (ctCurrencies r) = {..<length (ctAssets r)}"
    using assms by (simp add: contract_inv_def)
  then show "(s, i) \<in> set (ctCurrencies r) \<Longrightarrow> i < length (ctAssets r)"
    by force
  show "\<exists>s. (s, i) \<in> set (ctCurrencies r)" if "i < length (ctAssets r)"
  proof -
    from that rng have "i \<in> snd ` set (ctCurrencies r)" by simp
    then show ?thesis by force
  qed
  show "(s, i) \<in> set (ctCurrencies r) \<Longrightarrow> (t, i) \<in> set (ctCurrencies r) \<Longrightarrow> s = t"
    using assms inj_onD [of snd "set (ctCurrencies r)" "(s, i)" "(t, i)"]
    by (simp add: contract_inv_def distinct_map)
qed

lemma Asset_Done: "contract_inv r \<Longrightarrow> Asset r s = Done (asset_of r s)"
proof (cases "map_of (ctCurrencies r) s")
  case (Some i)
  then have "i < length (ctAssets r)" if "contract_inv r"
    using contract_invD(1,2) [OF that] by blast
  with Some show "contract_inv r \<Longrightarrow> ?thesis"
    by (simp add: Asset_def asset_of_def isSymbolRegistered_def)
qed (simp add: Asset_def asset_of_def isSymbolRegistered_def)

lemma Token_Done:
  assumes "contract_inv r"
  shows "\<exists>t. Token r s = Done t \<and> (t \<noteq> None \<longleftrightarrow> s \<noteq> ''ETH'' \<and> asset_of r s \<noteq> None)"
proof (cases "map_of (ctCurrencies r) s")
  case None
  then show ?thesis by (simp add: Token_def isSymbolRegistered_def asset_of_def)
next
  case (Some i)
  then have "(s, i) \<in> set (ctCurrencies r)" "i < length (ctTokens r)"
    using assms contract_invD [OF assms] by (auto simp: contract_inv_def)
  with Some assms show ?thesis
    by (fastforce simp: Token_def isSymbolRegistered_def asset_of_def contract_inv_def)
qed

lemma symbol_at_index_Some: "symbol_at_index i cs = Some s \<Longrightarrow> (s, i) \<in> set cs"
  by (induction i cs rule: symbol_at_index.induct) (auto split: if_splits)

lemma symbol_at_index_None: "symbol_at_index i cs = None \<longleftrightarrow> i \<notin> snd ` set cs"
  by (induction i cs rule: symbol_at_index.induct) auto

lemma asset_loop_Some:
  "asset_loop k gs cs a = Some s \<Longrightarrow> \<exists>j < length gs. gs ! j = a \<and> (s, k + j) \<in> set cs"
proof (induction k gs cs a rule: asset_loop.induct)
  case (1 k cs a)
  then show ?case by simp
next
  case (2 k g gs cs a)
  show ?case
  proof (cases "g = a \<and> symbol_at_index k cs \<noteq> None")
    case True
    with "2.prems" have "(s, k) \<in> set cs"
      by (auto intro: symbol_at_index_Some split: option.splits)
    with True show ?thesis by (intro exI [of _ 0]) simp
  next
    case False
    then have "\<exists>j < length gs. gs ! j = a \<and> (s, Suc k + j) \<in> set cs"
      using 2 by (auto split: if_splits)
    then show ?thesis by (metis Suc_less_eq add_Suc_shift length_Cons nth_Cons_Suc)
  qed
qed

lemma asset_loop_None:
  "asset_loop k gs cs a = None \<Longrightarrow> {k..<k + length gs} \<subseteq> snd ` set cs \<Longrightarrow> a \<notin> set gs"
proof (induction k gs cs a rule: asset_loop.induct)
  case (2 k g gs cs a)
  have "k \<in> snd ` set cs" and sub: "{Suc k..<Suc k + length gs} \<subseteq> snd ` set cs"
    using "2.prems"(2) by auto
  then have "symbol_at_index k cs \<noteq> None" by (simp add: symbol_at_index_None)
  with 2 sub show ?case by (auto split: if_splits)
qed simp

lemma isAssetRegistered_None:
  assumes "contract_inv r"
  shows "isAssetRegistered r a = None \<longleftrightarrow> a \<notin> set (ctAssets r)"
proof
  assume "isAssetRegistered r a = None"
  then show "a \<notin> set (ctAssets r)"
    unfolding isAssetRegistered_def by (rule asset_loop_None)
      (use assms in \<open>auto simp: contract_inv_def\<close>)
next
  assume "a \<notin> set (ctAssets r)"
  then show "isAssetRegistered r a = None"
    by (cases "isAssetRegistered r a") (auto simp: isAssetRegistered_def dest!: asset_loop_Some)
qed

lemma isAssetRegistered_iff:
  assumes "contract_inv r"
  shows "isAssetRegistered r a = Some s \<longleftrightarrow> asset_of r s = Some a"
proof
  assume "isAssetRegistered r a = Some s"
  then obtain j where "j < length (ctAssets r)" "ctAssets r ! j = a" "(s, j) \<in> set (ctCurrencies r)"
    by (auto simp: isAssetRegistered_def dest: asset_loop_Some)
  then show "asset_of r s = Some a"
    by (simp add: asset_of_def contract_invD(1) [OF assms, THEN iffD2])
next
  assume "asset_of r s = Some a"
  then obtain i where i: "(s, i) \<in> set (ctCurrencies r)" "ctAssets r ! i = a"
    by (auto simp: asset_of_def contract_invD(1) [OF assms])
  then have il: "i < length (ctAssets r)" using contract_invD(2) [OF assms] by blast
  have "isAssetRegistered r a \<noteq> None"
    using il i(2) isAssetRegistered_None [OF assms] by auto
  then obtain t where t: "isAssetRegistered r a = Some t" by auto
  then obtain j where j: "j < length (ctAssets r)" "ctAssets r ! j = a" "(t, j) \<in> set (ctCurrencies r)"
    by (auto simp: isAssetRegistered_def dest: asset_loop_Some)
  have "distinct (ctAssets r)" using assms by (simp add: contract_inv_def)
  from nth_eq_iff_index_eq [OF this j(1) il] j(2) i(2) have "j = i" by simp
  with i(1) j(3) have "t = s" using contract_invD(4) [OF assms] by blast
  with t show "isAssetRegistered r a = Some s" by simp
qed

lemma update_keys_append: "k \<notin> fst ` set al \<Longrightarrow> AList.update k v al = al @ [(k, v)]"
  by (induction al) auto

definition index_inv :: "contract_registry \<Rightarrow> bool" where
  "index_inv r \<longleftrightarrow> (\<forall>s i. map_of (ctCurrencies r) s = Some i \<longrightarrow> i < length (ctAssets r))"

lemma contract_inv_index: "contract_inv r \<Longrightarrow> index_inv r"
  using contract_invD(1,2) by (auto simp: index_inv_def)

interpretation ctr: grow_registry asset_of put_asset "\<lambda>s ta. snd ta" index_inv
proof
  fix r s and ta :: "address option \<times> address"
  assume inv: "index_inv r" and free: "asset_of r s = None"
  show "asset_of (put_asset s ta r) = (asset_of r)(s \<mapsto> snd ta)"
  proof
    fix s'
    show "asset_of (put_asset s ta r) s' = ((asset_of r)(s \<mapsto> snd ta)) s'"
    proof (cases "map_of (ctCurrencies r) s'")
      case (Some i)
      then have "i < length (ctAssets r)" using inv by (simp add: index_inv_def)
      with Some free show ?thesis
        by (auto simp: asset_of_def put_asset_def Let_def update_conv nth_append)
    qed (simp add: asset_of_def put_asset_def Let_def update_conv)
  qed
  show "index_inv (put_asset s ta r)"
    using inv by (auto simp: index_inv_def put_asset_def Let_def update_conv intro: less_SucI)
qed

lemma contract_inv_put:
  assumes inv: "contract_inv r" and free: "asset_of r s = None" and new: "a \<notin> set (ctAssets r)"
  shows "contract_inv (put_asset s (Some t, a) r)"
proof -
  let ?n = "length (ctAssets r)"
  have sn: "s \<notin> fst ` set (ctCurrencies r)"
    using free by (simp add: asset_of_def map_of_eq_None_iff)
  then have upd: "AList.update s ?n (ctCurrencies r) = ctCurrencies r @ [(s, ?n)]"
    by (rule update_keys_append)
  have eth: "s \<noteq> ''ETH''" using inv free by (auto simp: contract_inv_def asset_of_def)
  have rng: "snd ` set (ctCurrencies r) = {..<?n}"
    using inv by (simp add: contract_inv_def)
  then have lt: "(u, i) \<in> set (ctCurrencies r) \<Longrightarrow> i < ?n" for u i by force
  show ?thesis
    using inv sn new eth lt
    by (auto simp: contract_inv_def put_asset_def Let_def upd rng lessThan_Suc map_add_def
        nth_append split: option.splits)
qed

subsection \<open>Properties\<close>

lemma contract_inv_New: "NewContractRegistry E L adj eth = Inr r \<Longrightarrow> contract_inv r"
  by (auto simp: NewContractRegistry_def contract_inv_def split: option.splits)

definition sample_contracts :: contract_registry where
  "sample_contracts = \<lparr>ctAdjudicator = 1, ctCurrencies = [(''TOK'', 1), (''ETH'', 0)],
     ctAssets = [2, 3], ctTokens = [None, Some 4]\<rparr>"

lemma contract_inv_sample: "contract_inv sample_contracts"
  by (auto simp: contract_inv_def sample_contracts_def)

text \<open>
  C36: symbols and assets are two views of one bijection. In a registry with the invariant the
  lookup of an asset never runs out of range, and a contract address belongs to a symbol
  exactly when it is the asset of that symbol.
\<close>

theorem Symbol_Asset_inverse:
  assumes "contract_inv r"
  shows "(\<exists>x. Asset r s = Done x) \<and> (Symbol r a = Some s \<longleftrightarrow> Asset r s = Done (Some a))"
  using assms by (simp add: Asset_Done Symbol_def isAssetRegistered_iff)

theorem Symbol_Asset_inverse_witness:
  "Symbol sample_contracts 3 = Some ''TOK'' \<and> Asset sample_contracts ''TOK'' = Done (Some 3)"
  using Symbol_Asset_inverse [OF contract_inv_sample, of "''TOK''" 3]
  by (simp add: Asset_def isSymbolRegistered_def sample_contracts_def)

text \<open>
  C37: the result of \<open>Symbol\<close>, which iterates over a Go map, does not depend on the order of
  the iteration: two registries whose maps have the same entries give the same symbol.
\<close>

theorem Symbol_iteration_order:
  assumes "contract_inv r" and "contract_inv r'" and "ctAssets r = ctAssets r'"
    and "set (ctCurrencies r) = set (ctCurrencies r')"
  shows "Symbol r a = Symbol r' a"
proof -
  have "map_of (ctCurrencies r) s = map_of (ctCurrencies r') s" for s
    using contract_invD(1) [OF assms(1)] contract_invD(1) [OF assms(2)] assms(4)
    by (metis not_Some_eq)
  then have "asset_of r s = asset_of r' s" for s
    by (simp add: asset_of_def assms(3))
  then have "Symbol r a = Some s \<longleftrightarrow> Symbol r' a = Some s" for s
    by (simp add: Symbol_def isAssetRegistered_iff assms(1,2))
  then show ?thesis by (metis not_Some_eq)
qed

theorem Symbol_iteration_order_witness:
  "Symbol sample_contracts 2
     = Symbol (sample_contracts\<lparr>ctCurrencies := [(''ETH'', 0), (''TOK'', 1)]\<rparr>) 2"
  by (rule Symbol_iteration_order) (auto simp: contract_inv_def sample_contracts_def)

text \<open>
  Registering an ERC20 asset always comes back, keeps the invariant, and succeeds exactly
  when the asset is new, the contracts validate and the symbol read from the token is free;
  then the symbol, and no other, gets the asset and the token of the request. On any error
  the registry is unchanged, and an already used asset or symbol is reported as such, with
  the asset that is registered.
\<close>

theorem RegisterAssetERC20_spec:
  assumes "contract_inv r"
  shows "\<exists>res r'. RegisterAssetERC20 E L token asset r = Done (res, r') \<and> contract_inv r' \<and>
    (case res of
       Inr (s, d) \<Rightarrow> Symbol r asset = None \<and> asset_of r s = None
         \<and> ValidateAssetERC20 E L (Adjudicator r) token asset = Inr (s, d)
         \<and> asset_of r' = (asset_of r)(s \<mapsto> asset) \<and> Token r' s = Done (Some token)
     | Inl e \<Rightarrow> r' = r \<and>
         (\<forall>s. Symbol r asset = Some s \<longrightarrow> e = NewAssetERC20RegisteredError (alString L asset) s) \<and>
         (Symbol r asset = None \<longrightarrow>
            (case ValidateAssetERC20 E L (Adjudicator r) token asset of
               Inl e' \<Rightarrow> e = e'
             | Inr (s, d) \<Rightarrow> (\<exists>a. asset_of r s = Some a
                 \<and> e = NewAssetERC20RegisteredError (alString L a) s))))"
proof (cases "isAssetRegistered r asset")
  case (Some s)
  with assms show ?thesis by (simp add: RegisterAssetERC20_def Symbol_def)
next
  case new: None
  show ?thesis
  proof (cases "ValidateAssetERC20 E L (ctAdjudicator r) token asset")
    case (Inl e)
    with assms new show ?thesis by (simp add: RegisterAssetERC20_def Symbol_def Adjudicator_def)
  next
    case (Inr sd)
    obtain s d where sd: "sd = (s, d)" by (cases sd)
    show ?thesis
    proof (cases "map_of (ctCurrencies r) s")
      case (Some i)
      then have "i < length (ctAssets r)"
        using contract_invD(1,2) [OF assms] by blast
      with assms new Inr sd Some show ?thesis
        by (simp add: RegisterAssetERC20_def Symbol_def Adjudicator_def isSymbolRegistered_def
            asset_of_def)
    next
      case None
      then have free: "asset_of r s = None" by (simp add: asset_of_def)
      have "asset \<notin> set (ctAssets r)"
        using new isAssetRegistered_None [OF assms] by simp
      note r' = contract_inv_put [OF assms free this, of token] ctr.lookup_add [OF contract_inv_index [OF assms] free, of "(Some token, asset)"]
      have "s \<noteq> ''ETH''" using assms None by (auto simp: contract_inv_def)
      moreover have "length (ctTokens r) = length (ctAssets r)"
        using assms by (simp add: contract_inv_def)
      ultimately have "Token (put_asset s (Some token, asset) r) s = Done (Some token)"
        by (simp add: Token_def isSymbolRegistered_def put_asset_def Let_def update_conv nth_append)
      with r' free new Inr sd None show ?thesis
        by (simp add: RegisterAssetERC20_def Symbol_def Adjudicator_def isSymbolRegistered_def)
    qed
  qed
qed

definition sample_eth :: eth_lib where
  "sample_eth = \<lparr>elNewPerunToken = (\<lambda>a. None), elSymbol = (\<lambda>a. Inr ''NEW''),
     elDecimals = (\<lambda>a. Inr 6), elValidateAdjudicator = (\<lambda>a. None),
     elValidateAssetHolderETH = (\<lambda>a b. None), elValidateAssetHolderERC20 = (\<lambda>a b c. None),
     elIsErrInvalidContractCode = (\<lambda>e. False)\<rparr>"

theorem RegisterAssetERC20_spec_witness:
  "\<exists>r'. RegisterAssetERC20 sample_eth hex_addr_lib 7 8 sample_contracts = Done (Inr (''NEW'', 6), r')
     \<and> asset_of r' ''NEW'' = Some 8"
proof -
  have "\<exists>r'. RegisterAssetERC20 sample_eth hex_addr_lib 7 8 sample_contracts = Done (Inr (''NEW'', 6), r')"
    by (simp add: RegisterAssetERC20_def sample_contracts_def isAssetRegistered_def sample_eth_def
        ValidateAssetERC20_def ERC20Info_def isSymbolRegistered_def)
  then show ?thesis
    using RegisterAssetERC20_spec [OF contract_inv_sample, of sample_eth hex_addr_lib 7 8] by auto
qed

end
