(* ===== verification/Client.thy ===== *)
theory Client
  imports Channel ID_Provider Contracts
begin

text \<open>
  \<^verbatim>\<open>session/client.go\<close> and \<^verbatim>\<open>session/user.go\<close>: the channel client of a session, a wrapper around
  the client of go-perun that also manages the message bus and the database, and the user
  whose accounts it uses.

  Everything a session relies on beyond the repository, the client of go-perun, its message
  bus, the database, the funder, the wallets and the blockchain, is one state of type \<open>'w\<close>,
  and their methods are the fields of \<open>sdk\<close>: each takes the state and returns the new one
  with its results. A method that waits for others gets the timeout of its context.
\<close>

subsection \<open>What a session relies on\<close>

text \<open>A ledger channel proposal of go-perun, as far as the node reads it.\<close>

record ledger_proposal =
  lpProposalID :: "8 word list"
  lpChallengeDuration :: "64 word"
  lpParticipant :: "address option"
  lpPeers :: "address option list"
  lpApp :: ref
  lpInitData :: ref
  lpAssets :: "address list"
  lpBalances :: "int list list"

record allocation =
  alAssets :: "address list"
  alBalances :: "int list list"

record ('p, 'w) sdk =
  sdWalletUnlock :: "ref \<Rightarrow> address option \<Rightarrow> goerr + address"
  sdNewClient :: "address \<Rightarrow> 'w \<Rightarrow> goerr option \<times> 'w"
  sdNewListener :: "string \<Rightarrow> 'w \<Rightarrow> goerr option \<times> 'w"
  sdRegister :: "address option \<Rightarrow> string \<Rightarrow> 'w \<Rightarrow> 'w"
  sdHandle :: "'w \<Rightarrow> 'w"
  sdNewProposal :: "64 word \<Rightarrow> address option \<Rightarrow> allocation \<Rightarrow> address option list \<Rightarrow> app \<Rightarrow> 'w
     \<Rightarrow> (goerr + ledger_proposal) \<times> 'w"
  sdProposeChannel :: "duration \<Rightarrow> ledger_proposal \<Rightarrow> 'w \<Rightarrow> (goerr + 'p) \<times> 'w"
  sdProposalAcc :: "ledger_proposal \<Rightarrow> address option \<Rightarrow> 'w \<Rightarrow> ref \<times> 'w"
  sdAccept :: "duration \<Rightarrow> ref \<Rightarrow> ref \<Rightarrow> 'w \<Rightarrow> (goerr + 'p) \<times> 'w"
  sdReject :: "duration \<Rightarrow> ref \<Rightarrow> string \<Rightarrow> 'w \<Rightarrow> goerr option \<times> 'w"
  sdRejectUpdate :: "ref \<Rightarrow> string \<Rightarrow> 'w \<Rightarrow> goerr option \<times> 'w"
  sdLoadDatabase :: "string \<Rightarrow> 'w \<Rightarrow> (goerr + ref) \<times> 'w"
  sdEnablePersistence :: "ref \<Rightarrow> 'w \<Rightarrow> 'w"
  sdRestore :: "duration \<Rightarrow> 'w \<Rightarrow> 'p list \<times> goerr option \<times> 'w"
  sdClientClose :: "'w \<Rightarrow> goerr option \<times> 'w"
  sdBusClose :: "'w \<Rightarrow> goerr option \<times> 'w"
  sdGoroutinesReturn :: "'w \<Rightarrow> bool"
  sdDbClose :: "ref \<Rightarrow> 'w \<Rightarrow> goerr option \<times> 'w"
  sdLockAll :: "ref \<Rightarrow> 'w \<Rightarrow> 'w"
  sdNewFunder :: "address \<Rightarrow> address option \<Rightarrow> 'w \<Rightarrow> 'w"
  sdIsAssetRegistered :: "address \<Rightarrow> 'w \<Rightarrow> bool"
  sdRegisterAsset :: "address \<Rightarrow> address option \<Rightarrow> address option \<Rightarrow> 'w \<Rightarrow> bool \<times> 'w"
  sdDeployAssetERC20 :: "address \<Rightarrow> address \<Rightarrow> address option \<Rightarrow> 'w \<Rightarrow> (goerr + address) \<times> 'w"
  sdDialChain :: "string \<Rightarrow> duration \<Rightarrow> goerr option"
  sdUnlockKeystore :: "string \<Rightarrow> address option \<Rightarrow> string \<Rightarrow> goerr option"
  sdNewKeystoreWallet :: "string \<Rightarrow> string \<Rightarrow> goerr option"
  sdReadIDFile :: "string \<Rightarrow> goerr + (string \<times> peer_id) list"
  sdAddrBytes :: "address option \<Rightarrow> 8 word list"
  sdSha256 :: "8 word list \<Rightarrow> 8 word list"

subsection \<open>The user\<close>

record wallet_config =
  wcKeystorePath :: string
  wcPassword :: string

record user_config =
  ucAlias :: string
  ucOnChainAddr :: string
  ucOnChainWallet :: wallet_config
  ucPartAddrs :: "string list"
  ucOffChainAddr :: string
  ucOffChainWallet :: wallet_config
  ucCommAddr :: string
  ucCommType :: string

record credential =
  crAddr :: "address option"
  crWallet :: ref
  crKeystore :: string
  crPassword :: string

record user =
  usPeerID :: peer_id
  usOnChain :: credential
  usOffChain :: credential

definition newCred :: "wallet_lib \<Rightarrow> wallet_backend \<Rightarrow> wallet_config \<Rightarrow> address \<Rightarrow> goerr + credential" where
  "newCred W wb cfg addr =
     (case NewWallet W wb (wcKeystorePath cfg) (wcPassword cfg) of
        Inl e \<Rightarrow> Inl e
      | Inr w \<Rightarrow>
          (case UnlockAccount W w addr of
             Some e \<Rightarrow> Inl e
           | None \<Rightarrow> Inr \<lparr>crAddr = Some addr, crWallet = w, crKeystore = wcKeystorePath cfg,
                crPassword = wcPassword cfg\<rparr>))"

definition wallet_value :: "wallet_config \<Rightarrow> string" where
  "wallet_value cfg = wcKeystorePath cfg @ '', '' @ wcPassword cfg"

definition NewUnlockedUser :: "addr_lib \<Rightarrow> wallet_lib \<Rightarrow> wallet_backend \<Rightarrow> user_config \<Rightarrow> api_err + user" where
  "NewUnlockedUser L W wb cfg =
     (case ParseAddr L (ucOnChainAddr cfg) of
        Inl e \<Rightarrow> Inl (NewAPIErrInvalidConfig e ''onChainAddr'' (ucOnChainAddr cfg))
      | Inr onChainAddr \<Rightarrow>
     (case ParseAddr L (ucOffChainAddr cfg) of
        Inl e \<Rightarrow> Inl (NewAPIErrInvalidConfig e ''offChainAddr'' (ucOffChainAddr cfg))
      | Inr offChainAddr \<Rightarrow>
     (case newCred W wb (ucOnChainWallet cfg) onChainAddr of
        Inl e \<Rightarrow> Inl (NewAPIErrInvalidConfig e ''onChainWallet'' (wallet_value (ucOnChainWallet cfg)))
      | Inr onChain \<Rightarrow>
     (case newCred W wb (ucOffChainWallet cfg) offChainAddr of
        Inl e \<Rightarrow> Inl (NewAPIErrInvalidConfig e ''offChainWallet'' (wallet_value (ucOffChainWallet cfg)))
      | Inr offChain \<Rightarrow> Inr
          \<lparr>usPeerID = \<lparr>pAlias = OwnAlias, pOffChainAddr = crAddr offChain,
              pOffChainAddrString = alString L offChainAddr, pCommAddr = ucCommAddr cfg,
              pCommType = ucCommType cfg\<rparr>,
           usOnChain = onChain, usOffChain = offChain\<rparr>))))"

lemma newCred_addr: "newCred W wb cfg a = Inr c \<Longrightarrow> crAddr c = Some a"
  by (auto simp: newCred_def split: sum.splits option.splits)

text \<open>The peer ID of an unlocked user passes the checks of the ID provider.\<close>

lemma NewUnlockedUser_peer:
  assumes "addr_ok L" and "NewUnlockedUser L W wb cfg = Inr u"
  shows "pAlias (usPeerID u) = OwnAlias \<and> parsed_peer L (usPeerID u)
    \<and> pOffChainAddr (usPeerID u) = crAddr (usOffChain u) \<and> pCommType (usPeerID u) = ucCommType cfg"
  using assms by (auto simp: NewUnlockedUser_def parsed_peer_def ParseAddr_String
      dest!: newCred_addr split: sum.splits)

lemma NewUnlockedUser_api_ok: "NewUnlockedUser L W wb cfg = Inl ae \<Longrightarrow> api_ok ae"
  by (auto simp: NewUnlockedUser_def split: sum.splits)

subsection \<open>The client\<close>

text \<open>
  The client's own state: the database connection, nil until \<open>RestoreChs\<close> has loaded one, and
  whether the handler for new channels is that of the session or the dummy.
\<close>

record client =
  clDbConn :: "ref option"
  clRestoring :: bool

definition newEthereumPaymentClient ::
  "('p, 'w) sdk \<Rightarrow> string \<Rightarrow> credential \<Rightarrow> 'w \<Rightarrow> (api_err + client) \<times> 'w" where
  "newEthereumPaymentClient S commAddr offChainCred w =
     (case sdWalletUnlock S (crWallet offChainCred) (crAddr offChainCred) of
        Inl e \<Rightarrow> (Inl (NewAPIErrUnknownInternal (EWith e ''off-chain account'')), w)
      | Inr offChainAcc \<Rightarrow>
     (case sdNewClient S offChainAcc w of
        (Some e, w1) \<Rightarrow> (Inl (NewAPIErrUnknownInternal (EWith e ''off-chain account'')), w1)
      | (None, w1) \<Rightarrow>
     (case sdNewListener S commAddr w1 of
        (Some e, w2) \<Rightarrow> (Inl (NewAPIErrInvalidConfig e ''commAddr'' commAddr), w2)
      | (None, w2) \<Rightarrow> (Inr \<lparr>clDbConn = None, clRestoring = False\<rparr>, w2))))"

definition client_Register :: "('p, 'w) sdk \<Rightarrow> address option \<Rightarrow> string \<Rightarrow> 'w \<Rightarrow> 'w" where
  "client_Register S offChainAddr commAddr w = sdRegister S offChainAddr commAddr w"

definition client_Handle :: "('p, 'w) sdk \<Rightarrow> 'w \<Rightarrow> 'w" where
  "client_Handle S w = sdHandle S w"

text \<open>
  \<open>RestoreChs\<close> up to the call of \<open>Restore\<close>, and after it. In between go-perun calls the handler
  on every controller it restores, in order.
\<close>

definition RestoreChs_load ::
  "('p, 'w) sdk \<Rightarrow> string \<Rightarrow> client \<Rightarrow> 'w \<Rightarrow> goerr option \<times> client \<times> 'w" where
  "RestoreChs_load S databaseDir c w =
     (let c1 = c\<lparr>clRestoring := True\<rparr>
      in case sdLoadDatabase S databaseDir w of
           (Inl e, w1) \<Rightarrow> (Some (EWith e (''initializing persistence database in dir - '' @ databaseDir)), c1, w1)
         | (Inr db, w1) \<Rightarrow> (None, c1\<lparr>clDbConn := Some db\<rparr>, sdEnablePersistence S db w1))"

definition RestoreChs_done :: "client \<Rightarrow> client" where
  "RestoreChs_done c = c\<lparr>clRestoring := False\<rparr>"

definition client_Close :: "('p, 'w) sdk \<Rightarrow> client \<Rightarrow> 'w \<Rightarrow> (goerr option \<times> 'w) run" where
  "client_Close S c w =
     (case sdClientClose S w of
        (Some e, w1) \<Rightarrow> Done (Some (EWith e ''closing channel client''), w1)
      | (None, w1) \<Rightarrow>
     (case sdBusClose S w1 of
        (Some e, w2) \<Rightarrow> Done (Some (EWith e ''closing message bus''), w2)
      | (None, w2) \<Rightarrow>
          if \<not> sdGoroutinesReturn S w2 then Blocked
          else (case clDbConn c of
                  None \<Rightarrow> Panic NilDereference
                | Some db \<Rightarrow> (case sdDbClose S db w2 of
                    (err, w3) \<Rightarrow> Done (map_option (\<lambda>e. EWith e ''closing persistence database'') err, w3)))))"

lemma newEthereumPaymentClient_api_ok:
  "newEthereumPaymentClient S commAddr cred w = (Inl ae, w') \<Longrightarrow> api_ok ae"
  by (auto simp: newEthereumPaymentClient_def split: sum.splits prod.splits option.splits)

subsection \<open>The blockchain backend\<close>

text \<open>\<open>NewChainBackend\<close> of \<^verbatim>\<open>blockchain/ethereum/chain.go\<close>, up to its error.\<close>

definition NewChainBackend ::
  "('p, 'w) sdk \<Rightarrow> addr_lib \<Rightarrow> string \<Rightarrow> duration \<Rightarrow> credential \<Rightarrow> goerr option" where
  "NewChainBackend S L url chainConnTimeout cred =
     (case sdDialChain S url chainConnTimeout of
        Some e \<Rightarrow> Some (EWith e (''connecting to ethereum node at '' @ url))
      | None \<Rightarrow>
     (case sdUnlockKeystore S (crKeystore cred) (crAddr cred) (crPassword cred) of
        Some e \<Rightarrow> Some (EWith e (''unlocking on-chain keystore for addr - '' @
          (case crAddr cred of Some a \<Rightarrow> alString L a | None \<Rightarrow> [])))
      | None \<Rightarrow> sdNewKeystoreWallet S (crKeystore cred) (crPassword cred)))"

text \<open>
  The funder of \<^verbatim>\<open>blockchain/ethereum/internal/chain.go\<close>: an asset that is not an ethereum
  address, here the nil address, is not registered.
\<close>

definition IsAssetRegistered :: "('p, 'w) sdk \<Rightarrow> address option \<Rightarrow> 'w \<Rightarrow> bool" where
  "IsAssetRegistered S asset w =
     (case asset of None \<Rightarrow> False | Some a \<Rightarrow> sdIsAssetRegistered S a w)"

definition funder_RegisterAssetERC20 ::
  "('p, 'w) sdk \<Rightarrow> address option \<Rightarrow> address option \<Rightarrow> address option \<Rightarrow> 'w \<Rightarrow> bool \<times> 'w" where
  "funder_RegisterAssetERC20 S asset token onChainAcc w =
     (case asset of None \<Rightarrow> (False, w) | Some a \<Rightarrow> sdRegisterAsset S a token onChainAcc w)"

definition DeployAssetERC20 ::
  "('p, 'w) sdk \<Rightarrow> address \<Rightarrow> address \<Rightarrow> address option \<Rightarrow> 'w \<Rightarrow> (goerr + address) \<times> 'w" where
  "DeployAssetERC20 S adj tokenERC20 txSender w =
     (case sdDeployAssetERC20 S adj tokenERC20 txSender w of
        (Inl e, w1) \<Rightarrow> (Inl (EWith e ''deploying asset ERC20 contract''), w1)
      | (Inr a, w1) \<Rightarrow> (Inr a, w1))"

end
