(* ===== verification/Channel_Safety.thy ===== *)
theory Channel_Safety
  imports Channel
begin

text \<open>
  The behaviour of a channel over time: a step relation with one rule for each operation of
  \<^verbatim>\<open>session/channel.go\<close>, one for what go-perun does to the controller on its own, and two for
  the lock that \<open>Session.Close\<close> takes; the invariant in every reachable state; what closing
  guarantees; and the contract of the operations that answer the user.
\<close>

subsection \<open>A simulated controller\<close>

text \<open>
  What is relied on of the controller, where a property depends on it: an update that
  succeeds installs the state the updater made, with the next version, and an update that
  fails leaves the state as it was; accepting an update, registering, settling and closing do
  not make up balances.
\<close>

definition pchannel_ok :: "'p pchannel_api \<Rightarrow> bool" where
  "pchannel_ok P \<longleftrightarrow>
     (\<forall>d u p p'. pUpdateBy P d u p = Done (p', None) \<longrightarrow>
        (\<exists>st. u (pState P p) = Done (st, None) \<and>
              pState P p' = st\<lparr>psVersion := psVersion (pState P p) + 1\<rparr>)) \<and>
     (\<forall>d u p p' e. pUpdateBy P d u p = Done (p', Some e) \<longrightarrow> pState P p' = pState P p) \<and>
     (\<forall>d p. pState P (fst (pRegister P d p)) = pState P p) \<and>
     (\<forall>d b p. pState P (fst (pSettle P d b p)) = pState P p) \<and>
     (\<forall>p. pState P (fst (pClose P p)) = pState P p)"

definition sim_api :: "pstate pchannel_api" where
  "sim_api = \<lparr>pID = psID, pIdx = (\<lambda>p. 0), pPhase = (\<lambda>p. Acting), pState = (\<lambda>p. p),
     pPeers = (\<lambda>p. [Some 5, Some 6]), pChallengeDuration = (\<lambda>p. 10),
     pUpdateBy = (\<lambda>d u p. andThen (u p) (\<lambda>(st, err).
        Done (case err of None \<Rightarrow> (st\<lparr>psVersion := psVersion p + 1\<rparr>, None) | Some e \<Rightarrow> (p, Some e)))),
     pRegister = (\<lambda>d p. (p, None)), pSettle = (\<lambda>d b p. (p, None)), pClose = (\<lambda>p. (p, None)),
     pWatchReturned = (\<lambda>p. True),
     rAccept = (\<lambda>d r p. (p\<lparr>psVersion := psVersion p + 1\<rparr>, None)),
     rReject = (\<lambda>d r s p. (p, None))\<rparr>"

lemma sim_api_ok: "pchannel_ok sim_api"
  by (auto simp: pchannel_ok_def sim_api_def run_simps split: option.splits)

definition sim_state :: pstate where
  "sim_state = \<lparr>psID = [1, 2], psVersion = 0, psApp = 0, psData = 0, psAssets = [2],
     psBalances = [[10, 20]], psIsFinal = False\<rparr>"

definition sim_currency :: currency_if where
  "sim_currency = \<lparr>cuParse = (\<lambda>s. Inr (read_int s)), cuPrint = show_int, cuSymbol = ''ETH''\<rparr>"

definition sim_channel :: "(pstate, 'ev) channel" where
  "sim_channel = newCh sim_api sim_state ''ws://chain'' [sim_currency] [''self'', ''bob'']
     \<lparr>tcOnChainTx = 10 * Second, tcResponse = 10 * Second\<rparr> 10"

text \<open>The channel of the examples after it was settled, and while an update waits for the user.\<close>

definition sim_closed :: "(pstate, 'ev) channel" where
  "sim_closed = sim_channel\<lparr>chStatus := StatusClosed\<rparr>"

definition sim_upd_entry :: upd_entry where
  "sim_upd_entry = \<lparr>ueNotif = \<lparr>cunUpdateID = ''0102_1'', cunCurrChInfo = nil_ch_info,
       cunProposedChInfo = nil_ch_info, cunType = ChUpdateTypeOpen, cunExpiry = 5, cunError = None\<rparr>,
     ueResponder = 3, ueNotifExpiry = 5\<rparr>"

definition sim_waiting_ch :: "(pstate, 'ev) channel" where
  "sim_waiting_ch = sim_channel\<lparr>chResponders := [''0102_1'' \<mapsto> sim_upd_entry]\<rparr>"

lemma sim_channel_sel:
  "\<not> chLocked sim_channel" "chStatus sim_channel = StatusOpen" "chPch sim_channel = sim_state"
  "chNotifier sim_channel = None" "chParts sim_channel = [''self'', ''bob'']"
  "chCurrencies sim_channel = [sim_currency]" "chResponders sim_channel = Map.empty"
  by (simp_all add: sim_channel_def newCh_def)

lemma sim_settled:
  "HandleAdjudicatorEvent sim_api (RegisteredEvent None) sim_channel = Done ((), sim_closed)"
  by (simp add: HandleAdjudicatorEvent_def with_lock_def sim_channel_sel settle_def closeAndNotify_def
      close_resources_def Let_def sim_closed_def)
    (simp add: sim_api_def sim_channel_sel sim_state_def close_resources_def Let_def; simp add: sim_channel_def newCh_def sim_api_def sim_state_def)

lemma sim_channel_info:
  assumes "length (psBalances (chPch ch)) \<le> 1" and "chCurrencies ch = [sim_currency]"
  obtains i where "getChInfo sim_api ch = Done i"
  using assms makeBalInfo_returns [of "chParts ch" "chCurrencies ch" "psBalances (chPch ch)"]
  by (auto simp: getChInfo_def makeChInfo_def makeBalInfoFromState_def sim_api_def returns_iff)

definition sim_answered_ch :: "(pstate, 'ev) channel" where
  "sim_answered_ch = sim_waiting_ch
     \<lparr>chResponders := Map.empty, chPch := sim_state\<lparr>psVersion := 1\<rparr>, chLocked := False\<rparr>"

lemma sim_respond:
  "\<exists>i. RespondChUpdate sim_api 0 ''0102_1'' True (sim_waiting_ch :: (pstate, 'ev) channel)
     = Done ((i, None), sim_answered_ch)"
proof -
  let ?ch = "(sim_waiting_ch :: (pstate, 'ev) channel)\<lparr>chLocked := True, chResponders := Map.empty\<rparr>"
  let ?ch' = "?ch\<lparr>chPch := sim_state\<lparr>psVersion := 1\<rparr>\<rparr>"
  have ch: "\<not> chLocked (sim_waiting_ch :: (pstate, 'ev) channel)"
    "chStatus (sim_waiting_ch :: (pstate, 'ev) channel) = StatusOpen"
    "chResponders (sim_waiting_ch :: (pstate, 'ev) channel) = [''0102_1'' \<mapsto> sim_upd_entry]"
    by (simp_all add: sim_waiting_ch_def sim_channel_sel)
  have answer: "answerUpdate sim_api 0 sim_upd_entry True ?ch = (None, ?ch')"
    by (simp add: answerUpdate_def acceptChUpdate_def sim_upd_entry_def unix_def Let_def sim_waiting_ch_def
        sim_channel_sel) (simp add: sim_api_def sim_state_def)
  obtain i where i: "getChInfo sim_api ?ch' = Done i"
    by (rule sim_channel_info [of ?ch']) (simp_all add: sim_state_def sim_waiting_ch_def sim_channel_sel)
  have "RespondChUpdate sim_api 0 ''0102_1'' True (sim_waiting_ch :: (pstate, 'ev) channel)
      = Done ((i, None), ?ch'\<lparr>chLocked := False\<rparr>)"
    using ch answer i by (simp add: RespondChUpdate_def with_lock_def with_info_def)
  then show ?thesis by (simp add: sim_answered_ch_def)
qed

lemma sim_respond_again:
  "\<exists>i ae ch'. RespondChUpdate sim_api now uid acc (sim_answered_ch :: (pstate, 'ev) channel) = Done ((i, ae), ch')"
proof -
  have ch: "\<not> chLocked (sim_answered_ch :: (pstate, 'ev) channel)"
    "chStatus (sim_answered_ch :: (pstate, 'ev) channel) = StatusOpen"
    "chResponders (sim_answered_ch :: (pstate, 'ev) channel) = Map.empty"
    by (simp_all add: sim_answered_ch_def sim_waiting_ch_def sim_channel_sel)
  obtain i where "getChInfo sim_api ((sim_answered_ch :: (pstate, 'ev) channel)\<lparr>chLocked := True\<rparr>) = Done i"
    by (rule sim_channel_info [of "sim_answered_ch\<lparr>chLocked := True\<rparr>"])
       (simp_all add: sim_answered_ch_def sim_state_def sim_waiting_ch_def sim_channel_sel)
  with ch show ?thesis by (simp add: RespondChUpdate_def with_lock_def with_info_def)
qed

subsection \<open>Steps\<close>

inductive ch_step :: "'p pchannel_api \<Rightarrow> ('p, 'ev) channel \<Rightarrow> ('p, 'ev) channel \<Rightarrow> bool"
  for P :: "'p pchannel_api" where
  get_info: "GetChInfo P ch = Done (r, ch') \<Longrightarrow> ch_step P ch ch'"
| send_update: "SendChUpdate P u ch = Done (r, ch') \<Longrightarrow> ch_step P ch ch'"
| handle_update: "ch_HandleUpdate now cur prop resp ch = Done (r, ch') \<Longrightarrow> ch_step P ch ch'"
| subscribe: "SubChUpdates f ch = Done (r, ch') \<Longrightarrow> ch_step P ch ch'"
| unsubscribe: "UnsubChUpdates ch = Done (r, ch') \<Longrightarrow> ch_step P ch ch'"
| respond: "RespondChUpdate P now uid acc ch = Done (r, ch') \<Longrightarrow> ch_step P ch ch'"
| close: "ch_Close P ch = Done (r, ch') \<Longrightarrow> ch_step P ch ch'"
| adjudicator: "HandleAdjudicatorEvent P e ch = Done (r, ch') \<Longrightarrow> ch_step P ch ch'"
| controller: "ch_step P ch (ch\<lparr>chPch := p\<rparr>)"
| lock: "\<not> chLocked ch \<Longrightarrow> ch_step P ch (ch\<lparr>chLocked := True\<rparr>)"
| unlock: "chLocked ch \<Longrightarrow> ch_step P ch (ch\<lparr>chLocked := False\<rparr>)"

inductive_cases ch_stepE: "ch_step P ch ch'"

lemma ch_step_evolves: "ch_step P ch ch' \<Longrightarrow> evolves ch ch'"
  by (induction rule: ch_step.induct) (auto dest: op_evolves)

lemma ch_steps_evolve: "(ch_step P)\<^sup>*\<^sup>* ch ch' \<Longrightarrow> evolves ch ch'"
  by (induction rule: rtranclp_induct) (auto intro: evolves_trans ch_step_evolves)

lemma ch_reachable:
  assumes "(ch_step P)\<^sup>*\<^sup>* (newCh P pch url cs parts cfg dur) ch"
  shows "ch_inv ch" and "same_params (newCh P pch url cs parts cfg dur) ch"
  using ch_steps_evolve [OF assms] by (simp_all add: evolves_def)

subsection \<open>The contract of subscriptions\<close>

definition ch_subscribe :: "(ch_update_notif \<Rightarrow> 'ev) \<Rightarrow> ('p, 'ev) channel \<Rightarrow> ('p, 'ev) channel" where
  "ch_subscribe f ch =
     (if chNotifier ch \<noteq> None then ch
      else ch\<lparr>chNotifier := Some f, chNotifCache := [], chOut := chOut ch @ map f (chNotifCache ch)\<rparr>)"

interpretation chsub: subscription chNotifier chNotifCache chOut ch_subscribe unsubChUpdates sendChUpdateNotif
  by unfold_locales (simp_all add: ch_subscribe_def unsubChUpdates_def sendChUpdateNotif_def)

lemma channel_unlocked_id: "\<not> chLocked ch \<Longrightarrow> ch\<lparr>chLocked := False\<rparr> = ch"
  by (cases ch) simp

lemma SubChUpdates_Done:
  "SubChUpdates f ch = Done (None, ch') \<longleftrightarrow> \<not> chLocked ch \<and> chStatus ch = StatusOpen
     \<and> chNotifier ch = None \<and> ch' = ch_subscribe f ch"
  by (cases ch; cases "chStatus ch")
     (auto simp: SubChUpdates_def run_simps flush_loop_all ch_subscribe_def)

subsection \<open>Properties\<close>

text \<open>
  C7: in every state that a channel can reach, whatever the order of the user's requests, of
  the messages of the peer, of the events of the blockchain and of the changes go-perun makes
  to the controller, the invariant of the channel holds and its parameters are those it was
  made with.
\<close>

theorem reachable_channel_inv:
  assumes "(ch_step P)\<^sup>*\<^sup>* (newCh P pch url cs parts cfg dur) ch"
  shows "ch_inv ch \<and> chID ch = hex_bytes (pID P pch) \<and> chCurrencies ch = cs \<and> chParts ch = parts
    \<and> chTimeoutCfg ch = cfg \<and> chChallengeDurSecs ch = dur"
  using ch_reachable [OF assms] by (simp add: same_params_def newCh_def)

theorem reachable_channel_inv_witness:
  "ch_inv ((sim_channel :: (pstate, nat) channel)\<lparr>chLocked := True\<rparr>)"
proof -
  have "ch_step sim_api (sim_channel :: (pstate, nat) channel) (sim_channel\<lparr>chLocked := True\<rparr>)"
    by (rule ch_step.lock) (simp add: sim_channel_def newCh_def)
  from reachable_channel_inv [OF r_into_rtranclp [of "ch_step sim_api", OF this [unfolded sim_channel_def]]]
  show ?thesis by (simp add: sim_channel_def)
qed

text \<open>
  C8: a closed channel stays closed. Whatever happens afterwards, no notification is sent or
  cached, no response is awaited and nobody is subscribed.
\<close>

theorem closed_channel_is_final:
  assumes "(ch_step P)\<^sup>*\<^sup>* (newCh P pch url cs parts cfg dur) ch" and "chStatus ch = StatusClosed"
    and "(ch_step P)\<^sup>*\<^sup>* ch ch'"
  shows "chStatus ch' = StatusClosed \<and> chOut ch' = chOut ch \<and> chNotifCache ch' = chNotifCache ch
    \<and> chResponders ch' = chResponders ch \<and> chNotifier ch' = None"
proof -
  have inv: "ch_inv ch" by (rule ch_reachable(1) [OF assms(1)])
  with ch_steps_evolve [OF assms(3)] assms(2) have "frozen ch ch'"
    by (simp add: evolves_def)
  moreover from inv assms(2) have "chNotifier ch = None"
    by (simp add: ch_inv_def)
  ultimately show ?thesis
    using assms(2) by (simp add: frozen_def)
qed

theorem closed_channel_is_final_witness:
  "chStatus ((sim_closed :: (pstate, nat) channel)\<lparr>chLocked := True\<rparr>) = StatusClosed"
proof -
  have run: "ch_step sim_api sim_channel (sim_closed :: (pstate, nat) channel)"
    by (rule ch_step.adjudicator [OF sim_settled])
  have cl: "chStatus (sim_closed :: (pstate, nat) channel) = StatusClosed" "\<not> chLocked (sim_closed :: (pstate, nat) channel)"
    by (simp_all add: sim_closed_def sim_channel_sel)
  have "ch_step sim_api (sim_closed :: (pstate, nat) channel) (sim_closed\<lparr>chLocked := True\<rparr>)"
    by (rule ch_step.lock) (rule cl)
  from closed_channel_is_final [OF r_into_rtranclp [of "ch_step sim_api", OF run [unfolded sim_channel_def]] cl(1)
      r_into_rtranclp [of "ch_step sim_api", OF this]]
  show ?thesis by simp
qed

text \<open>
  the notifications of channel updates. Whatever arrives while nobody is subscribed is
  kept; a subscription that succeeds sends it, oldest first, and what arrives later is sent
  on arrival: nothing is lost, repeated or reordered, and the cache is empty afterwards.
\<close>

theorem no_update_notification_lost:
  assumes "SubChUpdates f (fold sendChUpdateNotif ns ch) = Done (None, ch1)"
    and "chNotifier ch = None"
  shows "chOut (fold sendChUpdateNotif ms ch1) = chOut ch @ map f (chNotifCache ch @ ns @ ms)
    \<and> chNotifCache (fold sendChUpdateNotif ms ch1) = []"
  using chsub.no_notification_lost [OF assms(2), of ms f ns] assms(1)
  by (simp add: SubChUpdates_Done)

definition sim_notif :: ch_update_notif where
  "sim_notif = makeChCloseNotif nil_ch_info None"

theorem no_update_notification_lost_witness:
  "chOut (fold sendChUpdateNotif [sim_notif] (ch_subscribe (\<lambda>n. 7 :: nat)
      (fold sendChUpdateNotif [sim_notif] sim_channel))) = [7, 7]"
proof -
  have "SubChUpdates (\<lambda>n. 7 :: nat) (fold sendChUpdateNotif [sim_notif] sim_channel)
    = Done (None, ch_subscribe (\<lambda>n. 7 :: nat) (fold sendChUpdateNotif [sim_notif] sim_channel))"
    unfolding SubChUpdates_Done by (simp add: sim_channel_def newCh_def sendChUpdateNotif_def)
  from no_update_notification_lost [OF this, of "[sim_notif]"] show ?thesis
    by (simp add: sim_channel_def newCh_def)
qed

text \<open>
  C9: answering an update of the peer, on every branch. An unknown ID changes nothing. A
  known one is used up, whatever happens next: an answer that comes after the expiry is
  refused without a call to the SDK; an answer in time is passed to the responder of this
  update, and an accepted final update is registered on the blockchain when, and only when,
  accepting it succeeded.
\<close>

theorem RespondChUpdate_spec:
  assumes "RespondChUpdate P now u acc ch = Done ((i, ae), ch')" and "chStatus ch = StatusOpen"
  shows "case chResponders ch u of
      None \<Rightarrow> ae = Some (NewAPIErrResourceNotFound ResTypeUpdate u) \<and> ch' = ch
    | Some e \<Rightarrow>
        (let d = respChUpdate (chTimeoutCfg ch);
             accepted = rAccept P d (ueResponder e) (chPch ch);
             registered = pRegister P (register_timeout (chTimeoutCfg ch) (chChallengeDurSecs ch)) (fst accepted);
             rejected = rReject P d (ueResponder e) ''rejected by user'' (chPch ch)
         in ch' = ch\<lparr>chResponders := (chResponders ch)(u := None), chPch := chPch ch'\<rparr> \<and>
           (if ueNotifExpiry e < unix now
            then ae \<noteq> None \<and> chPch ch' = chPch ch
            else if acc
            then (if snd accepted = None \<and> cunType (ueNotif e) = ChUpdateTypeFinal
                  then chPch ch' = fst registered \<and> (ae = None \<longleftrightarrow> snd registered = None)
                  else chPch ch' = fst accepted \<and> (ae = None \<longleftrightarrow> snd accepted = None))
            else chPch ch' = fst rejected \<and> (ae = None \<longleftrightarrow> snd rejected = None)))"
proof (cases "chResponders ch u")
  case None
  with RespondChUpdate_Done [OF assms(1)] assms(2) show ?thesis by simp
next
  case (Some e)
  with RespondChUpdate_Done [OF assms(1)] assms(2) show ?thesis
    by (simp add: answer_pch_def Let_def)
qed

theorem RespondChUpdate_spec_witness:
  "\<exists>i. RespondChUpdate sim_api 0 ''0102_1'' True (sim_waiting_ch :: (pstate, nat) channel)
      = Done ((i, None), sim_answered_ch)
     \<and> rAccept sim_api (respChUpdate (chTimeoutCfg (sim_waiting_ch :: (pstate, nat) channel))) 3 sim_state
      = (chPch (sim_answered_ch :: (pstate, nat) channel), None)"
proof -
  obtain i where run: "RespondChUpdate sim_api 0 ''0102_1'' True (sim_waiting_ch :: (pstate, nat) channel)
      = Done ((i, None), sim_answered_ch)"
    using sim_respond by blast
  have "chStatus (sim_waiting_ch :: (pstate, nat) channel) = StatusOpen"
    and r: "chResponders (sim_waiting_ch :: (pstate, nat) channel) = [''0102_1'' \<mapsto> sim_upd_entry]"
    and p: "chPch (sim_waiting_ch :: (pstate, nat) channel) = sim_state"
    by (simp_all add: sim_waiting_ch_def sim_channel_sel)
  from RespondChUpdate_spec [OF run this(1)] r p
  have "rAccept sim_api (respChUpdate (chTimeoutCfg (sim_waiting_ch :: (pstate, nat) channel))) 3 sim_state
      = (chPch (sim_answered_ch :: (pstate, nat) channel), None)"
    by (simp add: Let_def sim_upd_entry_def unix_def prod_eq_iff)
  with run show ?thesis by blast
qed

text \<open>
  no update is answered twice: after a response the same update ID is unknown, until the
  peer proposes it again.
\<close>

theorem update_answered_once:
  assumes "RespondChUpdate P now u acc ch = Done ((i, ae), ch')" and "chStatus ch = StatusOpen"
    and "RespondChUpdate P now' u acc' ch' = Done ((i', ae'), ch'')"
  shows "ae' = Some (NewAPIErrResourceNotFound ResTypeUpdate u) \<and> ch'' = ch'"
proof -
  from RespondChUpdate_Done [OF assms(1)] assms(2)
  have "chResponders ch' u = None" and "chStatus ch' = StatusOpen"
    by (auto split: option.splits)
  with RespondChUpdate_Done [OF assms(3)] show ?thesis by simp
qed

theorem update_answered_once_witness:
  "\<exists>i i'. RespondChUpdate sim_api 0 ''0102_1'' True (sim_waiting_ch :: (pstate, nat) channel)
      = Done ((i, None), sim_answered_ch)
     \<and> RespondChUpdate sim_api 0 ''0102_1'' True (sim_answered_ch :: (pstate, nat) channel)
      = Done ((i', Some (NewAPIErrResourceNotFound ResTypeUpdate ''0102_1'')), sim_answered_ch)"
proof -
  obtain i where run: "RespondChUpdate sim_api 0 ''0102_1'' True (sim_waiting_ch :: (pstate, nat) channel)
      = Done ((i, None), sim_answered_ch)"
    using sim_respond by blast
  obtain i' ae ch' where again:
    "RespondChUpdate sim_api 0 ''0102_1'' True (sim_answered_ch :: (pstate, nat) channel) = Done ((i', ae), ch')"
    using sim_respond_again by blast
  have "chStatus (sim_waiting_ch :: (pstate, nat) channel) = StatusOpen"
    by (simp add: sim_waiting_ch_def sim_channel_sel)
  from update_answered_once [OF run this again] run again show ?thesis by auto
qed

text \<open>
  C10: closing on an event of the blockchain. A registered state that is not final, and a
  concluded one that is, settles the channel, as the secondary party when the user did not
  initiate the close, and closes it; a subscriber gets the close notification, with the error
  of settling if there was one, and is unsubscribed. Every other event changes nothing.
\<close>

theorem HandleAdjudicatorEvent_spec:
  assumes "HandleAdjudicatorEvent P e ch = Done ((), ch')"
  shows "if (case e of RegisteredEvent waitErr \<Rightarrow> \<not> psIsFinal (pState P (chPch ch))
             | ConcludedEvent \<Rightarrow> psIsFinal (pState P (chPch ch)) | OtherAdjudicatorEvent \<Rightarrow> False)
    then (let settled = pSettle P (settle_timeout (chTimeoutCfg ch) (chChallengeDurSecs ch))
                          (\<not> chWasCloseInitiated ch) (chPch ch)
          in chPch ch' = fst (pClose P (fst settled)) \<and> chStatus ch' = StatusClosed \<and> chNotifier ch' = None
             \<and> chResponders ch' = chResponders ch \<and> chNotifCache ch' = chNotifCache ch
             \<and> (case chNotifier ch of
                  None \<Rightarrow> chOut ch' = chOut ch
                | Some f \<Rightarrow> \<exists>i. getChInfo P ch' = Done i
                    \<and> chOut ch' = chOut ch @ [f (makeChCloseNotif i
                        (map_option (\<lambda>e. handleChSettleError ch (EWith e ''settling channel'')) (snd settled)))]))
    else ch' = ch"
proof -
  have err: "handleChSettleError (ch\<lparr>chLocked := True\<rparr>) = handleChSettleError ch"
    by (simp add: handleChSettleError_def fun_eq_iff)
  show ?thesis
    using assms channel_unlocked_id [of ch]
    by (cases e; cases "pSettle P (settle_timeout (chTimeoutCfg ch) (chChallengeDurSecs ch))
                          (\<not> chWasCloseInitiated ch) (chPch ch)")
       (auto simp: HandleAdjudicatorEvent_def with_lock_def run_simps settle_def closeAndNotify_def
         close_resources_Done unsubChUpdates_def Let_def err getChInfo_def makeChInfo_def
         split: if_splits option.splits)
qed

theorem HandleAdjudicatorEvent_spec_witness:
  "HandleAdjudicatorEvent sim_api (RegisteredEvent None) (sim_channel :: (pstate, nat) channel)
     = Done ((), sim_closed)
   \<and> chPch (sim_closed :: (pstate, nat) channel) = sim_state"
  using HandleAdjudicatorEvent_spec [OF sim_settled, where ?'b = nat]
  by (simp add: sim_settled sim_channel_sel Let_def) (simp add: sim_api_def sim_channel_sel sim_state_def Let_def)

end
