(* ===== verification/Channel_Registry.thy ===== *)
theory Channel_Registry
  imports Channel_Safety
begin

text \<open>
  \<^verbatim>\<open>session/channelRegistry.go\<close>: the channels of a session, in the order in which they were
  added and indexed by channel ID. The registry holds pointers; a pointer is modelled by the
  slot of the list it is stored in, so that an operation on a channel got from the registry
  is written back to its slot with \<open>rg_write\<close>.
\<close>

record ('p, 'ev) ch_registry =
  rgIdxs :: "string \<rightharpoonup> nat"
  rgChs :: "('p, 'ev) channel list"

definition newChRegistry :: "('p, 'ev) ch_registry" where
  "newChRegistry = \<lparr>rgIdxs = Map.empty, rgChs = []\<rparr>"

text \<open>\<open>put\<close> appends the channel and indexes it under an ID, the channel's own.\<close>

definition rg_append :: "string \<Rightarrow> ('p, 'ev) channel \<Rightarrow> ('p, 'ev) ch_registry \<Rightarrow> ('p, 'ev) ch_registry" where
  "rg_append cid ch r =
     (let chs = rgChs r @ [ch]
      in r\<lparr>rgChs := chs, rgIdxs := (rgIdxs r)(cid \<mapsto> length chs - 1)\<rparr>)"

definition rg_put :: "('p, 'ev) channel \<Rightarrow> ('p, 'ev) ch_registry \<Rightarrow> ('p, 'ev) ch_registry" where
  "rg_put ch r = rg_append (chID ch) ch r"

definition rg_get :: "('p, 'ev) ch_registry \<Rightarrow> string \<Rightarrow> (nat \<times> ('p, 'ev) channel) option run" where
  "rg_get r cid =
     (case rgIdxs r cid of
        None \<Rightarrow> Done None
      | Some chIdx \<Rightarrow> andThen (idx_at (rgChs r) chIdx) (\<lambda>ch. Done (Some (chIdx, ch))))"

definition rg_write :: "nat \<Rightarrow> ('p, 'ev) channel \<Rightarrow> ('p, 'ev) ch_registry \<Rightarrow> ('p, 'ev) ch_registry" where
  "rg_write i ch r = r\<lparr>rgChs := (rgChs r)[i := ch]\<rparr>"

definition rg_count :: "('p, 'ev) ch_registry \<Rightarrow> nat" where
  "rg_count r = length (rgChs r)"

text \<open>\<open>forEach\<close> with a function that returns a value and the channel it leaves behind.\<close>

definition rg_forEach ::
  "(('p, 'ev) channel \<Rightarrow> ('a \<times> ('p, 'ev) channel) run) \<Rightarrow> ('p, 'ev) ch_registry
     \<Rightarrow> ('a list \<times> ('p, 'ev) ch_registry) run" where
  "rg_forEach f r =
     andThen (mapRun f (rgChs r)) (\<lambda>xs. Done (map fst xs, r\<lparr>rgChs := map snd xs\<rparr>))"

subsection \<open>Laws\<close>

text \<open>Every index is that of a channel with this ID.\<close>

definition rg_inv :: "('p, 'ev) ch_registry \<Rightarrow> bool" where
  "rg_inv r \<longleftrightarrow> (\<forall>s i. rgIdxs r s = Some i \<longrightarrow> i < length (rgChs r) \<and> chID (rgChs r ! i) = s)"

definition rg_indices_ok :: "('p, 'ev) ch_registry \<Rightarrow> bool" where
  "rg_indices_ok r \<longleftrightarrow> (\<forall>s i. rgIdxs r s = Some i \<longrightarrow> i < length (rgChs r))"

definition rg_lookup :: "('p, 'ev) ch_registry \<Rightarrow> string \<Rightarrow> ('p, 'ev) channel option" where
  "rg_lookup r s = map_option ((!) (rgChs r)) (rgIdxs r s)"

lemma rg_inv_indices: "rg_inv r \<Longrightarrow> rg_indices_ok r"
  by (simp add: rg_inv_def rg_indices_ok_def)

lemma rg_inv_new [simp]: "rg_inv newChRegistry"
  by (simp add: rg_inv_def newChRegistry_def)

lemma rg_inv_put: "rg_inv r \<Longrightarrow> rg_inv (rg_put ch r)"
  by (auto simp: rg_inv_def rg_put_def rg_append_def Let_def nth_append less_Suc_eq)

lemma rg_inv_write:
  assumes "rg_inv r" and "i < length (rgChs r)" and "chID ch = chID (rgChs r ! i)"
  shows "rg_inv (rg_write i ch r)"
  using assms by (auto simp: rg_inv_def rg_write_def nth_list_update)

lemma rg_get_Done: "rg_indices_ok r \<Longrightarrow>
    rg_get r s = Done (map_option (\<lambda>i. (i, rgChs r ! i)) (rgIdxs r s))"
  by (auto simp: rg_get_def rg_indices_ok_def split: option.splits)

lemma rg_get_Some:
  assumes "rg_inv r" and "rg_get r s = Done (Some (i, ch))"
  shows "i < length (rgChs r)" and "ch = rgChs r ! i" and "chID ch = s" and "rgIdxs r s = Some i"
  using assms rg_get_Done [OF rg_inv_indices [OF assms(1)], of s] by (auto simp: rg_inv_def)

lemma rg_get_returns: "rg_inv r \<Longrightarrow> returns (rg_get r s)"
  by (simp add: rg_get_Done rg_inv_indices)

interpretation chr: grow_registry rg_lookup rg_append "\<lambda>s ch. ch" rg_indices_ok
proof
  fix r :: "('a, 'b) ch_registry" and s and ch :: "('a, 'b) channel"
  assume inv: "rg_indices_ok r" and free: "rg_lookup r s = None"
  show "rg_lookup (rg_append s ch r) = (rg_lookup r)(s \<mapsto> ch)"
  proof
    fix s'
    show "rg_lookup (rg_append s ch r) s' = ((rg_lookup r)(s \<mapsto> ch)) s'"
    proof (cases "rgIdxs r s'")
      case (Some i)
      with inv have "i < length (rgChs r)" by (simp add: rg_indices_ok_def)
      with Some show ?thesis by (simp add: rg_lookup_def rg_append_def Let_def nth_append)
    qed (simp add: rg_lookup_def rg_append_def Let_def)
  qed
  show "rg_indices_ok (rg_append s ch r)"
    using inv by (auto simp: rg_indices_ok_def rg_append_def Let_def intro: less_SucI)
qed

lemma rg_put_lookup: "rg_indices_ok r \<Longrightarrow> rg_lookup (rg_put ch r) = (rg_lookup r)(chID ch \<mapsto> ch)"
  by (auto simp: rg_lookup_def rg_put_def rg_append_def Let_def fun_eq_iff rg_indices_ok_def
      nth_append map_option_case split: option.splits)

lemma rg_forEach_Done:
  "rg_forEach f r = Done (ys, r') \<longleftrightarrow>
     (\<exists>xs. list_all2 (\<lambda>c x. f c = Done x) (rgChs r) xs \<and> ys = map fst xs
         \<and> r' = r\<lparr>rgChs := map snd xs\<rparr>)"
  by (auto simp: rg_forEach_def run_simps mapRun_Done_iff)

lemma rg_forEach_total:
  assumes "\<And>c. c \<in> set (rgChs r) \<Longrightarrow> f c = Done (g c, h c)"
  shows "rg_forEach f r = Done (map g (rgChs r), r\<lparr>rgChs := map h (rgChs r)\<rparr>)"
  using mapRun_cong_Done [of "rgChs r" f "\<lambda>c. (g c, h c)"] assms
  by (simp add: rg_forEach_def comp_def)

subsection \<open>Properties\<close>

text \<open>
  a channel that is added is what its ID reads afterwards, and no other ID reads anything
  new. A channel that was there under the same ID is no longer found by the ID, but it is not
  replaced: it keeps its place in the list, the count grows, and iterations still visit it.
\<close>

theorem rg_put_spec:
  assumes "rg_inv r"
  shows "rg_get (rg_put ch r) (chID ch) = Done (Some (rg_count r, ch))
    \<and> (\<forall>s. s \<noteq> chID ch \<longrightarrow> rg_get (rg_put ch r) s = rg_get r s)
    \<and> rg_count (rg_put ch r) = rg_count r + 1
    \<and> (\<forall>old. old \<in> set (rgChs r) \<longrightarrow> old \<in> set (rgChs (rg_put ch r)))"
proof -
  have ok: "rg_indices_ok (rg_put ch r)" "rg_indices_ok r"
    using assms rg_inv_put rg_inv_indices by blast+
  have "rg_get (rg_put ch r) s = rg_get r s" if "s \<noteq> chID ch" for s
    using that ok(2) unfolding rg_get_Done [OF ok(1)] rg_get_Done [OF ok(2)]
    by (auto simp: rg_put_def rg_append_def Let_def nth_append rg_indices_ok_def
        intro!: option.map_cong)
  moreover have "rg_get (rg_put ch r) (chID ch) = Done (Some (rg_count r, ch))"
    unfolding rg_get_Done [OF ok(1)]
    by (simp add: rg_put_def rg_append_def Let_def rg_count_def)
  ultimately show ?thesis
    by (simp add: rg_put_def rg_append_def Let_def rg_count_def)
qed

lemma rg_count_put [simp]: "rg_count (rg_put ch r) = Suc (rg_count r)"
  by (simp add: rg_count_def rg_put_def rg_append_def Let_def)

lemma rg_count_new [simp]: "rg_count newChRegistry = 0"
  by (simp add: rg_count_def newChRegistry_def)

theorem rg_put_spec_witness:
  "let ch = (sim_channel :: (pstate, nat) channel); r = rg_put ch newChRegistry
   in rg_get (rg_put ch r) (chID ch) = Done (Some (1, ch)) \<and> rg_count (rg_put ch r) = 2"
  using rg_put_spec [OF rg_inv_put [OF rg_inv_new], of sim_channel "sim_channel :: (pstate, nat) channel"]
  by (simp add: Let_def)

end
