(* ===== verification/Session.thy ===== *)
theory Session
  imports Client Channel_Registry
begin

text \<open>
  \<^verbatim>\<open>session/session.go\<close>: a session of a user, with its ID provider, its channel client, its
  channels and the proposals that wait for a response.

  The operations run on the state of the session and return it with their results. The two
  registries belong to the node and are passed to the operations that read them. An
  interface value that may be nil, such as the currency a registry returns, is an \<open>option\<close>,
  and calling a method on it is \<open>deref\<close>. The goroutine that \<open>HandleUpdate\<close> starts for a channel is
  kept as a pending task until a step runs it.
\<close>

subsection \<open>State\<close>

record prop_entry =
  peProposal :: ledger_proposal
  peNotif :: ch_proposal_notif
  peResponder :: ref
  peCurrencies :: "currency_if option list"

record update_task =
  utSlot :: nat
  utCurr :: "pstate option"
  utProposed :: pstate
  utResponder :: ref

record ('p, 'w, 'ev) session =
  seID :: string
  seIsOpen :: bool
  seUser :: user
  seClient :: client
  seWorld :: 'w
  seIDProvider :: id_cache
  seTimeoutCfg :: timeout_config
  seChainURL :: string
  seChs :: "('p, 'ev) ch_registry"
  seNotifier :: "(ch_proposal_notif \<Rightarrow> 'ev) option"
  seNotifsCache :: "ch_proposal_notif list"
  seResponders :: "string \<rightharpoonup> prop_entry"
  seLocked :: bool
  seOut :: "'ev list"
  seTasks :: "update_task list"

definition deref :: "'a option \<Rightarrow> 'a run" where
  "deref x = (case x of None \<Rightarrow> Panic NilDereference | Some y \<Rightarrow> Done y)"

definition with_slock ::
  "('p, 'w, 'ev) session \<Rightarrow> (('p, 'w, 'ev) session \<Rightarrow> ('a \<times> ('p, 'w, 'ev) session) run)
     \<Rightarrow> ('a \<times> ('p, 'w, 'ev) session) run" where
  "with_slock s body =
     (if seLocked s then Blocked
      else andThen (body (s\<lparr>seLocked := True\<rparr>)) (\<lambda>(x, s'). Done (x, s'\<lparr>seLocked := False\<rparr>)))"

subsection \<open>Currencies and participants\<close>

fun getCurrencies ::
  "addr_lib \<Rightarrow> contract_registry \<Rightarrow> currency_registry \<Rightarrow> address list \<Rightarrow> goerr + currency_if option list" where
  "getCurrencies L CR CU [] = Inr []"
| "getCurrencies L CR CU (asset # assets) =
     (case Symbol CR asset of
        None \<Rightarrow> Inl (ENew (''unknown asset '' @ alString L asset))
      | Some symbol \<Rightarrow>
          (case getCurrencies L CR CU assets of
             Inl e \<Rightarrow> Inl e
           | Inr cs \<Rightarrow> Inr (Currency CU symbol # cs)))"

primrec registerParts :: "('p, 'w) sdk \<Rightarrow> peer_id list \<Rightarrow> 'w \<Rightarrow> 'w" where
  "registerParts S [] w = w"
| "registerParts S (p # ps) w =
     registerParts S ps
       (if pAlias p \<noteq> OwnAlias then client_Register S (pOffChainAddr p) (pCommAddr p) w else w)"

definition makeOffChainAddrs :: "peer_id list \<Rightarrow> address option list" where
  "makeOffChainAddrs partIDs = map pOffChainAddr partIDs"

text \<open>The index of the last entry for the own alias, 0 when there is none.\<close>

primrec own_idx_loop :: "string list \<Rightarrow> nat \<Rightarrow> nat \<Rightarrow> nat" where
  "own_idx_loop [] idx ownIdx = ownIdx"
| "own_idx_loop (p # ps) idx ownIdx = own_idx_loop ps (Suc idx) (if p = OwnAlias then idx else ownIdx)"

definition swap_own :: "nat \<Rightarrow> string list \<Rightarrow> string list run" where
  "swap_own ownIdx row =
     andThen (idx_at row ownIdx) (\<lambda>ownAmount.
     andThen (idx_at row 0) (\<lambda>amount0.
     andThen (put_at row ownIdx amount0) (\<lambda>row1. put_at row1 0 ownAmount)))"

definition sanitizeBalInfo :: "bal_info \<Rightarrow> bal_info run" where
  "sanitizeBalInfo balInfo =
     (let ownIdx = own_idx_loop (biParts balInfo) 0 0
      in if ownIdx \<noteq> 0
         then andThen (idx_at (biParts balInfo) 0) (\<lambda>part0.
              andThen (put_at (biParts balInfo) ownIdx part0) (\<lambda>parts1.
              andThen (put_at parts1 0 OwnAlias) (\<lambda>parts2.
              andThen (mapRun (swap_own ownIdx) (biBals balInfo)) (\<lambda>bals.
              Done (balInfo\<lparr>biParts := parts2, biBals := bals\<rparr>)))))
         else Done balInfo)"

text \<open>
  The loop of \<open>retrievePartIDs\<close>: the set of known aliases, and the results so far. An alias
  that is missing leaves the zero value in its place.
\<close>

fun retrieve_loop ::
  "id_cache \<Rightarrow> string list \<Rightarrow> string set \<Rightarrow> peer_id list \<Rightarrow> string list \<Rightarrow> string list \<Rightarrow> bool
     \<Rightarrow> peer_id list \<times> string list \<times> string list \<times> bool" where
  "retrieve_loop ip [] known ids missing repeated own = (ids, missing, repeated, own)"
| "retrieve_loop ip (al # als) known ids missing repeated own =
     (let own' = (own \<or> al = OwnAlias)
      in case ReadByAlias ip al of
           None \<Rightarrow> retrieve_loop ip als known (ids @ [nil_peer_id]) (missing @ [al]) repeated own'
         | Some p \<Rightarrow> retrieve_loop ip als (insert al known) (ids @ [p]) missing
             (if al \<in> known then repeated @ [al] else repeated) own')"

definition retrievePartIDs :: "id_cache \<Rightarrow> string list \<Rightarrow> api_err + peer_id list" where
  "retrievePartIDs ip aliases =
     (case retrieve_loop ip aliases {} [] [] [] False of
        (partIDs, missingParts, repeatedParts, foundOwnAlias) \<Rightarrow>
          if length missingParts \<noteq> 0
          then Inl (NewAPIErrResourceNotFound ResTypePeerID (join missingParts '',''))
          else if length repeatedParts \<noteq> 0
          then Inl (NewAPIErrInvalidArgument ErrRepeatedPeerAlias ArgNamePeerAlias (join aliases '',''))
          else if \<not> foundOwnAlias
          then Inl (NewAPIErrInvalidArgument ErrEntryForSelfNotFound ArgNamePeerAlias (join aliases '',''))
          else Inr partIDs)"

text \<open>The two loops of \<open>makeAllocation\<close>.\<close>

primrec parse_row :: "currency_if option \<Rightarrow> string list \<Rightarrow> (api_err + int list) run" where
  "parse_row c [] = Done (Inr [])"
| "parse_row c (amount # amounts) =
     andThen (deref c) (\<lambda>cu.
       case cuParse cu amount of
         Inl e \<Rightarrow> Done (Inl (NewAPIErrInvalidArgument (EWith e ''parsing amount'') ArgNameAmount amount))
       | Inr v \<Rightarrow> andThen (parse_row c amounts) (\<lambda>r.
           Done (case r of Inl ae \<Rightarrow> Inl ae | Inr vs \<Rightarrow> Inr (v # vs))))"

fun allocation_loop ::
  "contract_registry \<Rightarrow> currency_registry \<Rightarrow> string list \<Rightarrow> string list list
     \<Rightarrow> (api_err + currency_if option list \<times> allocation) run" where
  "allocation_loop CR CU [] rows = Done (Inr ([], \<lparr>alAssets = [], alBalances = []\<rparr>))"
| "allocation_loop CR CU (symb # syms) rows =
     andThen (Asset CR symb) (\<lambda>found.
       case found of
         None \<Rightarrow> Done (Inl (NewAPIErrResourceNotFound ResTypeCurrency symb))
       | Some asset \<Rightarrow>
           andThen (idx_at rows 0) (\<lambda>row.
           andThen (parse_row (Currency CU symb) row) (\<lambda>r.
             case r of
               Inl ae \<Rightarrow> Done (Inl ae)
             | Inr bals \<Rightarrow> andThen (allocation_loop CR CU syms (tl rows)) (\<lambda>rest.
                 Done (case rest of
                         Inl ae \<Rightarrow> Inl ae
                       | Inr (cs, al) \<Rightarrow> Inr (Currency CU symb # cs,
                           \<lparr>alAssets = asset # alAssets al, alBalances = bals # alBalances al\<rparr>))))))"

definition makeAllocation ::
  "contract_registry \<Rightarrow> currency_registry \<Rightarrow> bal_info
     \<Rightarrow> (api_err + currency_if option list \<times> allocation) run" where
  "makeAllocation CR CU balInfo =
     (if length (biCurrencies balInfo) \<noteq> length (biBals balInfo)
      then Done (Inl (NewAPIErrInvalidArgument
             (ENew ''length of currencies should match the outer length of bals'')
             ArgNameCurrency (join (biCurrencies balInfo) '','')))
      else allocation_loop CR CU (biCurrencies balInfo) (biBals balInfo))"

primrec updateAssetsInFunder ::
  "('p, 'w) sdk \<Rightarrow> contract_registry \<Rightarrow> address option \<Rightarrow> currency_if option list \<Rightarrow> 'w \<Rightarrow> 'w run" where
  "updateAssetsInFunder S CR onChainAcc [] w = Done w"
| "updateAssetsInFunder S CR onChainAcc (c # cs) w =
     andThen (deref c) (\<lambda>cu.
     andThen (Asset CR (cuSymbol cu)) (\<lambda>asset.
       if \<not> IsAssetRegistered S asset w
       then andThen (Token CR (cuSymbol cu)) (\<lambda>token.
              updateAssetsInFunder S CR onChainAcc cs
                (snd (funder_RegisterAssetERC20 S asset token onChainAcc w)))
       else updateAssetsInFunder S CR onChainAcc cs w))"

definition addCh :: "('p, 'ev) channel \<Rightarrow> ('p, 'w, 'ev) session \<Rightarrow> (unit \<times> ('p, 'w, 'ev) session) run" where
  "addCh ch s = with_slock s (\<lambda>s. Done ((), s\<lparr>seChs := rg_put ch (seChs s)\<rparr>))"

subsection \<open>Peer IDs\<close>

definition AddPeerID ::
  "addr_lib \<Rightarrow> peer_id \<Rightarrow> ('p, 'w, 'ev) session \<Rightarrow> (api_err option \<times> ('p, 'w, 'ev) session) run" where
  "AddPeerID L peerID s = with_slock s (\<lambda>s.
     if \<not> seIsOpen s then Done (Some (NewAPIErrFailedPreCondition ErrSessionClosed), s)
     else
       (case Write L (pAlias peerID) peerID (seIDProvider s) of
          (None, c) \<Rightarrow> Done (None, s\<lparr>seIDProvider := c\<rparr>)
        | (Some e, c) \<Rightarrow> Done (Some
            (if errors_Is ErrPeerAliasAlreadyUsed_text e
             then NewAPIErrInvalidArgument e ArgNamePeerAlias (pAlias peerID)
             else if errors_Is ErrPeerIDAlreadyRegistered_text e
             then NewAPIErrResourceExists ResTypePeerID (pAlias peerID)
             else if errors_Is ErrParsingOffChainAddress_text e
             then NewAPIErrInvalidArgument e ArgNameOffChainAddr (pOffChainAddrString peerID)
             else NewAPIErrUnknownInternal e), s\<lparr>seIDProvider := c\<rparr>)))"

definition GetPeerID ::
  "string \<Rightarrow> ('p, 'w, 'ev) session \<Rightarrow> ((peer_id \<times> api_err option) \<times> ('p, 'w, 'ev) session) run" where
  "GetPeerID al s = with_slock s (\<lambda>s.
     if \<not> seIsOpen s then Done ((nil_peer_id, Some (NewAPIErrFailedPreCondition ErrSessionClosed)), s)
     else
       (case ReadByAlias (seIDProvider s) al of
          None \<Rightarrow> Done ((nil_peer_id, Some (NewAPIErrResourceNotFound ResTypePeerID al)), s)
        | Some p \<Rightarrow> Done ((p, None), s)))"

subsection \<open>Opening a channel\<close>

definition handleProposeChError ::
  "('p, 'w, 'ev) session \<Rightarrow> string list \<Rightarrow> goerr \<Rightarrow> api_err run" where
  "handleProposeChError s parts e =
     (case handleChainError (seChainURL s) (dur_String (tcOnChainTx (seTimeoutCfg s))) e of
        Some ae \<Rightarrow> Done ae
      | None \<Rightarrow> andThen (idx_at parts 1) (\<lambda>peer.
          case handleFundingTimeoutError peer 1 e of
            Some ae \<Rightarrow> Done ae
          | None \<Rightarrow>
              (case handleProposalError peer (dur_String (tcResponse (seTimeoutCfg s))) e of
                 Some ae \<Rightarrow> Done ae
               | None \<Rightarrow> Done (NewAPIErrUnknownInternal e))))"

text \<open>
  \<open>OpenCh\<close> up to the reply of the peer, and the part that adds the channel. The session is not
  locked in between.
\<close>

definition OpenCh_propose ::
  "('p, 'w) sdk \<Rightarrow> 'p pchannel_api \<Rightarrow> contract_registry \<Rightarrow> currency_registry
     \<Rightarrow> bal_info \<Rightarrow> app \<Rightarrow> 64 word \<Rightarrow> ('p, 'w, 'ev) session
     \<Rightarrow> ((api_err + ('p, 'ev) channel) \<times> ('p, 'w, 'ev) session) run" where
  "OpenCh_propose S P CR CU openingBalInfo ap challengeDurSecs s =
     (if \<not> seIsOpen s then Done (Inl (NewAPIErrFailedPreCondition ErrSessionClosed), s)
      else andThen (sanitizeBalInfo openingBalInfo) (\<lambda>bi.
        case retrievePartIDs (seIDProvider s) (biParts bi) of
          Inl ae \<Rightarrow> Done (Inl ae, s)
        | Inr parts \<Rightarrow>
            (let s1 = s\<lparr>seWorld := registerParts S parts (seWorld s)\<rparr>
             in andThen (makeAllocation CR CU bi) (\<lambda>alloc.
               case alloc of
                 Inl ae \<Rightarrow> Done (Inl ae, s1)
               | Inr (currencies, al) \<Rightarrow>
                   andThen (updateAssetsInFunder S CR (crAddr (usOnChain (seUser s1))) currencies (seWorld s1)) (\<lambda>w.
                   case sdNewProposal S challengeDurSecs (pOffChainAddr (usPeerID (seUser s1))) al
                          (makeOffChainAddrs parts) ap w of
                     (Inl e, w1) \<Rightarrow> Done (Inl (NewAPIErrUnknownInternal
                         (EWith e ''constructing channel proposal'')), s1\<lparr>seWorld := w1\<rparr>)
                   | (Inr proposal, w1) \<Rightarrow>
                       (case sdProposeChannel S (proposeCh (seTimeoutCfg s1) challengeDurSecs) proposal w1 of
                          (Inl e, w2) \<Rightarrow>
                            andThen (handleProposeChError s1 (biParts bi) (EWith e ''proposing channel'')) (\<lambda>ae.
                            Done (Inl ae, s1\<lparr>seWorld := w2\<rparr>))
                        | (Inr pch, w2) \<Rightarrow>
                            andThen (mapRun deref currencies) (\<lambda>cs.
                            Done (Inr (newCh P pch (seChainURL s1) cs (biParts bi) (seTimeoutCfg s1) challengeDurSecs),
                                  s1\<lparr>seWorld := w2\<rparr>))))))))"

definition OpenCh_add ::
  "'p pchannel_api \<Rightarrow> ('p, 'ev) channel \<Rightarrow> ('p, 'w, 'ev) session
     \<Rightarrow> ((ch_info \<times> api_err option) \<times> ('p, 'w, 'ev) session) run" where
  "OpenCh_add P ch s =
     andThen (addCh ch s) (\<lambda>(_, s1).
     andThen (GetChInfo P ch) (\<lambda>(info, ch').
     Done ((info, None), s1\<lparr>seChs := rg_write (rg_count (seChs s1) - 1) ch' (seChs s1)\<rparr>)))"

definition OpenCh ::
  "('p, 'w) sdk \<Rightarrow> 'p pchannel_api \<Rightarrow> contract_registry \<Rightarrow> currency_registry
     \<Rightarrow> bal_info \<Rightarrow> app \<Rightarrow> 64 word \<Rightarrow> ('p, 'w, 'ev) session
     \<Rightarrow> ((ch_info \<times> api_err option) \<times> ('p, 'w, 'ev) session) run" where
  "OpenCh S P CR CU openingBalInfo ap challengeDurSecs s =
     andThen (OpenCh_propose S P CR CU openingBalInfo ap challengeDurSecs s) (\<lambda>(r, s1).
       case r of
         Inl ae \<Rightarrow> Done ((nil_ch_info, Some ae), s1)
       | Inr ch \<Rightarrow> OpenCh_add P ch s1)"

subsection \<open>Incoming proposals\<close>

definition rejectChProposal ::
  "('p, 'w) sdk \<Rightarrow> ref \<Rightarrow> string \<Rightarrow> ('p, 'w, 'ev) session \<Rightarrow> api_err option \<times> ('p, 'w, 'ev) session" where
  "rejectChProposal S responder reason s =
     (case sdReject S (respChProposalReject (seTimeoutCfg s)) responder reason (seWorld s) of
        (err, w) \<Rightarrow> (map_option NewAPIErrUnknownInternal err, s\<lparr>seWorld := w\<rparr>))"

text \<open>
  The aliases of the peers of the proposal, up to the first peer that is not known; the
  places after it keep the empty string. The flag tells whether all are known.
\<close>

primrec proposal_parts :: "addr_lib \<Rightarrow> id_cache \<Rightarrow> address option list \<Rightarrow> string list \<times> bool" where
  "proposal_parts L ip [] = ([], True)"
| "proposal_parts L ip (a # as) =
     (case ReadByOffChainAddr L ip a of
        None \<Rightarrow> ([] # replicate (length as) [], False)
      | Some p \<Rightarrow> (case proposal_parts L ip as of (ps, ok) \<Rightarrow> (pAlias p # ps, ok)))"

text \<open>
  \<open>makeBalInfoFromRawBal\<close> calls the methods of the first \<open>length rawBal\<close> currencies; the others
  may be nil.
\<close>

definition chProposalNotif ::
  "string list \<Rightarrow> currency_if option list \<Rightarrow> ledger_proposal \<Rightarrow> int \<Rightarrow> ch_proposal_notif run" where
  "chProposalNotif parts currencies chProposal expiry =
     (let rawBal = lpBalances chProposal;
          used = take (length rawBal) currencies;
          unused = replicate (length currencies - length rawBal)
                     \<lparr>cuParse = \<lambda>_. Inr 0, cuPrint = \<lambda>_. [], cuSymbol = []\<rparr>
      in andThen (mapRun deref used) (\<lambda>cs.
         andThen (makeBalInfoFromRawBal parts (cs @ unused) rawBal) (\<lambda>bi.
         Done \<lparr>cpnProposalID = hex_bytes (lpProposalID chProposal), cpnOpeningBalInfo = bi,
               cpnApp = makeApp (lpApp chProposal) (lpInitData chProposal),
               cpnChallengeDurSecs = lpChallengeDuration chProposal, cpnExpiry = expiry\<rparr>)))"

definition notifyProposal :: "ch_proposal_notif \<Rightarrow> ('p, 'w, 'ev) session \<Rightarrow> ('p, 'w, 'ev) session" where
  "notifyProposal notif s =
     (case seNotifier s of
        None \<Rightarrow> s\<lparr>seNotifsCache := seNotifsCache s @ [notif]\<rparr>
      | Some f \<Rightarrow> s\<lparr>seOut := seOut s @ [f notif]\<rparr>)"

text \<open>A proposal that is not one for a ledger channel is \<open>None\<close>.\<close>

definition HandleProposal ::
  "('p, 'w) sdk \<Rightarrow> addr_lib \<Rightarrow> contract_registry \<Rightarrow> currency_registry \<Rightarrow> int
     \<Rightarrow> ledger_proposal option \<Rightarrow> ref \<Rightarrow> ('p, 'w, 'ev) session \<Rightarrow> (unit \<times> ('p, 'w, 'ev) session) run" where
  "HandleProposal S L CR CU now chProposal responder s =
     (case chProposal of
        None \<Rightarrow> Done ((), s)
      | Some prop \<Rightarrow>
          if \<not> seIsOpen s then Done ((), s)
          else
            (let expiry0 = unix_after now (tcResponse (seTimeoutCfg s));
                 (parts, known) = proposal_parts L (seIDProvider s) (lpPeers prop);
                 s1 = (if known then s else snd (rejectChProposal S responder ''unrecogonized peer ID'' s));
                 expiry = (if known then expiry0 else 0);
                 found = getCurrencies L CR CU (lpAssets prop);
                 s2 = (case found of
                         Inl e \<Rightarrow> snd (rejectChProposal S responder ''unrecogonized currency'' s1)
                       | Inr _ \<Rightarrow> s1);
                 currencies = (case found of Inl e \<Rightarrow> [] | Inr cs \<Rightarrow> cs)
             in andThen (chProposalNotif parts currencies prop expiry) (\<lambda>notif.
                let entry = \<lparr>peProposal = prop, peNotif = notif, peResponder = responder,
                             peCurrencies = currencies\<rparr>
                in with_slock s2 (\<lambda>s3.
                     let s4 = (if expiry \<noteq> 0
                               then s3\<lparr>seResponders := (seResponders s3)(cpnProposalID notif \<mapsto> entry)\<rparr>
                               else s3)
                     in Done ((), notifyProposal notif s4)))))"

definition SubChProposals ::
  "(ch_proposal_notif \<Rightarrow> 'ev) \<Rightarrow> ('p, 'w, 'ev) session \<Rightarrow> (api_err option \<times> ('p, 'w, 'ev) session) run" where
  "SubChProposals notifier s = with_slock s (\<lambda>s.
     if \<not> seIsOpen s then Done (Some (NewAPIErrFailedPreCondition ErrSessionClosed), s)
     else if seNotifier s \<noteq> None then Done (Some (NewAPIErrResourceExists ResTypeProposalSub (seID s)), s)
     else
       andThen (flush_loop (length (seNotifsCache s)) notifier (seNotifsCache s) (seOut s)) (\<lambda>(cache, out).
       Done (None, s\<lparr>seNotifier := Some notifier, seNotifsCache := cache, seOut := out\<rparr>)))"

definition UnsubChProposals :: "('p, 'w, 'ev) session \<Rightarrow> (api_err option \<times> ('p, 'w, 'ev) session) run" where
  "UnsubChProposals s = with_slock s (\<lambda>s.
     if \<not> seIsOpen s then Done (Some (NewAPIErrFailedPreCondition ErrSessionClosed), s)
     else if seNotifier s = None then Done (Some (NewAPIErrResourceNotFound ResTypeProposalSub (seID s)), s)
     else Done (None, s\<lparr>seNotifier := None\<rparr>))"

subsection \<open>Responding to proposals\<close>

definition handleChProposalAcceptError ::
  "('p, 'w, 'ev) session \<Rightarrow> string list \<Rightarrow> goerr \<Rightarrow> api_err run" where
  "handleChProposalAcceptError s parts e =
     (case handleChainError (seChainURL s) (dur_String (tcOnChainTx (seTimeoutCfg s))) e of
        Some ae \<Rightarrow> Done ae
      | None \<Rightarrow> andThen (idx_at parts 0) (\<lambda>peer.
          case handleFundingTimeoutError peer 0 e of
            Some ae \<Rightarrow> Done ae
          | None \<Rightarrow> Done (NewAPIErrUnknownInternal e)))"

definition acceptChProposal ::
  "('p, 'w) sdk \<Rightarrow> 'p pchannel_api \<Rightarrow> contract_registry \<Rightarrow> prop_entry \<Rightarrow> ('p, 'w, 'ev) session
     \<Rightarrow> ((ch_info \<times> api_err option) \<times> ('p, 'w, 'ev) session) run" where
  "acceptChProposal S P CR entry s =
     (let parts = biParts (cpnOpeningBalInfo (peNotif entry));
          challengeDurSecs = cpnChallengeDurSecs (peNotif entry);
          (resp, w1) = sdProposalAcc S (peProposal entry) (pOffChainAddr (usPeerID (seUser s))) (seWorld s)
      in andThen (updateAssetsInFunder S CR (crAddr (usOnChain (seUser s))) (peCurrencies entry) w1) (\<lambda>w2.
         case sdAccept S (respChProposalAccept (seTimeoutCfg s) challengeDurSecs) (peResponder entry) resp w2 of
           (Inl e, w3) \<Rightarrow>
             andThen (handleChProposalAcceptError s parts (EWith e ''accepting channel proposal'')) (\<lambda>ae.
             Done ((nil_ch_info, Some ae), s\<lparr>seWorld := w3\<rparr>))
         | (Inr pch, w3) \<Rightarrow>
             andThen (mapRun deref (peCurrencies entry)) (\<lambda>cs.
             let ch = newCh P pch (seChainURL s) cs parts (seTimeoutCfg s) challengeDurSecs
             in andThen (addCh ch (s\<lparr>seWorld := w3\<rparr>)) (\<lambda>(_, s1).
                andThen (getChInfo P ch) (\<lambda>info. Done ((info, None), s1))))))"

text \<open>Taking the entry, under the lock, and answering it, without.\<close>

definition RespondChProposal_take ::
  "string \<Rightarrow> ('p, 'w, 'ev) session \<Rightarrow> (prop_entry option \<times> ('p, 'w, 'ev) session) run" where
  "RespondChProposal_take chProposalID s = with_slock s (\<lambda>s.
     case seResponders s chProposalID of
       None \<Rightarrow> Done (None, s)
     | Some entry \<Rightarrow> Done (Some entry, s\<lparr>seResponders := (seResponders s)(chProposalID := None)\<rparr>))"

definition RespondChProposal_answer ::
  "('p, 'w) sdk \<Rightarrow> 'p pchannel_api \<Rightarrow> contract_registry \<Rightarrow> int \<Rightarrow> bool \<Rightarrow> prop_entry
     \<Rightarrow> ('p, 'w, 'ev) session \<Rightarrow> ((ch_info \<times> api_err option) \<times> ('p, 'w, 'ev) session) run" where
  "RespondChProposal_answer S P CR now accept entry s =
     (let currTime = unix now
      in if cpnExpiry (peNotif entry) < currTime
         then Done ((nil_ch_info, Some (NewAPIErrUserResponseTimedOut (cpnExpiry (peNotif entry)) currTime)), s)
         else if accept then acceptChProposal S P CR entry s
         else (case rejectChProposal S (peResponder entry) ''rejected by user'' s of
                 (ae, s1) \<Rightarrow> Done ((nil_ch_info, ae), s1)))"

definition RespondChProposal ::
  "('p, 'w) sdk \<Rightarrow> 'p pchannel_api \<Rightarrow> contract_registry \<Rightarrow> int \<Rightarrow> string \<Rightarrow> bool
     \<Rightarrow> ('p, 'w, 'ev) session \<Rightarrow> ((ch_info \<times> api_err option) \<times> ('p, 'w, 'ev) session) run" where
  "RespondChProposal S P CR now chProposalID accept s =
     (if \<not> seIsOpen s then Done ((nil_ch_info, Some (NewAPIErrFailedPreCondition ErrSessionClosed)), s)
      else andThen (RespondChProposal_take chProposalID s) (\<lambda>(found, s1).
        case found of
          None \<Rightarrow> Done ((nil_ch_info, Some (NewAPIErrResourceNotFound ResTypeProposal chProposalID)), s1)
        | Some entry \<Rightarrow> RespondChProposal_answer S P CR now accept entry s1))"

subsection \<open>The channels of the session\<close>

definition GetChsInfo ::
  "'p pchannel_api \<Rightarrow> ('p, 'w, 'ev) session \<Rightarrow> (ch_info list \<times> ('p, 'w, 'ev) session) run" where
  "GetChsInfo P s = with_slock s (\<lambda>s.
     andThen (rg_forEach (GetChInfo P) (seChs s)) (\<lambda>(infos, chs). Done (infos, s\<lparr>seChs := chs\<rparr>)))"

definition GetCh ::
  "string \<Rightarrow> ('p, 'w, 'ev) session \<Rightarrow> ((api_err + nat) \<times> ('p, 'w, 'ev) session) run" where
  "GetCh cid s = with_slock s (\<lambda>s.
     andThen (rg_get (seChs s) cid) (\<lambda>found.
       case found of
         None \<Rightarrow> Done (Inl (NewAPIErrResourceNotFound ResTypeChannel cid), s)
       | Some (slot, ch) \<Rightarrow> Done (Inr slot, s)))"

text \<open>An operation of a channel, on a pointer to it.\<close>

definition on_channel ::
  "nat \<Rightarrow> (('p, 'ev) channel \<Rightarrow> ('a \<times> ('p, 'ev) channel) run) \<Rightarrow> ('p, 'w, 'ev) session
     \<Rightarrow> ('a \<times> ('p, 'w, 'ev) session) run" where
  "on_channel slot f s =
     andThen (idx_at (rgChs (seChs s)) slot) (\<lambda>ch.
     andThen (f ch) (\<lambda>(x, ch'). Done (x, s\<lparr>seChs := rg_write slot ch' (seChs s)\<rparr>)))"

definition HandleUpdate ::
  "('p, 'w) sdk \<Rightarrow> pstate option \<Rightarrow> pstate \<Rightarrow> ref \<Rightarrow> ('p, 'w, 'ev) session
     \<Rightarrow> (unit \<times> ('p, 'w, 'ev) session) run" where
  "HandleUpdate S currState proposed responder s = with_slock s (\<lambda>s.
     if \<not> seIsOpen s then Done ((), s)
     else andThen (rg_get (seChs s) (hex_bytes (psID proposed))) (\<lambda>found.
       case found of
         None \<Rightarrow> Done ((), s\<lparr>seWorld :=
             snd (sdRejectUpdate S responder ''unknown channel for this session'' (seWorld s))\<rparr>)
       | Some (slot, ch) \<Rightarrow> Done ((), s\<lparr>seTasks := seTasks s @
           [\<lparr>utSlot = slot, utCurr = currState, utProposed = proposed, utResponder = responder\<rparr>]\<rparr>)))"

text \<open>The goroutine started by \<open>HandleUpdate\<close>: any of the pending ones may run first.\<close>

definition run_task :: "int \<Rightarrow> nat \<Rightarrow> ('p, 'w, 'ev) session \<Rightarrow> (unit \<times> ('p, 'w, 'ev) session) run" where
  "run_task now k s =
     andThen (idx_at (seTasks s) k) (\<lambda>t.
     on_channel (utSlot t) (ch_HandleUpdate now (utCurr t) (utProposed t) (utResponder t))
       (s\<lparr>seTasks := take k (seTasks s) @ drop (Suc k) (seTasks s)\<rparr>))"

subsection \<open>Closing the session\<close>

text \<open>
  What \<open>Close\<close> does with a channel: it takes its lock, keeps it, and adds its info to the list
  of those in an unexpected phase and to the list of open ones.
\<close>

definition close_scan ::
  "'p pchannel_api \<Rightarrow> ('p, 'ev) channel \<Rightarrow> ((ch_info option \<times> ch_info option) \<times> ('p, 'ev) channel) run" where
  "close_scan P ch =
     (if chLocked ch then Blocked
      else let ch1 = ch\<lparr>chLocked := True\<rparr>; phase = pPhase P (chPch ch1)
           in andThen (if phase \<noteq> Acting \<and> phase \<noteq> Withdrawn
                       then andThen (getChInfo P ch1) (\<lambda>i. Done (Some i)) else Done None) (\<lambda>unexpected.
              andThen (if chStatus ch1 = StatusOpen
                       then andThen (getChInfo P ch1) (\<lambda>i. Done (Some i)) else Done None) (\<lambda>opened.
              Done ((unexpected, opened), ch1))))"

definition unlockAllChs :: "('p, 'w, 'ev) session \<Rightarrow> ('p, 'w, 'ev) session" where
  "unlockAllChs s =
     s\<lparr>seChs := (seChs s)\<lparr>rgChs := map (\<lambda>ch. ch\<lparr>chLocked := False\<rparr>) (rgChs (seChs s))\<rparr>\<rparr>"

definition session_close ::
  "('p, 'w) sdk \<Rightarrow> ('p, 'w, 'ev) session \<Rightarrow> (api_err option \<times> ('p, 'w, 'ev) session) run" where
  "session_close S s =
     (let w1 = sdLockAll S (crWallet (usOnChain (seUser s))) (seWorld s);
          w2 = sdLockAll S (crWallet (usOffChain (seUser s))) w1
      in andThen (client_Close S (seClient s) w2) (\<lambda>(err, w3).
         Done (map_option (\<lambda>e. NewAPIErrUnknownInternal (EWith e ''closing session'')) err,
               s\<lparr>seWorld := w3\<rparr>)))"

definition Close ::
  "('p, 'w) sdk \<Rightarrow> 'p pchannel_api \<Rightarrow> bool \<Rightarrow> ('p, 'w, 'ev) session
     \<Rightarrow> ((ch_info list \<times> api_err option) \<times> ('p, 'w, 'ev) session) run" where
  "Close S P force s = with_slock s (\<lambda>s.
     if \<not> seIsOpen s then Done (([], Some (NewAPIErrFailedPreCondition ErrSessionClosed)), s)
     else andThen (rg_forEach (close_scan P) (seChs s)) (\<lambda>(scans, chs).
       let s1 = s\<lparr>seChs := chs\<rparr>;
           unexpectedPhaseChIDs = List.map_filter fst scans;
           openChsInfo = List.map_filter snd scans
       in if length unexpectedPhaseChIDs \<noteq> 0
          then Done (([], Some (NewAPIErrFailedPreConditionUnclosedChs
                 (ENew ''session cannot be closed with channels in unexpected phase'')
                 unexpectedPhaseChIDs)), unlockAllChs s1)
          else if \<not> force \<and> length openChsInfo \<noteq> 0
          then Done (([], Some (NewAPIErrFailedPreConditionUnclosedChs
                 (ENew ''session cannot be closed with channels in open phase without force option'')
                 openChsInfo)), unlockAllChs s1)
          else andThen (session_close S (s1\<lparr>seIsOpen := False\<rparr>)) (\<lambda>(apiErr, s2).
                 Done ((openChsInfo, apiErr), s2))))"

subsection \<open>Deploying an asset contract\<close>

definition session_DeployAssetERC20 ::
  "('p, 'w) sdk \<Rightarrow> addr_lib \<Rightarrow> contract_registry \<Rightarrow> string \<Rightarrow> ('p, 'w, 'ev) session
     \<Rightarrow> ((string \<times> api_err option) \<times> ('p, 'w, 'ev) session) run" where
  "session_DeployAssetERC20 S L CR tokenAddr s = with_slock s (\<lambda>s.
     if \<not> seIsOpen s then Done (([], Some (NewAPIErrFailedPreCondition ErrSessionClosed)), s)
     else
       (case ParseAddr L tokenAddr of
          Inl e \<Rightarrow> Done (([], Some (NewAPIErrInvalidArgument e ArgNameToken tokenAddr)), s)
        | Inr token \<Rightarrow>
            (case DeployAssetERC20 S (Adjudicator CR) token (crAddr (usOnChain (seUser s))) (seWorld s) of
               (Inr asset, w) \<Rightarrow> Done ((alString L asset, None), s\<lparr>seWorld := w\<rparr>)
             | (Inl e, w) \<Rightarrow> Done (([], Some
                 (case handleChainError (seChainURL s) (dur_String (tcOnChainTx (seTimeoutCfg s))) e of
                    Some ae \<Rightarrow> ae | None \<Rightarrow> NewAPIErrUnknownInternal e)), s\<lparr>seWorld := w\<rparr>))))"

subsection \<open>Starting a session\<close>

record session_config =
  scUser :: user_config
  scIDProviderType :: string
  scIDProviderURL :: string
  scChainURL :: string
  scChainID :: int
  scChainConnTimeout :: duration
  scOnChainTxTimeout :: duration
  scResponseTimeout :: duration
  scDatabaseDir :: string
  scPeerReconnTimeout :: duration
  scAssetETH :: "address option"
  scAdjudicator :: "address option"

definition NewIDprovider :: "('p, 'w) sdk \<Rightarrow> addr_lib \<Rightarrow> string \<Rightarrow> goerr + id_cache" where
  "NewIDprovider S L filePath =
     (case sdReadIDFile S filePath of Inl e \<Rightarrow> Inl e | Inr entries \<Rightarrow> newIDProviderCache L entries)"

definition initIDProvider ::
  "('p, 'w) sdk \<Rightarrow> addr_lib \<Rightarrow> string \<Rightarrow> string \<Rightarrow> peer_id \<Rightarrow> api_err + id_cache" where
  "initIDProvider S L idProviderType idProviderURL own =
     (if idProviderType \<noteq> ''local''
      then Inl (NewAPIErrInvalidConfig ErrUnsupportedType ''idProviderType'' idProviderType)
      else (case NewIDprovider S L idProviderURL of
              Inl e \<Rightarrow> Inl (NewAPIErrInvalidConfig e ''idProviderURL'' idProviderURL)
            | Inr ip \<Rightarrow>
                (case Write L OwnAlias (own\<lparr>pAlias := OwnAlias\<rparr>) ip of
                   (Some e, _) \<Rightarrow> Inl (NewAPIErrInvalidConfig
                       (EWith e ''registering own user in ID Provider'') ''idProviderURL'' idProviderURL)
                 | (None, ip') \<Rightarrow> Inr ip')))"

definition calcSessionID :: "('p, 'w) sdk \<Rightarrow> 8 word list \<Rightarrow> 8 word list \<Rightarrow> string" where
  "calcSessionID S userOffChainAddr nowUTC = hex_bytes (sdSha256 S (userOffChainAddr @ nowUTC))"

text \<open>The peer IDs of the participants of a persisted channel, if all are known.\<close>

primrec restored_parts :: "addr_lib \<Rightarrow> id_cache \<Rightarrow> address option list \<Rightarrow> peer_id list option" where
  "restored_parts L ip [] = Some []"
| "restored_parts L ip (a # as) =
     (case ReadByOffChainAddr L ip a of
        None \<Rightarrow> None
      | Some p \<Rightarrow> map_option ((#) p) (restored_parts L ip as))"

definition handleRestoredCh ::
  "('p, 'w) sdk \<Rightarrow> 'p pchannel_api \<Rightarrow> addr_lib \<Rightarrow> contract_registry \<Rightarrow> currency_registry \<Rightarrow> 'p
     \<Rightarrow> ('p, 'w, 'ev) session \<Rightarrow> ('p, 'w, 'ev) session run" where
  "handleRestoredCh S P L CR CU pch s =
     (if pPhase P pch \<noteq> Acting then Done s
      else case restored_parts L (seIDProvider s) (pPeers P pch) of
        None \<Rightarrow> Done s
      | Some partIDs \<Rightarrow>
          (let s1 = s\<lparr>seWorld := registerParts S partIDs (seWorld s)\<rparr>
           in case getCurrencies L CR CU (psAssets (pState P pch)) of
                Inl e \<Rightarrow> Done s1
              | Inr currencies \<Rightarrow>
                  andThen (mapRun deref currencies) (\<lambda>cs.
                  let ch = newCh P pch (seChainURL s1) cs (map pAlias partIDs) (seTimeoutCfg s1)
                             (pChallengeDuration P pch)
                  in andThen (addCh ch s1) (\<lambda>(_, s2).
                     andThen (getChInfo P ch) (\<lambda>_. Done s2)))))"

primrec restore_loop ::
  "('p, 'w) sdk \<Rightarrow> 'p pchannel_api \<Rightarrow> addr_lib \<Rightarrow> contract_registry \<Rightarrow> currency_registry \<Rightarrow> 'p list
     \<Rightarrow> ('p, 'w, 'ev) session \<Rightarrow> ('p, 'w, 'ev) session run" where
  "restore_loop S P L CR CU [] s = Done s"
| "restore_loop S P L CR CU (pch # pchs) s =
     andThen (handleRestoredCh S P L CR CU pch s) (restore_loop S P L CR CU pchs)"

definition RestoreChs ::
  "('p, 'w) sdk \<Rightarrow> 'p pchannel_api \<Rightarrow> addr_lib \<Rightarrow> contract_registry \<Rightarrow> currency_registry
     \<Rightarrow> string \<Rightarrow> duration \<Rightarrow> ('p, 'w, 'ev) session \<Rightarrow> (goerr option \<times> ('p, 'w, 'ev) session) run" where
  "RestoreChs S P L CR CU databaseDir timeout s =
     (case RestoreChs_load S databaseDir (seClient s) (seWorld s) of
        (Some e, c, w) \<Rightarrow> Done (Some e, s\<lparr>seClient := c, seWorld := w\<rparr>)
      | (None, c, w) \<Rightarrow>
          (case sdRestore S timeout w of
             (pchs, err, w1) \<Rightarrow>
               andThen (restore_loop S P L CR CU pchs (s\<lparr>seClient := c, seWorld := w1\<rparr>)) (\<lambda>s1.
               Done (err, s1\<lparr>seClient := RestoreChs_done (seClient s1)\<rparr>))))"

definition new_session ::
  "string \<Rightarrow> session_config \<Rightarrow> user \<Rightarrow> client \<Rightarrow> id_cache \<Rightarrow> 'w \<Rightarrow> ('p, 'w, 'ev) session" where
  "new_session sessionID cfg u c ip w =
     \<lparr>seID = sessionID, seIsOpen = True, seUser = u, seClient = c, seWorld = w, seIDProvider = ip,
      seTimeoutCfg = \<lparr>tcOnChainTx = scOnChainTxTimeout cfg, tcResponse = scResponseTimeout cfg\<rparr>,
      seChainURL = scChainURL cfg, seChs = newChRegistry, seNotifier = None, seNotifsCache = [],
      seResponders = Map.empty, seLocked = False, seOut = [], seTasks = []\<rparr>"

definition session_New ::
  "('p, 'w) sdk \<Rightarrow> 'p pchannel_api \<Rightarrow> addr_lib \<Rightarrow> wallet_lib \<Rightarrow> contract_registry \<Rightarrow> currency_registry
     \<Rightarrow> 8 word list \<Rightarrow> session_config \<Rightarrow> 'w \<Rightarrow> (api_err + ('p, 'w, 'ev) session) run" where
  "session_New S P L W CR CU nowUTC cfg w =
     (case NewUnlockedUser L W NewWalletBackend (scUser cfg) of
        Inl ae \<Rightarrow> Done (Inl ae)
      | Inr u \<Rightarrow>
          if ucCommType (scUser cfg) \<noteq> ''tcp''
          then Done (Inl (NewAPIErrInvalidConfig ErrUnsupportedType ''commType'' (ucCommType (scUser cfg))))
          else (case initIDProvider S L (scIDProviderType cfg) (scIDProviderURL cfg) (usPeerID u) of
            Inl ae \<Rightarrow> Done (Inl ae)
          | Inr ip \<Rightarrow>
              (case NewChainBackend S L (scChainURL cfg) (scChainConnTimeout cfg) (usOnChain u) of
                 Some e \<Rightarrow> Done (Inl (NewAPIErrInvalidConfig (EWith e ''connecting to blockchain'')
                     ''chainURL'' (scChainURL cfg)))
               | None \<Rightarrow>
                   andThen (AssetETH CR) (\<lambda>assetETH.
                   let w1 = sdNewFunder S assetETH (crAddr (usOnChain u)) w
                   in case newEthereumPaymentClient S (ucCommAddr (scUser cfg)) (usOffChain u) w1 of
                        (Inl ae, _) \<Rightarrow> Done (Inl ae)
                      | (Inr c, w2) \<Rightarrow>
                          (let s = new_session (calcSessionID S (sdAddrBytes S (pOffChainAddr (usPeerID u))) nowUTC)
                                     cfg u c ip w2
                           in andThen (RestoreChs S P L CR CU (scDatabaseDir cfg) (scPeerReconnTimeout cfg) s)
                                (\<lambda>(err, s1).
                                case err of
                                  Some e \<Rightarrow> Done (Inl (NewAPIErrInvalidConfig (EWith e ''restoring channels'')
                                      ''databaseDir'' (scDatabaseDir cfg)))
                                | None \<Rightarrow> Done (Inr (s1\<lparr>seWorld := client_Handle S (seWorld s1)\<rparr>))))))))"

end
