(* ===== verification/Session_Laws.thy ===== *)
theory Session_Laws
  imports Session
begin

text \<open>
  The invariant of a session and how its operations evolve it: the parameters of the session
  never change, its list of channels only grows, each of its channels evolves as \<open>Channel\<close>
  says, no notification is taken back, a closed session is not reopened, and a known alias
  keeps its peer ID.
\<close>

subsection \<open>Invariant and evolution\<close>

definition task_ok :: "('p, 'ev) channel list \<Rightarrow> update_task \<Rightarrow> bool" where
  "task_ok chs t \<longleftrightarrow> utSlot t < length chs \<and> chID (chs ! utSlot t) = hex_bytes (psID (utProposed t))"

definition se_inv :: "addr_lib \<Rightarrow> ('p, 'w, 'ev) session \<Rightarrow> bool" where
  "se_inv L s \<longleftrightarrow>
     rg_inv (seChs s) \<and> (\<forall>ch \<in> set (rgChs (seChs s)). ch_inv ch) \<and>
     (seNotifier s \<noteq> None \<longrightarrow> seNotifsCache s = []) \<and>
     (\<forall>u e. seResponders s u = Some e \<longrightarrow>
        cpnProposalID (peNotif e) = u \<and> hex_bytes (lpProposalID (peProposal e)) = u \<and> cpnExpiry (peNotif e) \<noteq> 0) \<and>
     (\<forall>t \<in> set (seTasks s). task_ok (rgChs (seChs s)) t) \<and>
     id_cache_inv L (seIDProvider s)"

definition chs_evolve :: "('p, 'ev) channel list \<Rightarrow> ('p, 'ev) channel list \<Rightarrow> bool" where
  "chs_evolve xs ys \<longleftrightarrow> length xs \<le> length ys \<and> (\<forall>i < length xs. evolves (xs ! i) (ys ! i))"

definition se_evolves ::
  "addr_lib \<Rightarrow> ('p, 'w, 'ev) session \<Rightarrow> ('p, 'w, 'ev) session \<Rightarrow> bool" where
  "se_evolves L s s' \<longleftrightarrow>
     seID s' = seID s \<and> seUser s' = seUser s \<and> seTimeoutCfg s' = seTimeoutCfg s \<and>
     seChainURL s' = seChainURL s \<and> chs_evolve (rgChs (seChs s)) (rgChs (seChs s')) \<and>
     prefix (seOut s) (seOut s') \<and> (seIsOpen s' \<longrightarrow> seIsOpen s) \<and>
     ReadByAlias (seIDProvider s) \<subseteq>\<^sub>m ReadByAlias (seIDProvider s') \<and>
     (se_inv L s \<longrightarrow> se_inv L s')"

lemma chs_evolve_refl [simp]: "chs_evolve xs xs"
  by (simp add: chs_evolve_def)

lemma chs_evolve_trans: "chs_evolve xs ys \<Longrightarrow> chs_evolve ys zs \<Longrightarrow> chs_evolve xs zs"
  unfolding chs_evolve_def by (meson evolves_trans le_trans less_le_trans)

lemma chs_evolve_snoc [simp]: "chs_evolve xs (xs @ [c])"
  by (simp add: chs_evolve_def nth_append)

lemma chs_evolve_update: "evolves (xs ! i) c \<Longrightarrow> chs_evolve xs (xs[i := c])"
  by (metis chs_evolve_def evolves_refl length_list_update nth_list_update_eq nth_list_update_neq order_refl)

lemma chs_evolve_map: "(\<And>c. c \<in> set xs \<Longrightarrow> evolves c (f c)) \<Longrightarrow> chs_evolve xs (map f xs)"
  by (simp add: chs_evolve_def)

lemma chs_evolve_all2: "list_all2 evolves xs ys \<Longrightarrow> chs_evolve xs ys"
  by (simp add: chs_evolve_def list_all2_conv_all_nth)

lemma evolves_id: "evolves ch ch' \<Longrightarrow> chID ch' = chID ch"
  by (simp add: evolves_def same_params_def)

lemma chs_evolve_inv:
  assumes "chs_evolve xs ys" and "length ys = length xs" and "\<forall>c \<in> set xs. ch_inv c"
  shows "\<forall>c \<in> set ys. ch_inv c" and "map chID ys = map chID xs"
proof -
  have ev: "evolves (xs ! i) (ys ! i)" if "i < length xs" for i
    using assms(1) that by (simp add: chs_evolve_def)
  then have "ch_inv (ys ! i)" if "i < length ys" for i
    using that assms(2,3) by (auto simp: evolves_def)
  then show "\<forall>c \<in> set ys. ch_inv c" by (auto simp: in_set_conv_nth)
  show "map chID ys = map chID xs"
    using assms(2) by (intro nth_equalityI) (simp_all add: evolves_id [OF ev])
qed

lemma same_ids_nth: "map chID ys = map chID xs \<Longrightarrow> i < length xs \<Longrightarrow> chID (ys ! i) = chID (xs ! i)"
  by (metis length_map nth_map)

lemma task_ok_ids:
  assumes "map chID ys = map chID xs" and "task_ok xs t"
  shows "task_ok ys t"
  using same_ids_nth [OF assms(1)] map_eq_imp_length_eq [OF assms(1)] assms(2)
  by (simp add: task_ok_def)

lemma rg_inv_ids:
  assumes "map chID (rgChs r') = map chID (rgChs r)" and "rgIdxs r' = rgIdxs r" and "rg_inv r"
  shows "rg_inv r'"
  using same_ids_nth [OF assms(1)] map_eq_imp_length_eq [OF assms(1)] assms(2,3)
  unfolding rg_inv_def by metis

lemma se_evolves_refl [simp]: "se_evolves L s s"
  by (simp add: se_evolves_def)

lemma se_evolves_trans [trans]: "se_evolves L a b \<Longrightarrow> se_evolves L b c \<Longrightarrow> se_evolves L a c"
  using chs_evolve_trans [of "rgChs (seChs a)" "rgChs (seChs b)" "rgChs (seChs c)"]
    map_le_trans [of "ReadByAlias (seIDProvider a)" "ReadByAlias (seIDProvider b)"]
  by (auto simp: se_evolves_def)

lemma se_inv_irrelevant [simp]:
  "se_inv L (s\<lparr>seLocked := b\<rparr>) = se_inv L s" "se_inv L (s\<lparr>seWorld := w\<rparr>) = se_inv L s"
  "se_inv L (s\<lparr>seClient := c\<rparr>) = se_inv L s" "se_inv L (s\<lparr>seIsOpen := b\<rparr>) = se_inv L s"
  "se_inv L (s\<lparr>seOut := out\<rparr>) = se_inv L s"
  by (simp_all add: se_inv_def)

lemma se_evolves_irrelevant [simp]:
  "se_evolves L s (s'\<lparr>seLocked := b\<rparr>) = se_evolves L s s'"
  "se_evolves L (s\<lparr>seLocked := b\<rparr>) s' = se_evolves L s s'"
  "se_evolves L s (s'\<lparr>seWorld := w\<rparr>) = se_evolves L s s'"
  "se_evolves L (s\<lparr>seWorld := w\<rparr>) s' = se_evolves L s s'"
  "se_evolves L s (s'\<lparr>seClient := c\<rparr>) = se_evolves L s s'"
  "se_evolves L (s\<lparr>seClient := c\<rparr>) s' = se_evolves L s s'"
  by (simp_all add: se_evolves_def)

lemma se_evolves_close [simp]: "se_evolves L s (s\<lparr>seIsOpen := False\<rparr>)"
  by (simp add: se_evolves_def)

subsection \<open>Writing to the fields\<close>

lemma se_evolves_chs:
  assumes "chs_evolve (rgChs (seChs s)) ys" and "length ys = length (rgChs (seChs s))"
  shows "se_evolves L s (s\<lparr>seChs := (seChs s)\<lparr>rgChs := ys\<rparr>\<rparr>)"
proof -
  have "se_inv L (s\<lparr>seChs := (seChs s)\<lparr>rgChs := ys\<rparr>\<rparr>)" if inv: "se_inv L s"
  proof -
    from inv have "\<forall>c \<in> set (rgChs (seChs s)). ch_inv c" by (simp add: se_inv_def)
    note ys = chs_evolve_inv [OF assms this]
    have "rg_inv ((seChs s)\<lparr>rgChs := ys\<rparr>)"
      by (rule rg_inv_ids [of _ "seChs s"]) (use ys(2) inv in \<open>simp_all add: se_inv_def\<close>)
    then show ?thesis
      using inv ys(1) task_ok_ids [OF ys(2)] by (simp add: se_inv_def)
  qed
  with assms(1) show ?thesis by (simp add: se_evolves_def)
qed

lemma se_evolves_write:
  assumes "evolves (rgChs (seChs s) ! i) ch"
  shows "se_evolves L s (s\<lparr>seChs := rg_write i ch (seChs s)\<rparr>)"
  using se_evolves_chs [OF chs_evolve_update [OF assms]] by (simp add: rg_write_def)

lemma se_evolves_put:
  assumes "ch_inv ch"
  shows "se_evolves L s (s\<lparr>seChs := rg_put ch (seChs s)\<rparr>)"
proof -
  have chs: "rgChs (rg_put ch (seChs s)) = rgChs (seChs s) @ [ch]"
    by (simp add: rg_put_def rg_append_def Let_def)
  have "se_inv L (s\<lparr>seChs := rg_put ch (seChs s)\<rparr>)" if "se_inv L s"
    using that assms by (auto simp: se_inv_def chs rg_inv_put task_ok_def nth_append)
  then show ?thesis by (simp add: se_evolves_def chs)
qed

lemma se_evolves_ids:
  assumes "id_cache_inv L (seIDProvider s) \<Longrightarrow> id_cache_inv L c"
    and "ReadByAlias (seIDProvider s) \<subseteq>\<^sub>m ReadByAlias c"
  shows "se_evolves L s (s\<lparr>seIDProvider := c\<rparr>)"
  using assms by (simp add: se_evolves_def se_inv_def)

lemma se_evolves_respond: "se_evolves L s (s\<lparr>seResponders := (seResponders s)(u := None)\<rparr>)"
  by (auto simp: se_evolves_def se_inv_def)

lemma se_evolves_store:
  assumes "cpnProposalID (peNotif e) = u" and "hex_bytes (lpProposalID (peProposal e)) = u"
    and "cpnExpiry (peNotif e) \<noteq> 0"
  shows "se_evolves L s (s\<lparr>seResponders := (seResponders s)(u \<mapsto> e)\<rparr>)"
  using assms by (auto simp: se_evolves_def se_inv_def)

lemma se_evolves_notify: "se_evolves L s (notifyProposal n s)"
  by (auto simp: notifyProposal_def se_evolves_def se_inv_def split: option.splits)

lemma se_evolves_subscribe:
  "se_evolves L s (s\<lparr>seNotifier := Some f, seNotifsCache := [], seOut := seOut s @ out\<rparr>)"
  by (simp add: se_evolves_def se_inv_def)

lemma se_evolves_unsubscribe: "se_evolves L s (s\<lparr>seNotifier := None\<rparr>)"
  by (simp add: se_evolves_def se_inv_def)

lemma se_evolves_tasks:
  assumes "\<And>t. se_inv L s \<Longrightarrow> t \<in> set ts \<Longrightarrow> task_ok (rgChs (seChs s)) t"
  shows "se_evolves L s (s\<lparr>seTasks := ts\<rparr>)"
  using assms by (auto simp: se_evolves_def se_inv_def)

lemmas se_evolves_intros =
  se_evolves_put se_evolves_respond se_evolves_notify
  se_evolves_subscribe se_evolves_unsubscribe

lemma with_slock_Done [run_simps]:
  "with_slock s body = Done (x, s') \<longleftrightarrow>
     \<not> seLocked s \<and> (\<exists>t. body (s\<lparr>seLocked := True\<rparr>) = Done (x, t) \<and> s' = t\<lparr>seLocked := False\<rparr>)"
  by (auto simp: with_slock_def run_simps)

lemma with_slock_evolves:
  assumes "with_slock s body = Done (x, s')"
    and "\<And>t x t'. body t = Done (x, t') \<Longrightarrow> se_evolves L t t'"
  shows "se_evolves L s s'"
proof -
  from assms(1) obtain t where "body (s\<lparr>seLocked := True\<rparr>) = Done (x, t)" "s' = t\<lparr>seLocked := False\<rparr>"
    by (auto simp: run_simps)
  with assms(2) [of "s\<lparr>seLocked := True\<rparr>" x t] show ?thesis by simp
qed

lemma deref_Done [run_simps]: "deref x = Done y \<longleftrightarrow> x = Some y"
  by (auto simp: deref_def split: option.splits)

subsection \<open>Every operation evolves the session\<close>

lemma Write_monotone:
  "ReadByAlias c \<subseteq>\<^sub>m ReadByAlias (snd (Write L al p c))"
  by (cases rule: Write_cases [of c al L p])
     (auto simp: map_le_def ReadByAlias_def put_peer_def)

lemma AddPeerID_evolves: "AddPeerID L p s = Done (r, s') \<Longrightarrow> se_evolves L s s'"
  unfolding AddPeerID_def
proof (erule with_slock_evolves)
  fix t x and t' :: "('a, 'b, 'c) session"
  assume *: "(if \<not> seIsOpen t then Done (Some (NewAPIErrFailedPreCondition ErrSessionClosed), t) else
    (case Write L (pAlias p) p (seIDProvider t) of
          (None, c) \<Rightarrow> Done (None, t\<lparr>seIDProvider := c\<rparr>)
        | (Some e, c) \<Rightarrow> Done (Some
            (if errors_Is ErrPeerAliasAlreadyUsed_text e
             then NewAPIErrInvalidArgument e ArgNamePeerAlias (pAlias p)
             else if errors_Is ErrPeerIDAlreadyRegistered_text e
             then NewAPIErrResourceExists ResTypePeerID (pAlias p)
             else if errors_Is ErrParsingOffChainAddress_text e
             then NewAPIErrInvalidArgument e ArgNameOffChainAddr (pOffChainAddrString p)
             else NewAPIErrUnknownInternal e), t\<lparr>seIDProvider := c\<rparr>))) = Done (x, t')"
  have "se_evolves L t (t\<lparr>seIDProvider := snd (Write L (pAlias p) p (seIDProvider t))\<rparr>)"
    by (intro se_evolves_ids id_cache_inv_Write Write_monotone)
  with * show "se_evolves L t t'"
    by (auto split: if_splits prod.splits option.splits)
qed

lemma GetPeerID_evolves: "GetPeerID al s = Done (r, s') \<Longrightarrow> se_evolves L s s'"
  unfolding GetPeerID_def
  by (erule with_slock_evolves) (auto split: if_splits option.splits)

lemma addCh_evolves: "addCh ch s = Done (r, s') \<Longrightarrow> ch_inv ch \<Longrightarrow> se_evolves L s s'"
  unfolding addCh_def by (erule with_slock_evolves) (auto intro: se_evolves_put)

lemma OpenCh_propose_Done:
  assumes "OpenCh_propose S P CR CU bi ap dur s = Done (r, s')"
  shows "s' = s\<lparr>seWorld := seWorld s'\<rparr> \<and>
    (\<forall>ch. r = Inr ch \<longrightarrow> ch_inv ch)"
  using assms
  by (auto simp: OpenCh_propose_def Let_def elim!: andThen_DoneE
      split: if_splits sum.splits prod.splits)

lemma OpenCh_propose_evolves: "OpenCh_propose S P CR CU bi ap dur s = Done (r, s') \<Longrightarrow> se_evolves L s s'"
  using OpenCh_propose_Done [of S P CR CU bi ap dur s r s']
    se_evolves_irrelevant(3) se_evolves_refl by metis

lemma rg_put_last: "rgChs (rg_put ch r) ! (rg_count (rg_put ch r) - 1) = ch"
  by (simp add: rg_put_def rg_append_def rg_count_def Let_def)

lemma OpenCh_add_evolves:
  assumes "OpenCh_add P ch s = Done (r, s')" and "ch_inv ch"
  shows "se_evolves L s s'"
proof -
  from assms(1) obtain info ch' s1 where
    add: "addCh ch s = Done ((), s1)" and gi: "GetChInfo P ch = Done (info, ch')"
    and s': "s' = s1\<lparr>seChs := rg_write (rg_count (seChs s1) - 1) ch' (seChs s1)\<rparr>"
    by (auto simp: OpenCh_add_def run_simps)
  from add have "seChs s1 = rg_put ch (seChs s)" by (auto simp: addCh_def run_simps)
  then have "se_evolves L s1 s'"
    unfolding s' using GetChInfo_evolves [OF gi]
    by (intro se_evolves_write) (simp add: rg_put_last [simplified])
  with addCh_evolves [OF add assms(2)] show ?thesis by (rule se_evolves_trans)
qed

lemma OpenCh_evolves:
  assumes "OpenCh S P CR CU bi ap dur s = Done (r, s')"
  shows "se_evolves L s s'"
proof -
  from assms obtain x s1 where prp: "OpenCh_propose S P CR CU bi ap dur s = Done (x, s1)"
    and rest: "(case x of Inl ae \<Rightarrow> Done ((nil_ch_info, Some ae), s1) | Inr ch \<Rightarrow> OpenCh_add P ch s1)
        = Done (r, s')"
    by (auto simp: OpenCh_def run_simps)
  have "se_evolves L s1 s'"
  proof (cases x)
    case (Inr ch)
    with OpenCh_propose_Done [OF prp] have "ch_inv ch" by auto
    with rest Inr OpenCh_add_evolves [of P ch s1 r s' L] show ?thesis by simp
  qed (use rest in auto)
  with OpenCh_propose_evolves [OF prp] show ?thesis by (rule se_evolves_trans)
qed

lemma rejectChProposal_world: "\<exists>w. snd (rejectChProposal S r t s) = s\<lparr>seWorld := w\<rparr>"
  by (auto simp: rejectChProposal_def split: prod.splits)

lemma rejectChProposal_evolves [simp]: "se_evolves L s (snd (rejectChProposal S r t s))"
  using rejectChProposal_world [of S r t s] by auto

lemma chProposalNotif_Done:
  assumes "chProposalNotif parts cs prop ex = Done n"
  shows "cpnProposalID n = hex_bytes (lpProposalID prop)" and "cpnExpiry n = ex"
    and "cpnChallengeDurSecs n = lpChallengeDuration prop"
    and "biParts (cpnOpeningBalInfo n) = parts"
  using assms by (auto simp: chProposalNotif_def Let_def run_simps makeBalInfoFromRawBal_def)

lemma store_notify_evolves:
  assumes "chProposalNotif parts cs prop ex = Done n"
  shows "se_evolves L s (notifyProposal n
    (if ex \<noteq> 0 then s\<lparr>seResponders := (seResponders s)(cpnProposalID n \<mapsto>
         \<lparr>peProposal = prop, peNotif = n, peResponder = resp, peCurrencies = cs\<rparr>)\<rparr> else s))"
proof (cases "ex = 0")
  case False
  have "se_evolves L s (s\<lparr>seResponders := (seResponders s)(cpnProposalID n \<mapsto>
         \<lparr>peProposal = prop, peNotif = n, peResponder = resp, peCurrencies = cs\<rparr>)\<rparr>)"
    using False chProposalNotif_Done [OF assms] by (intro se_evolves_store) simp_all
  also have "se_evolves L \<dots> (notifyProposal n \<dots>)" by (rule se_evolves_notify)
  finally show ?thesis using False by simp
qed (simp add: se_evolves_notify)

lemma HandleProposal_evolves:
  assumes "HandleProposal S L CR CU now prop resp s = Done (r, s')"
  shows "se_evolves L s s'"
proof (cases "prop = None \<or> \<not> seIsOpen s")
  case True
  with assms show ?thesis by (auto simp: HandleProposal_def split: option.splits)
next
  case False
  then obtain p where p: "prop = Some p" and op: "seIsOpen s" by auto
  obtain parts known where pk: "proposal_parts L (seIDProvider s) (lpPeers p) = (parts, known)"
    by (cases "proposal_parts L (seIDProvider s) (lpPeers p)") auto
  let ?s1 = "if known then s else snd (rejectChProposal S resp ''unrecogonized peer ID'' s)"
  let ?found = "getCurrencies L CR CU (lpAssets p)"
  let ?s2 = "case ?found of Inl e \<Rightarrow> snd (rejectChProposal S resp ''unrecogonized currency'' ?s1) | Inr _ \<Rightarrow> ?s1"
  let ?cs = "case ?found of Inl e \<Rightarrow> [] | Inr cs \<Rightarrow> cs"
  let ?ex = "if known then unix_after now (tcResponse (seTimeoutCfg s)) else 0"
  from assms p op obtain n where n: "chProposalNotif parts ?cs p ?ex = Done n"
    and lk: "with_slock ?s2 (\<lambda>s3. Done ((), notifyProposal n
         (if ?ex \<noteq> 0 then s3\<lparr>seResponders := (seResponders s3)(cpnProposalID n \<mapsto>
            \<lparr>peProposal = p, peNotif = n, peResponder = resp, peCurrencies = ?cs\<rparr>)\<rparr> else s3)))
       = Done (r, s')"
    by (auto simp: HandleProposal_def pk Let_def run_simps)
  have "se_evolves L s ?s1" by simp
  also have "se_evolves L ?s1 ?s2" by (cases ?found) simp_all
  also have "se_evolves L ?s2 s'"
    using lk by (rule with_slock_evolves) (use store_notify_evolves [OF n] in auto)
  finally show ?thesis .
qed

lemma SubChProposals_evolves: "SubChProposals f s = Done (r, s') \<Longrightarrow> se_evolves L s s'"
  unfolding SubChProposals_def
  by (erule with_slock_evolves)
     (auto simp: flush_loop_all split: if_splits intro: se_evolves_subscribe)

lemma UnsubChProposals_evolves: "UnsubChProposals s = Done (r, s') \<Longrightarrow> se_evolves L s s'"
  unfolding UnsubChProposals_def
  by (erule with_slock_evolves) (auto split: if_splits intro: se_evolves_unsubscribe)

lemma RespondChProposal_take_evolves: "RespondChProposal_take u s = Done (r, s') \<Longrightarrow> se_evolves L s s'"
  unfolding RespondChProposal_take_def
  by (erule with_slock_evolves) (auto split: option.splits intro: se_evolves_respond)

lemma acceptChProposal_evolves:
  assumes "acceptChProposal S P CR e s = Done (r, s')"
  shows "se_evolves L s s'"
proof -
  have add: "se_evolves L s s1" if "addCh (newCh P pch url cs parts cfg dur) (s\<lparr>seWorld := w\<rparr>) = Done (x, s1)"
    for pch url cs parts cfg dur w x s1
    using addCh_evolves [OF that, of L] by simp
  obtain resp w1 where acc: "sdProposalAcc S (peProposal e) (pOffChainAddr (usPeerID (seUser s))) (seWorld s) = (resp, w1)"
    by fastforce
  from assms obtain w2 where w2: "updateAssetsInFunder S CR (crAddr (usOnChain (seUser s))) (peCurrencies e) w1 = Done w2"
    by (auto simp: acceptChProposal_def Let_def run_simps acc)
  obtain res w3 where res: "sdAccept S (respChProposalAccept (seTimeoutCfg s) (cpnChallengeDurSecs (peNotif e)))
      (peResponder e) resp w2 = (res, w3)"
    by fastforce
  from assms add show ?thesis
    by (cases res) (auto simp: acceptChProposal_def Let_def run_simps acc w2 res)
qed

lemma RespondChProposal_answer_evolves:
  "RespondChProposal_answer S P CR now acc e s = Done (r, s') \<Longrightarrow> se_evolves L s s'"
  using rejectChProposal_evolves [of L s S "peResponder e" "''rejected by user''"]
  by (auto simp: RespondChProposal_answer_def Let_def case_prod_unfold split: if_splits
      dest: acceptChProposal_evolves)

lemma RespondChProposal_evolves:
  "RespondChProposal S P CR now u acc s = Done (r, s') \<Longrightarrow> se_evolves L s s'"
  by (auto simp: RespondChProposal_def run_simps split: if_splits option.splits
      dest!: RespondChProposal_take_evolves RespondChProposal_answer_evolves
      intro: se_evolves_trans)

lemma rg_forEach_evolves:
  assumes "rg_forEach f (seChs s) = Done (xs, r')"
    and "\<And>c x c'. f c = Done (x, c') \<Longrightarrow> evolves c c'"
  shows "se_evolves L s (s\<lparr>seChs := r'\<rparr>)"
proof -
  from assms(1) obtain zs where zs: "list_all2 (\<lambda>c x. f c = Done x) (rgChs (seChs s)) zs"
    and r': "r' = (seChs s)\<lparr>rgChs := map snd zs\<rparr>"
    by (auto simp: rg_forEach_Done)
  from zs have "list_all2 evolves (rgChs (seChs s)) (map snd zs)"
    by (auto simp: list_all2_conv_all_nth) (metis assms(2) prod.collapse)
  with zs show ?thesis
    unfolding r' by (intro se_evolves_chs chs_evolve_all2) (simp_all add: list_all2_lengthD)
qed

lemma GetChsInfo_evolves: "GetChsInfo P s = Done (r, s') \<Longrightarrow> se_evolves L s s'"
  unfolding GetChsInfo_def
  by (erule with_slock_evolves)
     (auto simp: run_simps intro: rg_forEach_evolves GetChInfo_evolves)

lemma GetCh_evolves: "GetCh cid s = Done (r, s') \<Longrightarrow> se_evolves L s s'"
  unfolding GetCh_def
  by (erule with_slock_evolves) (auto simp: run_simps split: option.splits)

lemma on_channel_evolves:
  assumes "on_channel slot f s = Done (r, s')" and "\<And>c x c'. f c = Done (x, c') \<Longrightarrow> evolves c c'"
  shows "se_evolves L s s'"
  using assms by (auto simp: on_channel_def run_simps intro: se_evolves_write)

lemma HandleUpdate_evolves:
  assumes "HandleUpdate S cur prop resp s = Done (r, s')"
  shows "se_evolves L s s'"
  using assms unfolding HandleUpdate_def
proof (rule with_slock_evolves)
  fix t x and t' :: "('a, 'b, 'c) session"
  assume *: "(if \<not> seIsOpen t then Done ((), t) else andThen (rg_get (seChs t) (hex_bytes (psID prop))) (\<lambda>found.
       case found of
         None \<Rightarrow> Done ((), t\<lparr>seWorld :=
             snd (sdRejectUpdate S resp ''unknown channel for this session'' (seWorld t))\<rparr>)
       | Some (slot, ch) \<Rightarrow> Done ((), t\<lparr>seTasks := seTasks t @
           [\<lparr>utSlot = slot, utCurr = cur, utProposed = prop, utResponder = resp\<rparr>]\<rparr>))) = Done (x, t')"
  have "se_evolves L t (t\<lparr>seTasks := seTasks t @
           [\<lparr>utSlot = slot, utCurr = cur, utProposed = prop, utResponder = resp\<rparr>]\<rparr>)"
    if "rg_get (seChs t) (hex_bytes (psID prop)) = Done (Some (slot, ch))" for slot ch
    using that rg_get_Some [of "seChs t"]
    by (intro se_evolves_tasks) (auto simp: se_inv_def task_ok_def)
  with * show "se_evolves L t t'"
    by (auto simp: run_simps split: if_splits option.splits)
qed

lemma run_task_evolves:
  assumes "run_task now k s = Done (r, s')"
  shows "se_evolves L s s'"
proof -
  let ?s1 = "s\<lparr>seTasks := take k (seTasks s) @ drop (Suc k) (seTasks s)\<rparr>"
  have "se_evolves L s ?s1"
    by (intro se_evolves_tasks) (auto simp: se_inv_def dest: in_set_takeD in_set_dropD)
  moreover from assms have "se_evolves L ?s1 s'"
    by (auto simp: run_task_def run_simps intro: on_channel_evolves ch_HandleUpdate_evolves)
  ultimately show ?thesis by (rule se_evolves_trans)
qed

lemma close_scan_evolves: "close_scan P ch = Done (x, ch') \<Longrightarrow> evolves ch ch'"
  by (auto simp: close_scan_def Let_def run_simps split: if_splits)

lemma unlockAllChs_evolves [simp]: "se_evolves L s (unlockAllChs s)"
  unfolding unlockAllChs_def by (intro se_evolves_chs chs_evolve_map) simp_all

lemma session_close_evolves: "session_close S s = Done (r, s') \<Longrightarrow> se_evolves L s s'"
  by (auto simp: session_close_def Let_def run_simps)

lemma Close_evolves: "Close S P force s = Done (r, s') \<Longrightarrow> se_evolves L s s'"
  unfolding Close_def
proof (erule with_slock_evolves)
  fix t x and t' :: "('a, 'b, 'c) session"
  assume *: "(if \<not> seIsOpen t then Done (([], Some (NewAPIErrFailedPreCondition ErrSessionClosed)), t)
     else andThen (rg_forEach (close_scan P) (seChs t)) (\<lambda>(scans, chs).
       let s1 = t\<lparr>seChs := chs\<rparr>;
           unexpectedPhaseChIDs = List.map_filter fst scans;
           openChsInfo = List.map_filter snd scans
       in if length unexpectedPhaseChIDs \<noteq> 0
          then Done (([], Some (NewAPIErrFailedPreConditionUnclosedChs
                 (ENew ''session cannot be closed with channels in unexpected phase'')
                 unexpectedPhaseChIDs)), unlockAllChs s1)
          else if \<not> force \<and> length openChsInfo \<noteq> 0
          then Done (([], Some (NewAPIErrFailedPreConditionUnclosedChs
                 (ENew ''session cannot be closed with channels in open phase without force option'')
                 openChsInfo)), unlockAllChs s1)
          else andThen (session_close S (s1\<lparr>seIsOpen := False\<rparr>)) (\<lambda>(apiErr, s2).
                 Done ((openChsInfo, apiErr), s2)))) = Done (x, t')"
  have fe: "se_evolves L t (t\<lparr>seChs := chs\<rparr>)"
    if "rg_forEach (close_scan P) (seChs t) = Done (scans, chs)" for scans chs
    using that close_scan_evolves by (rule rg_forEach_evolves)
  from * show "se_evolves L t t'"
    by (auto simp: run_simps Let_def split: if_splits dest!: fe session_close_evolves
        intro: se_evolves_trans [OF _ unlockAllChs_evolves]
          se_evolves_trans [OF se_evolves_trans [OF _ se_evolves_close]])
qed

lemma session_DeployAssetERC20_evolves:
  "session_DeployAssetERC20 S L' CR tok s = Done (r, s') \<Longrightarrow> se_evolves L s s'"
  unfolding session_DeployAssetERC20_def
  by (erule with_slock_evolves) (auto split: if_splits sum.splits prod.splits)

lemma handleRestoredCh_evolves:
  assumes "handleRestoredCh S P L CR CU pch s = Done s'"
  shows "se_evolves L s s'"
proof -
  have "se_evolves L s s1" if "addCh (newCh P pch url cs parts cfg dur) (s\<lparr>seWorld := w\<rparr>) = Done ((), s1)"
    for pch url cs parts cfg dur w s1
    using addCh_evolves [OF that, of L] by simp
  with assms show ?thesis
    by (auto simp: handleRestoredCh_def Let_def run_simps split: if_splits option.splits sum.splits)
qed

lemma restore_loop_evolves: "restore_loop S P L CR CU pchs s = Done s' \<Longrightarrow> se_evolves L s s'"
  by (induction pchs arbitrary: s)
     (auto simp: run_simps dest!: handleRestoredCh_evolves intro: se_evolves_trans)

lemmas se_op_evolves =
  AddPeerID_evolves GetPeerID_evolves OpenCh_propose_evolves OpenCh_evolves HandleProposal_evolves
  SubChProposals_evolves UnsubChProposals_evolves RespondChProposal_take_evolves
  RespondChProposal_answer_evolves RespondChProposal_evolves GetChsInfo_evolves GetCh_evolves
  HandleUpdate_evolves run_task_evolves Close_evolves session_DeployAssetERC20_evolves
  handleRestoredCh_evolves

end
