(* ===== verification/Session_Safety.thy ===== *)
theory Session_Safety
  imports Session_Laws "HOL-Library.Multiset"
begin

text \<open>
  What holds of a session over time, and the contracts of its operations: the step relation
  and the reachable states, opening channels, incoming proposals, closing.
\<close>

subsection \<open>Steps\<close>

text \<open>
  One rule for each operation of the session, for the halves of those that release the lock in
  between, for the steps of its channels and for what goes on in the SDK. The registries of
  the node may be others at every step.
\<close>

inductive se_step ::
  "('p, 'w) sdk \<Rightarrow> 'p pchannel_api \<Rightarrow> addr_lib \<Rightarrow> ('p, 'w, 'ev) session \<Rightarrow> ('p, 'w, 'ev) session \<Rightarrow> bool"
  for S :: "('p, 'w) sdk" and P :: "'p pchannel_api" and L :: addr_lib where
  add_peer: "AddPeerID L p s = Done (r, s') \<Longrightarrow> se_step S P L s s'"
| get_peer: "GetPeerID al s = Done (r, s') \<Longrightarrow> se_step S P L s s'"
| open_propose: "OpenCh_propose S P CR CU bi ap dur s = Done (r, s') \<Longrightarrow> se_step S P L s s'"
| open_add: "OpenCh_add P (newCh P pch url cs parts cfg dur) s = Done (r, s') \<Longrightarrow> se_step S P L s s'"
| proposal: "HandleProposal S L CR CU now prop resp s = Done (r, s') \<Longrightarrow> se_step S P L s s'"
| subscribe: "SubChProposals f s = Done (r, s') \<Longrightarrow> se_step S P L s s'"
| unsubscribe: "UnsubChProposals s = Done (r, s') \<Longrightarrow> se_step S P L s s'"
| respond_take: "RespondChProposal_take u s = Done (r, s') \<Longrightarrow> se_step S P L s s'"
| respond_answer: "RespondChProposal_answer S P CR now acc e s = Done (r, s') \<Longrightarrow> se_step S P L s s'"
| chs_info: "GetChsInfo P s = Done (r, s') \<Longrightarrow> se_step S P L s s'"
| get_ch: "GetCh cid s = Done (r, s') \<Longrightarrow> se_step S P L s s'"
| channel: "ch_step P (rgChs (seChs s) ! i) ch \<Longrightarrow> se_step S P L s (s\<lparr>seChs := rg_write i ch (seChs s)\<rparr>)"
| update: "HandleUpdate S cur prop resp s = Done (r, s') \<Longrightarrow> se_step S P L s s'"
| task: "run_task now k s = Done (r, s') \<Longrightarrow> se_step S P L s s'"
| close: "Close S P force s = Done (r, s') \<Longrightarrow> se_step S P L s s'"
| deploy: "session_DeployAssetERC20 S L CR tok s = Done (r, s') \<Longrightarrow> se_step S P L s s'"
| restored: "handleRestoredCh S P L CR CU pch s = Done s' \<Longrightarrow> se_step S P L s s'"
| sdk: "se_step S P L s (s\<lparr>seWorld := w\<rparr>)"

inductive_cases se_stepE: "se_step S P L s s'"

lemma evolves_closed:
  assumes "evolves ch ch'" and "ch_inv ch" and "chStatus ch = StatusClosed"
  shows "chStatus ch' = StatusClosed"
proof -
  from assms have "frozen ch ch'" by (simp add: evolves_def)
  then have "chStatus ch' = chStatus ch" by (simp only: frozen_def)
  with assms(3) show ?thesis by simp
qed

lemma se_evolves_channel:
  assumes "se_evolves L s s'" and "i < rg_count (seChs s)"
  shows "evolves (rgChs (seChs s) ! i) (rgChs (seChs s') ! i)"
proof -
  from assms(1) have "chs_evolve (rgChs (seChs s)) (rgChs (seChs s'))" by (simp only: se_evolves_def)
  with assms(2) show ?thesis by (simp add: chs_evolve_def rg_count_def)
qed

lemma se_evolves_count:
  assumes "se_evolves L s s'"
  shows "rg_count (seChs s) \<le> rg_count (seChs s')"
proof -
  from assms have "chs_evolve (rgChs (seChs s)) (rgChs (seChs s'))" by (simp only: se_evolves_def)
  then show ?thesis by (simp add: chs_evolve_def rg_count_def)
qed

lemma se_inv_channel: "se_inv L s \<Longrightarrow> i < rg_count (seChs s) \<Longrightarrow> ch_inv (rgChs (seChs s) ! i)"
  by (simp add: se_inv_def rg_count_def)

lemma se_step_evolves: "se_step S P L s s' \<Longrightarrow> se_evolves L s s'"
  by (induction rule: se_step.induct)
     (auto dest: se_op_evolves OpenCh_add_evolves intro: se_evolves_write ch_step_evolves)

lemma se_steps_evolve: "(se_step S P L)\<^sup>*\<^sup>* s s' \<Longrightarrow> se_evolves L s s'"
  by (induction rule: rtranclp_induct) (auto intro: se_evolves_trans se_step_evolves)

lemma se_inv_new: "id_cache_inv L ip \<Longrightarrow> se_inv L (new_session sid cfg u c ip w)"
  by (simp add: se_inv_def new_session_def) (simp add: newChRegistry_def)

text \<open>\<open>OpenCh\<close> and \<open>RespondChProposal\<close> are sequences of these steps.\<close>

lemma RespondChProposal_steps:
  "RespondChProposal S P CR now u acc s = Done (r, s') \<Longrightarrow> (se_step S P L)\<^sup>*\<^sup>* s s'"
  by (auto simp: RespondChProposal_def elim!: andThen_DoneE split: if_splits option.splits
      dest!: se_step.respond_take [of u s _ _ S P L] se_step.respond_answer [of S P CR now acc _ _ _ _ L]
      intro: rtranclp_trans)

subsection \<open>Participants and balances\<close>

lemma own_idx_loop_spec:
  "own_idx_loop ps i k = k \<and> OwnAlias \<notin> set ps \<or>
   (\<exists>j < length ps. own_idx_loop ps i k = i + j \<and> ps ! j = OwnAlias)"
proof (induction ps arbitrary: i k)
  case (Cons p ps)
  consider "own_idx_loop ps (Suc i) (if p = OwnAlias then i else k) = (if p = OwnAlias then i else k)"
      "OwnAlias \<notin> set ps"
    | j where "j < length ps" "own_idx_loop ps (Suc i) (if p = OwnAlias then i else k) = Suc i + j"
      "ps ! j = OwnAlias"
    using Cons.IH [of "Suc i" "if p = OwnAlias then i else k"] by auto
  then show ?case
  proof cases
    case 1
    then show ?thesis by (cases "p = OwnAlias") (auto intro: exI [of _ 0])
  next
    case (2 j)
    then show ?thesis by (intro disjI2 exI [of _ "Suc j"]) simp
  qed
qed simp

lemma swap_own_Done:
  assumes "j < length row"
  shows "swap_own j row = Done (row[j := row ! 0, 0 := row ! j])"
proof -
  from assms have "0 < length row" by linarith
  with assms show ?thesis by (simp add: swap_own_def)
qed

lemma swap_zip:
  assumes "length ps = length row" and "j < length ps" and "ps ! j = own"
  shows "mset (zip (ps[j := ps ! 0, 0 := own]) (row[j := row ! 0, 0 := row ! j])) = mset (zip ps row)"
proof -
  let ?z = "zip ps row"
  have "zip (ps[j := ps ! 0, 0 := own]) (row[j := row ! 0, 0 := row ! j]) = ?z[j := ?z ! 0, 0 := ?z ! j]"
  proof -
    have "0 < length row" using assms by (cases row) auto
    with assms have "?z ! 0 = (ps ! 0, row ! 0)" and "?z ! j = (own, row ! j)" by simp_all
    with assms(1) show ?thesis by (simp add: zip_update)
  qed
  also have "mset \<dots> = mset ?z"
    using assms by (intro mset_swap) auto
  finally show ?thesis .
qed

lemma sanitizeBalInfo_aux:
  assumes "\<forall>row \<in> set (biBals bi). length row = length (biParts bi)"
  obtains j where "sanitizeBalInfo bi = Done (bi\<lparr>
      biParts := (biParts bi)[j := biParts bi ! 0, 0 := biParts bi ! j],
      biBals := map (\<lambda>row. row[j := row ! 0, 0 := row ! j]) (biBals bi)\<rparr>)"
    and "j < length (biParts bi)" and "biParts bi ! j = OwnAlias"
  | "sanitizeBalInfo bi = Done bi" and "OwnAlias \<notin> set (biParts bi)"
proof -
  let ?j = "own_idx_loop (biParts bi) 0 0"
  consider (no) "?j = 0" "OwnAlias \<notin> set (biParts bi)"
    | (yes) "?j < length (biParts bi)" "biParts bi ! ?j = OwnAlias"
    using own_idx_loop_spec [of "biParts bi" 0 0] by auto
  then show thesis
  proof cases
    case no
    then show thesis using that(2) by (simp add: sanitizeBalInfo_def)
  next
    case yes
    then have pos: "0 < length (biParts bi)" by auto
    have bals: "mapRun (swap_own ?j) (biBals bi) = Done (map (\<lambda>row. row[?j := row ! 0, 0 := row ! ?j]) (biBals bi))"
      using yes(1) assms by (intro mapRun_cong_Done swap_own_Done) simp
    have "sanitizeBalInfo bi = Done (bi\<lparr>
        biParts := (biParts bi)[?j := biParts bi ! 0, 0 := biParts bi ! ?j],
        biBals := map (\<lambda>row. row[?j := row ! 0, 0 := row ! ?j]) (biBals bi)\<rparr>)"
    proof (cases "?j = 0")
      case True
      then show ?thesis by (simp add: sanitizeBalInfo_def)
    next
      case False
      then show ?thesis
        using yes bals pos by (simp add: sanitizeBalInfo_def Let_def)
    qed
    with yes show thesis using that(1) by blast
  qed
qed

lemma retrieve_loop_spec:
  "retrieve_loop ip als known ids missing repeated own = (ids', missing', repeated', own') \<Longrightarrow>
     ids' = ids @ map (\<lambda>a. case ReadByAlias ip a of None \<Rightarrow> nil_peer_id | Some p \<Rightarrow> p) als \<and>
     missing' = missing @ filter (\<lambda>a. ReadByAlias ip a = None) als \<and>
     (repeated' = [] \<longleftrightarrow> repeated = [] \<and> distinct (filter (\<lambda>a. ReadByAlias ip a \<noteq> None) als) \<and>
        known \<inter> set (filter (\<lambda>a. ReadByAlias ip a \<noteq> None) als) = {}) \<and>
     own' = (own \<or> OwnAlias \<in> set als)"
proof (induction als arbitrary: known ids missing repeated own)
  case (Cons a als)
  show ?case
  proof (cases "ReadByAlias ip a")
    case None
    with Cons.IH [of known "ids @ [nil_peer_id]" "missing @ [a]" repeated "own \<or> a = OwnAlias"] Cons.prems
    show ?thesis by (auto simp: Let_def)
  next
    case (Some p)
    with Cons.IH [of "insert a known" "ids @ [p]" missing
        "if a \<in> known then repeated @ [a] else repeated" "own \<or> a = OwnAlias"] Cons.prems
    show ?thesis by (auto simp: Let_def split: if_splits)
  qed
qed auto

lemma retrievePartIDs_cases:
  "retrievePartIDs ip als =
     (if \<exists>a \<in> set als. ReadByAlias ip a = None
      then Inl (NewAPIErrResourceNotFound ResTypePeerID (join (filter (\<lambda>a. ReadByAlias ip a = None) als) '',''))
      else if \<not> distinct als
      then Inl (NewAPIErrInvalidArgument ErrRepeatedPeerAlias ArgNamePeerAlias (join als '',''))
      else if OwnAlias \<notin> set als
      then Inl (NewAPIErrInvalidArgument ErrEntryForSelfNotFound ArgNamePeerAlias (join als '',''))
      else Inr (map (the \<circ> ReadByAlias ip) als))"
proof -
  obtain ids missing repeated own where
    rl: "retrieve_loop ip als {} [] [] [] False = (ids, missing, repeated, own)"
    by (cases "retrieve_loop ip als {} [] [] [] False") auto
  note sp = retrieve_loop_spec [OF rl]
  show ?thesis
  proof (cases "\<exists>a \<in> set als. ReadByAlias ip a = None")
    case True
    with sp have "missing \<noteq> []" by (auto simp: filter_empty_conv)
    with True sp show ?thesis by (simp add: retrievePartIDs_def rl)
  next
    case False
    then have all: "filter (\<lambda>a. ReadByAlias ip a \<noteq> None) als = als"
      and none: "filter (\<lambda>a. ReadByAlias ip a = None) als = []"
      by (auto simp: filter_id_conv filter_empty_conv)
    have "map (\<lambda>a. case ReadByAlias ip a of None \<Rightarrow> nil_peer_id | Some p \<Rightarrow> p) als
        = map (the \<circ> ReadByAlias ip) als"
      using False by (auto split: option.splits)
    with False sp show ?thesis unfolding all none
      by (auto simp: retrievePartIDs_def rl)
  qed
qed

text \<open>
  What the node guarantees of its two registries, and the operations of a session rely on: a
  currency is registered when, and only when, its asset is.
\<close>

definition registries_ok :: "contract_registry \<Rightarrow> currency_registry \<Rightarrow> bool" where
  "registries_ok CR CU \<longleftrightarrow> contract_inv CR \<and> currency_registry_inv CU \<and>
     dom (asset_of CR) = dom (Currency CU)"

lemma registries_okD:
  assumes "registries_ok CR CU"
  shows "Asset CR s = Done (asset_of CR s)"
    and "asset_of CR s \<noteq> None \<longleftrightarrow> Currency CU s \<noteq> None"
    and "Currency CU s = Some c \<Longrightarrow> cuSymbol c = s"
    and "Symbol CR a = Some s \<longleftrightarrow> asset_of CR s = Some a"
  using assms Asset_Done isAssetRegistered_iff
  by (auto simp: registries_ok_def currency_registry_inv_def Currency_def Symbol_def dom_def)

end
