(* ===== verification/Session_Props.thy ===== *)
theory Session_Props
  imports Session_Safety
begin

text \<open>
  The properties of sessions, with a simulated SDK on which they are applied.
\<close>

subsection \<open>A simulated SDK\<close>

text \<open>
  Its state counts the calls that reject something, and lists what was registered. Every
  request succeeds.
\<close>

record sim_world =
  swRejected :: nat
  swDialer :: "(address option \<times> string) list"
  swFunder :: "address list"

definition sim_prop_state :: "ledger_proposal \<Rightarrow> pstate" where
  "sim_prop_state p = \<lparr>psID = lpProposalID p, psVersion = 0, psApp = lpApp p, psData = lpInitData p,
     psAssets = lpAssets p, psBalances = lpBalances p, psIsFinal = False\<rparr>"

definition sim_proposal :: "64 word \<Rightarrow> address option \<Rightarrow> allocation \<Rightarrow> address option list \<Rightarrow> app \<Rightarrow> ledger_proposal" where
  "sim_proposal dur own al peers ap = \<lparr>lpProposalID = [7], lpChallengeDuration = dur, lpParticipant = own,
     lpPeers = peers, lpApp = appDef ap, lpInitData = appData ap, lpAssets = alAssets al,
     lpBalances = alBalances al\<rparr>"

definition sim_sdk :: "(pstate, sim_world) sdk" where
  "sim_sdk = \<lparr>
     sdWalletUnlock = (\<lambda>w a. case a of Some x \<Rightarrow> Inr x | None \<Rightarrow> Inl (ENew ''no account'')),
     sdNewClient = (\<lambda>a w. (None, w)), sdNewListener = (\<lambda>a w. (None, w)),
     sdRegister = (\<lambda>a c w. w\<lparr>swDialer := (a, c) # swDialer w\<rparr>), sdHandle = (\<lambda>w. w),
     sdNewProposal = (\<lambda>d own al peers ap w. (Inr (sim_proposal d own al peers ap), w)),
     sdProposeChannel = (\<lambda>d p w. (Inr (sim_prop_state p), w)),
     sdProposalAcc = (\<lambda>p a w. (0, w)), sdAccept = (\<lambda>d r acc w. (Inr sim_state, w)),
     sdReject = (\<lambda>d r s w. (None, w\<lparr>swRejected := swRejected w + 1\<rparr>)),
     sdRejectUpdate = (\<lambda>r s w. (None, w\<lparr>swRejected := swRejected w + 1\<rparr>)),
     sdLoadDatabase = (\<lambda>d w. (Inr 1, w)), sdEnablePersistence = (\<lambda>r w. w),
     sdRestore = (\<lambda>t w. ([], None, w)), sdClientClose = (\<lambda>w. (None, w)), sdBusClose = (\<lambda>w. (None, w)),
     sdGoroutinesReturn = (\<lambda>w. True), sdDbClose = (\<lambda>r w. (None, w)), sdLockAll = (\<lambda>r w. w),
     sdNewFunder = (\<lambda>a b w. w\<lparr>swFunder := [a]\<rparr>),
     sdIsAssetRegistered = (\<lambda>a w. a \<in> set (swFunder w)),
     sdRegisterAsset = (\<lambda>a t c w. (True, w\<lparr>swFunder := a # swFunder w\<rparr>)),
     sdDeployAssetERC20 = (\<lambda>a t s w. (Inr 9, w)), sdDialChain = (\<lambda>u d. None),
     sdUnlockKeystore = (\<lambda>k a p. None), sdNewKeystoreWallet = (\<lambda>k p. None),
     sdReadIDFile = (\<lambda>f. Inr []), sdAddrBytes = (\<lambda>a. []), sdSha256 = (\<lambda>b. b)\<rparr>"

definition sim_peer :: "string \<Rightarrow> address \<Rightarrow> peer_id" where
  "sim_peer al a = \<lparr>pAlias = al, pOffChainAddr = Some a, pOffChainAddrString = alString hex_addr_lib a,
     pCommAddr = ''127.0.0.1:5751'', pCommType = ''tcp''\<rparr>"

definition sim_cred :: "address \<Rightarrow> credential" where
  "sim_cred a = \<lparr>crAddr = Some a, crWallet = 0, crKeystore = [], crPassword = []\<rparr>"

definition sim_ids :: id_cache where
  "sim_ids = put_peer ''bob'' (sim_peer ''bob'' 6) (put_peer OwnAlias (sim_peer OwnAlias 5) NewIDCache)"

definition sim_CR :: contract_registry where
  "sim_CR = \<lparr>ctAdjudicator = 1, ctCurrencies = [(''ETH'', 0)], ctAssets = [2], ctTokens = [None]\<rparr>"

definition sim_CU :: currency_registry where
  "sim_CU = \<lparr>crSymbols = [''ETH''], crCurrencies = [''ETH'' \<mapsto> sim_currency]\<rparr>"

definition sim_session :: "(pstate, sim_world, nat) session" where
  "sim_session = \<lparr>seID = ''s'', seIsOpen = True,
     seUser = \<lparr>usPeerID = sim_peer OwnAlias 5, usOnChain = sim_cred 4, usOffChain = sim_cred 5\<rparr>,
     seClient = \<lparr>clDbConn = Some 1, clRestoring = False\<rparr>,
     seWorld = \<lparr>swRejected = 0, swDialer = [], swFunder = [2]\<rparr>, seIDProvider = sim_ids,
     seTimeoutCfg = \<lparr>tcOnChainTx = 10 * Second, tcResponse = 10 * Second\<rparr>, seChainURL = ''ws://chain'',
     seChs = newChRegistry, seNotifier = None, seNotifsCache = [], seResponders = Map.empty,
     seLocked = False, seOut = [], seTasks = []\<rparr>"

lemma sim_CR_inv: "contract_inv sim_CR"
  by (simp add: contract_inv_def sim_CR_def lessThan_Suc)

lemma sim_registries_ok: "registries_ok sim_CR sim_CU"
proof -
  have "currency_registry_inv sim_CU"
    by (simp add: currency_registry_inv_def sim_CU_def sim_currency_def)
  moreover have "dom (asset_of sim_CR) = dom (Currency sim_CU)"
    by (auto simp: asset_of_def sim_CR_def Currency_def sim_CU_def dom_def split: if_splits)
  ultimately show ?thesis using sim_CR_inv by (simp add: registries_ok_def)
qed

lemma sim_ids_inv: "id_cache_inv hex_addr_lib sim_ids"
  unfolding sim_ids_def
  by (intro id_cache_inv_put)
     (simp_all add: id_cache_inv_def NewIDCache_def parsed_peer_def sim_peer_def ParseAddr_String [OF hex_addr_lib_ok])

lemma sim_ids_read [simp]:
  "ReadByAlias sim_ids ''bob'' = Some (sim_peer ''bob'' 6)"
  "ReadByAlias sim_ids OwnAlias = Some (sim_peer OwnAlias 5)"
  by (simp_all add: sim_ids_def ReadByAlias_def put_peer_def OwnAlias_def)

subsection \<open>The session over time\<close>

text \<open>
  C5: in every state a session can reach, whatever the order of the user's requests, of the
  proposals and updates of peers and of the events of the channels: the invariant holds; no
  channel is lost, renamed or reopened; the notifications sent are never taken back; a known
  alias keeps its peer ID; and the session is not reopened.
\<close>

theorem reachable_session_inv:
  fixes s :: "('p, 'w, 'ev) session"
  assumes "(se_step S P L)\<^sup>*\<^sup>* (new_session sid cfg u c ip w) s" and "id_cache_inv L ip"
    and "(se_step S P L)\<^sup>*\<^sup>* s s'"
  shows "se_inv L s \<and> seID s = sid \<and> seUser s = u \<and> ReadByAlias ip \<subseteq>\<^sub>m ReadByAlias (seIDProvider s)
    \<and> (\<forall>i < rg_count (seChs s). i < rg_count (seChs s')
         \<and> chID (rgChs (seChs s') ! i) = chID (rgChs (seChs s) ! i)
         \<and> (chStatus (rgChs (seChs s) ! i) = StatusClosed \<longrightarrow> chStatus (rgChs (seChs s') ! i) = StatusClosed))
    \<and> prefix (seOut s) (seOut s') \<and> (seIsOpen s' \<longrightarrow> seIsOpen s)"
proof -
  have ev: "se_evolves L (new_session sid cfg u c ip w) s" and ev': "se_evolves L s s'"
    using se_steps_evolve [OF assms(1)] se_steps_evolve [OF assms(3)] by simp_all
  have "se_inv L (new_session sid cfg u c ip w :: ('p, 'w, 'ev) session)"
    by (rule se_inv_new [OF assms(2)])
  with ev have inv: "se_inv L s"
    by (simp add: se_evolves_def)
  have "chID (rgChs (seChs s') ! i) = chID (rgChs (seChs s) ! i)
      \<and> (chStatus (rgChs (seChs s) ! i) = StatusClosed \<longrightarrow> chStatus (rgChs (seChs s') ! i) = StatusClosed)"
    if "i < rg_count (seChs s)" for i
  proof -
    have a: "evolves (rgChs (seChs s) ! i) (rgChs (seChs s') ! i)"
      by (rule se_evolves_channel [OF ev' that])
    have b: "ch_inv (rgChs (seChs s) ! i)"
      by (rule se_inv_channel [OF inv that])
    show ?thesis using evolves_id [OF a] evolves_closed [OF a b] by (intro conjI impI)
  qed
  moreover have "rg_count (seChs s) \<le> rg_count (seChs s')"
    by (rule se_evolves_count [OF ev'])
  ultimately have chs: "\<forall>i < rg_count (seChs s). i < rg_count (seChs s')
         \<and> chID (rgChs (seChs s') ! i) = chID (rgChs (seChs s) ! i)
         \<and> (chStatus (rgChs (seChs s) ! i) = StatusClosed \<longrightarrow> chStatus (rgChs (seChs s') ! i) = StatusClosed)"
    by simp
  have "seID s = sid \<and> seUser s = u \<and> ReadByAlias ip \<subseteq>\<^sub>m ReadByAlias (seIDProvider s)"
    using ev by (simp add: se_evolves_def new_session_def)
  moreover have "prefix (seOut s) (seOut s') \<and> (seIsOpen s' \<longrightarrow> seIsOpen s)"
    using ev' by (simp add: se_evolves_def)
  ultimately show ?thesis using inv chs by simp
qed

theorem reachable_session_inv_witness:
  "se_inv hex_addr_lib ((new_session ''s'' undefined undefined undefined sim_ids 0
     :: (pstate, nat, nat) session)\<lparr>seWorld := 1\<rparr>)"
proof -
  let ?s = "new_session ''s'' undefined undefined undefined sim_ids 0 :: (pstate, nat, nat) session"
  have "(se_step undefined sim_api hex_addr_lib)\<^sup>*\<^sup>* ?s (?s\<lparr>seWorld := 1\<rparr>)"
    by (rule r_into_rtranclp) (rule se_step.sdk)
  from reachable_session_inv [OF this sim_ids_inv rtranclp.rtrancl_refl] show ?thesis by simp
qed

text \<open>
  bringing the own alias to the front keeps every participant with its own amount. It
  does not index out of range when every row of balances has an amount for each participant,
  which is not checked before.
\<close>

theorem sanitizeBalInfo_spec:
  assumes "\<forall>row \<in> set (biBals bi). length row = length (biParts bi)"
  shows "\<exists>bi'. sanitizeBalInfo bi = Done bi' \<and> biCurrencies bi' = biCurrencies bi
    \<and> (OwnAlias \<in> set (biParts bi) \<longrightarrow> hd (biParts bi') = OwnAlias)
    \<and> mset (biParts bi') = mset (biParts bi)
    \<and> list_all2 (\<lambda>row' row. mset (zip (biParts bi') row') = mset (zip (biParts bi) row)) (biBals bi') (biBals bi)"
proof (rule sanitizeBalInfo_aux [OF assms])
  fix j
  let ?parts = "(biParts bi)[j := biParts bi ! 0, 0 := biParts bi ! j]"
  let ?f = "\<lambda>row. row[j := row ! 0, 0 := row ! j]"
  assume d: "sanitizeBalInfo bi = Done (bi\<lparr>biParts := ?parts, biBals := map ?f (biBals bi)\<rparr>)"
    and j: "j < length (biParts bi)" and own: "biParts bi ! j = OwnAlias"
  have pos: "0 < length (biParts bi)" using j by linarith
  have "hd ?parts = OwnAlias" using pos own by (subst hd_conv_nth) auto
  moreover have "mset ?parts = mset (biParts bi)" using pos j by (intro mset_swap) auto
  moreover have "list_all2 (\<lambda>row' row. mset (zip ?parts row') = mset (zip (biParts bi) row))
      (map ?f (biBals bi)) (biBals bi)"
    using assms j own by (auto simp: list_all2_conv_all_nth intro!: swap_zip)
  ultimately show ?thesis using d by auto
next
  assume "sanitizeBalInfo bi = Done bi" and "OwnAlias \<notin> set (biParts bi)"
  then show ?thesis by (auto simp: list_all2_refl)
qed

definition sim_bal_info :: bal_info where
  "sim_bal_info = \<lparr>biCurrencies = [''ETH''], biParts = [''bob'', OwnAlias], biBals = [[''20'', ''10'']]\<rparr>"

theorem sanitizeBalInfo_spec_witness:
  "\<exists>bi'. sanitizeBalInfo sim_bal_info = Done bi' \<and> hd (biParts bi') = OwnAlias"
  using sanitizeBalInfo_spec [of sim_bal_info] by (auto simp: sim_bal_info_def)

text \<open>
  a request for a channel whose rows of balances are shorter than its list of participants
  does not return an error: the node panics, when the own alias is not the first one.
\<close>

theorem short_balances_panic:
  assumes "biParts bi = [peer, OwnAlias]" and "peer \<noteq> OwnAlias" and "biBals bi = [amount] # rows"
    and "seIsOpen s"
  shows "OpenCh S P CR CU bi ap dur s = Panic IndexOutOfRange"
  using assms by (simp add: OpenCh_def OpenCh_propose_def sanitizeBalInfo_def Let_def swap_own_def)

theorem short_balances_panic_witness:
  "OpenCh sim_sdk sim_api sim_CR sim_CU
     \<lparr>biCurrencies = [''ETH''], biParts = [''bob'', OwnAlias], biBals = [[''20'']]\<rparr>
     \<lparr>appDef = 0, appData = 0\<rparr> 10 sim_session = Panic IndexOutOfRange"
  by (rule short_balances_panic [of _ "''bob''" "''20''" "[]"])
     (simp_all add: OwnAlias_def sim_session_def)

text \<open>
  Looking up the participants of a channel. It succeeds exactly when every alias is known,
  no alias is repeated and the own alias is one of them, and then gives the peer IDs in the
  order of the aliases; an unknown alias is reported before a repeated one, and a repeated
  one before a missing own alias.
\<close>

theorem retrievePartIDs_spec:
  "case retrievePartIDs ip als of
      Inr ids \<Rightarrow> map Some ids = map (ReadByAlias ip) als \<and> distinct als \<and> OwnAlias \<in> set als
    | Inl ae \<Rightarrow> api_ok ae \<and>
        (aeCode ae = ErrResourceNotFound \<longleftrightarrow> (\<exists>a \<in> set als. ReadByAlias ip a = None)) \<and>
        (aeCode ae = ErrInvalidArgument \<longleftrightarrow> (\<forall>a \<in> set als. ReadByAlias ip a \<noteq> None)
           \<and> (\<not> distinct als \<or> OwnAlias \<notin> set als))"
  by (auto simp: retrievePartIDs_cases split: sum.splits if_splits)

theorem retrievePartIDs_spec_witness:
  "case retrievePartIDs sim_ids [''bob'', OwnAlias] of
     Inr ids \<Rightarrow> map Some ids = map (ReadByAlias sim_ids) [''bob'', OwnAlias] | Inl ae \<Rightarrow> False"
proof -
  have "''bob'' \<noteq> OwnAlias" by (simp add: OwnAlias_def)
  then have "retrievePartIDs sim_ids [''bob'', OwnAlias] = Inr [sim_peer ''bob'' 6, sim_peer OwnAlias 5]"
    by (simp add: retrievePartIDs_cases)
  with retrievePartIDs_spec [where ip = sim_ids and als = "[''bob'', OwnAlias]"] show ?thesis
    by simp
qed

lemma parse_row_spec:
  "case parse_row (Some c) row of
      Done (Inr vs) \<Rightarrow> list_all2 (\<lambda>s v. cuParse c s = Inr v) row vs
    | Done (Inl ae) \<Rightarrow> api_ok ae \<and> aeCode ae = ErrInvalidArgument
        \<and> (\<exists>s e. s \<in> set row \<and> cuParse c s = Inl e)
    | _ \<Rightarrow> False"
proof (induction row)
  case (Cons s row)
  then show ?case
    by (cases "cuParse c s"; cases "parse_row (Some c) row")
       (auto simp: deref_def split: sum.splits)
qed simp

lemma allocation_loop_spec:
  assumes "registries_ok CR CU" and "length syms = length rows"
  shows "case allocation_loop CR CU syms rows of
      Done (Inr (cs, al)) \<Rightarrow> cs = map (Currency CU) syms \<and> None \<notin> set cs
        \<and> map Some (alAssets al) = map (asset_of CR) syms
        \<and> list_all2 (\<lambda>(c, row) vs. list_all2 (\<lambda>s v. cuParse (the c) s = Inr v) row vs)
             (zip cs rows) (alBalances al)
    | Done (Inl ae) \<Rightarrow> api_ok ae \<and>
        (aeCode ae = ErrResourceNotFound \<and> (\<exists>s \<in> set syms. Currency CU s = None) \<or>
         aeCode ae = ErrInvalidArgument \<and>
           (\<exists>i c s e. i < length rows \<and> Currency CU (syms ! i) = Some c \<and> s \<in> set (rows ! i) \<and> cuParse c s = Inl e))
    | _ \<Rightarrow> False"
  using assms(2)
proof (induction syms rows rule: list_induct2)
  case (Cons symb syms row rows)
  show ?case
  proof (cases "asset_of CR symb")
    case None
    then have "Currency CU symb = None" using registries_okD(2) [OF assms(1)] by metis
    with None show ?thesis by (simp add: registries_okD(1) [OF assms(1)])
  next
    case (Some a)
    then obtain c where c: "Currency CU symb = Some c"
      using registries_okD(2) [OF assms(1), of symb] by auto
    consider (bad) ae where "parse_row (Some c) row = Done (Inl ae)" "api_ok ae" "aeCode ae = ErrInvalidArgument"
          "\<exists>s e. s \<in> set row \<and> cuParse c s = Inl e"
      | (good) vs where "parse_row (Some c) row = Done (Inr vs)" "list_all2 (\<lambda>s v. cuParse c s = Inr v) row vs"
      using parse_row_spec [where c = c and row = row] by (auto split: run.splits sum.splits)
    then show ?thesis
    proof cases
      case bad
      then have "\<exists>i c s e. i < length (row # rows) \<and> Currency CU ((symb # syms) ! i) = Some c
          \<and> s \<in> set ((row # rows) ! i) \<and> cuParse c s = Inl e"
        using c by (intro exI [of _ 0]) auto
      with bad Some c show ?thesis by (simp add: registries_okD(1) [OF assms(1)])
    next
      case good
      show ?thesis
      proof (cases "\<exists>ae. allocation_loop CR CU syms rows = Done (Inl ae)")
        case True
        then obtain ae where ae: "allocation_loop CR CU syms rows = Done (Inl ae)" by auto
        have "\<exists>i c s e. i < length (row # rows) \<and> Currency CU ((symb # syms) ! i) = Some c
            \<and> s \<in> set ((row # rows) ! i) \<and> cuParse c s = Inl e"
          if "i < length rows" "Currency CU (syms ! i) = Some c" "s \<in> set (rows ! i)" "cuParse c s = Inl e" for i c s e
          using that by (intro exI [of _ "Suc i"]) auto
        with Cons.IH ae good Some c show ?thesis
          by (fastforce simp: registries_okD(1) [OF assms(1)])
      next
        case False
        with Cons.IH good Some c show ?thesis
          by (auto simp: registries_okD(1) [OF assms(1)] split: run.splits sum.splits)
      qed
    qed
  qed
qed simp

text \<open>
  C34: making the allocation of a channel. With the registries in agreement it never panics; it
  succeeds only for a row of amounts for every currency, all of them registered, and then
  takes the assets and the currencies in the order of the request and every amount as the
  currency parses it; otherwise the error tells an unknown currency from an amount that
  does not parse or a missing row.
\<close>

theorem makeAllocation_spec:
  assumes "registries_ok CR CU"
  shows "case makeAllocation CR CU bi of
      Done (Inr (cs, al)) \<Rightarrow> length (biCurrencies bi) = length (biBals bi)
        \<and> cs = map (Currency CU) (biCurrencies bi) \<and> None \<notin> set cs
        \<and> map Some (alAssets al) = map (asset_of CR) (biCurrencies bi)
        \<and> list_all2 (\<lambda>(c, row) vs. list_all2 (\<lambda>s v. cuParse (the c) s = Inr v) row vs)
             (zip cs (biBals bi)) (alBalances al)
    | Done (Inl ae) \<Rightarrow> api_ok ae \<and>
        (aeCode ae = ErrResourceNotFound \<and> (\<exists>s \<in> set (biCurrencies bi). Currency CU s = None) \<or>
         aeCode ae = ErrInvalidArgument \<and> (length (biCurrencies bi) \<noteq> length (biBals bi) \<or>
           (\<exists>i c s e. i < length (biBals bi) \<and> Currency CU (biCurrencies bi ! i) = Some c
              \<and> s \<in> set (biBals bi ! i) \<and> cuParse c s = Inl e)))
    | _ \<Rightarrow> False"
  using allocation_loop_spec [OF assms, of "biCurrencies bi" "biBals bi"]
  by (auto simp: makeAllocation_def split: run.splits sum.splits)

theorem makeAllocation_spec_witness:
  "case makeAllocation sim_CR sim_CU sim_bal_info of
     Done (Inr (cs, al)) \<Rightarrow> alAssets al = [2] \<and> alBalances al = [[20, 10]] | _ \<Rightarrow> False"
proof -
  have "read_int ''20'' = 20" and "read_int ''10'' = 10"
    by (simp_all add: read_int_def read_nat_def char_digit_def)
  with makeAllocation_spec [OF sim_registries_ok, where bi = sim_bal_info] show ?thesis
    by (auto simp: sim_bal_info_def sim_CU_def Currency_def sim_currency_def asset_of_def sim_CR_def
        list_all2_Cons1 split: run.splits sum.splits)
qed

end
