(* ===== verification/Session_Requests.thy ===== *)
theory Session_Requests
  imports Session_Props
begin

text \<open>
  The contracts of the requests of a session: opening a channel, proposals of peers and the
  answers to them, adding peer IDs, closing the session and starting one.
\<close>

subsection \<open>Opening a channel\<close>

lemma mapRun_deref: "mapRun deref xs = Done ys \<longleftrightarrow> xs = map Some ys"
  by (auto simp: mapRun_Done_iff deref_Done list_all2_conv_all_nth intro!: nth_equalityI)

lemma OpenCh_propose_Inr:
  assumes "OpenCh_propose S P CR CU obi ap dur s = Done (Inr ch, s')"
  obtains bi ids al cs pch where "seIsOpen s" and "sanitizeBalInfo obi = Done bi"
    and "retrievePartIDs (seIDProvider s) (biParts bi) = Inr ids"
    and "makeAllocation CR CU bi = Done (Inr (map Some cs, al))"
    and "ch = newCh P pch (seChainURL s) cs (biParts bi) (seTimeoutCfg s) dur"
    and "seChs s' = seChs s"
  using assms
  by (auto simp: OpenCh_propose_def Let_def mapRun_deref elim!: andThen_DoneE
      split: if_splits sum.splits prod.splits)

lemma GetChInfo_new:
  assumes "GetChInfo P ch = Done (info, ch')" and "\<not> chLocked ch"
  shows "ch' = ch" and "getChInfo P ch = Done info"
  using assms by (cases ch; auto simp: GetChInfo_def run_simps getChInfo_def makeChInfo_def)+

lemma OpenCh_add_Done:
  assumes "OpenCh_add P ch s = Done ((info, ae), s')" and "\<not> chLocked ch"
  shows "ae = None \<and> getChInfo P ch = Done info \<and> s' = s\<lparr>seChs := rg_put ch (seChs s)\<rparr> \<and> \<not> seLocked s"
proof -
  from assms(1) obtain ch' s1 where ae: "ae = None" and add: "addCh ch s = Done ((), s1)"
    and gi: "GetChInfo P ch = Done (info, ch')"
    and s': "s' = s1\<lparr>seChs := rg_write (rg_count (seChs s1) - 1) ch' (seChs s1)\<rparr>"
    by (auto simp: OpenCh_add_def run_simps)
  from add have unl: "\<not> seLocked s" and s1: "s1 = s\<lparr>seChs := rg_put ch (seChs s)\<rparr>"
    by (auto simp: addCh_def run_simps)
  have "rg_write (rg_count (rg_put ch r) - 1) ch (rg_put ch r) = rg_put ch r" for r
    by (simp add: rg_put_def rg_append_def rg_write_def rg_count_def Let_def)
  then show ?thesis
    using ae unl s1 s' GetChInfo_new [OF gi assms(2)] by simp
qed

lemma makeAllocation_symbols:
  assumes "registries_ok CR CU" and "makeAllocation CR CU bi = Done (Inr (map Some cs, al))"
  shows "map cuSymbol cs = biCurrencies bi"
proof -
  have len: "length (biCurrencies bi) = length (biBals bi)"
    using assms(2) by (auto simp: makeAllocation_def split: if_splits)
  from allocation_loop_spec [OF assms(1) len] assms(2) len
  have eq: "map Some cs = map (Currency CU) (biCurrencies bi)"
    by (simp add: makeAllocation_def)
  then have "length cs = length (biCurrencies bi)" using map_eq_imp_length_eq by blast
  then show ?thesis
    using eq registries_okD(3) [OF assms(1)] by (auto simp: list_eq_iff_nth_eq)
qed


lemma bob_not_own [simp]: "''bob'' \<noteq> OwnAlias" "OwnAlias \<noteq> ''bob''"
  by (simp_all add: OwnAlias_def)

lemma sim_registries [simp]:
  "Asset sim_CR ''ETH'' = Done (Some 2)" "Currency sim_CU ''ETH'' = Some sim_currency"
  "cuParse sim_currency x = Inr (read_int x)" "cuSymbol sim_currency = ''ETH''"
  by (simp_all add: Asset_def isSymbolRegistered_def sim_CR_def sim_CU_def Currency_def sim_currency_def)

lemma sim_sdk_ops [simp]:
  "sdNewProposal sim_sdk d own al peers ap w = (Inr (sim_proposal d own al peers ap), w)"
  "sdProposeChannel sim_sdk dur p w = (Inr (sim_prop_state p), w)"
  "sdReject sim_sdk dur r x w = (None, w\<lparr>swRejected := swRejected w + 1\<rparr>)"
  "sdAccept sim_sdk dur r acc w = (Inr sim_state, w)"
  "sdProposalAcc sim_sdk p a w = (0, w)"
  by (simp_all add: sim_sdk_def)

lemma sim_sanitized: "sanitizeBalInfo sim_bal_info =
    Done \<lparr>biCurrencies = [''ETH''], biParts = [OwnAlias, ''bob''], biBals = [[''10'', ''20'']]\<rparr>"
  by (simp add: sanitizeBalInfo_def sim_bal_info_def Let_def swap_own_def)

lemma sim_retrieved: "retrievePartIDs sim_ids [OwnAlias, ''bob''] = Inr [sim_peer OwnAlias 5, sim_peer ''bob'' 6]"
  by (simp add: retrievePartIDs_cases)

lemma sim_allocated: "makeAllocation sim_CR sim_CU
    \<lparr>biCurrencies = [''ETH''], biParts = [OwnAlias, ''bob''], biBals = [[''10'', ''20'']]\<rparr>
    = Done (Inr ([Some sim_currency], \<lparr>alAssets = [2], alBalances = [[10, 20]]\<rparr>))"
  by (simp add: makeAllocation_def deref_def read_int_def read_nat_def char_digit_def)

lemma sim_funded: "2 \<in> set (swFunder w) \<Longrightarrow>
    updateAssetsInFunder sim_sdk sim_CR acc [Some sim_currency] w = Done w"
  by (simp add: deref_def IsAssetRegistered_def sim_sdk_def)

lemma sim_registered: "swFunder (registerParts sim_sdk ps w) = swFunder w"
  by (induction ps arbitrary: w) (simp_all add: client_Register_def sim_sdk_def)

lemma sim_info_returns:
  "length (psBalances st) \<le> length cs \<Longrightarrow> returns (GetChInfo sim_api (newCh sim_api st url cs parts cfg dur))"
  using makeBalInfo_returns [of parts cs "psBalances st"]
  by (auto simp: GetChInfo_def with_lock_def newCh_def getChInfo_def makeChInfo_def sim_api_def
      makeBalInfoFromState_def returns_iff)

lemma sim_OpenCh: "\<exists>info s'. OpenCh sim_sdk sim_api sim_CR sim_CU sim_bal_info \<lparr>appDef = 0, appData = 0\<rparr> 10
    sim_session = Done ((info, None), s')"
proof -
  have fields: "seIsOpen sim_session" "seIDProvider sim_session = sim_ids"
      "swFunder (seWorld sim_session) = [2]" "\<not> seLocked sim_session"
    by (simp_all add: sim_session_def)
  let ?w = "registerParts sim_sdk [sim_peer OwnAlias 5, sim_peer ''bob'' 6] (seWorld sim_session)"
  let ?acc = "crAddr (usOnChain (seUser sim_session))"
  have f: "updateAssetsInFunder sim_sdk sim_CR ?acc [Some sim_currency] ?w = Done ?w"
    by (rule sim_funded) (simp only: sim_registered fields, simp)
  let ?p = "sim_proposal 10 (pOffChainAddr (usPeerID (seUser sim_session))) \<lparr>alAssets = [2], alBalances = [[10, 20]]\<rparr>
      (makeOffChainAddrs [sim_peer OwnAlias 5, sim_peer ''bob'' 6]) \<lparr>appDef = 0, appData = 0\<rparr>"
  let ?ch = "newCh sim_api (sim_prop_state ?p) (seChainURL sim_session) [sim_currency] [OwnAlias, ''bob'']
      (seTimeoutCfg sim_session) 10 :: (pstate, nat) channel"
  have prp: "OpenCh_propose sim_sdk sim_api sim_CR sim_CU sim_bal_info \<lparr>appDef = 0, appData = 0\<rparr> 10
      sim_session = Done (Inr ?ch, sim_session\<lparr>seWorld := ?w\<rparr>)"
    by (simp add: OpenCh_propose_def fields sim_sanitized sim_retrieved sim_allocated Let_def f
        del: updateAssetsInFunder.simps registerParts.simps)
       (simp add: deref_def)
  have "returns (GetChInfo sim_api ?ch)"
    by (rule sim_info_returns) (simp add: sim_prop_state_def sim_proposal_def)
  then show ?thesis
    using fields(4) prp by (auto simp: OpenCh_def OpenCh_add_def addCh_def with_slock_def returns_iff)
qed


subsection \<open>Proposals of peers\<close>

definition se_subscribe ::
  "(ch_proposal_notif \<Rightarrow> 'ev) \<Rightarrow> ('p, 'w, 'ev) session \<Rightarrow> ('p, 'w, 'ev) session" where
  "se_subscribe f s =
     (if seNotifier s \<noteq> None then s
      else s\<lparr>seNotifier := Some f, seNotifsCache := [], seOut := seOut s @ map f (seNotifsCache s)\<rparr>)"

definition se_unsubscribe :: "('p, 'w, 'ev) session \<Rightarrow> ('p, 'w, 'ev) session" where
  "se_unsubscribe s = s\<lparr>seNotifier := None\<rparr>"

interpretation sesub: subscription seNotifier seNotifsCache seOut se_subscribe se_unsubscribe notifyProposal
  by unfold_locales (simp_all add: se_subscribe_def se_unsubscribe_def notifyProposal_def)

lemma session_unlocked_id: "\<not> seLocked s \<Longrightarrow> s\<lparr>seLocked := False\<rparr> = s"
  by (cases s) simp

lemma SubChProposals_Done:
  "SubChProposals f s = Done (None, s') \<longleftrightarrow>
     \<not> seLocked s \<and> seIsOpen s \<and> seNotifier s = None \<and> s' = se_subscribe f s"
  by (cases s) (auto simp: SubChProposals_def run_simps flush_loop_all se_subscribe_def)

definition sim_prop_notif :: ch_proposal_notif where
  "sim_prop_notif = \<lparr>cpnProposalID = ''07'', cpnOpeningBalInfo = sim_bal_info,
     cpnApp = \<lparr>appDef = 0, appData = 0\<rparr>, cpnChallengeDurSecs = 10, cpnExpiry = 20\<rparr>"



lemma proposal_parts_known:
  "snd (proposal_parts L ip as) \<longleftrightarrow> (\<forall>a \<in> set as. ReadByOffChainAddr L ip a \<noteq> None)"
  by (induction as) (auto split: option.splits prod.splits)

lemma proposal_parts_all:
  "\<forall>a \<in> set as. ReadByOffChainAddr L ip a \<noteq> None \<Longrightarrow>
     fst (proposal_parts L ip as) = map (\<lambda>a. pAlias (the (ReadByOffChainAddr L ip a))) as"
  by (induction as) (auto split: prod.splits)

lemma proposal_parts_length: "length (fst (proposal_parts L ip as)) = length as"
  by (induction as) (auto split: option.splits prod.splits)

lemma getCurrencies_Inl: "(\<exists>e. getCurrencies L CR CU as = Inl e) \<longleftrightarrow> (\<exists>a \<in> set as. Symbol CR a = None)"
  by (induction as) (auto split: option.splits sum.splits)

lemma getCurrencies_Inr:
  "getCurrencies L CR CU as = Inr cs \<Longrightarrow> \<forall>a \<in> set as. Symbol CR a \<noteq> None \<Longrightarrow>
     cs = map (\<lambda>a. Currency CU (the (Symbol CR a))) as"
  by (induction as arbitrary: cs) (auto split: option.splits sum.splits)

definition proposal_known :: "addr_lib \<Rightarrow> id_cache \<Rightarrow> ledger_proposal \<Rightarrow> bool" where
  "proposal_known L ip p \<longleftrightarrow> (\<forall>a \<in> set (lpPeers p). ReadByOffChainAddr L ip a \<noteq> None)"

text \<open>
  C23: a proposal of a peer is notified exactly once, with its own ID. When all its peers are
  known to the ID provider, it waits for a response under this ID, and the notification
  tells the aliases of the peers and when the response is due; when one of them is not, it
  is not answerable, its notification has expiry 0, and the responses awaited are those of
  before.
\<close>

theorem HandleProposal_spec:
  assumes "HandleProposal S L CR CU now (Some p) resp s = Done (r, s')" and "seIsOpen s"
    and "unix_after now (tcResponse (seTimeoutCfg s)) \<noteq> 0"
  shows "\<exists>n. cpnProposalID n = hex_bytes (lpProposalID p)
    \<and> (case seNotifier s of
         None \<Rightarrow> seNotifsCache s' = seNotifsCache s @ [n] \<and> seOut s' = seOut s
       | Some f \<Rightarrow> seNotifsCache s' = seNotifsCache s \<and> seOut s' = seOut s @ [f n])
    \<and> (if proposal_known L (seIDProvider s) p
       then cpnExpiry n = unix_after now (tcResponse (seTimeoutCfg s))
         \<and> biParts (cpnOpeningBalInfo n)
             = map (\<lambda>a. pAlias (the (ReadByOffChainAddr L (seIDProvider s) a))) (lpPeers p)
         \<and> (\<exists>e. seResponders s' = (seResponders s)(cpnProposalID n \<mapsto> e)
              \<and> peProposal e = p \<and> peNotif e = n \<and> peResponder e = resp)
       else cpnExpiry n = 0 \<and> seResponders s' = seResponders s)"
proof -
  obtain parts known where pk: "proposal_parts L (seIDProvider s) (lpPeers p) = (parts, known)"
    by fastforce
  have known: "known = proposal_known L (seIDProvider s) p"
    using proposal_parts_known [of L "seIDProvider s" "lpPeers p"] pk by (simp add: proposal_known_def)
  have parts: "parts = map (\<lambda>a. pAlias (the (ReadByOffChainAddr L (seIDProvider s) a))) (lpPeers p)" if known
    using proposal_parts_all [of "lpPeers p" L "seIDProvider s"] that pk known
    by (simp add: proposal_known_def)
  let ?ex = "if known then unix_after now (tcResponse (seTimeoutCfg s)) else 0"
  let ?cs = "case getCurrencies L CR CU (lpAssets p) of Inl e \<Rightarrow> [] | Inr cs \<Rightarrow> cs"
  let ?s1 = "if known then s else snd (rejectChProposal S resp ''unrecogonized peer ID'' s)"
  let ?s2 = "case getCurrencies L CR CU (lpAssets p) of
      Inl e \<Rightarrow> snd (rejectChProposal S resp ''unrecogonized currency'' ?s1) | Inr _ \<Rightarrow> ?s1"
  have world: "?s2 = s\<lparr>seWorld := seWorld ?s2\<rparr>"
    by (auto simp: rejectChProposal_def case_prod_unfold split: sum.splits)
  from assms(1,2) pk obtain n where n: "chProposalNotif parts ?cs p ?ex = Done n"
    and lk: "with_slock ?s2 (\<lambda>s3. Done ((), notifyProposal n
         (if ?ex \<noteq> 0 then s3\<lparr>seResponders := (seResponders s3)(cpnProposalID n \<mapsto>
            \<lparr>peProposal = p, peNotif = n, peResponder = resp, peCurrencies = ?cs\<rparr>)\<rparr> else s3)))
       = Done (r, s')"
    by (auto simp: HandleProposal_def Let_def run_simps)
  from lk have s': "s' = (notifyProposal n (if known then s\<lparr>seWorld := seWorld ?s2, seLocked := True,
      seResponders := (seResponders s)(cpnProposalID n \<mapsto>
        \<lparr>peProposal = p, peNotif = n, peResponder = resp, peCurrencies = ?cs\<rparr>)\<rparr>
      else s\<lparr>seWorld := seWorld ?s2, seLocked := True\<rparr>))\<lparr>seLocked := False\<rparr>"
    using assms(3) by (subst (asm) world) (auto simp: run_simps)
  show ?thesis
    unfolding s' using known parts chProposalNotif_Done [OF n]
    by (intro exI [of _ n]) (auto simp: notifyProposal_def split: option.splits)
qed

definition sim_offer :: ledger_proposal where
  "sim_offer = \<lparr>lpProposalID = [7], lpChallengeDuration = 10, lpParticipant = Some 6, lpPeers = [Some 6, Some 5],
     lpApp = 0, lpInitData = 0, lpAssets = [2], lpBalances = [[10, 20]]\<rparr>"

lemma sim_address_inj: "alString hex_addr_lib a = alString hex_addr_lib b \<longleftrightarrow> a = b"
  using hex_addr_lib_ok by (metis addr_ok_def)

lemma sim_known:
  "ReadByOffChainAddr hex_addr_lib sim_ids (Some 6) = Some (sim_peer ''bob'' 6)"
  "ReadByOffChainAddr hex_addr_lib sim_ids (Some 5) = Some (sim_peer OwnAlias 5)"
  by (simp_all add: ReadByOffChainAddr_def sim_ids_def put_peer_def sim_peer_def ReadByAlias_def
      sim_address_inj)

lemma sim_Symbol: "Symbol sim_CR 2 = Some ''ETH''"
  by (simp add: Symbol_def isAssetRegistered_def sim_CR_def)

lemma sim_peer_alias [simp]: "pAlias (sim_peer al a) = al"
  by (simp add: sim_peer_def)

lemma sim_chProposalNotif: "returns (chProposalNotif parts [Some sim_currency] sim_offer ex)"
  using makeBalInfo_returns [of parts "[sim_currency]" "[[10, 20]]"]
  by (auto simp: chProposalNotif_def sim_offer_def deref_def Let_def returns_iff)

lemma sim_expiry: "unix_after 0 (tcResponse (seTimeoutCfg sim_session)) = 10"
  by (simp add: unix_after_def unix_def sim_session_def Second_def)

lemma sim_HandleProposal:
  "\<exists>s'. HandleProposal sim_sdk hex_addr_lib sim_CR sim_CU 0 (Some sim_offer) 3 sim_session = Done ((), s')"
proof -
  have fields: "seIsOpen sim_session" "seIDProvider sim_session = sim_ids" "\<not> seLocked sim_session"
    by (simp_all add: sim_session_def)
  have parts: "proposal_parts hex_addr_lib sim_ids (lpPeers sim_offer) = ([''bob'', OwnAlias], True)"
    by (simp add: sim_offer_def sim_known)
  have cur: "getCurrencies hex_addr_lib sim_CR sim_CU (lpAssets sim_offer) = Inr [Some sim_currency]"
    by (simp add: sim_offer_def sim_Symbol)
  obtain n where "chProposalNotif [''bob'', OwnAlias] [Some sim_currency] sim_offer 10 = Done n"
    using sim_chProposalNotif [of "[''bob'', OwnAlias]" 10] by (auto simp: returns_iff)
  then show ?thesis
    by (simp add: HandleProposal_def fields parts cur sim_expiry with_slock_def)
qed

theorem HandleProposal_spec_witness:
  "\<exists>s'. HandleProposal sim_sdk hex_addr_lib sim_CR sim_CU 0 (Some sim_offer) 3 sim_session = Done ((), s')
     \<and> (\<exists>n. seNotifsCache s' = [n] \<and> cpnExpiry n = 10 \<and> biParts (cpnOpeningBalInfo n) = [''bob'', OwnAlias]
          \<and> seResponders s' (cpnProposalID n) \<noteq> None)"
proof -
  obtain s' where run: "HandleProposal sim_sdk hex_addr_lib sim_CR sim_CU 0 (Some sim_offer) 3 sim_session = Done ((), s')"
    using sim_HandleProposal by blast
  have known: "proposal_known hex_addr_lib (seIDProvider sim_session) sim_offer"
    by (simp add: proposal_known_def sim_offer_def sim_session_def sim_known)
  have "map (\<lambda>a. pAlias (the (ReadByOffChainAddr hex_addr_lib (seIDProvider sim_session) a))) (lpPeers sim_offer)
      = [''bob'', OwnAlias]"
    by (simp add: sim_offer_def sim_session_def sim_known)
  moreover have "seIsOpen sim_session" "seNotifier sim_session = None" "seNotifsCache sim_session = []"
    by (simp_all add: sim_session_def)
  ultimately show ?thesis
    using HandleProposal_spec [OF run] known sim_expiry run by auto
qed

text \<open>
  A proposal in a currency the node does not know is not rejected with an error: the node
  panics, when the proposal has balances and the peers are known.
\<close>

theorem unknown_currency_proposal_panics:
  assumes "seIsOpen s" and "a \<in> set (lpAssets p)" and "Symbol CR a = None" and "lpBalances p \<noteq> []"
  shows "HandleProposal S L CR CU now (Some p) resp s = Panic IndexOutOfRange"
proof -
  obtain e where e: "getCurrencies L CR CU (lpAssets p) = Inl e"
    using assms(2,3) getCurrencies_Inl [of L CR CU "lpAssets p"] by auto
  have "makeBalInfoFromRawBal parts [] (lpBalances p) = Panic IndexOutOfRange" for parts
    by (rule makeBalInfo_Panic) (use assms(4) in simp)
  then have "chProposalNotif parts [] p ex = Panic IndexOutOfRange" for parts ex
    by (simp add: chProposalNotif_def)
  with assms(1) e show ?thesis
    by (simp add: HandleProposal_def Let_def case_prod_unfold)
qed

theorem unknown_currency_proposal_panics_witness:
  "HandleProposal sim_sdk hex_addr_lib sim_CR sim_CU 0 (Some (sim_offer\<lparr>lpAssets := [3]\<rparr>)) 3 sim_session
     = Panic IndexOutOfRange"
  by (rule unknown_currency_proposal_panics [of _ 3])
     (simp_all add: sim_session_def sim_offer_def Symbol_def isAssetRegistered_def sim_CR_def)

subsection \<open>Responding to proposals\<close>

lemma acceptChProposal_keeps:
  assumes "acceptChProposal S P CR e s = Done (r, s')"
  shows "seResponders s' = seResponders s \<and> seIsOpen s' = seIsOpen s \<and> seLocked s' = seLocked s"
proof -
  have add: "seResponders s1 = seResponders x \<and> seIsOpen s1 = seIsOpen x \<and> seLocked s1 = seLocked x"
    if "addCh ch x = Done (y, s1)" for ch y s1 and x :: "('a, 'b, 'c) session"
    using that by (auto simp: addCh_def run_simps)
  show ?thesis
    using assms by (auto simp: acceptChProposal_def Let_def elim!: andThen_DoneE
        split: prod.splits sum.splits dest!: add)
qed

lemma RespondChProposal_answer_keeps:
  assumes "RespondChProposal_answer S P CR now acc e s = Done (r, s')"
  shows "seResponders s' = seResponders s \<and> seIsOpen s' = seIsOpen s \<and> seLocked s' = seLocked s"
  using assms acceptChProposal_keeps [of S P CR e s r s']
  by (auto simp: RespondChProposal_answer_def Let_def rejectChProposal_def
      split: if_splits prod.splits)

lemma RespondChProposal_unknown:
  assumes "seIsOpen s" and "\<not> seLocked s" and "seResponders s u = None"
  shows "RespondChProposal S P CR now u acc s
    = Done ((nil_ch_info, Some (NewAPIErrResourceNotFound ResTypeProposal u)), s)"
  using assms
  by (simp add: RespondChProposal_def RespondChProposal_take_def with_slock_def session_unlocked_id)

text \<open>
  C11: a proposal is answered once. An ID that is not waiting is unknown and changes nothing;
  one that waits is used up by the answer, whatever comes of it, a late answer is refused
  without a call to the SDK, and a second answer with the same ID is refused.
\<close>

theorem RespondChProposal_once:
  fixes s s' :: "('p, 'w, 'ev) session"
  assumes "RespondChProposal S P CR now u acc s = Done ((i, ae), s')" and "seIsOpen s"
  shows "(case seResponders s u of
      None \<Rightarrow> ae = Some (NewAPIErrResourceNotFound ResTypeProposal u) \<and> s' = s
    | Some e \<Rightarrow> seResponders s' = (seResponders s)(u := None) \<and>
        (cpnExpiry (peNotif e) < unix now \<longrightarrow>
           ae = Some (NewAPIErrUserResponseTimedOut (cpnExpiry (peNotif e)) (unix now))
           \<and> seWorld s' = seWorld s \<and> seChs s' = seChs s))
    \<and> RespondChProposal S P CR now' u acc' s'
        = Done ((nil_ch_info, Some (NewAPIErrResourceNotFound ResTypeProposal u)), s')"
proof -
  from assms have unl: "\<not> seLocked s"
    by (auto simp: RespondChProposal_def RespondChProposal_take_def elim!: andThen_DoneE simp: run_simps)
  show ?thesis
  proof (cases "seResponders s u")
    case None
    have n: "RespondChProposal S P CR t u b s
        = Done ((nil_ch_info, Some (NewAPIErrResourceNotFound ResTypeProposal u)), s)" for t b
      by (rule RespondChProposal_unknown [OF assms(2) unl None])
    from assms(1) have eq: "ae = Some (NewAPIErrResourceNotFound ResTypeProposal u)" "s' = s"
      unfolding n by simp_all
    with None n show ?thesis by simp
  next
    case (Some e)
    let ?s1 = "s\<lparr>seResponders := (seResponders s)(u := None)\<rparr>"
    have "RespondChProposal_take u s = Done (Some e, ?s1)"
      using Some unl by (cases s) (simp add: RespondChProposal_take_def with_slock_def)
    then have ans: "RespondChProposal_answer S P CR now acc e ?s1 = Done ((i, ae), s')"
      using assms by (simp add: RespondChProposal_def)
    note keeps = RespondChProposal_answer_keeps [OF ans]
    have "RespondChProposal S P CR now' u acc' s'
        = Done ((nil_ch_info, Some (NewAPIErrResourceNotFound ResTypeProposal u)), s')"
      using keeps assms(2) unl by (intro RespondChProposal_unknown) simp_all
    then show ?thesis
      using Some keeps ans by (auto simp: RespondChProposal_answer_def Let_def)
  qed
qed

definition sim_waiting :: "(pstate, sim_world, nat) session" where
  "sim_waiting = sim_session\<lparr>seResponders := [''07'' \<mapsto>
     \<lparr>peProposal = sim_offer, peNotif = \<lparr>cpnProposalID = ''07'', cpnOpeningBalInfo = nil_bal_info,
        cpnApp = \<lparr>appDef = 0, appData = 0\<rparr>, cpnChallengeDurSecs = 10, cpnExpiry = 1\<rparr>,
      peResponder = 3, peCurrencies = [Some sim_currency]\<rparr>]\<rparr>"

theorem RespondChProposal_once_witness:
  "\<exists>i ae s'. RespondChProposal sim_sdk sim_api sim_CR 9000000000 ''07'' True sim_waiting = Done ((i, Some ae), s')
     \<and> ae = NewAPIErrUserResponseTimedOut 1 9 \<and> seResponders s' = Map.empty
     \<and> RespondChProposal sim_sdk sim_api sim_CR 0 ''07'' False s'
         = Done ((nil_ch_info, Some (NewAPIErrResourceNotFound ResTypeProposal ''07'')), s')"
proof -
  obtain s' where run: "RespondChProposal sim_sdk sim_api sim_CR 9000000000 ''07'' True sim_waiting
      = Done ((nil_ch_info, Some (NewAPIErrUserResponseTimedOut 1 9)), s')"
    by (simp add: RespondChProposal_def RespondChProposal_take_def with_slock_def sim_waiting_def
        sim_session_def RespondChProposal_answer_def unix_def)
  have "seIsOpen sim_waiting" by (simp add: sim_waiting_def sim_session_def)
  from RespondChProposal_once [OF run this, of 0 False] run show ?thesis
    by (simp add: sim_waiting_def)
qed

subsection \<open>Closing\<close>

definition unexpected_phase :: "'p pchannel_api \<Rightarrow> ('p, 'ev) channel \<Rightarrow> bool" where
  "unexpected_phase P ch \<longleftrightarrow> pPhase P (chPch ch) \<noteq> Acting \<and> pPhase P (chPch ch) \<noteq> Withdrawn"

lemma getChInfo_locked [simp]: "getChInfo P (ch\<lparr>chLocked := b\<rparr>) = getChInfo P ch"
  by (simp add: getChInfo_def makeChInfo_def)

lemma close_scan_Done:
  "close_scan P ch = Done x \<longleftrightarrow> \<not> chLocked ch \<and> snd x = ch\<lparr>chLocked := True\<rparr>
     \<and> (if unexpected_phase P ch then \<exists>i. getChInfo P ch = Done i \<and> fst (fst x) = Some i else fst (fst x) = None)
     \<and> (if chStatus ch = StatusOpen then \<exists>i. getChInfo P ch = Done i \<and> snd (fst x) = Some i else snd (fst x) = None)"
  by (cases x) (auto simp: close_scan_def Let_def unexpected_phase_def run_simps)

lemma map_filter_infos:
  assumes "list_all2 (\<lambda>c x. if Q c then \<exists>i. g c = Done i \<and> f x = Some i else f x = None) cs xs"
  shows "list_all2 (\<lambda>c i. g c = Done i) (filter Q cs) (List.map_filter f xs)"
  using assms by (induction rule: list_all2_induct) (auto simp: List.map_filter_def split: if_splits)

lemma close_scan_all:
  assumes "rg_forEach (close_scan P) r = Done (scans, r')"
  shows "(\<forall>ch \<in> set (rgChs r). \<not> chLocked ch) \<and> r' = r\<lparr>rgChs := map (\<lambda>ch. ch\<lparr>chLocked := True\<rparr>) (rgChs r)\<rparr>
    \<and> list_all2 (\<lambda>c i. getChInfo P c = Done i) (filter (unexpected_phase P) (rgChs r)) (List.map_filter fst scans)
    \<and> list_all2 (\<lambda>c i. getChInfo P c = Done i) (filter (\<lambda>c. chStatus c = StatusOpen) (rgChs r)) (List.map_filter snd scans)"
proof -
  from assms obtain xs where xs: "list_all2 (\<lambda>c x. close_scan P c = Done x) (rgChs r) xs"
    and scans: "scans = map fst xs" and r': "r' = r\<lparr>rgChs := map snd xs\<rparr>"
    by (auto simp: rg_forEach_Done)
  have "\<forall>ch \<in> set (rgChs r). \<not> chLocked ch"
    using xs by (auto simp: close_scan_Done list_all2_conv_all_nth in_set_conv_nth)
  moreover have "map snd xs = map (\<lambda>ch. ch\<lparr>chLocked := True\<rparr>) (rgChs r)"
    using xs by (auto simp: close_scan_Done list_all2_conv_all_nth intro: nth_equalityI)
  moreover have "list_all2 (\<lambda>c i. getChInfo P c = Done i) (filter (unexpected_phase P) (rgChs r)) (List.map_filter fst scans)"
    unfolding scans by (rule map_filter_infos)
      (use xs in \<open>auto simp: close_scan_Done list_all2_conv_all_nth\<close>)
  moreover have "list_all2 (\<lambda>c i. getChInfo P c = Done i) (filter (\<lambda>c. chStatus c = StatusOpen) (rgChs r)) (List.map_filter snd scans)"
    unfolding scans by (rule map_filter_infos)
      (use xs in \<open>auto simp: close_scan_Done list_all2_conv_all_nth\<close>)
  ultimately show ?thesis using r' by simp
qed

lemma unlock_locked:
  "\<forall>ch \<in> set chs. \<not> chLocked ch \<Longrightarrow> map (\<lambda>ch. ch\<lparr>chLocked := False\<rparr>) (map (\<lambda>ch. ch\<lparr>chLocked := True\<rparr>) chs) = chs"
  by (auto simp: map_idI)

lemma session_close_Done:
  "session_close S s = Done (ae, s') \<Longrightarrow> seIsOpen s' = seIsOpen s \<and> seChs s' = seChs s"
  by (auto simp: session_close_def Let_def run_simps)

text \<open>The refusals of \<open>Close\<close>, and the way it succeeds.\<close>

lemma Close_cases:
  assumes "Close S P force s = Done ((infos, ae), s')" and "seIsOpen s"
  obtains (unexpected) e infs where "ae = Some (NewAPIErrFailedPreConditionUnclosedChs e infs)" and "s' = s"
      and "infos = []" and "\<exists>ch \<in> set (rgChs (seChs s)). unexpected_phase P ch"
      and "list_all2 (\<lambda>c i. getChInfo P c = Done i) (filter (unexpected_phase P) (rgChs (seChs s))) infs"
  | (opened) e infs where "ae = Some (NewAPIErrFailedPreConditionUnclosedChs e infs)" and "s' = s"
      and "infos = []" and "\<not> force" and "\<exists>ch \<in> set (rgChs (seChs s)). chStatus ch = StatusOpen"
      and "\<forall>ch \<in> set (rgChs (seChs s)). \<not> unexpected_phase P ch"
      and "list_all2 (\<lambda>c i. getChInfo P c = Done i) (filter (\<lambda>c. chStatus c = StatusOpen) (rgChs (seChs s))) infs"
  | (closed) "\<not> seIsOpen s'" and "\<forall>ch \<in> set (rgChs (seChs s)). \<not> unexpected_phase P ch"
      and "force \<or> (\<forall>ch \<in> set (rgChs (seChs s)). chStatus ch = StatusClosed)"
      and "rgChs (seChs s') = map (\<lambda>ch. ch\<lparr>chLocked := True\<rparr>) (rgChs (seChs s))"
      and "list_all2 (\<lambda>c i. getChInfo P c = Done i) (filter (\<lambda>c. chStatus c = StatusOpen) (rgChs (seChs s))) infos"
      and "\<not> seLocked s'"
proof -
  from assms obtain scans r' t where unl: "\<not> seLocked s"
    and fe: "rg_forEach (close_scan P) (seChs s) = Done (scans, r')"
    and t: "s' = t\<lparr>seLocked := False\<rparr>"
    and body: "(if length (List.map_filter fst scans) \<noteq> 0
          then Done (([], Some (NewAPIErrFailedPreConditionUnclosedChs
                 (ENew ''session cannot be closed with channels in unexpected phase'')
                 (List.map_filter fst scans))), unlockAllChs (s\<lparr>seLocked := True, seChs := r'\<rparr>))
          else if \<not> force \<and> length (List.map_filter snd scans) \<noteq> 0
          then Done (([], Some (NewAPIErrFailedPreConditionUnclosedChs
                 (ENew ''session cannot be closed with channels in open phase without force option'')
                 (List.map_filter snd scans))), unlockAllChs (s\<lparr>seLocked := True, seChs := r'\<rparr>))
          else andThen (session_close S (s\<lparr>seLocked := True, seChs := r', seIsOpen := False\<rparr>)) (\<lambda>(apiErr, s2).
                 Done ((List.map_filter snd scans, apiErr), s2))) = Done ((infos, ae), t)"
    by (auto simp: Close_def with_slock_Done Let_def elim!: andThen_DoneE)
  note scan = close_scan_all [OF fe]
  let ?un = "List.map_filter fst scans"
  let ?opn = "List.map_filter snd scans"
  have bk: "(unlockAllChs (s\<lparr>seLocked := True, seChs := r'\<rparr>))\<lparr>seLocked := False\<rparr> = s"
    using scan unl unlock_locked [of "rgChs (seChs s)"]
    by (cases s; cases "seChs s") (simp add: unlockAllChs_def)
  have un: "?un = [] \<longleftrightarrow> (\<forall>ch \<in> set (rgChs (seChs s)). \<not> unexpected_phase P ch)"
    using scan list_all2_lengthD by (fastforce simp: filter_empty_conv)
  have opn: "?opn = [] \<longleftrightarrow> (\<forall>ch \<in> set (rgChs (seChs s)). chStatus ch \<noteq> StatusOpen)"
    using scan list_all2_lengthD by (fastforce simp: filter_empty_conv)
  have st: "x = StatusClosed \<longleftrightarrow> x \<noteq> StatusOpen" for x by (cases x) simp_all
  consider "?un \<noteq> []" | "?un = []" "\<not> force" "?opn \<noteq> []" | "?un = []" "force \<or> ?opn = []" by blast
  then show thesis
  proof cases
    case 1
    with body t bk scan un show thesis by (intro that(1)) auto
  next
    case 2
    with body t bk scan un opn show thesis by (intro that(2)) auto
  next
    case 3
    with body obtain ap s2 where sc: "session_close S (s\<lparr>seLocked := True, seChs := r', seIsOpen := False\<rparr>) = Done (ap, s2)"
      and "infos = ?opn" "t = s2"
      by (auto elim!: andThen_DoneE)
    with session_close_Done [OF sc] t have "\<not> seIsOpen s'" "seChs s' = r'" "\<not> seLocked s'" "infos = ?opn"
      by simp_all
    with 3 scan un opn st show thesis by (intro that(3)) auto
  qed
qed

text \<open>
  C21: closing a session. It is refused when a channel is in an unexpected phase, or when one is
  open and the user did not force it; then nothing changes, and the error lists exactly the
  channels in the way, in their order. Otherwise the session is closed, with the open
  channels in the result.
\<close>

theorem Close_spec:
  assumes "Close S P force s = Done ((infos, ae), s')" and "seIsOpen s"
  shows "if (\<exists>ch \<in> set (rgChs (seChs s)). unexpected_phase P ch
           \<or> \<not> force \<and> chStatus ch = StatusOpen)
    then s' = s \<and> infos = [] \<and> (\<exists>e infs. ae = Some (NewAPIErrFailedPreConditionUnclosedChs e infs)
      \<and> list_all2 (\<lambda>c i. getChInfo P c = Done i)
          (filter (\<lambda>c. if \<exists>ch \<in> set (rgChs (seChs s)). unexpected_phase P ch
                       then unexpected_phase P c else chStatus c = StatusOpen) (rgChs (seChs s))) infs)
    else \<not> seIsOpen s'
      \<and> list_all2 (\<lambda>c i. getChInfo P c = Done i)
          (filter (\<lambda>c. chStatus c = StatusOpen) (rgChs (seChs s))) infos"
  using assms
proof (cases rule: Close_cases)
  case (unexpected e infs)
  then show ?thesis by auto
next
  case (opened e infs)
  then show ?thesis by auto
next
  case closed
  then show ?thesis by auto
qed

definition sim_open_session :: "(pstate, sim_world, nat) session" where
  "sim_open_session = sim_session\<lparr>seChs := rg_put sim_channel newChRegistry\<rparr>"

lemma sim_info: "\<exists>i. getChInfo sim_api (sim_channel :: (pstate, nat) channel) = Done i"
  using makeBalInfo_returns [of "[''self'', ''bob'']" "[sim_currency]" "[[10, 20]]"]
  by (auto simp: getChInfo_def makeChInfo_def makeBalInfoFromState_def sim_channel_def newCh_def
      sim_api_def sim_state_def returns_iff)

lemma sim_forEach:
  "\<exists>i. rg_forEach (close_scan sim_api) (rg_put (sim_channel :: (pstate, nat) channel) newChRegistry)
     = Done ([(None, Some i)], rg_put (sim_channel\<lparr>chLocked := True\<rparr>) newChRegistry)"
proof -
  obtain i where i: "getChInfo sim_api (sim_channel :: (pstate, nat) channel) = Done i"
    using sim_info by blast
  have "chStatus (sim_channel :: (pstate, nat) channel) = StatusOpen" "\<not> chLocked (sim_channel :: (pstate, nat) channel)"
    by (simp_all add: sim_channel_def newCh_def)
  with i have "close_scan sim_api (sim_channel :: (pstate, nat) channel)
      = Done ((None, Some i), sim_channel\<lparr>chLocked := True\<rparr>)"
    by (simp add: close_scan_def Let_def) (simp add: sim_api_def)
  then show ?thesis
    by (simp add: rg_forEach_def rg_put_def rg_append_def newChRegistry_def Let_def)
qed

theorem Close_spec_witness:
  "\<exists>ae. Close sim_sdk sim_api False sim_open_session = Done (([], Some ae), sim_open_session)
     \<and> aeCode ae = ErrFailedPreCondition"
proof -
  have fields: "\<not> seLocked sim_open_session" "seIsOpen sim_open_session"
      "seChs sim_open_session = rg_put sim_channel newChRegistry"
    by (simp_all add: sim_open_session_def sim_session_def)
  obtain infos ae s' where run: "Close sim_sdk sim_api False sim_open_session = Done ((infos, ae), s')"
    using sim_forEach fields by (auto simp: Close_def with_slock_def List.map_filter_def)
  have chs: "rgChs (seChs sim_open_session) = [sim_channel]"
    by (simp add: fields rg_put_def rg_append_def newChRegistry_def Let_def)
  have "chStatus (sim_channel :: (pstate, nat) channel) = StatusOpen"
    by (simp add: sim_channel_def newCh_def)
  with Close_spec [OF run fields(2)] run chs show ?thesis by auto
qed

text \<open>
  C39: closing a session keeps the locks of its channels. After a close that succeeded on a
  session with a channel, a request for the infos of the channels never returns, with the
  lock of the session held, and neither does a request for the info of one of them.
\<close>

theorem GetChsInfo_after_Close_blocks:
  assumes "Close S P force s = Done ((infos, ae), s')" and "seIsOpen s" and "\<not> seIsOpen s'"
    and "rgChs (seChs s) \<noteq> []"
  shows "GetChsInfo P s' = Blocked \<and> (\<forall>ch \<in> set (rgChs (seChs s')). GetChInfo P ch = Blocked)"
  using assms(1,2)
proof (cases rule: Close_cases)
  case closed
  obtain ch chs where "rgChs (seChs s) = ch # chs" using assms(4) by (cases "rgChs (seChs s)") auto
  with closed show ?thesis
    by (auto simp: GetChsInfo_def with_slock_def rg_forEach_def GetChInfo_def with_lock_def)
qed (use assms(2,3) in simp_all)

theorem GetChsInfo_after_Close_blocks_witness:
  "\<exists>infos s'. Close sim_sdk sim_api True sim_open_session = Done ((infos, None), s') \<and> GetChsInfo sim_api s' = Blocked"
proof -
  have fields: "\<not> seLocked sim_open_session" "seIsOpen sim_open_session"
      "seChs sim_open_session = rg_put sim_channel newChRegistry"
      "seClient sim_open_session = \<lparr>clDbConn = Some 1, clRestoring = False\<rparr>"
    by (simp_all add: sim_open_session_def sim_session_def)
  obtain infos s' where run: "Close sim_sdk sim_api True sim_open_session = Done ((infos, None), s')"
      and closed: "\<not> seIsOpen s'"
    using sim_forEach fields
    by (auto simp: Close_def with_slock_def List.map_filter_def session_close_def client_Close_def sim_sdk_def)
  have "rgChs (seChs sim_open_session) \<noteq> []"
    by (simp add: fields rg_put_def rg_append_def newChRegistry_def Let_def)
  from GetChsInfo_after_Close_blocks [OF run fields(2) closed this] run show ?thesis by blast
qed

subsection \<open>Peer IDs\<close>

text \<open>
  Adding a peer ID to an open session: the error code and the argument or resource it names
  say which of the alias, the peer ID and the address was the cause, and there is no error
  exactly when the alias was free and the address parses.
\<close>

theorem AddPeerID_spec:
  assumes "AddPeerID L p s = Done (ae, s')" and "seIsOpen s"
  shows "case ReadByAlias (seIDProvider s) (pAlias p) of
      Some q \<Rightarrow> seIDProvider s' = seIDProvider s \<and> (\<exists>e. ae = Some
        (if PeerIDEqual q p then NewAPIErrResourceExists ResTypePeerID (pAlias p)
         else NewAPIErrInvalidArgument e ArgNamePeerAlias (pAlias p)))
    | None \<Rightarrow>
        (case ParseAddr L (pOffChainAddrString p) of
           Inl e \<Rightarrow> seIDProvider s' = seIDProvider s \<and>
             (\<exists>e'. ae = Some (NewAPIErrInvalidArgument e' ArgNameOffChainAddr (pOffChainAddrString p)))
         | Inr a \<Rightarrow> ae = None \<and> ReadByAlias (seIDProvider s')
             = (ReadByAlias (seIDProvider s))(pAlias p \<mapsto> p\<lparr>pOffChainAddr := Some a\<rparr>))"
proof (cases "ReadByAlias (seIDProvider s) (pAlias p)")
  case None
  with assms show ?thesis
    by (cases "ParseAddr L (pOffChainAddrString p)")
       (auto simp: AddPeerID_def run_simps Write_def ReadByAlias_def put_peer_def
         ErrPeerAliasAlreadyUsed_text_def ErrPeerIDAlreadyRegistered_text_def ErrParsingOffChainAddress_text_def)
next
  case (Some q)
  with assms show ?thesis
    by (cases "PeerIDEqual q p") (auto simp: AddPeerID_def run_simps Write_def ReadByAlias_def
         ErrPeerAliasAlreadyUsed_text_def ErrPeerIDAlreadyRegistered_text_def ErrParsingOffChainAddress_text_def)
qed

theorem AddPeerID_spec_witness:
  "\<exists>e s'. AddPeerID hex_addr_lib (sim_peer ''bob'' 9) sim_session
     = Done (Some (NewAPIErrInvalidArgument e ArgNamePeerAlias ''bob''), s')"
proof -
  have rd: "ReadByAlias (seIDProvider sim_session) ''bob'' = Some (sim_peer ''bob'' 6)"
    by (simp add: sim_session_def)
  have ne: "\<not> PeerIDEqual (sim_peer ''bob'' 6) (sim_peer ''bob'' 9)"
    by (simp add: PeerIDEqual_def) (simp add: sim_peer_def sim_address_inj)
  obtain ae s' where run: "AddPeerID hex_addr_lib (sim_peer ''bob'' 9) sim_session = Done (ae, s')"
    using rd ne by (auto simp: AddPeerID_def with_slock_def sim_session_def Write_def ReadByAlias_def)
  from AddPeerID_spec [OF run] rd run ne show ?thesis
    by (auto simp: sim_session_def)
qed

end
