(* ===== verification/Session_Start.thy ===== *)
theory Session_Start
  imports Session_Requests
begin

text \<open>
  Starting a session: \<open>New\<close> of \<^verbatim>\<open>session/session.go\<close> with the restoring of persisted channels.
\<close>

definition restored_ok :: "'p pchannel_api \<Rightarrow> ('p, 'w, 'ev) session \<Rightarrow> bool" where
  "restored_ok P s \<longleftrightarrow> (\<forall>ch \<in> set (rgChs (seChs s)). pPhase P (chPch ch) = Acting \<and> chStatus ch = StatusOpen)"

definition same_session :: "('p, 'w, 'ev) session \<Rightarrow> ('p, 'w, 'ev) session \<Rightarrow> bool" where
  "same_session s s' \<longleftrightarrow> seIsOpen s' = seIsOpen s \<and> seIDProvider s' = seIDProvider s
     \<and> seUser s' = seUser s \<and> seResponders s' = seResponders s \<and> seNotifier s' = seNotifier s
     \<and> seLocked s' = seLocked s"

lemma same_session_refl [simp]: "same_session s s"
  by (simp add: same_session_def)

lemma same_session_trans: "same_session a b \<Longrightarrow> same_session b c \<Longrightarrow> same_session a c"
  by (simp add: same_session_def)

lemma addCh_same: "addCh ch s = Done (r, s') \<Longrightarrow> same_session s s' \<and> rgChs (seChs s') = rgChs (seChs s) @ [ch]"
  by (auto simp: addCh_def run_simps same_session_def rg_put_def rg_append_def Let_def)

lemma handleRestoredCh_same:
  assumes "handleRestoredCh S P L CR CU pch s = Done s'"
  shows "same_session s s' \<and> (restored_ok P s \<longrightarrow> restored_ok P s')"
proof -
  have new: "chPch (newCh P pch url cs parts cfg dur :: ('a, 'c) channel) = pch"
      "chStatus (newCh P pch url cs parts cfg dur :: ('a, 'c) channel) = StatusOpen" for url cs parts cfg dur
    by (simp_all add: newCh_def)
  have world: "same_session (s\<lparr>seWorld := w\<rparr>) x = same_session s x" "restored_ok P (s\<lparr>seWorld := w\<rparr>) = restored_ok P s"
    "same_session s (s\<lparr>seWorld := w\<rparr>)" for w x
    by (simp_all add: same_session_def restored_ok_def)
  show ?thesis
    using assms by (auto simp: handleRestoredCh_def Let_def world elim!: andThen_DoneE
        split: if_splits option.splits sum.splits dest!: addCh_same)
      (auto simp: restored_ok_def new)
qed

lemma restore_loop_same:
  "restore_loop S P L CR CU pchs s = Done s' \<Longrightarrow> same_session s s' \<and> (restored_ok P s \<longrightarrow> restored_ok P s')"
proof (induction pchs arbitrary: s)
  case (Cons pch pchs)
  then obtain t where t: "handleRestoredCh S P L CR CU pch s = Done t" "restore_loop S P L CR CU pchs t = Done s'"
    by (auto elim!: andThen_DoneE)
  from Cons.IH [OF t(2)] handleRestoredCh_same [OF t(1)] show ?case
    using same_session_trans by blast
qed simp

lemma RestoreChs_same:
  assumes "RestoreChs S P L CR CU dir t s = Done (err, s')"
  shows "same_session s s' \<and> (restored_ok P s \<longrightarrow> restored_ok P s') \<and> se_evolves L s s'"
proof (cases "RestoreChs_load S dir (seClient s) (seWorld s)")
  case (fields e c w)
  show ?thesis
  proof (cases e)
    case (Some x)
    with assms fields show ?thesis
      by (auto simp: RestoreChs_def same_session_def restored_ok_def)
  next
    case None
    obtain pchs er w1 where r: "sdRestore S t w = (pchs, er, w1)" by (cases "sdRestore S t w")
    from assms fields None r obtain s1 where
      s1: "restore_loop S P L CR CU pchs (s\<lparr>seClient := c, seWorld := w1\<rparr>) = Done s1"
      and s': "s' = s1\<lparr>seClient := RestoreChs_done (seClient s1)\<rparr>"
      by (auto simp: RestoreChs_def elim!: andThen_DoneE)
    have "se_evolves L s s1" using restore_loop_evolves [OF s1] by simp
    moreover have "same_session (s\<lparr>seClient := c, seWorld := w1\<rparr>) x = same_session s x"
        "restored_ok P (s\<lparr>seClient := c, seWorld := w1\<rparr>) = restored_ok P s"
        "same_session s (x\<lparr>seClient := c'\<rparr>) = same_session s x"
        "restored_ok P (x\<lparr>seClient := c'\<rparr>) = restored_ok P x" for x and c'
      by (simp_all add: same_session_def restored_ok_def)
    ultimately show ?thesis
      using restore_loop_same [OF s1] by (simp add: s')
  qed
qed

lemma initIDProvider_Inr:
  assumes "initIDProvider S L ty url own = Inr ip"
  shows "ty = ''local'' \<and> id_cache_inv L ip \<and> (\<exists>a. ParseAddr L (pOffChainAddrString own) = Inr a \<and>
     ReadByAlias ip OwnAlias = Some (own\<lparr>pAlias := OwnAlias, pOffChainAddr := Some a\<rparr>))"
proof -
  from assms obtain ip0 where ty: "ty = ''local''" and ip0: "NewIDprovider S L url = Inr ip0"
    and wr: "Write L OwnAlias (own\<lparr>pAlias := OwnAlias\<rparr>) ip0 = (None, ip)"
    by (auto simp: initIDProvider_def split: if_splits sum.splits prod.splits option.splits)
  have inv: "id_cache_inv L ip0"
    using ip0 by (auto simp: NewIDprovider_def split: sum.splits intro: id_cache_inv_New)
  have "id_cache_inv L ip"
    using id_cache_inv_Write [OF inv, of OwnAlias "own\<lparr>pAlias := OwnAlias\<rparr>"] wr by simp
  with ty wr show ?thesis
    by (cases rule: Write_cases [of ip0 OwnAlias L "own\<lparr>pAlias := OwnAlias\<rparr>"])
       (auto simp: put_peer_def ReadByAlias_def)
qed

lemma initIDProvider_Inl: "initIDProvider S L ty url own = Inl ae \<Longrightarrow> api_ok ae \<and> aeCode ae = ErrInvalidConfig"
  by (auto simp: initIDProvider_def split: if_splits sum.splits prod.splits option.splits)

lemma NewUnlockedUser_Inl: "NewUnlockedUser L W wb cfg = Inl ae \<Longrightarrow> api_ok ae \<and> aeCode ae = ErrInvalidConfig"
  by (auto simp: NewUnlockedUser_def split: sum.splits)

lemma newEthereumPaymentClient_Inl:
  "newEthereumPaymentClient S addr cred w = (Inl ae, w') \<Longrightarrow>
     api_ok ae \<and> (aeCode ae = ErrInvalidConfig \<or> aeCode ae = ErrUnknownInternal)"
  by (auto simp: newEthereumPaymentClient_def split: sum.splits prod.splits option.splits)

lemma session_New_Inl:
  "session_New S P L W CR CU nowUTC cfg w = Done (Inl ae) \<Longrightarrow>
     api_ok ae \<and> (aeCode ae = ErrInvalidConfig \<or> aeCode ae = ErrUnknownInternal)"
  by (auto simp: session_New_def Let_def elim!: andThen_DoneE split: sum.splits option.splits if_splits prod.splits
      dest!: initIDProvider_Inl NewUnlockedUser_Inl newEthereumPaymentClient_Inl)

lemma session_New_Inr:
  assumes "session_New S P L W CR CU nowUTC cfg w = Done (Inr s)" and "addr_ok L"
  shows "seIsOpen s \<and> se_inv L s \<and> \<not> seLocked s \<and> seNotifier s = None \<and> seResponders s = Map.empty
        \<and> ucCommType (scUser cfg) = ''tcp'' \<and> scIDProviderType cfg = ''local''
        \<and> (\<exists>p. ReadByAlias (seIDProvider s) OwnAlias = Some p \<and> pOffChainAddr p = crAddr (usOffChain (seUser s)))
        \<and> (\<forall>ch \<in> set (rgChs (seChs s)). pPhase P (chPch ch) = Acting \<and> chStatus ch = StatusOpen)"
proof -
  from assms(1) obtain u ip c w2 s0 s1 where u: "NewUnlockedUser L W NewWalletBackend (scUser cfg) = Inr u"
    and tcp: "ucCommType (scUser cfg) = ''tcp''"
    and ip: "initIDProvider S L (scIDProviderType cfg) (scIDProviderURL cfg) (usPeerID u) = Inr ip"
    and s0: "s0 = new_session (calcSessionID S (sdAddrBytes S (pOffChainAddr (usPeerID u))) nowUTC) cfg u c ip w2"
    and s1: "RestoreChs S P L CR CU (scDatabaseDir cfg) (scPeerReconnTimeout cfg) s0 = Done (None, s1)"
    and s: "s = s1\<lparr>seWorld := client_Handle S (seWorld s1)\<rparr>"
    by (auto simp: session_New_def Let_def elim!: andThen_DoneE split: sum.splits option.splits if_splits prod.splits)
  note ip = initIDProvider_Inr [OF ip]
  note peer = NewUnlockedUser_peer [OF assms(2) u]
  then obtain a where "pOffChainAddr (usPeerID u) = Some a" and pa: "ParseAddr L (pOffChainAddrString (usPeerID u)) = Inr a"
    unfolding parsed_peer_def by blast
  with peer have a: "crAddr (usOffChain u) = Some a" by simp
  have "se_inv L s0" unfolding s0 using ip by (intro se_inv_new) simp
  moreover have "restored_ok P s0"
    by (simp add: s0 restored_ok_def new_session_def newChRegistry_def)
  ultimately have "same_session s0 s1" "restored_ok P s1" "se_inv L s1"
    using RestoreChs_same [OF s1] by (simp_all add: se_evolves_def)
  then show ?thesis
    using ip a pa tcp by (simp add: s same_session_def restored_ok_def s0 new_session_def)
qed

text \<open>
  C35: starting a session. An error is of one of the two documented codes. A session that is
  returned is open and satisfies its invariant, its user is registered under the own alias
  with the off-chain address of its credential, nobody is subscribed and no response is
  awaited, and every channel restored from the database is an open one, in the acting phase.
\<close>

theorem session_New_spec:
  assumes "session_New S P L W CR CU nowUTC cfg w = Done r" and "addr_ok L"
  shows "case r of
      Inl ae \<Rightarrow> api_ok ae \<and> (aeCode ae = ErrInvalidConfig \<or> aeCode ae = ErrUnknownInternal)
    | Inr s \<Rightarrow> seIsOpen s \<and> se_inv L s \<and> \<not> seLocked s \<and> seNotifier s = None \<and> seResponders s = Map.empty
        \<and> ucCommType (scUser cfg) = ''tcp'' \<and> scIDProviderType cfg = ''local''
        \<and> (\<exists>p. ReadByAlias (seIDProvider s) OwnAlias = Some p \<and> pOffChainAddr p = crAddr (usOffChain (seUser s)))
        \<and> (\<forall>ch \<in> set (rgChs (seChs s)). pPhase P (chPch ch) = Acting \<and> chStatus ch = StatusOpen)"
  using assms session_New_Inl [of S P L W CR CU nowUTC cfg w] session_New_Inr [of S P L W CR CU nowUTC cfg w]
  by (cases r) auto

definition sim_wallet :: wallet_lib where
  "sim_wallet = \<lparr>wlMissing = (\<lambda>k. None), wlNewWallet = (\<lambda>n k p. Inr 0), wlUnlock = (\<lambda>w a. None)\<rparr>"

definition sim_config :: session_config where
  "sim_config = \<lparr>scUser = \<lparr>ucAlias = ''alice'', ucOnChainAddr = alString hex_addr_lib 4,
       ucOnChainWallet = \<lparr>wcKeystorePath = ''ks'', wcPassword = ''pw''\<rparr>, ucPartAddrs = [],
       ucOffChainAddr = alString hex_addr_lib 5,
       ucOffChainWallet = \<lparr>wcKeystorePath = ''ks'', wcPassword = ''pw''\<rparr>,
       ucCommAddr = ''127.0.0.1:5750'', ucCommType = ''tcp''\<rparr>,
     scIDProviderType = ''local'', scIDProviderURL = ''ids.yaml'', scChainURL = ''ws://chain'', scChainID = 1337,
     scChainConnTimeout = 10 * Second, scOnChainTxTimeout = 10 * Second, scResponseTimeout = 10 * Second,
     scDatabaseDir = ''db'', scPeerReconnTimeout = 10 * Second, scAssetETH = None, scAdjudicator = None\<rparr>"

lemma sim_user: "\<exists>u. NewUnlockedUser hex_addr_lib sim_wallet NewWalletBackend (scUser sim_config) = Inr u
    \<and> crAddr (usOffChain u) = Some 5 \<and> crAddr (usOnChain u) = Some 4
    \<and> pOffChainAddrString (usPeerID u) = alString hex_addr_lib 5"
  by (simp add: NewUnlockedUser_def sim_config_def ParseAddr_String [OF hex_addr_lib_ok] newCred_def
      NewWallet_def UnlockAccount_def sim_wallet_def)

lemma sim_session_New:
  "\<exists>s. session_New sim_sdk sim_api hex_addr_lib sim_wallet sim_CR sim_CU [] sim_config w
     = Done (Inr (s :: (pstate, sim_world, nat) session))"
proof -
  obtain u where u: "NewUnlockedUser hex_addr_lib sim_wallet NewWalletBackend (scUser sim_config) = Inr u"
    "crAddr (usOffChain u) = Some 5" "crAddr (usOnChain u) = Some 4"
    "pOffChainAddrString (usPeerID u) = alString hex_addr_lib 5"
    using sim_user by blast
  have ip: "\<exists>ip. initIDProvider sim_sdk hex_addr_lib ''local'' f (usPeerID u) = Inr ip" for f
    by (simp add: initIDProvider_def NewIDprovider_def newIDProviderCache_def sim_sdk_def Write_def u(4)
        ParseAddr_String [OF hex_addr_lib_ok])
  obtain ip where ip: "initIDProvider sim_sdk hex_addr_lib ''local'' ''ids.yaml'' (usPeerID u) = Inr ip"
    using ip by blast
  have cfg: "ucCommType (scUser sim_config) = ''tcp''" "scIDProviderType sim_config = ''local''"
    "scIDProviderURL sim_config = ''ids.yaml''"
    by (simp_all add: sim_config_def)
  have chain: "NewChainBackend sim_sdk hex_addr_lib url t cred = None" for url t cred
    by (simp add: NewChainBackend_def sim_sdk_def)
  have eth: "AssetETH sim_CR = Done 2" by (simp add: AssetETH_def sim_CR_def)
  have client: "\<exists>c w'. newEthereumPaymentClient sim_sdk a (usOffChain u) w1 = (Inr c, w')" for a w1
    by (simp add: newEthereumPaymentClient_def u sim_sdk_def)
  obtain c w' where client: "newEthereumPaymentClient sim_sdk (ucCommAddr (scUser sim_config)) (usOffChain u)
      (sdNewFunder sim_sdk 2 (Some 4) w) = (Inr c, w')"
    using client by blast
  have restore: "\<exists>s1. RestoreChs sim_sdk sim_api hex_addr_lib sim_CR sim_CU d t s = Done (None, s1)"
    for d t and s :: "(pstate, sim_world, nat) session"
    by (simp add: RestoreChs_def RestoreChs_load_def sim_sdk_def)
  let ?s = "new_session (calcSessionID sim_sdk (sdAddrBytes sim_sdk (pOffChainAddr (usPeerID u))) []) sim_config u c ip w'
    :: (pstate, sim_world, nat) session"
  obtain s1 where "RestoreChs sim_sdk sim_api hex_addr_lib sim_CR sim_CU (scDatabaseDir sim_config)
      (scPeerReconnTimeout sim_config) ?s = Done (None, s1)"
    using restore by blast
  then show ?thesis
    by (simp add: session_New_def u cfg ip chain eth client Let_def)
qed

theorem session_New_spec_witness:
  "\<exists>s. session_New sim_sdk sim_api hex_addr_lib sim_wallet sim_CR sim_CU [] sim_config
       \<lparr>swRejected = 0, swDialer = [], swFunder = []\<rparr> = Done (Inr (s :: (pstate, sim_world, nat) session))
     \<and> seIsOpen s \<and> se_inv hex_addr_lib s"
proof -
  obtain s :: "(pstate, sim_world, nat) session" where
    run: "session_New sim_sdk sim_api hex_addr_lib sim_wallet sim_CR sim_CU [] sim_config
       \<lparr>swRejected = 0, swDialer = [], swFunder = []\<rparr> = Done (Inr s)"
    using sim_session_New by blast
  from session_New_spec [OF run hex_addr_lib_ok] run show ?thesis by auto
qed

end
