(* ===== verification/Node.thy ===== *)
theory Node
  imports Session_Start
begin

text \<open>
  \<^verbatim>\<open>node/node.go\<close>: the node, with the table of open sessions and the two registries it shares
  with them, and the agreement of the registries, which the sessions rely on. The parameters
  are collected in \<open>env\<close>: the contract bindings, the decimal library, the conversions of
  addresses, the wallets, the SDK of a session and the files read.
\<close>

subsection \<open>State and operations\<close>

record node_config =
  ncLogLevel :: string
  ncLogFile :: string
  ncChainURL :: string
  ncChainID :: int
  ncAdjudicator :: string
  ncAssetETH :: string
  ncAssetERC20s :: "(string \<times> string) list"
  ncChainConnTimeout :: duration
  ncOnChainTxTimeout :: duration
  ncResponseTimeout :: duration
  ncCommTypes :: "string list"
  ncIDProviderTypes :: "string list"
  ncCurrencyInterpreters :: "string list"

record ('p, 'w, 'd) env =
  evEth :: eth_lib
  evDecimal :: "'d decimal_lib"
  evAddr :: addr_lib
  evWallet :: wallet_lib
  evSdk :: "('p, 'w) sdk"
  evPch :: "'p pchannel_api"
  evReadConfig :: "string \<Rightarrow> goerr option"
  evUnmarshalConfig :: "string \<Rightarrow> session_config \<times> goerr option"
  evInitLogger :: "string \<Rightarrow> string \<Rightarrow> goerr option"

record ('p, 'w, 'ev) node =
  ndCfg :: node_config
  ndSessions :: "string \<rightharpoonup> ('p, 'w, 'ev) session"
  ndContracts :: contract_registry
  ndCurrencies :: currency_registry
  ndLocked :: bool

text \<open>\<open>ParseConfig\<close> of \<^verbatim>\<open>session/config.go\<close>.\<close>

definition ParseConfig :: "('p, 'w, 'd) env \<Rightarrow> string \<Rightarrow> session_config \<times> goerr option" where
  "ParseConfig V configFile =
     (case evReadConfig V configFile of
        Some e \<Rightarrow> (\<lparr>scUser = \<lparr>ucAlias = [], ucOnChainAddr = [], ucOnChainWallet = \<lparr>wcKeystorePath = [], wcPassword = []\<rparr>,
            ucPartAddrs = [], ucOffChainAddr = [], ucOffChainWallet = \<lparr>wcKeystorePath = [], wcPassword = []\<rparr>,
            ucCommAddr = [], ucCommType = []\<rparr>, scIDProviderType = [], scIDProviderURL = [], scChainURL = [],
            scChainID = 0, scChainConnTimeout = 0, scOnChainTxTimeout = 0, scResponseTimeout = 0,
            scDatabaseDir = [], scPeerReconnTimeout = 0, scAssetETH = None, scAdjudicator = None\<rparr>,
          Some (EWith e ''reading from source''))
      | None \<Rightarrow> (case evUnmarshalConfig V configFile of
          (cfg, err) \<Rightarrow> (cfg, map_option (\<lambda>e. EWith e ''unmarshalling'') err)))"

definition NewROChainBackend :: "('p, 'w) sdk \<Rightarrow> string \<Rightarrow> duration \<Rightarrow> goerr option" where
  "NewROChainBackend S url chainConnTimeout =
     map_option (\<lambda>e. EWith e (''connecting to ethereum node at '' @ url)) (sdDialChain S url chainConnTimeout)"

definition initContractRegistry ::
  "eth_lib \<Rightarrow> addr_lib \<Rightarrow> string \<Rightarrow> string \<Rightarrow> goerr + contract_registry" where
  "initContractRegistry E L adjudicator assetETH =
     (case ParseAddr L adjudicator of
        Inl e \<Rightarrow> Inl (EWith e ''parsing adjudicator address'')
      | Inr adjudicatorAddr \<Rightarrow>
     (case ParseAddr L assetETH of
        Inl e \<Rightarrow> Inl (EWith e ''parsing asset ETH address'')
      | Inr assetETHAddr \<Rightarrow>
     (case NewContractRegistry E L adjudicatorAddr assetETHAddr of
        Inl e \<Rightarrow> Inl (EWith e ''initialing contract registry'')
      | Inr r \<Rightarrow> Inr r)))"

text \<open>The pairs of a token and its asset, in the order in which the iteration takes the map.\<close>

fun registerAssetERC20s ::
  "eth_lib \<Rightarrow> addr_lib \<Rightarrow> 'd decimal_lib \<Rightarrow> (string \<times> string) list \<Rightarrow> contract_registry \<Rightarrow> currency_registry
     \<Rightarrow> (goerr option \<times> contract_registry \<times> currency_registry) run" where
  "registerAssetERC20s E L D [] CR CU = Done (None, CR, CU)"
| "registerAssetERC20s E L D ((tokenERC20, assetERC20) # rest) CR CU =
     (case ParseAddr L tokenERC20 of
        Inl e \<Rightarrow> Done (Some (EWith e ''token ERC20 address''), CR, CU)
      | Inr tokenERC20Addr \<Rightarrow>
     (case ParseAddr L assetERC20 of
        Inl e \<Rightarrow> Done (Some (EWith e ''asset ERC20 address''), CR, CU)
      | Inr assetERC20Addr \<Rightarrow>
          andThen (RegisterAssetERC20 E L tokenERC20Addr assetERC20Addr CR) (\<lambda>(res, CR1).
            case res of
              Inl e \<Rightarrow> Done (Some (EWith e ''registering ERC20 asset contract''), CR1, CU)
            | Inr (symbol, maxDecimals) \<Rightarrow>
                (case Register D symbol maxDecimals CU of
                   (Inl e, CU1) \<Rightarrow> Done (Some (EWith e ''registering ERC20 asset currency''), CR1, CU1)
                 | (Inr _, CU1) \<Rightarrow> registerAssetERC20s E L D rest CR1 CU1))))"

definition node_New :: "('p, 'w, 'd) env \<Rightarrow> node_config \<Rightarrow> (goerr + ('p, 'w, 'ev) node) run" where
  "node_New V cfg =
     (case NewROChainBackend (evSdk V) (ncChainURL cfg) (ncChainConnTimeout cfg) of
        Some e \<Rightarrow> Done (Inl (EWith e ''connecting to blockchain''))
      | None \<Rightarrow>
     (case initContractRegistry (evEth V) (evAddr V) (ncAdjudicator cfg) (ncAssetETH cfg) of
        Inl e \<Rightarrow> Done (Inl e)
      | Inr CR \<Rightarrow>
     (case Register (evDecimal V) ETHSymbol ETHMaxDecimals NewRegistry of
        (Inl e, CU) \<Rightarrow> Done (Inl (EWith e ''registering ETH currency''))
      | (Inr _, CU) \<Rightarrow>
          andThen (registerAssetERC20s (evEth V) (evAddr V) (evDecimal V) (ncAssetERC20s cfg) CR CU)
            (\<lambda>(err, CR1, CU1).
            case err of
              Some e \<Rightarrow> Done (Inl e)
            | None \<Rightarrow>
                (case evInitLogger V (ncLogLevel cfg) (ncLogFile cfg) of
                   Some e \<Rightarrow> Done (Inl (EWith e ''initializing logger for node''))
                 | None \<Rightarrow> Done (Inr \<lparr>ndCfg = cfg, ndSessions = Map.empty, ndContracts = CR1,
                     ndCurrencies = CU1, ndLocked = False\<rparr>))))))"

definition with_nlock ::
  "('p, 'w, 'ev) node \<Rightarrow> (('p, 'w, 'ev) node \<Rightarrow> ('a \<times> ('p, 'w, 'ev) node) run)
     \<Rightarrow> ('a \<times> ('p, 'w, 'ev) node) run" where
  "with_nlock n body =
     (if ndLocked n then Blocked
      else andThen (body (n\<lparr>ndLocked := True\<rparr>)) (\<lambda>(x, n'). Done (x, n'\<lparr>ndLocked := False\<rparr>)))"

definition Time :: "int \<Rightarrow> int" where
  "Time now = unix now"

definition GetConfig :: "('p, 'w, 'ev) node \<Rightarrow> node_config" where
  "GetConfig n = ndCfg n"

definition Help :: "string list" where
  "Help = [''payment'']"

definition OpenSession ::
  "('p, 'w, 'd) env \<Rightarrow> 8 word list \<Rightarrow> 'w \<Rightarrow> string \<Rightarrow> ('p, 'w, 'ev) node
     \<Rightarrow> ((string \<times> ch_info list \<times> api_err option) \<times> ('p, 'w, 'ev) node) run" where
  "OpenSession V nowUTC w configFile n = with_nlock n (\<lambda>n.
     case ParseConfig V configFile of
       (_, Some e) \<Rightarrow> Done (([], [], Some (NewAPIErrInvalidArgument (EWith e ''parsing config'')
           ArgNameConfigFile configFile)), n)
     | (cfg, None) \<Rightarrow>
         andThen (AssetETH (ndContracts n)) (\<lambda>assetETH.
         let sessionConfig = cfg\<lparr>scAdjudicator := Some (Adjudicator (ndContracts n)), scAssetETH := Some assetETH\<rparr>
         in andThen (session_New (evSdk V) (evPch V) (evAddr V) (evWallet V) (ndContracts n) (ndCurrencies n)
                       nowUTC sessionConfig w) (\<lambda>r.
            case r of
              Inl ae \<Rightarrow> Done (([], [], Some ae), n)
            | Inr sess \<Rightarrow>
                andThen (GetChsInfo (evPch V) sess) (\<lambda>(infos, sess').
                Done ((seID sess', infos, None), n\<lparr>ndSessions := (ndSessions n)(seID sess \<mapsto> sess')\<rparr>)))))"

definition RegisterCurrency ::
  "('p, 'w, 'd) env \<Rightarrow> string \<Rightarrow> string \<Rightarrow> ('p, 'w, 'ev) node
     \<Rightarrow> ((string \<times> api_err option) \<times> ('p, 'w, 'ev) node) run" where
  "RegisterCurrency V tokenERC20Addr assetERC20Addr n = with_nlock n (\<lambda>n.
     case ParseAddr (evAddr V) assetERC20Addr of
       Inl e \<Rightarrow> Done (([], Some (NewAPIErrInvalidArgument e ArgNameAsset assetERC20Addr)), n)
     | Inr assetERC20 \<Rightarrow>
    (case ParseAddr (evAddr V) tokenERC20Addr of
       Inl e \<Rightarrow> Done (([], Some (NewAPIErrInvalidArgument e ArgNameToken tokenERC20Addr)), n)
     | Inr tokenERC20 \<Rightarrow>
         andThen (RegisterAssetERC20 (evEth V) (evAddr V) tokenERC20 assetERC20 (ndContracts n)) (\<lambda>(res, CR).
           let n1 = n\<lparr>ndContracts := CR\<rparr>
           in case res of
                Inl e \<Rightarrow>
                  (case errors_As as_AssetERC20Registered e of
                     Some (asset, symbol) \<Rightarrow> Done (([], Some (NewAPIErrResourceExists ResTypeCurrency symbol)), n1)
                   | None \<Rightarrow>
                  (case errors_As as_InvalidContract e of
                     Some (name, address, e') \<Rightarrow> Done (([], Some (NewAPIErrInvalidContracts
                         [\<lparr>ceName = name, ceAddress = address, ceError = err_Error e'\<rparr>])), n1)
                   | None \<Rightarrow> Done (([], Some (NewAPIErrUnknownInternal e)), n1)))
              | Inr (symbol, maxDecimals) \<Rightarrow>
                  (case Register (evDecimal V) symbol maxDecimals (ndCurrencies n1) of
                     (Inl e, CU) \<Rightarrow> Done (([], Some (NewAPIErrResourceExists ResTypeCurrency symbol)),
                       n1\<lparr>ndCurrencies := CU\<rparr>)
                   | (Inr _, CU) \<Rightarrow> Done ((symbol, None), n1\<lparr>ndCurrencies := CU\<rparr>)))))"

definition GetSession ::
  "string \<Rightarrow> ('p, 'w, 'ev) node \<Rightarrow> ((api_err + ('p, 'w, 'ev) session) \<times> ('p, 'w, 'ev) node) run" where
  "GetSession sessionID n = with_nlock n (\<lambda>n.
     case ndSessions n sessionID of
       None \<Rightarrow> Done (Inl (NewAPIErrResourceNotFound ResTypeSession sessionID), n)
     | Some sess \<Rightarrow> Done (Inr sess, n))"

text \<open>An operation of a session, on the pointer got from the table.\<close>

definition on_session ::
  "string \<Rightarrow> (contract_registry \<Rightarrow> currency_registry \<Rightarrow> ('p, 'w, 'ev) session \<Rightarrow> ('a \<times> ('p, 'w, 'ev) session) run)
     \<Rightarrow> ('p, 'w, 'ev) node \<Rightarrow> ('a \<times> ('p, 'w, 'ev) node) run" where
  "on_session sessionID f n =
     andThen (deref (ndSessions n sessionID)) (\<lambda>s.
     andThen (f (ndContracts n) (ndCurrencies n) s) (\<lambda>(x, s').
     Done (x, n\<lparr>ndSessions := (ndSessions n)(sessionID \<mapsto> s')\<rparr>)))"

end
