(* ===== verification/Node_Safety.thy ===== *)
theory Node_Safety
  imports Node
begin

text \<open>
  The invariant of the node: its two registries agree, and every session in its table satisfies
  its own invariant and is filed under its own ID.
\<close>

definition node_inv :: "addr_lib \<Rightarrow> ('p, 'w, 'ev) node \<Rightarrow> bool" where
  "node_inv L n \<longleftrightarrow> registries_ok (ndContracts n) (ndCurrencies n) \<and>
     (\<forall>i s. ndSessions n i = Some s \<longrightarrow> seID s = i \<and> se_inv L s)"

subsection \<open>The registries grow together\<close>

lemma RegisterAssetERC20_Done:
  assumes "RegisterAssetERC20 E L token asset r = Done (res, r')" and "contract_inv r"
  shows "case res of Inl e \<Rightarrow> r' = r
    | Inr (s, d) \<Rightarrow> asset_of r s = None \<and> r' = put_asset s (Some token, asset) r \<and> contract_inv r'
        \<and> asset_of r' = (asset_of r)(s \<mapsto> asset) \<and> Symbol r asset = None"
proof (cases res)
  case (Inr sd)
  obtain s d where sd: "sd = (s, d)" by (cases sd)
  from assms(1) Inr sd have new: "isAssetRegistered r asset = None" and free: "asset_of r s = None"
    and r': "r' = put_asset s (Some token, asset) r"
    by (auto simp: RegisterAssetERC20_def isSymbolRegistered_def asset_of_def run_simps
        split: option.splits sum.splits prod.splits)
  have "asset \<notin> set (ctAssets r)" using new isAssetRegistered_None [OF assms(2)] by simp
  from contract_inv_put [OF assms(2) free this, of token]
    ctr.lookup_add [OF contract_inv_index [OF assms(2)] free, of "(Some token, asset)"] show ?thesis
    using free r' new by (simp add: Inr sd Symbol_def)
qed (use assms in \<open>auto simp: RegisterAssetERC20_def run_simps split: option.splits sum.splits prod.splits\<close>)

lemma RegisterAssetERC20_returns:
  assumes "contract_inv r"
  shows "returns (RegisterAssetERC20 E L token asset r)"
proof -
  have "i < length (ctAssets r)" if "map_of (ctCurrencies r) s = Some i" for s i
    using that contract_invD(1,2) [OF assms] by blast
  then show ?thesis
    by (auto simp: RegisterAssetERC20_def isSymbolRegistered_def split: option.splits sum.splits prod.splits)
qed

lemma register_both:
  assumes "registries_ok CR CU" and "RegisterAssetERC20 E L token asset CR = Done (Inr (s, d), CR')"
  shows "\<exists>c. Register D s d CU = (Inr c, put_currency s c CU) \<and> cuSymbol c = s
    \<and> registries_ok CR' (put_currency s c CU) \<and> asset_of CR' = (asset_of CR)(s \<mapsto> asset)"
proof -
  have inv: "contract_inv CR" "currency_registry_inv CU" "dom (asset_of CR) = dom (Currency CU)"
    using assms(1) by (simp_all add: registries_ok_def)
  note RegisterAssetERC20_Done [OF assms(2) inv(1), unfolded sum.case prod.case]
  then have free: "asset_of CR s = None" and inv': "contract_inv CR'"
    and as: "asset_of CR' = (asset_of CR)(s \<mapsto> asset)"
    by blast+
  have freec: "Currency CU s = None" using free inv(3) by (metis domIff)
  let ?c = "as_Currency D (new_currency D s d)"
  have reg: "Register D s d CU = (Inr ?c, put_currency s ?c CU)"
    using freec by (simp add: Register_Inr)
  have "currency_registry_inv (put_currency s ?c CU)"
    by (rule cur.inv_add [OF inv(2) freec])
  moreover have "Currency (put_currency s ?c CU) = (Currency CU)(s \<mapsto> ?c)"
    by (rule cur.lookup_add [OF inv(2) freec])
  ultimately have "registries_ok CR' (put_currency s ?c CU)"
    using inv' inv(3) as by (simp add: registries_ok_def)
  with reg as show ?thesis by auto
qed

lemma registerAssetERC20s_ok:
  assumes "registries_ok CR CU"
  shows "\<exists>err CR' CU'. registerAssetERC20s E L D assets CR CU = Done (err, CR', CU') \<and> registries_ok CR' CU'
    \<and> asset_of CR \<subseteq>\<^sub>m asset_of CR'"
  using assms
proof (induction E L D assets CR CU rule: registerAssetERC20s.induct)
  case (2 E L D tok ast rest CR CU)
  show ?case
  proof (cases "(\<exists>e. ParseAddr L tok = Inl e) \<or> (\<exists>e. ParseAddr L ast = Inl e)")
    case True
    with "2.prems" show ?thesis by (auto split: sum.splits)
  next
    case False
    then obtain t a where ta: "ParseAddr L tok = Inr t" "ParseAddr L ast = Inr a"
      by (cases "ParseAddr L tok"; cases "ParseAddr L ast") auto
    have cinv: "contract_inv CR" using "2.prems" by (simp add: registries_ok_def)
    obtain res CR1 where reg: "RegisterAssetERC20 E L t a CR = Done (res, CR1)"
      using RegisterAssetERC20_returns [OF cinv, of E L t a] by (auto simp: returns_iff)
    show ?thesis
    proof (cases res)
      case (Inl e)
      with reg ta RegisterAssetERC20_Done [OF reg cinv] "2.prems" show ?thesis by simp
    next
      case (Inr sd)
      obtain s d where sd: "sd = (s, d)" by (cases sd)
      from register_both [OF "2.prems" reg [unfolded Inr sd], of D] obtain c where
        c: "Register D s d CU = (Inr c, put_currency s c CU)"
        and ok: "registries_ok CR1 (put_currency s c CU)" and as: "asset_of CR1 = (asset_of CR)(s \<mapsto> a)"
        by auto
      have free: "asset_of CR s = None"
        using RegisterAssetERC20_Done [OF reg cinv] by (simp add: Inr sd)
      then have le: "asset_of CR \<subseteq>\<^sub>m asset_of CR1"
        unfolding as by (auto simp: map_le_def)
      from "2.IH" [OF ta Inr sd [symmetric] c [symmetric] refl ok] le show ?thesis
        using ta reg Inr sd c by (auto intro: map_le_trans)
    qed
  qed
qed auto

lemma initContractRegistry_Inr:
  "initContractRegistry E L adj eth = Inr CR \<Longrightarrow> contract_inv CR \<and> dom (asset_of CR) = {ETHSymbol}"
  by (auto simp: initContractRegistry_def NewContractRegistry_def contract_inv_def asset_of_def ETHSymbol_def
      lessThan_Suc dom_def split: sum.splits option.splits if_splits)

lemma Register_ETH:
  "\<exists>c. Register D ETHSymbol ETHMaxDecimals NewRegistry = (Inr c, put_currency ETHSymbol c NewRegistry)
     \<and> cuSymbol c = ETHSymbol"
  by (simp add: Register_Inr Currency_def NewRegistry_def)

lemma first_registries_ok:
  assumes "initContractRegistry E L adj eth = Inr CR" and "cuSymbol c = ETHSymbol"
  shows "registries_ok CR (put_currency ETHSymbol c NewRegistry)"
proof -
  have "currency_registry_inv (put_currency ETHSymbol c NewRegistry)"
  proof (rule currency_registry_inv_put [OF currency_registry_inv_New _ assms(2)])
    show "Currency NewRegistry ETHSymbol = None" by (simp add: Currency_def NewRegistry_def)
  qed
  moreover have "dom (Currency (put_currency ETHSymbol c NewRegistry)) = {ETHSymbol}"
    by (auto simp: Currency_def put_currency_def NewRegistry_def split: if_splits)
  ultimately show ?thesis
    using initContractRegistry_Inr [OF assms(1)] by (simp add: registries_ok_def)
qed

subsection \<open>Operations keep the invariant\<close>

text \<open>
  What an operation keeps: the invariant, the configuration, the assets registered so far, and
  the sessions.
\<close>

definition nd_evolves :: "addr_lib \<Rightarrow> ('p, 'w, 'ev) node \<Rightarrow> ('p, 'w, 'ev) node \<Rightarrow> bool" where
  "nd_evolves L n n' \<longleftrightarrow> ndCfg n' = ndCfg n \<and> (node_inv L n \<longrightarrow> node_inv L n')
     \<and> (node_inv L n \<longrightarrow> asset_of (ndContracts n) \<subseteq>\<^sub>m asset_of (ndContracts n'))
     \<and> dom (ndSessions n) \<subseteq> dom (ndSessions n')"

lemma nd_evolves_refl [simp]: "nd_evolves L n n"
  by (simp add: nd_evolves_def)

lemma nd_evolves_trans: "nd_evolves L a b \<Longrightarrow> nd_evolves L b c \<Longrightarrow> nd_evolves L a c"
  using map_le_trans [of "asset_of (ndContracts a)" "asset_of (ndContracts b)" "asset_of (ndContracts c)"]
  by (auto simp: nd_evolves_def)

lemma nd_evolves_lock [simp]:
  "nd_evolves L (n\<lparr>ndLocked := b\<rparr>) n' = nd_evolves L n n'"
  "nd_evolves L n (n'\<lparr>ndLocked := b\<rparr>) = nd_evolves L n n'"
  by (simp_all add: nd_evolves_def node_inv_def)

lemma with_nlock_Done [run_simps]:
  "with_nlock n body = Done (x, n') \<longleftrightarrow>
     \<not> ndLocked n \<and> (\<exists>t. body (n\<lparr>ndLocked := True\<rparr>) = Done (x, t) \<and> n' = t\<lparr>ndLocked := False\<rparr>)"
  by (auto simp: with_nlock_def run_simps)

lemma with_nlock_evolves:
  assumes "with_nlock n body = Done (x, n')" and "\<And>t x t'. body t = Done (x, t') \<Longrightarrow> nd_evolves L t t'"
  shows "nd_evolves L n n'"
proof -
  from assms(1) obtain t where "body (n\<lparr>ndLocked := True\<rparr>) = Done (x, t)" "n' = t\<lparr>ndLocked := False\<rparr>"
    by (auto simp: run_simps)
  with assms(2) [of "n\<lparr>ndLocked := True\<rparr>" x t] show ?thesis by simp
qed

lemma nd_evolves_session:
  assumes "node_inv L n \<Longrightarrow> seID s = i \<and> se_inv L s"
  shows "nd_evolves L n (n\<lparr>ndSessions := (ndSessions n)(i \<mapsto> s)\<rparr>)"
  using assms by (auto simp: nd_evolves_def node_inv_def)

lemma se_evolves_kept: "se_evolves L s s' \<Longrightarrow> seID s' = seID s \<and> (se_inv L s \<longrightarrow> se_inv L s')"
  unfolding se_evolves_def by blast

lemma OpenSession_cases:
  fixes n n' :: "('p, 'w, 'ev) node"
  assumes "OpenSession V t w file n = Done ((sid, infos, ae), n')"
  obtains (error) e where "ae = Some e" and "infos = []" and "n' = n"
      and "api_ok e" and "aeCode e \<in> {ErrInvalidArgument, ErrInvalidConfig, ErrUnknownInternal}"
  | (opened) cfg sess sess' where "ae = None"
      and "session_New (evSdk V) (evPch V) (evAddr V) (evWallet V) (ndContracts n) (ndCurrencies n) t cfg w = Done (Inr sess)"
      and "GetChsInfo (evPch V) sess = Done (infos, sess')" and "sid = seID sess'"
      and "n' = n\<lparr>ndSessions := (ndSessions n)(seID sess \<mapsto> sess')\<rparr>"
proof -
  let ?m = "n\<lparr>ndLocked := True\<rparr>"
  have unl: "\<not> ndLocked n" using assms by (auto simp: OpenSession_def with_nlock_def split: if_splits)
  then have id: "n\<lparr>ndLocked := False\<rparr> = n" by (cases n) simp
  obtain cfg err where pc: "ParseConfig V file = (cfg, err)" by fastforce
  show thesis
  proof (cases err)
    case (Some e)
    with assms pc unl id show thesis
      by (intro error [of "NewAPIErrInvalidArgument (EWith e ''parsing config'') ArgNameConfigFile file"])
         (auto simp: OpenSession_def with_nlock_Done)
  next
    case None
    let ?cfg = "\<lambda>assetETH. cfg\<lparr>scAdjudicator := Some (Adjudicator (ndContracts n)), scAssetETH := Some assetETH\<rparr>"
    let ?New = "\<lambda>assetETH. session_New (evSdk V) (evPch V) (evAddr V) (evWallet V) (ndContracts n) (ndCurrencies n)
        t (?cfg assetETH) w :: (api_err + ('p, 'w, 'ev) session) run"
    from assms pc None obtain assetETH where eth: "AssetETH (ndContracts n) = Done assetETH"
      by (auto simp: OpenSession_def with_nlock_Done elim!: andThen_DoneE)
    from assms pc None eth obtain r where r: "?New assetETH = Done r"
      by (cases "?New assetETH") (auto simp: OpenSession_def with_nlock_Done Let_def)
    show thesis
    proof (cases r)
      case (Inl e)
      with assms pc None eth r unl id have "ae = Some e" "infos = []" "n' = n"
        by (auto simp: OpenSession_def with_nlock_Done)
      then show thesis using session_New_Inl [OF r [unfolded Inl]] by (intro error) auto
    next
      case (Inr sess)
      with assms pc None eth r unl obtain sess' where "GetChsInfo (evPch V) sess = Done (infos, sess')"
        "ae = None" "sid = seID sess'"
        "n' = n\<lparr>ndLocked := True, ndSessions := (ndSessions n)(seID sess \<mapsto> sess'), ndLocked := False\<rparr>"
        by (auto simp: OpenSession_def with_nlock_Done elim!: andThen_DoneE)
      with unl show thesis by (intro opened [OF _ r [unfolded Inr]]) (cases n; simp)+
    qed
  qed
qed

lemma OpenSession_opened:
  assumes "session_New (evSdk V) (evPch V) (evAddr V) (evWallet V) CR CU t cfg w = Done (Inr sess)"
    and "GetChsInfo (evPch V) sess = Done (infos, sess')" and "addr_ok (evAddr V)"
  shows "seID sess' = seID sess \<and> se_inv (evAddr V) sess' \<and> seIsOpen sess"
  using se_evolves_kept [OF GetChsInfo_evolves [OF assms(2), of "evAddr V"]]
    session_New_Inr [OF assms(1,3)] by blast

lemma OpenSession_evolves:
  assumes "OpenSession V t w file n = Done (r, n')" and "addr_ok (evAddr V)"
  shows "nd_evolves (evAddr V) n n'"
proof -
  obtain sid infos ae where r: "r = (sid, infos, ae)" by (cases r)
  from assms(1) [unfolded r] show ?thesis
  proof (cases rule: OpenSession_cases)
    case (opened cfg sess sess')
    from OpenSession_opened [OF opened(2,3) assms(2)] show ?thesis
      unfolding opened(5) by (intro nd_evolves_session) simp
  qed simp
qed

lemma nd_evolves_registries:
  assumes "registries_ok (ndContracts n) (ndCurrencies n) \<Longrightarrow>
     registries_ok CR CU \<and> asset_of (ndContracts n) \<subseteq>\<^sub>m asset_of CR"
  shows "nd_evolves L n (n\<lparr>ndContracts := CR, ndCurrencies := CU\<rparr>)"
  using assms by (simp add: nd_evolves_def node_inv_def)

text \<open>What \<open>RegisterCurrency\<close> does, when the registries agree.\<close>

lemma RegisterCurrency_cases:
  assumes "RegisterCurrency V tok ast n = Done ((sy, ae), n')"
    and "registries_ok (ndContracts n) (ndCurrencies n)"
  obtains (address) e where "ae = Some e" and "aeCode e = ErrInvalidArgument" and "n' = n" and "sy = []"
      and "(\<exists>x. ParseAddr (evAddr V) ast = Inl x) \<or> (\<exists>x. ParseAddr (evAddr V) tok = Inl x)" and "api_ok e"
  | (refused) e e' t a where "ParseAddr (evAddr V) tok = Inr t" and "ParseAddr (evAddr V) ast = Inr a"
      and "RegisterAssetERC20 (evEth V) (evAddr V) t a (ndContracts n) = Done (Inl e', ndContracts n)"
      and "ae = Some e" and "api_ok e" and "n' = n" and "sy = []"
      and "e = (case errors_As as_AssetERC20Registered e' of
             Some (x, symbol) \<Rightarrow> NewAPIErrResourceExists ResTypeCurrency symbol
           | None \<Rightarrow> (case errors_As as_InvalidContract e' of
               Some (name, address, e'') \<Rightarrow> NewAPIErrInvalidContracts
                 [\<lparr>ceName = name, ceAddress = address, ceError = err_Error e''\<rparr>]
             | None \<Rightarrow> NewAPIErrUnknownInternal e'))"
  | (registered) t a d c CR where "ParseAddr (evAddr V) tok = Inr t" and "ParseAddr (evAddr V) ast = Inr a"
      and "RegisterAssetERC20 (evEth V) (evAddr V) t a (ndContracts n) = Done (Inr (sy, d), CR)"
      and "ae = None" and "cuSymbol c = sy"
      and "n' = n\<lparr>ndContracts := CR, ndCurrencies := put_currency sy c (ndCurrencies n)\<rparr>"
proof -
  have unl: "\<not> ndLocked n" using assms by (auto simp: RegisterCurrency_def with_nlock_def split: if_splits)
  then have id: "n\<lparr>ndLocked := False\<rparr> = n" by (cases n) simp
  have cinv: "contract_inv (ndContracts n)" using assms(2) by (simp add: registries_ok_def)
  show thesis
  proof (cases "(\<exists>x. ParseAddr (evAddr V) ast = Inl x) \<or> (\<exists>x. ParseAddr (evAddr V) tok = Inl x)")
    case True
    show thesis
    proof (cases "ParseAddr (evAddr V) ast")
      case (Inl x)
      with assms unl id True show thesis
        by (intro address [of "NewAPIErrInvalidArgument x ArgNameAsset ast"])
           (auto simp: RegisterCurrency_def with_nlock_Done)
    next
      case (Inr a)
      with True obtain x where "ParseAddr (evAddr V) tok = Inl x" by auto
      with Inr assms unl id True show thesis
        by (intro address [of "NewAPIErrInvalidArgument x ArgNameToken tok"])
           (auto simp: RegisterCurrency_def with_nlock_Done)
    qed
  next
    case False
    then obtain t a where ta: "ParseAddr (evAddr V) tok = Inr t" "ParseAddr (evAddr V) ast = Inr a"
      by (cases "ParseAddr (evAddr V) tok"; cases "ParseAddr (evAddr V) ast") auto
    obtain res CR where reg: "RegisterAssetERC20 (evEth V) (evAddr V) t a (ndContracts n) = Done (res, CR)"
      using RegisterAssetERC20_returns [OF cinv, of "evEth V" "evAddr V" t a] by (auto simp: returns_iff)
    show thesis
    proof (cases res)
      case (Inl e')
      have CR: "CR = ndContracts n" using RegisterAssetERC20_Done [OF reg cinv] by (simp add: Inl)
      have same: "n\<lparr>ndLocked := True, ndContracts := ndContracts n, ndLocked := False\<rparr> = n"
        using unl by (cases n) simp
      show thesis
        using assms ta reg unl same
        by (intro refused [OF ta reg [unfolded Inl CR]])
           (auto simp: RegisterCurrency_def with_nlock_Done Inl CR Let_def split: option.splits prod.splits)
    next
      case (Inr sd)
      obtain s d where sd: "sd = (s, d)" by (cases sd)
      from register_both [OF assms(2) reg [unfolded Inr sd], of "evDecimal V"] obtain c where
        c: "Register (evDecimal V) s d (ndCurrencies n) = (Inr c, put_currency s c (ndCurrencies n))" "cuSymbol c = s"
        by auto
      from assms ta reg c unl have "sy = s" "ae = None"
          "n' = n\<lparr>ndLocked := True, ndContracts := CR, ndCurrencies := put_currency s c (ndCurrencies n), ndLocked := False\<rparr>"
        by (auto simp: RegisterCurrency_def with_nlock_Done Inr sd Let_def)
      with unl c show thesis
        by (intro registered [OF ta reg [unfolded Inr sd, folded \<open>sy = s\<close>]]) (simp_all, cases n, simp)
    qed
  qed
qed

lemma RegisterCurrency_evolves:
  assumes "RegisterCurrency V tok ast n = Done (r, n')"
  shows "nd_evolves L n n'"
proof (cases "registries_ok (ndContracts n) (ndCurrencies n)")
  case True
  obtain sy ae where r: "r = (sy, ae)" by (cases r)
  from assms [unfolded r] True show ?thesis
  proof (cases rule: RegisterCurrency_cases)
    case (registered t a d c CR)
    have cinv: "contract_inv (ndContracts n)" using True by (simp add: registries_ok_def)
    from register_both [OF True registered(3), of "evDecimal V"] obtain c' where
      c': "Register (evDecimal V) sy d (ndCurrencies n) = (Inr c', put_currency sy c' (ndCurrencies n))"
      and "registries_ok CR (put_currency sy c' (ndCurrencies n))"
      and "asset_of CR = (asset_of (ndContracts n))(sy \<mapsto> a)" by auto
    moreover have "registries_ok CR (put_currency sy c (ndCurrencies n))"
      using calculation(2) registered(5) by (simp add: registries_ok_def currency_registry_inv_def
          put_currency_def Currency_def dom_def)
    moreover have "asset_of (ndContracts n) sy = None"
      using RegisterAssetERC20_Done [OF registered(3) cinv] by simp
    ultimately show ?thesis
      unfolding registered(6) by (intro nd_evolves_registries) (auto simp: map_le_def)
  qed simp_all
next
  case False
  have "ndCfg n' = ndCfg n \<and> ndSessions n' = ndSessions n"
    using assms by (auto simp: RegisterCurrency_def with_nlock_Done Let_def elim!: andThen_DoneE
        split: sum.splits option.splits prod.splits)
  with False show ?thesis by (simp add: nd_evolves_def node_inv_def)
qed

lemma GetSession_evolves: "GetSession i n = Done (r, n') \<Longrightarrow> nd_evolves L n n'"
  unfolding GetSession_def by (erule with_nlock_evolves) (auto split: option.splits)

subsection \<open>Steps\<close>

inductive nd_step ::
  "('p, 'w, 'd) env \<Rightarrow> ('p, 'w, 'ev) node \<Rightarrow> ('p, 'w, 'ev) node \<Rightarrow> bool" for V :: "('p, 'w, 'd) env" where
  open_session: "OpenSession V t w file n = Done (r, n') \<Longrightarrow> nd_step V n n'"
| register: "RegisterCurrency V tok ast n = Done (r, n') \<Longrightarrow> nd_step V n n'"
| get_session: "GetSession i n = Done (r, n') \<Longrightarrow> nd_step V n n'"
| session: "ndSessions n i = Some s \<Longrightarrow> se_step (evSdk V) (evPch V) (evAddr V) s s' \<Longrightarrow>
    nd_step V n (n\<lparr>ndSessions := (ndSessions n)(i \<mapsto> s')\<rparr>)"

inductive_cases nd_stepE: "nd_step V n n'"

lemma nd_step_evolves:
  assumes "nd_step V n n'" and "addr_ok (evAddr V)"
  shows "nd_evolves (evAddr V) n n'"
  using assms(1)
proof cases
  case (session i s s')
  from se_evolves_kept [OF se_step_evolves [OF session(3)]] session(2) show ?thesis
    unfolding session(1) by (intro nd_evolves_session) (auto simp: node_inv_def)
qed (auto intro: OpenSession_evolves [OF _ assms(2)] RegisterCurrency_evolves GetSession_evolves)

lemma nd_steps_evolve:
  assumes "(nd_step V)\<^sup>*\<^sup>* n n'" and "addr_ok (evAddr V)"
  shows "nd_evolves (evAddr V) n n'"
  using assms(1)
  by (induction rule: rtranclp_induct) (auto intro: nd_evolves_trans nd_step_evolves [OF _ assms(2)])

lemma node_New_ok:
  "\<exists>r. node_New V cfg = Done r \<and> (\<forall>n. r = Inr n \<longrightarrow> node_inv L n \<and> ndSessions n = Map.empty
     \<and> \<not> ndLocked n \<and> ndCfg n = cfg \<and> asset_of (ndContracts n) ETHSymbol \<noteq> None)"
proof (cases "\<exists>CR. initContractRegistry (evEth V) (evAddr V) (ncAdjudicator cfg) (ncAssetETH cfg) = Inr CR")
  case False
  then show ?thesis
    by (cases "initContractRegistry (evEth V) (evAddr V) (ncAdjudicator cfg) (ncAssetETH cfg)")
       (auto simp: node_New_def split: option.splits)
next
  case True
  then obtain CR where CR: "initContractRegistry (evEth V) (evAddr V) (ncAdjudicator cfg) (ncAssetETH cfg) = Inr CR"
    by auto
  obtain c where c: "Register (evDecimal V) ETHSymbol ETHMaxDecimals NewRegistry
      = (Inr c, put_currency ETHSymbol c NewRegistry)" "cuSymbol c = ETHSymbol"
    using Register_ETH by blast
  from registerAssetERC20s_ok [OF first_registries_ok [OF CR c(2)], of "evEth V" "evAddr V" "evDecimal V" "ncAssetERC20s cfg"]
  obtain err CR' CU' where loop: "registerAssetERC20s (evEth V) (evAddr V) (evDecimal V) (ncAssetERC20s cfg) CR
      (put_currency ETHSymbol c NewRegistry) = Done (err, CR', CU')"
    and ok: "registries_ok CR' CU'" and le: "asset_of CR \<subseteq>\<^sub>m asset_of CR'" by auto
  have "ETHSymbol \<in> dom (asset_of CR)" using initContractRegistry_Inr [OF CR] by simp
  with le have "asset_of CR' ETHSymbol \<noteq> None" by (metis domIff map_le_def)
  with CR c loop ok show ?thesis
    by (auto simp: node_New_def node_inv_def split: option.splits)
qed

subsection \<open>Properties\<close>

definition sim_env :: "(pstate, sim_world, int \<times> nat) env" where
  "sim_env = \<lparr>evEth = sample_eth, evDecimal = dec_lib, evAddr = hex_addr_lib, evWallet = sim_wallet,
     evSdk = sim_sdk, evPch = sim_api, evReadConfig = (\<lambda>f. None), evUnmarshalConfig = (\<lambda>f. (sim_config, None)),
     evInitLogger = (\<lambda>l f. None)\<rparr>"

definition sim_node_config :: node_config where
  "sim_node_config = \<lparr>ncLogLevel = ''debug'', ncLogFile = [], ncChainURL = ''ws://chain'', ncChainID = 1337,
     ncAdjudicator = alString hex_addr_lib 1, ncAssetETH = alString hex_addr_lib 2, ncAssetERC20s = [],
     ncChainConnTimeout = Second, ncOnChainTxTimeout = Second, ncResponseTimeout = Second,
     ncCommTypes = [''tcp''], ncIDProviderTypes = [''local''], ncCurrencyInterpreters = [''ETH'']\<rparr>"

definition sim_node :: "(pstate, sim_world, nat) node" where
  "sim_node = \<lparr>ndCfg = sim_node_config, ndSessions = Map.empty, ndContracts = sim_CR,
     ndCurrencies = put_currency ETHSymbol (as_Currency dec_lib (new_currency dec_lib ETHSymbol ETHMaxDecimals)) NewRegistry,
     ndLocked = False\<rparr>"

lemma sim_node_New: "node_New sim_env sim_node_config = Done (Inr sim_node)"
  by (simp add: node_New_def sim_env_def sim_node_config_def NewROChainBackend_def sim_sdk_def
      initContractRegistry_def ParseAddr_String [OF hex_addr_lib_ok] NewContractRegistry_def
      ValidateAdjudicator_def ValidateAssetETH_def sample_eth_def Register_def isRegistered_def NewRegistry_def
      Let_def sim_node_def sim_CR_def)

lemma sim_node_registries: "registries_ok (ndContracts sim_node) (ndCurrencies sim_node)"
  using node_New_ok [of sim_env sim_node_config hex_addr_lib, where 'c = nat] sim_node_New
  by (auto simp: node_inv_def)

text \<open>
  Starting a node never panics, whatever the contents of its configuration and of the
  blockchain: it returns an error or a node without sessions whose registries agree and know
  ether.
\<close>

theorem node_New_spec:
  fixes V :: "('p, 'w, 'd) env"
  shows "\<exists>r :: goerr + ('p, 'w, 'ev) node. node_New V cfg = Done r \<and> (case r of
      Inl e \<Rightarrow> True
    | Inr n \<Rightarrow> registries_ok (ndContracts n) (ndCurrencies n) \<and> ndSessions n = Map.empty
        \<and> GetConfig n = cfg \<and> Currency (ndCurrencies n) ETHSymbol \<noteq> None)"
proof -
  obtain r :: "goerr + ('p, 'w, 'ev) node" where r: "node_New V cfg = Done r"
    and ok: "\<forall>n. r = Inr n \<longrightarrow> node_inv L n \<and> ndSessions n = Map.empty
     \<and> \<not> ndLocked n \<and> ndCfg n = cfg \<and> asset_of (ndContracts n) ETHSymbol \<noteq> None" for L
    using node_New_ok [of V cfg] by (metis run.inject)
  show ?thesis
  proof (cases r)
    case (Inr n)
    from ok [of "evAddr V"] Inr have "registries_ok (ndContracts n) (ndCurrencies n)" and "ndSessions n = Map.empty"
        and "ndCfg n = cfg" and "asset_of (ndContracts n) ETHSymbol \<noteq> None"
      by (simp_all add: node_inv_def)
    with r Inr registries_okD(2) show ?thesis by (auto simp: GetConfig_def)
  qed (use r in auto)
qed

text \<open>
  C6: in every state the node can reach, whatever the order of requests to the node and to its
  sessions: a symbol has a currency exactly when it has an asset contract, so that no session
  reads a nil currency; registered assets stay as they are; every session is filed under its
  own ID and satisfies its invariant; and the configuration is that of the start.
\<close>

theorem reachable_node_inv:
  fixes n0 :: "('p, 'w, 'ev) node"
  assumes "node_New V cfg = Done (Inr n0)" and "(nd_step V)\<^sup>*\<^sup>* n0 n" and "(nd_step V)\<^sup>*\<^sup>* n n'"
    and "addr_ok (evAddr V)"
  shows "(\<forall>s. Currency (ndCurrencies n) s = None \<longleftrightarrow> Asset (ndContracts n) s = Done None)
    \<and> (\<forall>s a. Asset (ndContracts n) s = Done (Some a) \<longrightarrow> Asset (ndContracts n') s = Done (Some a))
    \<and> (\<forall>i s. ndSessions n i = Some s \<longrightarrow> seID s = i \<and> se_inv (evAddr V) s)
    \<and> dom (ndSessions n) \<subseteq> dom (ndSessions n') \<and> GetConfig n = cfg"
proof -
  have ev: "nd_evolves (evAddr V) n0 n" and ev': "nd_evolves (evAddr V) n n'"
    using nd_steps_evolve [OF assms(2,4)] nd_steps_evolve [OF assms(3,4)] by simp_all
  from node_New_ok [of V cfg "evAddr V", where 'c = 'ev] assms(1) have inv0: "node_inv (evAddr V) n0" and cfg: "ndCfg n0 = cfg"
    by auto
  from ev inv0 cfg have inv: "node_inv (evAddr V) n" and cfg': "ndCfg n = cfg" by (simp_all add: nd_evolves_def)
  from ev' inv have inv': "node_inv (evAddr V) n'"
    and le: "asset_of (ndContracts n) \<subseteq>\<^sub>m asset_of (ndContracts n')"
    and dom: "dom (ndSessions n) \<subseteq> dom (ndSessions n')" by (simp_all add: nd_evolves_def)
  from inv inv' have ok: "registries_ok (ndContracts n) (ndCurrencies n)"
    and ok': "registries_ok (ndContracts n') (ndCurrencies n')" by (simp_all add: node_inv_def)
  have "Currency (ndCurrencies n) s = None \<longleftrightarrow> Asset (ndContracts n) s = Done None" for s
    using registries_okD(1) [OF ok, of s] registries_okD(2) [OF ok, of s]
    by (cases "Currency (ndCurrencies n) s") auto
  moreover have "Asset (ndContracts n') s = Done (Some a)" if "Asset (ndContracts n) s = Done (Some a)" for s a
  proof -
    from that have "asset_of (ndContracts n) s = Some a" by (simp add: registries_okD(1) [OF ok])
    with le have "asset_of (ndContracts n') s = Some a" by (force simp: map_le_def dom_def)
    then show ?thesis by (simp add: registries_okD(1) [OF ok'])
  qed
  ultimately show ?thesis
    using inv dom cfg' by (simp add: node_inv_def GetConfig_def)
qed

theorem reachable_node_inv_witness:
  "Currency (ndCurrencies sim_node) ''ETH'' \<noteq> None \<and> GetConfig sim_node = sim_node_config"
proof -
  have "addr_ok (evAddr sim_env)" by (simp add: sim_env_def hex_addr_lib_ok)
  from reachable_node_inv [OF sim_node_New rtranclp.rtrancl_refl rtranclp.rtrancl_refl this]
  show ?thesis by (auto simp: sim_node_def)
qed

text \<open>
  Registering a currency, on every branch. It succeeds exactly when both addresses parse
  and the contract registry takes the asset; then the symbol, and no other, gets the asset
  and a currency of the same symbol. Otherwise the node is unchanged and the error is one of
  the documented ones. The branch in which the currency alone is already registered, which
  the code marks as unreachable, is never taken.
\<close>

theorem RegisterCurrency_spec:
  assumes "RegisterCurrency V tok ast n = Done ((sy, ae), n')"
    and "registries_ok (ndContracts n) (ndCurrencies n)"
  shows "case ae of
      None \<Rightarrow> (\<exists>t a c. ParseAddr (evAddr V) tok = Inr t \<and> ParseAddr (evAddr V) ast = Inr a
        \<and> Currency (ndCurrencies n) sy = None \<and> Symbol (ndContracts n) a = None
        \<and> asset_of (ndContracts n') = (asset_of (ndContracts n))(sy \<mapsto> a)
        \<and> Currency (ndCurrencies n') = (Currency (ndCurrencies n))(sy \<mapsto> c) \<and> cuSymbol c = sy)
    | Some e \<Rightarrow> n' = n \<and> sy = [] \<and> api_ok e
        \<and> aeCode e \<in> {ErrInvalidArgument, ErrResourceExists, ErrInvalidContracts, ErrUnknownInternal}"
  using assms
proof (cases rule: RegisterCurrency_cases)
  case (registered t a d c CR)
  have cinv: "contract_inv (ndContracts n)" using assms(2) by (simp add: registries_ok_def)
  note reg = RegisterAssetERC20_Done [OF registered(3) cinv, unfolded sum.case prod.case]
  then have "Currency (ndCurrencies n) sy = None"
    using registries_okD(2) [OF assms(2), of sy] by auto
  moreover have "Currency (put_currency sy c (ndCurrencies n)) = (Currency (ndCurrencies n))(sy \<mapsto> c)"
    by (auto simp: Currency_def put_currency_def)
  ultimately show ?thesis
    using reg registered by auto
qed (auto split: option.splits prod.splits)

theorem RegisterCurrency_spec_witness:
  "\<exists>n'. RegisterCurrency sim_env (alString hex_addr_lib 7) (alString hex_addr_lib 8) sim_node = Done ((''NEW'', None), n')
     \<and> Currency (ndCurrencies n') ''NEW'' \<noteq> None"
proof -
  have "\<exists>n'. RegisterCurrency sim_env (alString hex_addr_lib 7) (alString hex_addr_lib 8) sim_node
      = Done ((''NEW'', None), n')"
    by (simp add: RegisterCurrency_def with_nlock_def sim_node_def sim_env_def ParseAddr_String [OF hex_addr_lib_ok]
        RegisterAssetERC20_def sim_CR_def isAssetRegistered_def sample_eth_def ValidateAssetERC20_def ERC20Info_def
        isSymbolRegistered_def Register_def isRegistered_def put_currency_def NewRegistry_def ETHSymbol_def Let_def)
  then obtain n' where "RegisterCurrency sim_env (alString hex_addr_lib 7) (alString hex_addr_lib 8) sim_node
      = Done ((''NEW'', None), n')" by blast
  with RegisterCurrency_spec [OF this sim_node_registries] show ?thesis by auto
qed

end
