(* ===== verification/Payment.thy ===== *)
theory Payment
  imports Node_Safety
begin

text \<open>
  \<^verbatim>\<open>app/payment\<close>: the payment app, a thin layer over the node, its sessions and its channels.
  A payment moves an amount of one currency from the peer of the payee to the payee, so a
  payment whose payee is the user is a request. What the layer adds is the parsing of the
  payments, the updates made of them and the conversion of infos and notifications.
\<close>

subsection \<open>Infos and notifications\<close>

record payment =
  pyCurrency :: string
  pyPayee :: string
  pyAmount :: string

record pay_ch_update_notif =
  pcuUpdateID :: string
  pcuProposedPayChInfo :: pay_ch_info
  pcuType :: ch_update_type
  pcuExpiry :: int
  pcuError :: "api_err option"

record pay_ch_proposal_notif =
  pcpProposalID :: string
  pcpOpeningBalInfo :: bal_info
  pcpChallengeDurSecs :: "64 word"
  pcpExpiry :: int

definition toPayChInfo :: "ch_info \<Rightarrow> pay_ch_info" where
  "toPayChInfo chInfo = \<lparr>pciChID = ciChID chInfo, pciBalInfo = ciBalInfo chInfo, pciVersion = ciVersion chInfo\<rparr>"

definition toPayChsInfo :: "ch_info list \<Rightarrow> pay_ch_info list" where
  "toPayChsInfo chsInfo = map toPayChInfo chsInfo"

definition ErrInvalidAmount_text :: string where
  "ErrInvalidAmount_text = ''invalid amount''"

definition ErrInvalidPayee :: goerr where
  "ErrInvalidPayee = EConst ''invalid payee''"

subsection \<open>Payments\<close>

primrec payee_loop :: "string list \<Rightarrow> nat \<Rightarrow> string \<Rightarrow> goerr + nat \<times> nat" where
  "payee_loop [] i payee = Inl ErrInvalidPayee"
| "payee_loop (p # ps) i payee = (if p = payee then Inr (i XOR 1, i) else payee_loop ps (Suc i) payee)"

definition getPayerPayeeIdx :: "string list \<Rightarrow> string \<Rightarrow> goerr + nat \<times> nat" where
  "getPayerPayeeIdx parts payee = payee_loop parts 0 payee"

text \<open>
  The function \<open>newUpdate\<close> returns captures its four arguments. It takes the amount from the
  payer before it gives it to the payee.
\<close>

definition newUpdate :: "nat \<Rightarrow> nat \<Rightarrow> nat \<Rightarrow> int \<Rightarrow> pstate \<Rightarrow> pstate run" where
  "newUpdate payerIdx payeeIdx idxOfCurrencyInBals parsedAmount state =
     andThen (idx_at (psBalances state) idxOfCurrencyInBals) (\<lambda>bal.
     andThen (idx_at bal payerIdx) (\<lambda>x.
     andThen (put_at bal payerIdx (x - parsedAmount)) (\<lambda>bal1.
     andThen (idx_at bal1 payeeIdx) (\<lambda>y.
     andThen (put_at bal1 payeeIdx (y + parsedAmount)) (\<lambda>bal2.
     Done (state\<lparr>psBalances := (psBalances state)[idxOfCurrencyInBals := bal2]\<rparr>))))))"

primrec run_updates :: "(pstate \<Rightarrow> pstate run) list \<Rightarrow> pstate \<Rightarrow> pstate run" where
  "run_updates [] state = Done state"
| "run_updates (u # us) state = andThen (u state) (run_updates us)"

fun make_updates ::
  "('p, 'ev) channel \<Rightarrow> payment list \<Rightarrow> (api_err + (pstate \<Rightarrow> pstate run) list) run" where
  "make_updates ch [] = Done (Inr [])"
| "make_updates ch (pay # pays) =
     andThen (ch_Currency ch (pyCurrency pay)) (\<lambda>found.
       case found of
         None \<Rightarrow> Done (Inl (NewAPIErrResourceNotFound ResTypeCurrency (pyCurrency pay)))
       | Some (idxOfCurrencyInBals, currency) \<Rightarrow>
           (case cuParse currency (pyAmount pay) of
              Inl e \<Rightarrow> Done (Inl (NewAPIErrInvalidArgument (EWith e ErrInvalidAmount_text) ArgNameAmount (pyAmount pay)))
            | Inr parsedAmount \<Rightarrow>
                (case getPayerPayeeIdx (chParts ch) (pyPayee pay) of
                   Inl e \<Rightarrow> Done (Inl (NewAPIErrInvalidArgument e ArgNamePayee (pyPayee pay)))
                 | Inr (payerIdx, payeeIdx) \<Rightarrow>
                     andThen (make_updates ch pays) (\<lambda>rest.
                     Done (case rest of
                             Inl ae \<Rightarrow> Inl ae
                           | Inr us \<Rightarrow> Inr (newUpdate payerIdx payeeIdx idxOfCurrencyInBals parsedAmount # us))))))"

definition nil_pay_ch_info :: pay_ch_info where
  "nil_pay_ch_info = \<lparr>pciChID = [], pciBalInfo = nil_bal_info, pciVersion = []\<rparr>"

definition SendPayChUpdate ::
  "'p pchannel_api \<Rightarrow> payment list \<Rightarrow> ('p, 'ev) channel
     \<Rightarrow> ((pay_ch_info \<times> api_err option) \<times> ('p, 'ev) channel) run" where
  "SendPayChUpdate P payments ch =
     andThen (make_updates ch payments) (\<lambda>r.
       case r of
         Inl ae \<Rightarrow> Done ((nil_pay_ch_info, Some ae), ch)
       | Inr updates \<Rightarrow>
           andThen (SendChUpdate P (\<lambda>state. andThen (run_updates updates state) (\<lambda>st. Done (st, None))) ch)
             (\<lambda>((chInfo, apiErr), ch'). Done ((toPayChInfo chInfo, apiErr), ch')))"

subsection \<open>The requests on a channel\<close>

definition GetPayChInfo :: "'p pchannel_api \<Rightarrow> ('p, 'ev) channel \<Rightarrow> (pay_ch_info \<times> ('p, 'ev) channel) run" where
  "GetPayChInfo P ch = andThen (GetChInfo P ch) (\<lambda>(i, ch'). Done (toPayChInfo i, ch'))"

definition toPayChUpdateNotif :: "ch_update_notif \<Rightarrow> pay_ch_update_notif" where
  "toPayChUpdateNotif notif =
     (let proposedPayChInfo = (if cunType notif = ChUpdateTypeClosed then toPayChInfo (cunCurrChInfo notif)
                               else toPayChInfo (cunProposedChInfo notif))
      in \<lparr>pcuUpdateID = cunUpdateID notif, pcuProposedPayChInfo = proposedPayChInfo, pcuType = cunType notif,
          pcuExpiry = cunExpiry notif, pcuError = cunError notif\<rparr>)"

definition SubPayChUpdates ::
  "(pay_ch_update_notif \<Rightarrow> 'ev) \<Rightarrow> ('p, 'ev) channel \<Rightarrow> (api_err option \<times> ('p, 'ev) channel) run" where
  "SubPayChUpdates notifier ch = SubChUpdates (\<lambda>notif. notifier (toPayChUpdateNotif notif)) ch"

definition UnsubPayChUpdates :: "('p, 'ev) channel \<Rightarrow> (api_err option \<times> ('p, 'ev) channel) run" where
  "UnsubPayChUpdates ch = UnsubChUpdates ch"

definition RespondPayChUpdate ::
  "'p pchannel_api \<Rightarrow> int \<Rightarrow> string \<Rightarrow> bool \<Rightarrow> ('p, 'ev) channel
     \<Rightarrow> ((pay_ch_info \<times> api_err option) \<times> ('p, 'ev) channel) run" where
  "RespondPayChUpdate P now updateID accept ch =
     andThen (RespondChUpdate P now updateID accept ch) (\<lambda>((i, ae), ch'). Done ((toPayChInfo i, ae), ch'))"

definition ClosePayCh ::
  "'p pchannel_api \<Rightarrow> ('p, 'ev) channel \<Rightarrow> ((pay_ch_info \<times> api_err option) \<times> ('p, 'ev) channel) run" where
  "ClosePayCh P ch = andThen (ch_Close P ch) (\<lambda>((i, ae), ch'). Done ((toPayChInfo i, ae), ch'))"

subsection \<open>The requests on a session\<close>

definition pay_OpenSession ::
  "('p, 'w, 'd) env \<Rightarrow> 8 word list \<Rightarrow> 'w \<Rightarrow> string \<Rightarrow> ('p, 'w, 'ev) node
     \<Rightarrow> ((string \<times> pay_ch_info list \<times> api_err option) \<times> ('p, 'w, 'ev) node) run" where
  "pay_OpenSession V nowUTC w configFile n =
     andThen (OpenSession V nowUTC w configFile n) (\<lambda>((sid, infos, ae), n'). Done ((sid, toPayChsInfo infos, ae), n'))"

text \<open>\<open>noApp\<close> is the app, and its data, that the payment app opens channels with.\<close>

definition OpenPayCh ::
  "('p, 'w) sdk \<Rightarrow> 'p pchannel_api \<Rightarrow> app \<Rightarrow> contract_registry \<Rightarrow> currency_registry
     \<Rightarrow> bal_info \<Rightarrow> 64 word \<Rightarrow> ('p, 'w, 'ev) session
     \<Rightarrow> ((pay_ch_info \<times> api_err option) \<times> ('p, 'w, 'ev) session) run" where
  "OpenPayCh S P noApp CR CU openingBalInfo challengeDurSecs s =
     andThen (OpenCh S P CR CU openingBalInfo noApp challengeDurSecs s) (\<lambda>((i, ae), s'). Done ((toPayChInfo i, ae), s'))"

definition GetPayChsInfo ::
  "'p pchannel_api \<Rightarrow> ('p, 'w, 'ev) session \<Rightarrow> (pay_ch_info list \<times> ('p, 'w, 'ev) session) run" where
  "GetPayChsInfo P s = andThen (GetChsInfo P s) (\<lambda>(infos, s'). Done (map toPayChInfo infos, s'))"

definition toPayChProposalNotif :: "ch_proposal_notif \<Rightarrow> pay_ch_proposal_notif" where
  "toPayChProposalNotif notif =
     \<lparr>pcpProposalID = cpnProposalID notif, pcpOpeningBalInfo = cpnOpeningBalInfo notif,
      pcpChallengeDurSecs = cpnChallengeDurSecs notif, pcpExpiry = cpnExpiry notif\<rparr>"

definition SubPayChProposals ::
  "(pay_ch_proposal_notif \<Rightarrow> 'ev) \<Rightarrow> ('p, 'w, 'ev) session \<Rightarrow> (api_err option \<times> ('p, 'w, 'ev) session) run" where
  "SubPayChProposals notifier s = SubChProposals (\<lambda>notif. notifier (toPayChProposalNotif notif)) s"

definition UnsubPayChProposals :: "('p, 'w, 'ev) session \<Rightarrow> (api_err option \<times> ('p, 'w, 'ev) session) run" where
  "UnsubPayChProposals s = UnsubChProposals s"

definition RespondPayChProposal ::
  "('p, 'w) sdk \<Rightarrow> 'p pchannel_api \<Rightarrow> contract_registry \<Rightarrow> int \<Rightarrow> string \<Rightarrow> bool
     \<Rightarrow> ('p, 'w, 'ev) session \<Rightarrow> ((pay_ch_info \<times> api_err option) \<times> ('p, 'w, 'ev) session) run" where
  "RespondPayChProposal S P CR now proposalID accept s =
     andThen (RespondChProposal S P CR now proposalID accept s) (\<lambda>((i, ae), s'). Done ((toPayChInfo i, ae), s'))"

definition toPayChsCloseSessionErr :: "api_err option \<Rightarrow> api_err option" where
  "toPayChsCloseSessionErr err =
     (case err of
        None \<Rightarrow> None
      | Some e \<Rightarrow>
          (case aeAddInfo e of
             ErrInfoFailedPreCondUnclosedChs chInfos \<Rightarrow>
               Some (NewAPIErr (aeCategory e) (aeCode e) (as_error e)
                      (ErrInfoFailedPreCondUnclosedPayChs (toPayChsInfo chInfos)))
           | _ \<Rightarrow> err))"

definition CloseSession ::
  "('p, 'w) sdk \<Rightarrow> 'p pchannel_api \<Rightarrow> bool \<Rightarrow> ('p, 'w, 'ev) session
     \<Rightarrow> ((pay_ch_info list \<times> api_err option) \<times> ('p, 'w, 'ev) session) run" where
  "CloseSession S P force s =
     andThen (Close S P force s) (\<lambda>((openChsInfo, err), s').
     Done ((toPayChsInfo openChsInfo, toPayChsCloseSessionErr err), s'))"

subsection \<open>Laws of payments\<close>

lemma payee_loop_Inr:
  "payee_loop ps i payee = Inr (payer, k) \<longleftrightarrow>
     (\<exists>j < length ps. ps ! j = payee \<and> payee \<notin> set (take j ps) \<and> k = i + j \<and> payer = (i + j) XOR 1)"
proof (induction ps arbitrary: i)
  case (Cons p ps)
  show ?case
  proof (cases "p = payee")
    case True
    then show ?thesis by (auto simp: less_Suc_eq_0_disj)
  next
    case False
    have "(\<exists>j < length (p # ps). (p # ps) ! j = payee \<and> payee \<notin> set (take j (p # ps)) \<and> k = i + j \<and> payer = (i + j) XOR 1)
      \<longleftrightarrow> (\<exists>j < length ps. ps ! j = payee \<and> payee \<notin> set (take j ps) \<and> k = Suc i + j \<and> payer = (Suc i + j) XOR 1)"
      using False by (auto simp: less_Suc_eq_0_disj)
    with False Cons.IH [of "Suc i"] show ?thesis by simp
  qed
qed simp

lemma payee_loop_Inl: "payee_loop ps i payee = Inl e \<longleftrightarrow> payee \<notin> set ps \<and> e = ErrInvalidPayee"
  by (induction ps arbitrary: i) auto

lemma xor_1_cases: "(n :: nat) XOR 1 = (if even n then Suc n else n - 1)"
proof -
  have "n XOR 1 = (if even n then n + 1 else n - 1)"
    by (cases "even n") (auto elim!: evenE oddE simp: xor_nat_unfold)
  then show ?thesis by simp
qed

lemma xor_1_neq [simp]: "(n :: nat) XOR 1 \<noteq> n" "n XOR Suc 0 \<noteq> n"
  using xor_1_cases [of n] by (cases "even n"; auto elim: oddE)+

lemma sum_list_update_int:
  fixes xs :: "int list"
  shows "i < length xs \<Longrightarrow> sum_list (xs[i := v]) = sum_list xs - xs ! i + v"
  by (induction xs arbitrary: i) (auto split: nat.splits)

text \<open>A payment moves the amount within its row, and changes nothing else of the state.\<close>

lemma newUpdate_Done:
  assumes "newUpdate payer payee idx amount st = Done st'" and "payer \<noteq> payee"
  shows "idx < length (psBalances st) \<and> payer < length (psBalances st ! idx) \<and> payee < length (psBalances st ! idx)
    \<and> st' = st\<lparr>psBalances := (psBalances st)[idx := (psBalances st ! idx)
         [payer := psBalances st ! idx ! payer - amount, payee := psBalances st ! idx ! payee + amount]]\<rparr>"
  using assms by (auto simp: newUpdate_def elim!: andThen_DoneE simp: run_simps)

lemma newUpdate_sums:
  assumes "newUpdate payer payee idx amount st = Done st'" and "payer \<noteq> payee"
  shows "map sum_list (psBalances st') = map sum_list (psBalances st)"
    and "map length (psBalances st') = map length (psBalances st)"
    and "st' = st\<lparr>psBalances := psBalances st'\<rparr>"
proof -
  note d = newUpdate_Done [OF assms]
  let ?row = "psBalances st ! idx"
  let ?row' = "?row[payer := ?row ! payer - amount, payee := ?row ! payee + amount]"
  have "sum_list ?row' = sum_list ?row"
    using d assms(2) by (simp add: sum_list_update_int)
  then show "map sum_list (psBalances st') = map sum_list (psBalances st)"
    using d by (auto simp: map_update list_update_same_conv intro!: nth_equalityI simp: nth_list_update)
  show "map length (psBalances st') = map length (psBalances st)"
    using d by (auto intro!: nth_equalityI simp: nth_list_update)
  show "st' = st\<lparr>psBalances := psBalances st'\<rparr>" using d by simp
qed

definition conserving :: "(pstate \<Rightarrow> pstate run) \<Rightarrow> bool" where
  "conserving u \<longleftrightarrow> (\<forall>st st'. u st = Done st' \<longrightarrow> map sum_list (psBalances st') = map sum_list (psBalances st)
     \<and> map length (psBalances st') = map length (psBalances st) \<and> st' = st\<lparr>psBalances := psBalances st'\<rparr>)"

lemma make_updates_conserving:
  "make_updates ch pays = Done (Inr us) \<Longrightarrow> u \<in> set us \<Longrightarrow> conserving u"
proof (induction ch pays arbitrary: us rule: make_updates.induct)
  case (2 ch pay pays)
  from "2.prems"(1) obtain idx c amt payer payee us' where
    cur: "ch_Currency ch (pyCurrency pay) = Done (Some (idx, c))" and amt: "cuParse c (pyAmount pay) = Inr amt"
    and pp: "getPayerPayeeIdx (chParts ch) (pyPayee pay) = Inr (payer, payee)"
    and rest: "make_updates ch pays = Done (Inr us')" and us: "us = newUpdate payer payee idx amt # us'"
    by (auto elim!: andThen_DoneE split: option.splits sum.splits prod.splits)
  have "payer \<noteq> payee"
    using pp by (auto simp: getPayerPayeeIdx_def payee_loop_Inr)
  then have "conserving (newUpdate payer payee idx amt)"
    unfolding conserving_def using newUpdate_sums by blast
  with "2.IH" [OF amt pp refl rest] "2.prems"(2) us show ?case by auto
qed simp

lemma run_updates_conserving:
  "\<forall>u \<in> set us. conserving u \<Longrightarrow> conserving (run_updates us)"
proof (induction us)
  case Nil
  then show ?case by (simp add: conserving_def)
next
  case (Cons u us)
  then have u: "conserving u" and us: "conserving (run_updates us)" by simp_all
  show ?case
    unfolding conserving_def
  proof (intro allI impI)
    fix st st'
    assume "run_updates (u # us) st = Done st'"
    then obtain t where t: "u st = Done t" "run_updates us t = Done st'"
      by (auto elim!: andThen_DoneE)
    from u t(1) have a: "map sum_list (psBalances t) = map sum_list (psBalances st)"
      "map length (psBalances t) = map length (psBalances st)" "t = st\<lparr>psBalances := psBalances t\<rparr>"
      unfolding conserving_def by blast+
    from us t(2) have b: "map sum_list (psBalances st') = map sum_list (psBalances t)"
      "map length (psBalances st') = map length (psBalances t)" "st' = t\<lparr>psBalances := psBalances st'\<rparr>"
      unfolding conserving_def by blast+
    have "st' = st\<lparr>psBalances := psBalances st'\<rparr>"
      using a(3) b(3) by (cases st; cases t; cases st') simp
    with a(1,2) b(1,2) show "map sum_list (psBalances st') = map sum_list (psBalances st)
     \<and> map length (psBalances st') = map length (psBalances st) \<and> st' = st\<lparr>psBalances := psBalances st'\<rparr>"
      by simp
  qed
qed

text \<open>What an update of the channel does to the controller.\<close>

lemma SendChUpdate_Done:
  fixes ch ch' :: "('p, 'ev) channel"
  assumes "SendChUpdate P upd ch = Done ((i, ae), ch')" and "pchannel_ok P"
  shows "case ae of
      None \<Rightarrow> chStatus ch = StatusOpen \<and> (\<exists>st. upd (pState P (chPch ch)) = Done (st, None)
        \<and> pState P (chPch ch') = st\<lparr>psVersion := psVersion (pState P (chPch ch)) + 1\<rparr>
        \<and> getChInfo P ch' = Done i)
    | Some e \<Rightarrow> pState P (chPch ch') = pState P (chPch ch)"
proof -
  let ?c = "ch\<lparr>chLocked := True\<rparr>"
  show ?thesis
  proof (cases "chStatus ch")
    case StatusClosed
    with assms(1) show ?thesis
      by (auto simp: SendChUpdate_def run_simps)
  next
    case StatusOpen
    with assms(1) obtain pch err where
      upd: "pUpdateBy P (chUpdate (chTimeoutCfg ch)) upd (chPch ch) = Done (pch, err)"
      by (cases "pUpdateBy P (chUpdate (chTimeoutCfg ch)) upd (chPch ch)")
         (auto simp: SendChUpdate_def run_simps)
    show ?thesis
    proof (cases err)
      case None
      with assms(2) upd obtain st where "upd (pState P (chPch ch)) = Done (st, None)"
        "pState P pch = st\<lparr>psVersion := psVersion (pState P (chPch ch)) + 1\<rparr>"
        unfolding pchannel_ok_def by blast
      moreover have "getChInfo P (c\<lparr>chLocked := True, chPch := pch\<rparr>) = getChInfo P (c\<lparr>chPch := pch\<rparr>)"
        for c :: "('p, 'ev) channel"
        by (simp add: getChInfo_def makeChInfo_def)
      ultimately show ?thesis
        using None upd StatusOpen assms(1) by (auto simp: SendChUpdate_def run_simps Let_def)
    next
      case (Some e)
      with assms(2) upd have "pState P pch = pState P (chPch ch)"
        unfolding pchannel_ok_def by blast
      with Some upd StatusOpen assms(1) show ?thesis
        by (auto simp: SendChUpdate_def run_simps Let_def)
    qed
  qed
qed

text \<open>What a request of payments does to the state of the channel.\<close>

lemma SendPayChUpdate_Done:
  assumes "SendPayChUpdate P pays ch = Done ((i, ae), ch')" and "pchannel_ok P"
  shows "let st = pState P (chPch ch); st' = pState P (chPch ch')
    in case ae of
      None \<Rightarrow> chStatus ch = StatusOpen
        \<and> (\<exists>us. make_updates ch pays = Done (Inr us)
             \<and> run_updates us st = Done (st'\<lparr>psVersion := psVersion st\<rparr>))
        \<and> psVersion st' = psVersion st + 1
        \<and> map sum_list (psBalances st') = map sum_list (psBalances st)
        \<and> map length (psBalances st') = map length (psBalances st)
        \<and> psAssets st' = psAssets st \<and> psID st' = psID st \<and> psIsFinal st' = psIsFinal st
    | Some e \<Rightarrow> st' = st"
proof -
  from assms(1) consider (bad) e where "ae = Some e" "ch' = ch"
    | (sent) us i' where "make_updates ch pays = Done (Inr us)"
      "SendChUpdate P (\<lambda>state. andThen (run_updates us state) (\<lambda>st. Done (st, None))) ch = Done ((i', ae), ch')"
    by (auto simp: SendPayChUpdate_def elim!: andThen_DoneE split: sum.splits)
  then show ?thesis
  proof cases
    case bad
    then show ?thesis by simp
  next
    case (sent us i')
    note upd = SendChUpdate_Done [OF sent(2) assms(2)]
    show ?thesis
    proof (cases ae)
      case None
      with upd obtain st where op: "chStatus ch = StatusOpen"
        and st: "run_updates us (pState P (chPch ch)) = Done st"
        and st': "pState P (chPch ch') = st\<lparr>psVersion := psVersion (pState P (chPch ch)) + 1\<rparr>"
        by (auto elim!: andThen_DoneE)
      have "conserving (run_updates us)"
        using sent(1) by (intro run_updates_conserving ballI make_updates_conserving)
      with st have c: "map sum_list (psBalances st) = map sum_list (psBalances (pState P (chPch ch)))"
        "map length (psBalances st) = map length (psBalances (pState P (chPch ch)))"
        and frame: "st = (pState P (chPch ch))\<lparr>psBalances := psBalances st\<rparr>"
        unfolding conserving_def by blast+
      obtain b where b: "st = (pState P (chPch ch))\<lparr>psBalances := b\<rparr>" using frame by blast
      show ?thesis
        using None op sent(1) st c st' by (simp add: Let_def b)
    qed (use upd in simp)
  qed
qed

subsection \<open>Properties\<close>

text \<open>
  C1: payments do not make up money. However many payments a request holds, whoever they are
  between, when the update succeeds the channel has exactly the balances the payments give,
  in order, with the next version; the total of every currency, the number of participants
  and all else in the state are what they were. When it does not, the state is unchanged.
\<close>

theorem SendPayChUpdate_conserves:
  assumes "SendPayChUpdate P pays ch = Done ((i, ae), ch')" and "pchannel_ok P"
  shows "let st = pState P (chPch ch); st' = pState P (chPch ch')
    in case ae of
      None \<Rightarrow> chStatus ch = StatusOpen
        \<and> (\<exists>us. make_updates ch pays = Done (Inr us)
             \<and> run_updates us st = Done (st'\<lparr>psVersion := psVersion st\<rparr>))
        \<and> psVersion st' = psVersion st + 1
        \<and> map sum_list (psBalances st') = map sum_list (psBalances st)
        \<and> map length (psBalances st') = map length (psBalances st)
        \<and> psAssets st' = psAssets st \<and> psID st' = psID st \<and> psIsFinal st' = psIsFinal st
    | Some e \<Rightarrow> st' = st"
  using assms by (rule SendPayChUpdate_Done)

definition sim_payment :: payment where
  "sim_payment = \<lparr>pyCurrency = ''ETH'', pyPayee = ''bob'', pyAmount = ''4''\<rparr>"

lemma sim_SendPayChUpdate:
  "\<exists>i ch'. SendPayChUpdate sim_api [sim_payment] (sim_channel :: (pstate, nat) channel) = Done ((i, None), ch')
     \<and> psBalances (chPch ch') = [[6, 24]]"
proof -
  have cur: "ch_Currency (sim_channel :: (pstate, nat) channel) ''ETH'' = Done (Some (0, sim_currency))"
    by (simp add: ch_Currency_def sim_channel_def newCh_def)
  have parse: "read_int ''4'' = 4"
    by (simp add: read_int_def read_nat_def char_digit_def)
  have idx: "getPayerPayeeIdx (chParts (sim_channel :: (pstate, nat) channel)) ''bob'' = Inr (0, 1)"
    by (simp add: getPayerPayeeIdx_def sim_channel_def newCh_def)
  have mk: "make_updates (sim_channel :: (pstate, nat) channel) [sim_payment] = Done (Inr [newUpdate 0 1 0 4])"
    by (simp add: sim_payment_def cur parse idx)
  let ?ch = "sim_channel :: (pstate, nat) channel"
  let ?st = "sim_state\<lparr>psBalances := [[6, 24]], psVersion := 1\<rparr>"
  have ch: "\<not> chLocked ?ch" "chStatus ?ch = StatusOpen" "chPch ?ch = sim_state"
    by (simp_all add: sim_channel_def newCh_def)
  have upd: "pUpdateBy sim_api d (\<lambda>state. andThen (run_updates [newUpdate 0 (Suc 0) 0 4] state) (\<lambda>st. Done (st, None)))
      sim_state = Done (?st, None)" for d
    by (simp add: sim_api_def newUpdate_def sim_state_def)
  obtain i where i: "getChInfo sim_api (?ch\<lparr>chLocked := True, chPch := ?st\<rparr>) = Done i"
    using makeBalInfo_returns [of "[''self'', ''bob'']" "[sim_currency]" "[[6, 24]]"]
    by (auto simp: getChInfo_def makeChInfo_def makeBalInfoFromState_def sim_channel_def newCh_def
        sim_api_def returns_iff)
  have "SendChUpdate sim_api (\<lambda>state. andThen (run_updates [newUpdate 0 (Suc 0) 0 4] state) (\<lambda>st. Done (st, None))) ?ch
      = Done ((i, None), ?ch\<lparr>chLocked := True, chPch := ?st, chLocked := False\<rparr>)"
    by (simp add: SendChUpdate_def with_lock_def ch upd with_info_def i Let_def del: run_updates.simps)
  with mk show ?thesis
    by (simp add: SendPayChUpdate_def del: run_updates.simps)
qed

theorem SendPayChUpdate_conserves_witness:
  "\<exists>i ch'. SendPayChUpdate sim_api [sim_payment] (sim_channel :: (pstate, nat) channel) = Done ((i, None), ch')
     \<and> psBalances (chPch ch') = [[6, 24]] \<and> map sum_list (psBalances (chPch ch')) = [30]"
proof -
  obtain i and ch' :: "(pstate, nat) channel" where
    run: "SendPayChUpdate sim_api [sim_payment] sim_channel = Done ((i, None), ch')"
    and bal: "psBalances (chPch ch') = [[6, 24]]"
    using sim_SendPayChUpdate by blast
  have "pState sim_api = (\<lambda>p. p)" "psBalances (chPch (sim_channel :: (pstate, nat) channel)) = [[10, 20]]"
    by (simp_all add: sim_api_def sim_channel_def newCh_def sim_state_def)
  with SendPayChUpdate_conserves [OF run sim_api_ok] run bal show ?thesis
    by (auto simp: Let_def)
qed

end
