(* ===== verification/Grpc_Server.thy ===== *)
theory Grpc_Server
  imports Payment
begin

text \<open>
  \<^verbatim>\<open>api/grpc/server.go\<close>: the server of the payment channel API. A handler looks up the session,
  and the channel, calls the payment app and converts the result; the two subscription
  handlers also keep a signal channel for the stream they serve and wait on it until the
  subscription is cancelled.

  A message of the API is a record; a field that holds a message may be absent, so it is an
  \<open>option\<close>. A Go channel used as a signal is a number, nil is \<open>None\<close>, and closing it is the only
  thing done with it. The mutex of the server guards single accesses to its maps, so each of
  them is one step. What a notifier does when its goroutine runs is an operation of its own:
  the session and the channel only record that it was started.
\<close>

subsection \<open>Messages\<close>

datatype pb_bal = PBBal "string list"

record pb_bal_info =
  pbCurrencies :: "string list"
  pbParts :: "string list"
  pbBals :: "pb_bal list"

record pb_pay_ch_info =
  ppChID :: string
  ppBalInfo :: pb_bal_info
  ppVersion :: string

record pb_payment =
  ptCurrency :: string
  ptPayee :: string
  ptAmount :: string

record pb_peer_id =
  pbAlias :: string
  pbOffChainAddress :: string
  pbCommAddress :: string
  pbCommType :: string

datatype pb_add_info =
    PBPeerRequestTimedOut string string
  | PBPeerRejected string string
  | PBPeerNotFunded string
  | PBUserResponseTimedOut int int
  | PBResourceNotFound string string
  | PBResourceExists string string
  | PBInvalidArgument string string string
  | PBFailedPreCondUnclosedChs "pb_pay_ch_info list"
  | PBInvalidConfig string string
  | PBInvalidContracts "contract_err_info option list"
  | PBTxTimedOut string string string
  | PBChainNotReachable string

record msg_error =
  meCategory :: nat
  meCode :: nat
  meMessage :: string
  meAddInfo :: "pb_add_info option"

datatype 'a response = RespError msg_error | MsgSuccess 'a

datatype pb_update_type = PBOpen | PBFinal | PBClosed

subsection \<open>Conversions\<close>

definition ToGrpcPayment :: "payment \<Rightarrow> pb_payment" where
  "ToGrpcPayment src = \<lparr>ptCurrency = pyCurrency src, ptPayee = pyPayee src, ptAmount = pyAmount src\<rparr>"

definition ToGrpcPayments :: "payment list \<Rightarrow> pb_payment list" where
  "ToGrpcPayments payments = map ToGrpcPayment payments"

definition fromGrpcPayment :: "pb_payment \<Rightarrow> payment" where
  "fromGrpcPayment src = \<lparr>pyCurrency = ptCurrency src, pyPayee = ptPayee src, pyAmount = ptAmount src\<rparr>"

definition fromGrpcPayments :: "pb_payment list \<Rightarrow> payment list" where
  "fromGrpcPayments payments = map fromGrpcPayment payments"

definition ToGrpcBalInfo :: "bal_info \<Rightarrow> pb_bal_info" where
  "ToGrpcBalInfo src =
     \<lparr>pbCurrencies = biCurrencies src, pbParts = biParts src, pbBals = map PBBal (biBals src)\<rparr>"

definition fromGrpcBalInfo :: "pb_bal_info option \<Rightarrow> bal_info run" where
  "fromGrpcBalInfo src =
     andThen (deref src) (\<lambda>src.
     Done \<lparr>biCurrencies = pbCurrencies src, biParts = pbParts src,
           biBals = map (\<lambda>b. case b of PBBal bal \<Rightarrow> bal) (pbBals src)\<rparr>)"

definition toGrpcPayChInfo :: "pay_ch_info \<Rightarrow> pb_pay_ch_info" where
  "toGrpcPayChInfo src =
     \<lparr>ppChID = pciChID src, ppBalInfo = ToGrpcBalInfo (pciBalInfo src), ppVersion = pciVersion src\<rparr>"

definition toGrpcPayChsInfo :: "pay_ch_info list \<Rightarrow> pb_pay_ch_info list" where
  "toGrpcPayChsInfo payChsInfo = map toGrpcPayChInfo payChsInfo"

fun ToGrpcChUpdateType :: "ch_update_type \<Rightarrow> pb_update_type" where
  "ToGrpcChUpdateType ChUpdateTypeOpen = PBOpen"
| "ToGrpcChUpdateType ChUpdateTypeFinal = PBFinal"
| "ToGrpcChUpdateType ChUpdateTypeClosed = PBClosed"

text \<open>The output is a slice of pointers, nil at first, and the loop writes through them.\<close>

primrec contract_loop ::
  "contract_err_info list \<Rightarrow> nat \<Rightarrow> contract_err_info option list \<Rightarrow> contract_err_info option list run" where
  "contract_loop [] i out = Done out"
| "contract_loop (c # cs) i out =
     andThen (idx_at out i) (\<lambda>p.
     andThen (deref p) (\<lambda>q.
     contract_loop cs (Suc i) (out[i := Some
       (q\<lparr>ceName := ceName c, ceAddress := ceAddress c, ceError := ceError c\<rparr>)])))"

definition toGrpcContractErrInfos :: "contract_err_info list \<Rightarrow> contract_err_info option list run" where
  "toGrpcContractErrInfos src = contract_loop src 0 (replicate (length src) None)"

definition toGrpcError :: "api_err \<Rightarrow> msg_error run" where
  "toGrpcError err =
     (let grpcErr = (\<lambda>info. \<lparr>meCategory = category_num (aeCategory err), meCode = code_num (aeCode err),
            meMessage = Message err, meAddInfo = info\<rparr>)
      in case aeAddInfo err of
           ErrInfoPeerRequestTimedOut peerAlias timeout \<Rightarrow>
             Done (grpcErr (Some (PBPeerRequestTimedOut [] timeout)))
         | ErrInfoPeerRejected peerAlias reason \<Rightarrow> Done (grpcErr (Some (PBPeerRejected peerAlias reason)))
         | ErrInfoPeerNotFunded peerAlias \<Rightarrow> Done (grpcErr (Some (PBPeerNotFunded peerAlias)))
         | ErrInfoUserResponseTimedOut expiry receivedAt \<Rightarrow>
             Done (grpcErr (Some (PBUserResponseTimedOut expiry receivedAt)))
         | ErrInfoResourceNotFound typ rid \<Rightarrow> Done (grpcErr (Some (PBResourceNotFound typ rid)))
         | ErrInfoResourceExists typ rid \<Rightarrow> Done (grpcErr (Some (PBResourceExists typ rid)))
         | ErrInfoInvalidArgument name val requirement \<Rightarrow>
             Done (grpcErr (Some (PBInvalidArgument name val requirement)))
         | ErrInfoFailedPreCondUnclosedPayChs payChs \<Rightarrow>
             Done (grpcErr (Some (PBFailedPreCondUnclosedChs (toGrpcPayChsInfo payChs))))
         | ErrInfoInvalidConfig name val \<Rightarrow> Done (grpcErr (Some (PBInvalidConfig name val)))
         | ErrInfoInvalidContracts infos \<Rightarrow>
             andThen (toGrpcContractErrInfos infos) (\<lambda>out. Done (grpcErr (Some (PBInvalidContracts out))))
         | ErrInfoTxTimedOut txType txID txTimeout \<Rightarrow>
             Done (grpcErr (Some (PBTxTimedOut txType txID txTimeout)))
         | ErrInfoChainNotReachable chainURL \<Rightarrow> Done (grpcErr (Some (PBChainNotReachable chainURL)))
         | _ \<Rightarrow> Done (grpcErr None))"

subsection \<open>The server\<close>

datatype server_event =
    ProposalEvent ref pay_ch_proposal_notif
  | UpdateEvent ref string string pay_ch_update_notif

datatype stream_msg =
    ProposalMsg string pb_bal_info "64 word" int
  | UpdateMsg string pb_pay_ch_info pb_update_type int "msg_error option"

record ('p, 'w) server =
  svNode :: "('p, 'w, server_event) node"
  svProposalSubs :: "string \<rightharpoonup> ref"
  svUpdateSubs :: "string \<rightharpoonup> (string \<rightharpoonup> ref)"
  svNextSignal :: ref
  svClosedSignals :: "ref list"
  svSent :: "(ref \<times> stream_msg) list"

definition ListenAndServePayChAPI :: "('p, 'w, server_event) node \<Rightarrow> ('p, 'w) server" where
  "ListenAndServePayChAPI n =
     \<lparr>svNode = n, svProposalSubs = Map.empty, svUpdateSubs = Map.empty, svNextSignal = 0,
      svClosedSignals = [], svSent = []\<rparr>"

text \<open>\<open>make(chan bool)\<close> and \<open>close(signal)\<close>.\<close>

definition make_signal :: "('p, 'w) server \<Rightarrow> ref \<times> ('p, 'w) server" where
  "make_signal a = (svNextSignal a, a\<lparr>svNextSignal := Suc (svNextSignal a)\<rparr>)"

definition close_signal :: "ref option \<Rightarrow> ('p, 'w) server \<Rightarrow> ('p, 'w) server run" where
  "close_signal signal a =
     (case signal of
        None \<Rightarrow> Panic CloseOfNilChannel
      | Some c \<Rightarrow> if c \<in> set (svClosedSignals a) then Panic CloseOfClosedChannel
                  else Done (a\<lparr>svClosedSignals := svClosedSignals a @ [c]\<rparr>))"

definition closeGrpcPayChProposalSub :: "string \<Rightarrow> ('p, 'w) server \<Rightarrow> ('p, 'w) server run" where
  "closeGrpcPayChProposalSub sessionID a =
     (let signal = svProposalSubs a sessionID
      in close_signal signal (a\<lparr>svProposalSubs := (svProposalSubs a)(sessionID := None)\<rparr>))"

text \<open>Reading a nil map gives nil, and deleting from it does nothing.\<close>

definition closeGrpcPayChUpdateSub :: "string \<Rightarrow> string \<Rightarrow> ('p, 'w) server \<Rightarrow> ('p, 'w) server run" where
  "closeGrpcPayChUpdateSub sessionID cid a =
     (case svUpdateSubs a sessionID of
        None \<Rightarrow> close_signal None a
      | Some subs \<Rightarrow> close_signal (subs cid)
          (a\<lparr>svUpdateSubs := (svUpdateSubs a)(sessionID \<mapsto> subs(cid := None))\<rparr>))"

subsection \<open>Calls and replies\<close>

definition as_result :: "'a \<times> api_err option \<Rightarrow> api_err + 'a" where
  "as_result r = (case r of (x, err) \<Rightarrow> (case err of None \<Rightarrow> Inr x | Some e \<Rightarrow> Inl e))"

text \<open>The closures \<open>errResponse\<close> of the handlers, and the response they return.\<close>

definition reply ::
  "(api_err + 'a) \<Rightarrow> ('p, 'w) server \<Rightarrow> ('a response \<times> ('p, 'w) server) run" where
  "reply r a =
     (case r of
        Inl e \<Rightarrow> andThen (toGrpcError e) (\<lambda>m. Done (RespError m, a))
      | Inr x \<Rightarrow> Done (MsgSuccess x, a))"

definition call_node ::
  "(('p, 'w, server_event) node \<Rightarrow> ('a \<times> ('p, 'w, server_event) node) run) \<Rightarrow> ('p, 'w) server
     \<Rightarrow> ('a \<times> ('p, 'w) server) run" where
  "call_node f a = andThen (f (svNode a)) (\<lambda>(x, n). Done (x, a\<lparr>svNode := n\<rparr>))"

definition call_session ::
  "string \<Rightarrow> (contract_registry \<Rightarrow> currency_registry \<Rightarrow> ('p, 'w, server_event) session
       \<Rightarrow> ((api_err + 'a) \<times> ('p, 'w, server_event) session) run) \<Rightarrow> ('p, 'w) server
     \<Rightarrow> ((api_err + 'a) \<times> ('p, 'w) server) run" where
  "call_session sessionID f a =
     andThen (call_node (GetSession sessionID) a) (\<lambda>(found, a1).
       case found of
         Inl e \<Rightarrow> Done (Inl e, a1)
       | Inr sess \<Rightarrow> call_node (on_session sessionID f) a1)"

definition call_channel ::
  "string \<Rightarrow> string \<Rightarrow> (('p, server_event) channel \<Rightarrow> ((api_err + 'a) \<times> ('p, server_event) channel) run)
     \<Rightarrow> ('p, 'w) server \<Rightarrow> ((api_err + 'a) \<times> ('p, 'w) server) run" where
  "call_channel sessionID cid f a =
     call_session sessionID (\<lambda>CR CU s.
       andThen (GetCh cid s) (\<lambda>(found, s1).
         case found of
           Inl e \<Rightarrow> Done (Inl e, s1)
         | Inr slot \<Rightarrow> on_channel slot f s1)) a"

subsection \<open>Handlers of the node\<close>

record config_resp =
  crChainAddress :: string
  crAdjudicator :: string
  crAssetETH :: string
  crCommTypes :: "string list"
  crIdProviderTypes :: "string list"

definition srv_GetConfig :: "('p, 'w) server \<Rightarrow> config_resp" where
  "srv_GetConfig a =
     (let cfg = GetConfig (svNode a)
      in \<lparr>crChainAddress = ncChainURL cfg, crAdjudicator = ncAdjudicator cfg, crAssetETH = ncAssetETH cfg,
          crCommTypes = ncCommTypes cfg, crIdProviderTypes = ncIDProviderTypes cfg\<rparr>)"

definition srv_Time :: "int \<Rightarrow> int" where
  "srv_Time now = Time now"

definition srv_Help :: "string list" where
  "srv_Help = Help"

definition srv_RegisterCurrency ::
  "('p, 'w, 'd) env \<Rightarrow> string \<Rightarrow> string \<Rightarrow> ('p, 'w) server \<Rightarrow> (string response \<times> ('p, 'w) server) run" where
  "srv_RegisterCurrency V tokenAddr assetAddr a =
     andThen (call_node (RegisterCurrency V tokenAddr assetAddr) a) (\<lambda>(r, a1). reply (as_result r) a1)"

definition srv_OpenSession ::
  "('p, 'w, 'd) env \<Rightarrow> 8 word list \<Rightarrow> 'w \<Rightarrow> string \<Rightarrow> ('p, 'w) server
     \<Rightarrow> ((string \<times> pb_pay_ch_info list) response \<times> ('p, 'w) server) run" where
  "srv_OpenSession V nowUTC w configFile a =
     andThen (call_node (pay_OpenSession V nowUTC w configFile) a) (\<lambda>((sessionID, restoredChs, err), a1).
       case err of
         Some e \<Rightarrow> reply (Inl e) a1
       | None \<Rightarrow> reply (Inr (sessionID, toGrpcPayChsInfo restoredChs))
           (a1\<lparr>svUpdateSubs := (svUpdateSubs a1)(sessionID \<mapsto> Map.empty)\<rparr>))"

subsection \<open>Handlers of a session\<close>

definition srv_AddPeerID ::
  "addr_lib \<Rightarrow> string \<Rightarrow> pb_peer_id option \<Rightarrow> ('p, 'w) server \<Rightarrow> (bool response \<times> ('p, 'w) server) run" where
  "srv_AddPeerID L sessionID peerID a =
     andThen (call_session sessionID (\<lambda>CR CU s.
       andThen (deref peerID) (\<lambda>p.
       andThen (AddPeerID L \<lparr>pAlias = pbAlias p, pOffChainAddr = None, pOffChainAddrString = pbOffChainAddress p,
                  pCommAddr = pbCommAddress p, pCommType = pbCommType p\<rparr> s) (\<lambda>(err, s1).
       Done (as_result (True, err), s1)))) a) (\<lambda>(r, a1). reply r a1)"

definition srv_GetPeerID ::
  "string \<Rightarrow> string \<Rightarrow> ('p, 'w) server \<Rightarrow> (pb_peer_id response \<times> ('p, 'w) server) run" where
  "srv_GetPeerID sessionID al a =
     andThen (call_session sessionID (\<lambda>CR CU s.
       andThen (GetPeerID al s) (\<lambda>((p, err), s1).
       Done (as_result (\<lparr>pbAlias = pAlias p, pbOffChainAddress = pOffChainAddrString p,
               pbCommAddress = pCommAddr p, pbCommType = pCommType p\<rparr>, err), s1))) a) (\<lambda>(r, a1). reply r a1)"

definition srv_OpenPayCh ::
  "('p, 'w, 'd) env \<Rightarrow> app \<Rightarrow> string \<Rightarrow> pb_bal_info option \<Rightarrow> 64 word \<Rightarrow> ('p, 'w) server
     \<Rightarrow> (pb_pay_ch_info response \<times> ('p, 'w) server) run" where
  "srv_OpenPayCh V noApp sessionID openingBalInfo challengeDurSecs a =
     andThen (call_session sessionID (\<lambda>CR CU s.
       andThen (fromGrpcBalInfo openingBalInfo) (\<lambda>bi.
       andThen (OpenPayCh (evSdk V) (evPch V) noApp CR CU bi challengeDurSecs s) (\<lambda>((i, err), s1).
       Done (as_result (\<lparr>ppChID = pciChID i, ppBalInfo = ToGrpcBalInfo (pciBalInfo i),
               ppVersion = pciVersion i\<rparr>, err), s1)))) a) (\<lambda>(r, a1). reply r a1)"

definition srv_GetPayChsInfo ::
  "'p pchannel_api \<Rightarrow> string \<Rightarrow> ('p, 'w) server \<Rightarrow> (pb_pay_ch_info list response \<times> ('p, 'w) server) run" where
  "srv_GetPayChsInfo P sessionID a =
     andThen (call_session sessionID (\<lambda>CR CU s.
       andThen (GetPayChsInfo P s) (\<lambda>(infos, s1). Done (Inr (toGrpcPayChsInfo infos), s1))) a)
       (\<lambda>(r, a1). reply r a1)"

definition srv_RespondPayChProposal ::
  "('p, 'w, 'd) env \<Rightarrow> int \<Rightarrow> string \<Rightarrow> string \<Rightarrow> bool \<Rightarrow> ('p, 'w) server
     \<Rightarrow> (pb_pay_ch_info response \<times> ('p, 'w) server) run" where
  "srv_RespondPayChProposal V now sessionID proposalID accept a =
     andThen (call_session sessionID (\<lambda>CR CU s.
       andThen (RespondPayChProposal (evSdk V) (evPch V) CR now proposalID accept s) (\<lambda>((i, err), s1).
       Done (as_result (toGrpcPayChInfo i, err), s1))) a) (\<lambda>(r, a1). reply r a1)"

definition srv_CloseSession ::
  "('p, 'w, 'd) env \<Rightarrow> string \<Rightarrow> bool \<Rightarrow> ('p, 'w) server
     \<Rightarrow> (pb_pay_ch_info list response \<times> ('p, 'w) server) run" where
  "srv_CloseSession V sessionID force a =
     andThen (call_session sessionID (\<lambda>CR CU s.
       andThen (CloseSession (evSdk V) (evPch V) force s) (\<lambda>((infos, err), s1).
       Done (as_result (toGrpcPayChsInfo infos, err), s1))) a) (\<lambda>(r, a1). reply r a1)"

definition srv_DeployAssetERC20 ::
  "('p, 'w, 'd) env \<Rightarrow> string \<Rightarrow> string \<Rightarrow> ('p, 'w) server \<Rightarrow> (string response \<times> ('p, 'w) server) run" where
  "srv_DeployAssetERC20 V sessionID tokenAddr a =
     andThen (call_session sessionID (\<lambda>CR CU s.
       andThen (session_DeployAssetERC20 (evSdk V) (evAddr V) CR tokenAddr s) (\<lambda>(r, s1).
       Done (as_result r, s1))) a) (\<lambda>(r, a1). reply r a1)"

subsection \<open>Handlers of a channel\<close>

definition srv_SendPayChUpdate ::
  "'p pchannel_api \<Rightarrow> string \<Rightarrow> string \<Rightarrow> pb_payment list \<Rightarrow> ('p, 'w) server
     \<Rightarrow> (pb_pay_ch_info response \<times> ('p, 'w) server) run" where
  "srv_SendPayChUpdate P sessionID cid payments a =
     andThen (call_channel sessionID cid (\<lambda>ch.
       andThen (SendPayChUpdate P (fromGrpcPayments payments) ch) (\<lambda>((i, err), ch1).
       Done (as_result (toGrpcPayChInfo i, err), ch1))) a) (\<lambda>(r, a1). reply r a1)"

definition srv_RespondPayChUpdate ::
  "'p pchannel_api \<Rightarrow> int \<Rightarrow> string \<Rightarrow> string \<Rightarrow> string \<Rightarrow> bool \<Rightarrow> ('p, 'w) server
     \<Rightarrow> (pb_pay_ch_info response \<times> ('p, 'w) server) run" where
  "srv_RespondPayChUpdate P now sessionID cid updateID accept a =
     andThen (call_channel sessionID cid (\<lambda>ch.
       andThen (RespondPayChUpdate P now updateID accept ch) (\<lambda>((i, err), ch1).
       Done (as_result (toGrpcPayChInfo i, err), ch1))) a) (\<lambda>(r, a1). reply r a1)"

definition srv_GetPayChInfo ::
  "'p pchannel_api \<Rightarrow> string \<Rightarrow> string \<Rightarrow> ('p, 'w) server \<Rightarrow> (pb_pay_ch_info response \<times> ('p, 'w) server) run" where
  "srv_GetPayChInfo P sessionID cid a =
     andThen (call_channel sessionID cid (\<lambda>ch.
       andThen (GetPayChInfo P ch) (\<lambda>(i, ch1). Done (Inr (toGrpcPayChInfo i), ch1))) a)
       (\<lambda>(r, a1). reply r a1)"

definition srv_ClosePayCh ::
  "'p pchannel_api \<Rightarrow> string \<Rightarrow> string \<Rightarrow> ('p, 'w) server \<Rightarrow> (pb_pay_ch_info response \<times> ('p, 'w) server) run" where
  "srv_ClosePayCh P sessionID cid a =
     andThen (call_channel sessionID cid (\<lambda>ch.
       andThen (ClosePayCh P ch) (\<lambda>((i, err), ch1).
       Done (as_result (toGrpcPayChInfo i, err), ch1))) a) (\<lambda>(r, a1). reply r a1)"

subsection \<open>Subscriptions\<close>

text \<open>
  A subscription handler makes the subscription, then its signal, which it returns here, and
  waits on the signal: the stream ends when the signal is closed. Between the two parts other
  handlers can run. An error of a subscription is one of the protocol, not a response.
\<close>

definition SubPayChProposals_subscribe ::
  "string \<Rightarrow> ref \<Rightarrow> ('p, 'w) server \<Rightarrow> ((goerr + unit) \<times> ('p, 'w) server) run" where
  "SubPayChProposals_subscribe sessionID srv a =
     andThen (call_session sessionID (\<lambda>CR CU s.
       andThen (SubPayChProposals (ProposalEvent srv) s) (\<lambda>(err, s1). Done (as_result ((), err), s1))) a)
       (\<lambda>(r, a1). Done (case r of
          Inl e \<Rightarrow> Inl (EWith (as_error e) ''cannot register subscription'')
        | Inr u \<Rightarrow> Inr u, a1))"

definition SubPayChProposals_signal :: "string \<Rightarrow> ('p, 'w) server \<Rightarrow> ref \<times> ('p, 'w) server" where
  "SubPayChProposals_signal sessionID a =
     (case make_signal a of
        (signal, a1) \<Rightarrow> (signal, a1\<lparr>svProposalSubs := (svProposalSubs a1)(sessionID \<mapsto> signal)\<rparr>))"

definition srv_SubPayChProposals ::
  "string \<Rightarrow> ref \<Rightarrow> ('p, 'w) server \<Rightarrow> ((goerr + ref) \<times> ('p, 'w) server) run" where
  "srv_SubPayChProposals sessionID srv a =
     andThen (SubPayChProposals_subscribe sessionID srv a) (\<lambda>(r, a1).
       case r of
         Inl e \<Rightarrow> Done (Inl e, a1)
       | Inr _ \<Rightarrow> (case SubPayChProposals_signal sessionID a1 of (signal, a2) \<Rightarrow> Done (Inr signal, a2)))"

definition srv_UnsubPayChProposals ::
  "string \<Rightarrow> ('p, 'w) server \<Rightarrow> (bool response \<times> ('p, 'w) server) run" where
  "srv_UnsubPayChProposals sessionID a =
     andThen (call_session sessionID (\<lambda>CR CU s.
       andThen (UnsubPayChProposals s) (\<lambda>(err, s1). Done (as_result (True, err), s1))) a) (\<lambda>(r, a1).
       case r of
         Inl e \<Rightarrow> reply (Inl e) a1
       | Inr u \<Rightarrow> andThen (closeGrpcPayChProposalSub sessionID a1) (reply (Inr u)))"

definition SubPayChUpdates_subscribe ::
  "string \<Rightarrow> string \<Rightarrow> ref \<Rightarrow> ('p, 'w) server \<Rightarrow> ((goerr + unit) \<times> ('p, 'w) server) run" where
  "SubPayChUpdates_subscribe sessionID cid srv a =
     andThen (call_channel sessionID cid (\<lambda>ch.
       andThen (SubPayChUpdates (UpdateEvent srv sessionID cid) ch) (\<lambda>(err, ch1).
       Done (as_result ((), err), ch1))) a)
       (\<lambda>(r, a1). Done (case r of
          Inl e \<Rightarrow> Inl (EWith (as_error e) ''cannot register subscription'')
        | Inr u \<Rightarrow> Inr u, a1))"

definition SubPayChUpdates_signal ::
  "string \<Rightarrow> string \<Rightarrow> ('p, 'w) server \<Rightarrow> (ref \<times> ('p, 'w) server) run" where
  "SubPayChUpdates_signal sessionID cid a =
     (case make_signal a of
        (signal, a1) \<Rightarrow>
          (case svUpdateSubs a1 sessionID of
             None \<Rightarrow> Panic AssignToNilMap
           | Some subs \<Rightarrow> Done (signal,
               a1\<lparr>svUpdateSubs := (svUpdateSubs a1)(sessionID \<mapsto> subs(cid \<mapsto> signal))\<rparr>)))"

definition srv_SubPayChUpdates ::
  "string \<Rightarrow> string \<Rightarrow> ref \<Rightarrow> ('p, 'w) server \<Rightarrow> ((goerr + ref) \<times> ('p, 'w) server) run" where
  "srv_SubPayChUpdates sessionID cid srv a =
     andThen (SubPayChUpdates_subscribe sessionID cid srv a) (\<lambda>(r, a1).
       case r of
         Inl e \<Rightarrow> Done (Inl e, a1)
       | Inr _ \<Rightarrow> andThen (SubPayChUpdates_signal sessionID cid a1) (\<lambda>(signal, a2). Done (Inr signal, a2)))"

definition srv_UnsubPayChUpdates ::
  "string \<Rightarrow> string \<Rightarrow> ('p, 'w) server \<Rightarrow> (bool response \<times> ('p, 'w) server) run" where
  "srv_UnsubPayChUpdates sessionID cid a =
     andThen (call_channel sessionID cid (\<lambda>ch.
       andThen (UnsubPayChUpdates ch) (\<lambda>(err, ch1). Done (as_result (True, err), ch1))) a) (\<lambda>(r, a1).
       case r of
         Inl e \<Rightarrow> reply (Inl e) a1
       | Inr u \<Rightarrow> andThen (closeGrpcPayChUpdateSub sessionID cid a1) (reply (Inr u)))"

text \<open>The notifiers, when they run. An error of sending is ignored.\<close>

definition run_notifier :: "server_event \<Rightarrow> ('p, 'w) server \<Rightarrow> ('p, 'w) server run" where
  "run_notifier ev a =
     (case ev of
        ProposalEvent srv notif \<Rightarrow> Done (a\<lparr>svSent := svSent a @ [(srv, ProposalMsg (pcpProposalID notif)
          (ToGrpcBalInfo (pcpOpeningBalInfo notif)) (pcpChallengeDurSecs notif) (pcpExpiry notif))]\<rparr>)
      | UpdateEvent srv sessionID cid notif \<Rightarrow>
          andThen (case pcuError notif of
                     None \<Rightarrow> Done None
                   | Some e \<Rightarrow> andThen (toGrpcError e) (\<lambda>m. Done (Some m))) (\<lambda>notifErr.
          let a1 = a\<lparr>svSent := svSent a @ [(srv, UpdateMsg (pcuUpdateID notif)
                (toGrpcPayChInfo (pcuProposedPayChInfo notif)) (ToGrpcChUpdateType (pcuType notif))
                (pcuExpiry notif) notifErr)]\<rparr>
          in if ChUpdateTypeClosed = pcuType notif then closeGrpcPayChUpdateSub sessionID cid a1
             else Done a1))"

end
