(* ===== verification/Grpc_Props.thy ===== *)
theory Grpc_Props
  imports Grpc_Server
begin

text \<open>
  The conversions of the gRPC server: what of an API error reaches the client, which requests
  make the server panic, and the round trips of the messages.
\<close>

subsection \<open>Reading the messages back\<close>

definition bal_info_of_pb :: "pb_bal_info \<Rightarrow> bal_info" where
  "bal_info_of_pb b = \<lparr>biCurrencies = pbCurrencies b, biParts = pbParts b,
     biBals = map (\<lambda>x. case x of PBBal bal \<Rightarrow> bal) (pbBals b)\<rparr>"

definition pay_ch_info_of_pb :: "pb_pay_ch_info \<Rightarrow> pay_ch_info" where
  "pay_ch_info_of_pb i = \<lparr>pciChID = ppChID i, pciBalInfo = bal_info_of_pb (ppBalInfo i), pciVersion = ppVersion i\<rparr>"

fun add_info_of_pb :: "pb_add_info \<Rightarrow> add_info" where
  "add_info_of_pb (PBPeerRequestTimedOut al t) = ErrInfoPeerRequestTimedOut al t"
| "add_info_of_pb (PBPeerRejected al r) = ErrInfoPeerRejected al r"
| "add_info_of_pb (PBPeerNotFunded al) = ErrInfoPeerNotFunded al"
| "add_info_of_pb (PBUserResponseTimedOut e r) = ErrInfoUserResponseTimedOut e r"
| "add_info_of_pb (PBResourceNotFound t i) = ErrInfoResourceNotFound t i"
| "add_info_of_pb (PBResourceExists t i) = ErrInfoResourceExists t i"
| "add_info_of_pb (PBInvalidArgument n v r) = ErrInfoInvalidArgument n v r"
| "add_info_of_pb (PBFailedPreCondUnclosedChs is) = ErrInfoFailedPreCondUnclosedPayChs (map pay_ch_info_of_pb is)"
| "add_info_of_pb (PBInvalidConfig n v) = ErrInfoInvalidConfig n v"
| "add_info_of_pb (PBInvalidContracts cs) = ErrInfoInvalidContracts (List.map_filter (\<lambda>c. c) cs)"
| "add_info_of_pb (PBTxTimedOut t i d) = ErrInfoTxTimedOut t i d"
| "add_info_of_pb (PBChainNotReachable u) = ErrInfoChainNotReachable u"

definition received_info :: "msg_error \<Rightarrow> add_info" where
  "received_info m = (case meAddInfo m of None \<Rightarrow> NoInfo | Some i \<Rightarrow> add_info_of_pb i)"

lemma bal_info_of_pb_inverse [simp]: "bal_info_of_pb (ToGrpcBalInfo b) = b"
  by (simp add: bal_info_of_pb_def ToGrpcBalInfo_def comp_def)

lemma pay_ch_info_of_pb_inverse [simp]: "pay_ch_info_of_pb (toGrpcPayChInfo i) = i"
  by (simp add: pay_ch_info_of_pb_def toGrpcPayChInfo_def)

lemma map_pay_ch_info_of_pb [simp]: "map pay_ch_info_of_pb (toGrpcPayChsInfo is) = is"
  by (simp add: toGrpcPayChsInfo_def comp_def)

lemma toGrpcContractErrInfos_eq:
  "toGrpcContractErrInfos src = (if src = [] then Done [] else Panic NilDereference)"
  by (cases src) (simp_all add: toGrpcContractErrInfos_def deref_def)

lemma toGrpcError_kept:
  assumes "toGrpcError e = Done m"
  shows "meCategory m = category_num (aeCategory e) \<and> meCode m = code_num (aeCode e) \<and> meMessage m = Message e"
  using assms by (cases "aeAddInfo e") (auto simp: toGrpcError_def Let_def run_simps)

lemma toGrpcError_info:
  assumes "toGrpcError e = Done m"
  shows "received_info m = (case aeAddInfo e of
      ErrInfoPeerRequestTimedOut al t \<Rightarrow> ErrInfoPeerRequestTimedOut [] t
    | ErrInfoFailedPreCondUnclosedChs chs \<Rightarrow> NoInfo
    | i \<Rightarrow> i)"
  using assms
  by (cases "aeAddInfo e")
     (auto simp: toGrpcError_def Let_def run_simps received_info_def toGrpcContractErrInfos_eq
       map_filter_simps split: if_splits)

lemma toGrpcError_panic:
  "aeAddInfo e = ErrInfoInvalidContracts (c # cs) \<Longrightarrow> toGrpcError e = Panic NilDereference"
  by (simp add: toGrpcError_def Let_def toGrpcContractErrInfos_eq)

lemma toGrpcError_returns:
  "(\<And>c cs. aeAddInfo e \<noteq> ErrInfoInvalidContracts (c # cs)) \<Longrightarrow> \<exists>m. toGrpcError e = Done m"
  by (cases "aeAddInfo e") (auto simp: toGrpcError_def Let_def toGrpcContractErrInfos_eq neq_Nil_conv)

subsection \<open>Properties\<close>

text \<open>
  What a client sees of an error. A list of invalid contracts that is not empty makes the
  conversion panic: it writes through pointers that are nil. Every other error reaches the
  client with its category, its code and its message, and with its additional info, except
  that the alias of a peer that timed out is dropped, and that the list of unclosed channels
  is only kept in the form of the payment app.
\<close>

theorem toGrpcError_spec:
  "if \<exists>c cs. aeAddInfo e = ErrInfoInvalidContracts (c # cs)
   then toGrpcError e = Panic NilDereference
   else \<exists>m. toGrpcError e = Done m
     \<and> meCategory m = category_num (aeCategory e) \<and> meCode m = code_num (aeCode e) \<and> meMessage m = Message e
     \<and> received_info m = (case aeAddInfo e of
         ErrInfoPeerRequestTimedOut al t \<Rightarrow> ErrInfoPeerRequestTimedOut [] t
       | ErrInfoFailedPreCondUnclosedChs chs \<Rightarrow> NoInfo
       | i \<Rightarrow> i)"
proof (cases "\<exists>c cs. aeAddInfo e = ErrInfoInvalidContracts (c # cs)")
  case True
  then show ?thesis using toGrpcError_panic by auto
next
  case False
  then obtain m where m: "toGrpcError e = Done m"
    using toGrpcError_returns [of e] by blast
  with False toGrpcError_kept [OF m] toGrpcError_info [OF m] show ?thesis by auto
qed

end
