(* ===== verification/Grpc_Safety.thy ===== *)
theory Grpc_Safety
  imports Grpc_Props
begin

text \<open>
  What holds of the gRPC server over time: every handler is a sequence of steps of the node,
  and the signals of the subscriptions are fresh, open and used for one subscription only.
\<close>

subsection \<open>Steps of the parts are steps of the node\<close>

lemma se_steps_channel:
  assumes "(ch_step P)\<^sup>*\<^sup>* (rgChs (seChs s) ! i) ch" and "i < rg_count (seChs s)"
  shows "(se_step S P L)\<^sup>*\<^sup>* s (s\<lparr>seChs := rg_write i ch (seChs s)\<rparr>)"
  using assms(1)
proof (induction rule: rtranclp_induct)
  case base
  have "rg_write i (rgChs (seChs s) ! i) (seChs s) = seChs s"
    by (simp add: rg_write_def list_update_id)
  then show ?case by simp
next
  case (step ch ch')
  let ?t = "s\<lparr>seChs := rg_write i ch (seChs s)\<rparr>"
  have at: "rgChs (seChs ?t) ! i = ch" using assms(2) by (simp add: rg_write_def rg_count_def)
  have "se_step S P L ?t (?t\<lparr>seChs := rg_write i ch' (seChs ?t)\<rparr>)"
    by (rule se_step.channel) (use at step.hyps(2) in simp)
  moreover have "rg_write i ch' (rg_write i ch (seChs s)) = rg_write i ch' (seChs s)"
    by (simp add: rg_write_def)
  ultimately have "se_step S P L ?t (s\<lparr>seChs := rg_write i ch' (seChs s)\<rparr>)" by simp
  with step.IH show ?case by (rule rtranclp.rtrancl_into_rtrancl)
qed

lemma on_channel_steps:
  assumes "on_channel i f s = Done (r, s')"
    and "\<And>ch r ch'. f ch = Done (r, ch') \<Longrightarrow> (ch_step P)\<^sup>*\<^sup>* ch ch'"
  shows "(se_step S P L)\<^sup>*\<^sup>* s s'"
proof -
  from assms(1) obtain ch' where "i < rg_count (seChs s)" "f (rgChs (seChs s) ! i) = Done (r, ch')"
    "s' = s\<lparr>seChs := rg_write i ch' (seChs s)\<rparr>"
    by (auto simp: on_channel_def run_simps rg_count_def)
  with se_steps_channel assms(2) show ?thesis by metis
qed

lemma nd_steps_session:
  assumes "(se_step (evSdk V) (evPch V) (evAddr V))\<^sup>*\<^sup>* s s'" and "ndSessions n i = Some s"
  shows "(nd_step V)\<^sup>*\<^sup>* n (n\<lparr>ndSessions := (ndSessions n)(i \<mapsto> s')\<rparr>)"
  using assms(1)
proof (induction rule: rtranclp_induct)
  case base
  have "(ndSessions n)(i \<mapsto> s) = ndSessions n" using assms(2) by (simp add: map_upd_triv)
  then show ?case by simp
next
  case (step t t')
  let ?n = "n\<lparr>ndSessions := (ndSessions n)(i \<mapsto> t)\<rparr>"
  have "nd_step V ?n (?n\<lparr>ndSessions := (ndSessions ?n)(i \<mapsto> t')\<rparr>)"
    by (rule nd_step.session [OF _ step.hyps(2)]) simp
  then have "nd_step V ?n (n\<lparr>ndSessions := (ndSessions n)(i \<mapsto> t')\<rparr>)"
    by simp
  with step.IH show ?case by (rule rtranclp.rtrancl_into_rtrancl)
qed

text \<open>
  A handler that only calls a session changes the node, in steps, and nothing else of the
  server; and it neither adds nor removes a session.
\<close>

abbreviation se_steps ::
  "('p, 'w, 'd) env \<Rightarrow> ('p, 'w, 'ev) session \<Rightarrow> ('p, 'w, 'ev) session \<Rightarrow> bool" where
  "se_steps V \<equiv> (se_step (evSdk V) (evPch V) (evAddr V))\<^sup>*\<^sup>*"

definition sessions_step ::
  "('p, 'w, 'd) env \<Rightarrow> ('p, 'w, 'ev) node \<Rightarrow> ('p, 'w, 'ev) node \<Rightarrow> bool" where
  "sessions_step V n n' \<longleftrightarrow> (nd_step V)\<^sup>*\<^sup>* n n' \<and> dom (ndSessions n') = dom (ndSessions n)
     \<and> (\<forall>i s s'. ndSessions n i = Some s \<longrightarrow> ndSessions n' i = Some s' \<longrightarrow> se_steps V s s')"

lemma sessions_stepI:
  "(nd_step V)\<^sup>*\<^sup>* n n' \<Longrightarrow> ndSessions n' = ndSessions n \<Longrightarrow> sessions_step V n n'"
  by (simp add: sessions_step_def)

lemma sessions_step_refl [simp]: "sessions_step V n n"
  by (simp add: sessions_step_def)

lemma sessions_step_trans:
  assumes "sessions_step V a b" and "sessions_step V b c"
  shows "sessions_step V a c"
proof -
  have "se_steps V s t" if s: "ndSessions a i = Some s" and t: "ndSessions c i = Some t" for i s t
  proof -
    from s assms(1) obtain u where u: "ndSessions b i = Some u" unfolding sessions_step_def by blast
    from s u t assms have "se_steps V s u" "se_steps V u t" unfolding sessions_step_def by blast+
    then show ?thesis by (rule rtranclp_trans)
  qed
  moreover have "(nd_step V)\<^sup>*\<^sup>* a c"
    using assms by (auto simp: sessions_step_def intro: rtranclp_trans)
  ultimately show ?thesis using assms by (simp add: sessions_step_def)
qed

lemma sessions_step_session:
  assumes "se_steps V s s'" and "ndSessions n i = Some s"
  shows "sessions_step V n (n\<lparr>ndSessions := (ndSessions n)(i \<mapsto> s')\<rparr>)"
  using nd_steps_session [OF assms] assms by (auto simp: sessions_step_def)

definition node_moves :: "('p, 'w, 'd) env \<Rightarrow> ('p, 'w) server \<Rightarrow> ('p, 'w) server \<Rightarrow> bool" where
  "node_moves V a a' \<longleftrightarrow> (\<exists>n. a' = a\<lparr>svNode := n\<rparr> \<and> sessions_step V (svNode a) n)"

lemma node_movesI: "sessions_step V (svNode a) n \<Longrightarrow> node_moves V a (a\<lparr>svNode := n\<rparr>)"
  by (auto simp: node_moves_def)

lemma node_moves_refl [simp]: "node_moves V a a"
  by (auto simp: node_moves_def intro!: exI [of _ "svNode a"])

lemma node_moves_trans:
  assumes "node_moves V a b" and "node_moves V b c"
  shows "node_moves V a c"
proof -
  from assms obtain n m where "c = a\<lparr>svNode := m\<rparr>" "sessions_step V (svNode a) n" "sessions_step V n m"
    unfolding node_moves_def by auto
  then show ?thesis by (auto intro: node_movesI sessions_step_trans)
qed

lemma call_node_moves:
  assumes "call_node f a = Done (r, a')"
    and "\<And>r n'. f (svNode a) = Done (r, n') \<Longrightarrow> sessions_step V (svNode a) n'"
  shows "node_moves V a a'"
  using assms by (auto simp: call_node_def run_simps intro!: node_movesI)

lemma GetSession_dom: "GetSession i n = Done (r, n') \<Longrightarrow> ndSessions n' = ndSessions n"
  by (auto simp: GetSession_def run_simps split: option.splits)

lemma RegisterCurrency_dom: "RegisterCurrency V tok ast n = Done (r, n') \<Longrightarrow> ndSessions n' = ndSessions n"
  by (auto simp: RegisterCurrency_def with_nlock_Done Let_def elim!: andThen_DoneE
      split: sum.splits option.splits prod.splits)

lemma on_session_moves:
  assumes "on_session i f n = Done (r, n')"
    and "\<And>CR CU s r s'. f CR CU s = Done (r, s') \<Longrightarrow> (se_step (evSdk V) (evPch V) (evAddr V))\<^sup>*\<^sup>* s s'"
  shows "sessions_step V n n'"
proof -
  from assms(1) obtain s s' where s: "ndSessions n i = Some s"
    and f: "f (ndContracts n) (ndCurrencies n) s = Done (r, s')"
    and n': "n' = n\<lparr>ndSessions := (ndSessions n)(i \<mapsto> s')\<rparr>"
    by (auto simp: on_session_def deref_def run_simps split: option.splits)
  from sessions_step_session [OF assms(2) [OF f] s] n' show ?thesis by simp
qed

lemma call_session_moves:
  assumes "call_session i f a = Done (r, a')"
    and "\<And>CR CU s r s'. f CR CU s = Done (r, s') \<Longrightarrow> (se_step (evSdk V) (evPch V) (evAddr V))\<^sup>*\<^sup>* s s'"
  shows "node_moves V a a'"
proof -
  from assms(1) obtain found a1 where g: "call_node (GetSession i) a = Done (found, a1)"
    and rest: "(case found of Inl e \<Rightarrow> Done (Inl e, a1) | Inr sess \<Rightarrow> call_node (on_session i f) a1) = Done (r, a')"
    by (auto simp: call_session_def elim!: andThen_DoneE)
  have m: "node_moves V a a1"
    by (rule call_node_moves [OF g]) (auto intro!: sessions_stepI dest: GetSession_dom nd_step.get_session)
  moreover have "node_moves V a1 a'"
  proof (cases found)
    case (Inr sess)
    with rest have "call_node (on_session i f) a1 = Done (r, a')" by simp
    then show ?thesis
      by (rule call_node_moves) (erule on_session_moves [OF _ assms(2)])
  qed (use rest in simp)
  ultimately show ?thesis by (rule node_moves_trans)
qed

lemma call_channel_moves:
  fixes V :: "('p, 'w, 'd) env"
  assumes "call_channel i cid f a = Done (r, a')"
    and "\<And>ch r ch'. f ch = Done (r, ch') \<Longrightarrow> (ch_step (evPch V))\<^sup>*\<^sup>* ch ch'"
  shows "node_moves V a a'"
proof (rule call_session_moves [OF assms(1) [unfolded call_channel_def]])
  fix CR :: contract_registry and CU :: currency_registry and s s' :: "('p, 'w, server_event) session" and r
  assume "andThen (GetCh cid s) (\<lambda>(found, s1). case found of
      Inl e \<Rightarrow> Done (Inl e, s1) | Inr slot \<Rightarrow> on_channel slot f s1) = Done (r, s')"
  then obtain found s1 where g: "GetCh cid s = Done (found, s1)"
    and rest: "(case found of Inl e \<Rightarrow> Done (Inl e, s1) | Inr slot \<Rightarrow> on_channel slot f s1) = Done (r, s')"
    by (auto elim!: andThen_DoneE)
  have "se_step (evSdk V) (evPch V) (evAddr V) s s1" using g by (rule se_step.get_ch)
  moreover have "(se_step (evSdk V) (evPch V) (evAddr V))\<^sup>*\<^sup>* s1 s'"
    using rest on_channel_steps [OF _ assms(2)] by (cases found) auto
  ultimately show "(se_step (evSdk V) (evPch V) (evAddr V))\<^sup>*\<^sup>* s s'" by simp
qed

text \<open>The replies leave the server alone.\<close>

lemma reply_Done: "reply r a = Done (x, a') \<Longrightarrow> a' = a"
  by (auto simp: reply_def elim!: andThen_DoneE split: sum.splits)

lemma replied_moves:
  assumes "andThen m (\<lambda>(r, a1). reply r a1) = Done (x, a')" and "\<And>r a1. m = Done (r, a1) \<Longrightarrow> node_moves V a a1"
  shows "node_moves V a a'"
  using assms by (auto elim!: andThen_DoneE dest: reply_Done)

subsection \<open>Steps of the server\<close>

text \<open>
  A step is a handler, a half of a subscription handler, a notifier that runs, or a step of a
  session that no handler of the server starts, such as a message of a peer. The label is the
  ID of the session a step opens, if it opens one.
\<close>

inductive sv_step ::
  "('p, 'w, 'd) env \<Rightarrow> string option \<Rightarrow> ('p, 'w) server \<Rightarrow> ('p, 'w) server \<Rightarrow> bool"
  for V :: "('p, 'w, 'd) env" where
  session: "ndSessions (svNode a) i = Some s \<Longrightarrow> se_step (evSdk V) (evPch V) (evAddr V) s s' \<Longrightarrow>
     sv_step V None a (a\<lparr>svNode := (svNode a)\<lparr>ndSessions := (ndSessions (svNode a))(i \<mapsto> s')\<rparr>\<rparr>)"
| register: "srv_RegisterCurrency V tok ast a = Done (r, a') \<Longrightarrow> sv_step V None a a'"
| open_session: "srv_OpenSession V t w file a = Done (r, a') \<Longrightarrow>
     sv_step V (case r of MsgSuccess x \<Rightarrow> Some (fst x) | RespError m \<Rightarrow> None) a a'"
| add_peer: "srv_AddPeerID (evAddr V) i p a = Done (r, a') \<Longrightarrow> sv_step V None a a'"
| get_peer: "srv_GetPeerID i al a = Done (r, a') \<Longrightarrow> sv_step V None a a'"
| open_ch: "srv_OpenPayCh V ap i bi dur a = Done (r, a') \<Longrightarrow> sv_step V None a a'"
| chs_info: "srv_GetPayChsInfo (evPch V) i a = Done (r, a') \<Longrightarrow> sv_step V None a a'"
| respond_proposal: "srv_RespondPayChProposal V now i pid acc a = Done (r, a') \<Longrightarrow> sv_step V None a a'"
| close_session: "srv_CloseSession V i force a = Done (r, a') \<Longrightarrow> sv_step V None a a'"
| deploy: "srv_DeployAssetERC20 V i tok a = Done (r, a') \<Longrightarrow> sv_step V None a a'"
| send_update: "srv_SendPayChUpdate (evPch V) i cid ps a = Done (r, a') \<Longrightarrow> sv_step V None a a'"
| respond_update: "srv_RespondPayChUpdate (evPch V) now i cid uid acc a = Done (r, a') \<Longrightarrow> sv_step V None a a'"
| ch_info: "srv_GetPayChInfo (evPch V) i cid a = Done (r, a') \<Longrightarrow> sv_step V None a a'"
| close_ch: "srv_ClosePayCh (evPch V) i cid a = Done (r, a') \<Longrightarrow> sv_step V None a a'"
| sub_proposals: "SubPayChProposals_subscribe i srv a = Done (r, a') \<Longrightarrow> sv_step V None a a'"
| proposals_signal: "SubPayChProposals_signal i a = (c, a') \<Longrightarrow> sv_step V None a a'"
| unsub_proposals: "srv_UnsubPayChProposals i a = Done (r, a') \<Longrightarrow> sv_step V None a a'"
| sub_updates: "SubPayChUpdates_subscribe i cid srv a = Done (r, a') \<Longrightarrow> sv_step V None a a'"
| updates_signal: "SubPayChUpdates_signal i cid a = Done (c, a') \<Longrightarrow> sv_step V None a a'"
| unsub_updates: "srv_UnsubPayChUpdates i cid a = Done (r, a') \<Longrightarrow> sv_step V None a a'"
| notifier: "run_notifier ev a = Done a' \<Longrightarrow> sv_step V None a a'"

text \<open>
  What a step does to the signals: it keeps them, makes one for a key, closes the one of a
  key, or adds a session with no signals.
\<close>

type_synonym sub_key = "string + string \<times> string"

definition sig_at :: "('p, 'w) server \<Rightarrow> sub_key \<Rightarrow> ref option" where
  "sig_at a k = (case k of
     Inl i \<Rightarrow> svProposalSubs a i
   | Inr (i, cid) \<Rightarrow> (case svUpdateSubs a i of None \<Rightarrow> None | Some subs \<Rightarrow> subs cid))"

lemma sig_at_simps [simp]:
  "sig_at a (Inl i) = svProposalSubs a i"
  "sig_at a (Inr (i, cid)) = (case svUpdateSubs a i of None \<Rightarrow> None | Some subs \<Rightarrow> subs cid)"
  by (simp_all add: sig_at_def)

lemma sig_at_eqI:
  assumes "\<And>i. svProposalSubs a i = f (Inl i)"
    and "\<And>i cid. (case svUpdateSubs a i of None \<Rightarrow> None | Some subs \<Rightarrow> subs cid) = f (Inr (i, cid))"
  shows "sig_at a = f"
proof
  show "sig_at a k = f k" for k
    using assms by (cases k) (auto simp: sig_at_def split: prod.splits)
qed

named_theorems srv_moves \<open>handlers that only move the node\<close>

lemma srv_RegisterCurrency_moves [srv_moves]:
  "srv_RegisterCurrency V tok ast a = Done (r, a') \<Longrightarrow> node_moves V a a'"
  unfolding srv_RegisterCurrency_def
  by (auto elim!: andThen_DoneE dest!: reply_Done
      intro!: call_node_moves [where f = "RegisterCurrency V tok ast"] sessions_stepI nd_step.register r_into_rtranclp
      dest: RegisterCurrency_dom)

lemma srv_AddPeerID_moves [srv_moves]:
  "srv_AddPeerID (evAddr V) i p a = Done (r, a') \<Longrightarrow> node_moves V a a'"
  unfolding srv_AddPeerID_def
  by (erule replied_moves, erule call_session_moves)
     (auto elim!: andThen_DoneE intro: se_step.add_peer)

lemma srv_GetPeerID_moves [srv_moves]: "srv_GetPeerID i al a = Done (r, a') \<Longrightarrow> node_moves V a a'"
  unfolding srv_GetPeerID_def
  by (erule replied_moves, erule call_session_moves)
     (auto elim!: andThen_DoneE intro: se_step.get_peer)

lemma OpenCh_steps:
  assumes "OpenCh S P CR CU bi ap dur s = Done (r, s')"
  shows "(se_step S P L)\<^sup>*\<^sup>* s s'"
proof -
  from assms obtain x s1 where prp: "OpenCh_propose S P CR CU bi ap dur s = Done (x, s1)"
    and rest: "(case x of Inl ae \<Rightarrow> Done ((nil_ch_info, Some ae), s1) | Inr ch \<Rightarrow> OpenCh_add P ch s1) = Done (r, s')"
    by (auto simp: OpenCh_def elim!: andThen_DoneE)
  have "se_step S P L s s1" using prp by (rule se_step.open_propose)
  moreover have "(se_step S P L)\<^sup>*\<^sup>* s1 s'"
  proof (cases x)
    case (Inr ch)
    from prp [unfolded Inr] obtain cs cfg parts pch where "ch = newCh P pch (seChainURL s) cs parts cfg dur"
      by (rule OpenCh_propose_Inr)
    with Inr rest show ?thesis by (auto intro: se_step.open_add)
  qed (use rest in simp)
  ultimately show ?thesis by simp
qed

lemma srv_OpenPayCh_moves [srv_moves]:
  "srv_OpenPayCh V ap i bi dur a = Done (r, a') \<Longrightarrow> node_moves V a a'"
  unfolding srv_OpenPayCh_def
  by (erule replied_moves, erule call_session_moves)
     (auto simp: OpenPayCh_def elim!: andThen_DoneE intro: OpenCh_steps)

lemma srv_GetPayChsInfo_moves [srv_moves]:
  "srv_GetPayChsInfo (evPch V) i a = Done (r, a') \<Longrightarrow> node_moves V a a'"
  unfolding srv_GetPayChsInfo_def
  by (erule replied_moves, erule call_session_moves)
     (auto simp: GetPayChsInfo_def elim!: andThen_DoneE intro: se_step.chs_info)

lemma srv_RespondPayChProposal_moves [srv_moves]:
  "srv_RespondPayChProposal V now i pid acc a = Done (r, a') \<Longrightarrow> node_moves V a a'"
  unfolding srv_RespondPayChProposal_def
  by (erule replied_moves, erule call_session_moves)
     (auto simp: RespondPayChProposal_def elim!: andThen_DoneE intro: RespondChProposal_steps)

lemma srv_CloseSession_moves [srv_moves]: "srv_CloseSession V i force a = Done (r, a') \<Longrightarrow> node_moves V a a'"
  unfolding srv_CloseSession_def
  by (erule replied_moves, erule call_session_moves)
     (auto simp: CloseSession_def elim!: andThen_DoneE intro: se_step.close)

lemma srv_DeployAssetERC20_moves [srv_moves]:
  "srv_DeployAssetERC20 V i tok a = Done (r, a') \<Longrightarrow> node_moves V a a'"
  unfolding srv_DeployAssetERC20_def
  by (erule replied_moves, erule call_session_moves)
     (auto elim!: andThen_DoneE intro: se_step.deploy)

lemma SendPayChUpdate_steps:
  assumes "SendPayChUpdate P ps ch = Done (r, ch')"
  shows "(ch_step P)\<^sup>*\<^sup>* ch ch'"
proof -
  from assms obtain m where m: "make_updates ch ps = Done m"
    and rest: "(case m of Inl ae \<Rightarrow> Done ((nil_pay_ch_info, Some ae), ch)
      | Inr us \<Rightarrow> andThen (SendChUpdate P (\<lambda>state. andThen (run_updates us state) (\<lambda>st. Done (st, None))) ch)
          (\<lambda>((i, ae), ch'). Done ((toPayChInfo i, ae), ch'))) = Done (r, ch')"
    unfolding SendPayChUpdate_def by (erule andThen_DoneE)
  show ?thesis
  proof (cases m)
    case (Inr us)
    with rest obtain i ae where
      "SendChUpdate P (\<lambda>state. andThen (run_updates us state) (\<lambda>st. Done (st, None))) ch = Done ((i, ae), ch')"
      by (auto elim!: andThen_DoneE)
    then show ?thesis by (intro r_into_rtranclp) (rule ch_step.send_update)
  qed (use rest in simp)
qed

lemma srv_SendPayChUpdate_moves [srv_moves]:
  "srv_SendPayChUpdate (evPch V) i cid ps a = Done (r, a') \<Longrightarrow> node_moves V a a'"
  unfolding srv_SendPayChUpdate_def
  by (erule replied_moves, erule call_channel_moves)
     (auto elim!: andThen_DoneE intro: SendPayChUpdate_steps)

lemma srv_RespondPayChUpdate_moves [srv_moves]:
  "srv_RespondPayChUpdate (evPch V) now i cid uid acc a = Done (r, a') \<Longrightarrow> node_moves V a a'"
  unfolding srv_RespondPayChUpdate_def
  by (erule replied_moves, erule call_channel_moves)
     (auto simp: RespondPayChUpdate_def elim!: andThen_DoneE intro: ch_step.respond)

lemma srv_GetPayChInfo_moves [srv_moves]:
  "srv_GetPayChInfo (evPch V) i cid a = Done (r, a') \<Longrightarrow> node_moves V a a'"
  unfolding srv_GetPayChInfo_def
  by (erule replied_moves, erule call_channel_moves)
     (auto simp: GetPayChInfo_def elim!: andThen_DoneE intro: ch_step.get_info)

lemma srv_ClosePayCh_moves [srv_moves]:
  "srv_ClosePayCh (evPch V) i cid a = Done (r, a') \<Longrightarrow> node_moves V a a'"
  unfolding srv_ClosePayCh_def
  by (erule replied_moves, erule call_channel_moves)
     (auto simp: ClosePayCh_def elim!: andThen_DoneE intro: ch_step.close)

lemma SubPayChProposals_subscribe_moves [srv_moves]:
  "SubPayChProposals_subscribe i srv a = Done (r, a') \<Longrightarrow> node_moves V a a'"
  unfolding SubPayChProposals_subscribe_def
  by (erule andThen_DoneE, clarsimp, erule call_session_moves)
     (auto simp: SubPayChProposals_def elim!: andThen_DoneE intro: se_step.subscribe)

lemma SubPayChUpdates_subscribe_moves [srv_moves]:
  "SubPayChUpdates_subscribe i cid srv a = Done (r, a') \<Longrightarrow> node_moves V a a'"
  unfolding SubPayChUpdates_subscribe_def
  by (erule andThen_DoneE, clarsimp, erule call_channel_moves)
     (auto simp: SubPayChUpdates_def elim!: andThen_DoneE intro: ch_step.subscribe)

subsection \<open>What a step does to the signals\<close>

definition same_signals :: "('p, 'w) server \<Rightarrow> ('p, 'w) server \<Rightarrow> bool" where
  "same_signals a a' \<longleftrightarrow> sig_at a' = sig_at a \<and> svNextSignal a' = svNextSignal a
     \<and> svClosedSignals a' = svClosedSignals a"

definition makes_signal :: "sub_key \<Rightarrow> ('p, 'w) server \<Rightarrow> ('p, 'w) server \<Rightarrow> bool" where
  "makes_signal k a a' \<longleftrightarrow> sig_at a' = (sig_at a)(k \<mapsto> svNextSignal a)
     \<and> svNextSignal a' = Suc (svNextSignal a) \<and> svClosedSignals a' = svClosedSignals a"

definition closes_signal :: "sub_key \<Rightarrow> ref \<Rightarrow> ('p, 'w) server \<Rightarrow> ('p, 'w) server \<Rightarrow> bool" where
  "closes_signal k c a a' \<longleftrightarrow> sig_at a k = Some c \<and> c \<notin> set (svClosedSignals a)
     \<and> sig_at a' = (sig_at a)(k := None)
     \<and> svNextSignal a' = svNextSignal a \<and> svClosedSignals a' = svClosedSignals a @ [c]"

definition opens_session :: "string \<Rightarrow> ('p, 'w) server \<Rightarrow> ('p, 'w) server \<Rightarrow> bool" where
  "opens_session i a a' \<longleftrightarrow> sig_at a' = (\<lambda>k. case k of Inr (j, cid) \<Rightarrow> if j = i then None else sig_at a k | _ \<Rightarrow> sig_at a k)
     \<and> svNextSignal a' = svNextSignal a \<and> svClosedSignals a' = svClosedSignals a"

lemmas signal_defs = same_signals_def makes_signal_def closes_signal_def opens_session_def

lemma same_signals_refl [simp]: "same_signals a a"
  by (simp add: same_signals_def)

lemma node_moves_signals: "node_moves V a a' \<Longrightarrow> same_signals a a'"
  by (auto simp: node_moves_def same_signals_def intro!: sig_at_eqI)

lemma SubPayChProposals_signal_makes:
  "SubPayChProposals_signal i a = (c, a') \<Longrightarrow> c = svNextSignal a \<and> svNode a' = svNode a
     \<and> dom (svUpdateSubs a') = dom (svUpdateSubs a) \<and> makes_signal (Inl i) a a'"
  by (auto simp: SubPayChProposals_signal_def make_signal_def makes_signal_def intro!: sig_at_eqI)

lemma SubPayChUpdates_signal_makes:
  "SubPayChUpdates_signal i cid a = Done (c, a') \<Longrightarrow> c = svNextSignal a \<and> svNode a' = svNode a
     \<and> dom (svUpdateSubs a') = dom (svUpdateSubs a) \<and> makes_signal (Inr (i, cid)) a a'"
  by (auto simp: SubPayChUpdates_signal_def make_signal_def makes_signal_def intro!: sig_at_eqI
      split: option.splits if_splits)

lemma close_signal_Done:
  "close_signal c a = Done a' \<longleftrightarrow> (\<exists>x. c = Some x \<and> x \<notin> set (svClosedSignals a)
     \<and> a' = a\<lparr>svClosedSignals := svClosedSignals a @ [x]\<rparr>)"
  by (auto simp: close_signal_def split: option.splits)

lemma closeGrpcPayChProposalSub_closes:
  "closeGrpcPayChProposalSub i a = Done a' \<Longrightarrow> \<exists>c. closes_signal (Inl i) c a a' \<and> svNode a' = svNode a
     \<and> dom (svUpdateSubs a') = dom (svUpdateSubs a)"
  by (auto simp: closeGrpcPayChProposalSub_def close_signal_Done closes_signal_def intro!: sig_at_eqI)

lemma closeGrpcPayChUpdateSub_closes:
  "closeGrpcPayChUpdateSub i cid a = Done a' \<Longrightarrow> \<exists>c. closes_signal (Inr (i, cid)) c a a' \<and> svNode a' = svNode a
     \<and> dom (svUpdateSubs a') = dom (svUpdateSubs a)"
  by (auto simp: closeGrpcPayChUpdateSub_def close_signal_Done closes_signal_def intro!: sig_at_eqI
      split: option.splits if_splits)

text \<open>Requests that close a signal reach it through a session that is open.\<close>

lemma call_session_Inr:
  assumes "call_session i f a = Done (Inr u, a')"
  obtains s s' CR CU where "ndSessions (svNode a) i = Some s" and "f CR CU s = Done (Inr u, s')"
proof -
  from assms obtain found a1 where g: "call_node (GetSession i) a = Done (found, a1)"
    and rest: "(case found of Inl e \<Rightarrow> Done (Inl e, a1) | Inr sess \<Rightarrow> call_node (on_session i f) a1) = Done (Inr u, a')"
    by (auto simp: call_session_def elim!: andThen_DoneE)
  from rest obtain sess where "call_node (on_session i f) a1 = Done (Inr u, a')"
    by (cases found) auto
  then obtain s s' where "ndSessions (svNode a1) i = Some s"
    "f (ndContracts (svNode a1)) (ndCurrencies (svNode a1)) s = Done (Inr u, s')"
    by (auto simp: call_node_def on_session_def deref_def run_simps split: option.splits)
  moreover have "ndSessions (svNode a1) = ndSessions (svNode a)"
    using g by (auto simp: call_node_def run_simps dest: GetSession_dom)
  ultimately show thesis using that by metis
qed

lemma UnsubChProposals_open:
  "UnsubChProposals s = Done (None, s') \<Longrightarrow> seIsOpen s \<and> seNotifier s \<noteq> None"
  by (auto simp: UnsubChProposals_def run_simps split: if_splits)

lemma as_result_Inr [simp]: "as_result (x, err) = Inr y \<longleftrightarrow> err = None \<and> y = x"
  by (auto simp: as_result_def split: option.splits)

lemma srv_UnsubPayChProposals_cases:
  assumes "srv_UnsubPayChProposals i a = Done (r, a')"
  obtains (refused) "node_moves V a a'" and "\<exists>m. r = RespError m"
  | (closed) a1 s where "node_moves V a a1" and "closeGrpcPayChProposalSub i a1 = Done a'" and "r = MsgSuccess True"
      and "ndSessions (svNode a) i = Some s" and "seIsOpen s"
proof -
  let ?f = "\<lambda>CR CU s. andThen (UnsubPayChProposals s) (\<lambda>(err, s1). Done (as_result (True, err), s1))"
  from assms obtain x a1 where call: "call_session i ?f a = Done (x, a1)"
    and rest: "(case x of Inl e \<Rightarrow> reply (Inl e) a1
       | Inr u \<Rightarrow> andThen (closeGrpcPayChProposalSub i a1) (reply (Inr u))) = Done (r, a')"
    unfolding srv_UnsubPayChProposals_def by (auto elim!: andThen_DoneE)
  have moves: "node_moves V a a1"
    using call by (rule call_session_moves)
      (auto simp: UnsubPayChProposals_def elim!: andThen_DoneE intro: se_step.unsubscribe)
  show thesis
  proof (cases x)
    case (Inl e)
    with rest moves show thesis by (intro refused) (auto simp: reply_def elim!: andThen_DoneE)
  next
    case (Inr u)
    from call [unfolded Inr] obtain s s' where s: "ndSessions (svNode a) i = Some s"
      and f: "andThen (UnsubPayChProposals s) (\<lambda>(err, s1). Done (as_result (True, err), s1)) = Done (Inr u, s')"
      by (rule call_session_Inr)
    from f have "u = True" and "seIsOpen s"
      by (auto simp: UnsubPayChProposals_def elim!: andThen_DoneE dest: UnsubChProposals_open)
    with rest moves s Inr show thesis
      by (intro closed [of a1 s]) (auto simp: reply_def elim!: andThen_DoneE)
  qed
qed

lemma srv_UnsubPayChUpdates_cases:
  assumes "srv_UnsubPayChUpdates i cid a = Done (r, a')"
  obtains (refused) "node_moves V a a'" and "\<exists>m. r = RespError m"
  | (closed) a1 where "node_moves V a a1" and "closeGrpcPayChUpdateSub i cid a1 = Done a'" and "\<exists>u. r = MsgSuccess u"
proof -
  let ?f = "\<lambda>ch. andThen (UnsubPayChUpdates ch) (\<lambda>(err, ch1). Done (as_result (True, err), ch1))"
  from assms obtain x a1 where call: "call_channel i cid ?f a = Done (x, a1)"
    and rest: "(case x of Inl e \<Rightarrow> reply (Inl e) a1
       | Inr u \<Rightarrow> andThen (closeGrpcPayChUpdateSub i cid a1) (reply (Inr u))) = Done (r, a')"
    unfolding srv_UnsubPayChUpdates_def by (auto elim!: andThen_DoneE)
  have moves: "node_moves V a a1"
    using call by (rule call_channel_moves)
      (auto simp: UnsubPayChUpdates_def elim!: andThen_DoneE intro: ch_step.unsubscribe)
  show thesis
  proof (cases x)
    case (Inl e)
    with rest moves show thesis by (intro refused) (auto simp: reply_def elim!: andThen_DoneE)
  next
    case (Inr u)
    with rest moves show thesis
      by (auto simp: reply_def elim!: andThen_DoneE intro: closed)
  qed
qed

text \<open>Opening a session, and the notifiers.\<close>

lemma OpenSession_dom:
  assumes "OpenSession V t w file n = Done ((sid, infos, ae), n')" and "addr_ok (evAddr V)"
  shows "case ae of Some e \<Rightarrow> n' = n
    | None \<Rightarrow> \<exists>s. ndSessions n' = (ndSessions n)(sid \<mapsto> s)"
  using assms(1)
proof (cases rule: OpenSession_cases)
  case (opened cfg sess sess')
  from OpenSession_opened [OF opened(2,3) assms(2)] opened show ?thesis by auto
qed simp

lemma srv_OpenSession_cases:
  assumes "srv_OpenSession V t w file a = Done (r, a')" and "addr_ok (evAddr V)"
  obtains (error) m where "r = RespError m" and "a' = a"
  | (opened) i infos n s where "r = MsgSuccess (i, infos)" and "nd_step V (svNode a) n"
      and "ndSessions n = (ndSessions (svNode a))(i \<mapsto> s)"
      and "a' = a\<lparr>svNode := n, svUpdateSubs := (svUpdateSubs a)(i \<mapsto> Map.empty)\<rparr>"
proof -
  from assms(1) obtain i infos ae n where o: "OpenSession V t w file (svNode a) = Done ((i, infos, ae), n)"
    and rest: "(case ae of Some e \<Rightarrow> reply (Inl e) (a\<lparr>svNode := n\<rparr>)
       | None \<Rightarrow> reply (Inr (i, toGrpcPayChsInfo (toPayChsInfo infos)))
           (a\<lparr>svNode := n, svUpdateSubs := (svUpdateSubs (a\<lparr>svNode := n\<rparr>))(i \<mapsto> Map.empty)\<rparr>)) = Done (r, a')"
    by (auto simp: srv_OpenSession_def pay_OpenSession_def call_node_def elim!: andThen_DoneE)
  note d = OpenSession_dom [OF o assms(2)]
  show thesis
  proof (cases ae)
    case (Some e)
    with rest obtain m where "toGrpcError e = Done m" "r = RespError m" "a' = a\<lparr>svNode := n\<rparr>"
      by (auto simp: reply_def elim!: andThen_DoneE)
    with d Some show thesis by (intro error [of m]) simp_all
  next
    case None
    with d obtain s where "ndSessions n = (ndSessions (svNode a))(i \<mapsto> s)" by auto
    with None rest nd_step.open_session [OF o] show thesis
      by (intro opened) (auto simp: reply_def)
  qed
qed

lemma run_notifier_cases:
  assumes "run_notifier ev a = Done a'"
  obtains (sent) "svNode a' = svNode a" and "svUpdateSubs a' = svUpdateSubs a" and "same_signals a a'"
  | (closed) i cid a1 where "svNode a1 = svNode a" and "svUpdateSubs a1 = svUpdateSubs a" and "same_signals a a1"
      and "closeGrpcPayChUpdateSub i cid a1 = Done a'"
proof (cases ev)
  case (ProposalEvent srv notif)
  with assms show thesis
    by (intro sent) (auto simp: run_notifier_def same_signals_def intro!: sig_at_eqI)
next
  case (UpdateEvent srv i cid notif)
  with assms obtain err where
    res: "(let a1 = a\<lparr>svSent := svSent a @ [(srv, UpdateMsg (pcuUpdateID notif)
                (toGrpcPayChInfo (pcuProposedPayChInfo notif)) (ToGrpcChUpdateType (pcuType notif))
                (pcuExpiry notif) err)]\<rparr>
          in if ChUpdateTypeClosed = pcuType notif then closeGrpcPayChUpdateSub i cid a1
             else Done a1) = Done a'"
    by (auto simp: run_notifier_def elim!: andThen_DoneE)
  show thesis
  proof (cases "ChUpdateTypeClosed = pcuType notif")
    case True
    with res have "closeGrpcPayChUpdateSub i cid (a\<lparr>svSent := svSent a @ [(srv, UpdateMsg (pcuUpdateID notif)
                (toGrpcPayChInfo (pcuProposedPayChInfo notif)) (ToGrpcChUpdateType (pcuType notif))
                (pcuExpiry notif) err)]\<rparr>) = Done a'"
      by (simp only: Let_def simp_thms if_True)
    then show thesis
      by (intro closed) (auto simp: same_signals_def intro!: sig_at_eqI)
  next
    case False
    with res show thesis by (intro sent) (auto simp: Let_def same_signals_def intro!: sig_at_eqI)
  qed
qed

lemma same_signals_then:
  assumes "same_signals a a1" shows "closes_signal k c a1 a' \<Longrightarrow> closes_signal k c a a'"
  using assms by (simp add: signal_defs)

text \<open>
  The effect of a step: steps of the node, and one of the four changes of the signals. The
  signal of a subscription to proposals is closed only while the session is open.
\<close>

definition signal_effect :: "string option \<Rightarrow> ('p, 'w) server \<Rightarrow> ('p, 'w) server \<Rightarrow> bool" where
  "signal_effect l a a' \<longleftrightarrow> same_signals a a' \<or> (\<exists>k. makes_signal k a a')
     \<or> (\<exists>k c. closes_signal k c a a'
          \<and> (\<forall>i. k = Inl i \<longrightarrow> (\<exists>s. ndSessions (svNode a) i = Some s \<and> seIsOpen s)))
     \<or> (\<exists>i. l = Some i \<and> opens_session i a a')"

definition sv_effect :: "('p, 'w, 'd) env \<Rightarrow> string option \<Rightarrow> ('p, 'w) server \<Rightarrow> ('p, 'w) server \<Rightarrow> bool" where
  "sv_effect V l a a' \<longleftrightarrow> (nd_step V)\<^sup>*\<^sup>* (svNode a) (svNode a') \<and> signal_effect l a a'
     \<and> dom (ndSessions (svNode a')) = dom (ndSessions (svNode a)) \<union> set_option l
     \<and> (\<forall>i s s'. l \<noteq> Some i \<longrightarrow> ndSessions (svNode a) i = Some s \<longrightarrow> ndSessions (svNode a') i = Some s' \<longrightarrow> se_steps V s s')
     \<and> dom (svUpdateSubs a') = dom (svUpdateSubs a) \<union> set_option l"

lemma node_moves_effect: "node_moves V a a' \<Longrightarrow> sv_effect V None a a'"
proof -
  assume m: "node_moves V a a'"
  then obtain n where "a' = a\<lparr>svNode := n\<rparr>" "sessions_step V (svNode a) n"
    by (auto simp: node_moves_def)
  with node_moves_signals [OF m] show ?thesis
    by (simp add: sv_effect_def signal_effect_def sessions_step_def)
qed

lemma makes_effect:
  "makes_signal k a a' \<Longrightarrow> svNode a' = svNode a \<Longrightarrow> dom (svUpdateSubs a') = dom (svUpdateSubs a)
     \<Longrightarrow> sv_effect V None a a'"
  by (auto simp: sv_effect_def signal_effect_def)

lemma closes_effect:
  assumes "node_moves V a a1" and "closes_signal k c a1 a'" and "svNode a' = svNode a1"
    and "dom (svUpdateSubs a') = dom (svUpdateSubs a1)"
    and "\<And>i. k = Inl i \<Longrightarrow> \<exists>s. ndSessions (svNode a) i = Some s \<and> seIsOpen s"
  shows "sv_effect V None a a'"
proof -
  have "closes_signal k c a a'"
    using same_signals_then [OF node_moves_signals [OF assms(1)] assms(2)] .
  with assms(5) have "signal_effect None a a'" by (auto simp: signal_effect_def)
  moreover obtain n where "a1 = a\<lparr>svNode := n\<rparr>" "sessions_step V (svNode a) n"
    using assms(1) by (auto simp: node_moves_def)
  ultimately show ?thesis
    using assms(3,4) by (simp add: sv_effect_def sessions_step_def)
qed

lemma sv_step_effect:
  assumes "sv_step V l a a'" and ok: "addr_ok (evAddr V)"
  shows "sv_effect V l a a'"
  using assms(1)
proof cases
  case (session i s s')
  have "node_moves V a a'"
    unfolding session(2) by (rule node_movesI [OF sessions_step_session [OF r_into_rtranclp]]) (rule session(3,4))+
  then show ?thesis unfolding session(1) by (rule node_moves_effect)
next
  case (open_session t w configFile r)
  from open_session(2) ok show ?thesis
  proof (cases rule: srv_OpenSession_cases)
    case (error m)
    with open_session(1) show ?thesis
      by (simp add: node_moves_effect)
  next
    case (opened i infos n s)
    have "opens_session i a a'"
      unfolding opened(4) opens_session_def by (auto intro!: sig_at_eqI)
    with opened open_session(1) show ?thesis
      by (auto simp: sv_effect_def signal_effect_def)
  qed
next
  case (proposals_signal i c)
  with SubPayChProposals_signal_makes [of i a c a'] show ?thesis by (auto intro: makes_effect)
next
  case (updates_signal i cid c)
  with SubPayChUpdates_signal_makes [of i cid a c a'] show ?thesis by (auto intro: makes_effect)
next
  case (unsub_proposals i r)
  from unsub_proposals(2) show ?thesis unfolding unsub_proposals(1)
  proof (cases rule: srv_UnsubPayChProposals_cases [where V = V])
    case (closed a1 s)
    with closeGrpcPayChProposalSub_closes [OF closed(2)] show "sv_effect V None a a'"
      by (auto intro!: closes_effect [OF closed(1)])
  qed (rule node_moves_effect)
next
  case (unsub_updates i cid r)
  from unsub_updates(2) show ?thesis unfolding unsub_updates(1)
  proof (cases rule: srv_UnsubPayChUpdates_cases [where V = V])
    case (closed a1)
    with closeGrpcPayChUpdateSub_closes [OF closed(2)] show "sv_effect V None a a'"
      by (auto intro!: closes_effect [OF closed(1)])
  qed (rule node_moves_effect)
next
  case (notifier ev)
  from notifier(2) show ?thesis unfolding notifier(1)
  proof (cases rule: run_notifier_cases)
    case sent
    then show "sv_effect V None a a'" by (simp add: sv_effect_def signal_effect_def)
  next
    case (closed i cid a1)
    from closeGrpcPayChUpdateSub_closes [OF closed(4)] obtain c where
      c: "closes_signal (Inr (i, cid)) c a1 a'" "svNode a' = svNode a1" "dom (svUpdateSubs a') = dom (svUpdateSubs a1)"
      by blast
    with same_signals_then [OF closed(3) c(1)] closed(1,2) show "sv_effect V None a a'"
      by (auto simp: sv_effect_def signal_effect_def)
  qed
qed (auto intro!: node_moves_effect dest: srv_moves)

subsection \<open>The invariant of the signals\<close>

text \<open>
  The signals of the subscriptions are not closed, no two subscriptions share one, and none
  is closed twice.
\<close>

definition sig_inv :: "('p, 'w) server \<Rightarrow> bool" where
  "sig_inv a \<longleftrightarrow>
     (\<forall>k c. sig_at a k = Some c \<longrightarrow> c < svNextSignal a \<and> c \<notin> set (svClosedSignals a))
   \<and> (\<forall>k k' c. sig_at a k = Some c \<longrightarrow> sig_at a k' = Some c \<longrightarrow> k = k')
   \<and> (\<forall>c \<in> set (svClosedSignals a). c < svNextSignal a) \<and> distinct (svClosedSignals a)"

definition server_inv :: "('p, 'w) server \<Rightarrow> bool" where
  "server_inv a \<longleftrightarrow> sig_inv a \<and> dom (svUpdateSubs a) = dom (ndSessions (svNode a))"

lemma sig_invD:
  assumes "sig_inv a"
  shows "sig_at a k = Some c \<Longrightarrow> c < svNextSignal a" and "sig_at a k = Some c \<Longrightarrow> c \<notin> set (svClosedSignals a)"
    and "sig_at a k = Some c \<Longrightarrow> sig_at a k' = Some c \<Longrightarrow> k = k'"
    and "c \<in> set (svClosedSignals a) \<Longrightarrow> c < svNextSignal a" and "distinct (svClosedSignals a)"
  using assms unfolding sig_inv_def by blast+

lemma sig_inv_makes:
  assumes "makes_signal k a a'" and "sig_inv a"
  shows "sig_inv a'"
  unfolding sig_inv_def
proof (intro conjI allI impI ballI)
  note a' = assms(1) [unfolded makes_signal_def]
  fix k' c assume c: "sig_at a' k' = Some c"
  show "c < svNextSignal a'"
    using c a' sig_invD(1) [OF assms(2), of k' c] by (auto split: if_splits)
  show "c \<notin> set (svClosedSignals a')"
    using c a' sig_invD(2) [OF assms(2), of k' c] sig_invD(4) [OF assms(2), of c] by (auto split: if_splits)
  fix k'' assume "sig_at a' k'' = Some c"
  with c show "k' = k''"
    using a' sig_invD(3) [OF assms(2), of k' c k''] sig_invD(1) [OF assms(2), of k' c]
      sig_invD(1) [OF assms(2), of k'' c] by (auto split: if_splits)
next
  fix c assume "c \<in> set (svClosedSignals a')"
  then show "c < svNextSignal a'"
    using assms(1) sig_invD(4) [OF assms(2), of c] by (auto simp: makes_signal_def)
next
  show "distinct (svClosedSignals a')"
    using assms(1) sig_invD(5) [OF assms(2)] by (simp add: makes_signal_def)
qed

lemma sig_inv_fewer:
  assumes "sig_inv a" and "\<And>k c. sig_at a' k = Some c \<Longrightarrow> sig_at a k = Some c"
    and "svNextSignal a' = svNextSignal a" and "svClosedSignals a' = svClosedSignals a"
  shows "sig_inv a'"
  unfolding sig_inv_def assms(3,4)
  by (intro conjI allI impI ballI) (meson assms(2) sig_invD [OF assms(1)])+

lemma opens_session_fewer:
  "opens_session i a a' \<Longrightarrow> sig_at a' k = Some c \<Longrightarrow> sig_at a k = Some c"
  by (auto simp: opens_session_def split: sum.splits if_splits)

lemma sig_inv_closes:
  assumes "closes_signal k c a a'" and "sig_inv a"
  shows "sig_inv a'"
proof -
  note a' = assms(1) [unfolded closes_signal_def]
  have "c < svNextSignal a" using a' sig_invD(1) [OF assms(2)] by blast
  moreover have "c' \<noteq> c" if "sig_at a' k' = Some c'" for k' c'
    using that a' sig_invD(3) [OF assms(2), of k c k'] by (auto split: if_splits)
  ultimately show ?thesis
    unfolding sig_inv_def using a' sig_invD [OF assms(2)]
    by (auto split: if_splits)
qed

lemma sig_inv_effect:
  assumes "signal_effect l a a'" and "sig_inv a"
  shows "sig_inv a'"
proof -
  from assms(1) consider "same_signals a a'" | k where "makes_signal k a a'" | k c where "closes_signal k c a a'"
    | i where "opens_session i a a'"
    unfolding signal_effect_def by blast
  then show ?thesis
  proof cases
    case 1
    then show ?thesis by (intro sig_inv_fewer [OF assms(2)]) (simp_all add: signal_defs)
  next
    case (4 i)
    then show ?thesis
      by (intro sig_inv_fewer [OF assms(2)]) (erule opens_session_fewer, simp_all add: opens_session_def)
  qed (use sig_inv_makes sig_inv_closes assms(2) in blast)+
qed

abbreviation sv_steps :: "('p, 'w, 'd) env \<Rightarrow> ('p, 'w) server \<Rightarrow> ('p, 'w) server \<Rightarrow> bool" where
  "sv_steps V \<equiv> (\<lambda>a b. \<exists>l. sv_step V l a b)\<^sup>*\<^sup>*"

lemma sv_step_inv:
  assumes "sv_step V l a a'" and "addr_ok (evAddr V)" and "server_inv a"
  shows "server_inv a' \<and> (nd_step V)\<^sup>*\<^sup>* (svNode a) (svNode a')"
proof -
  have eff: "sv_effect V l a a'" using assms(1,2) by (rule sv_step_effect)
  then have "sig_inv a'"
    using assms(3) sig_inv_effect unfolding sv_effect_def server_inv_def by blast
  with eff assms(3) show ?thesis by (simp add: sv_effect_def server_inv_def)
qed

lemma sv_steps_inv:
  assumes "sv_steps V a a'" and "addr_ok (evAddr V)" and "server_inv a"
  shows "server_inv a' \<and> (nd_step V)\<^sup>*\<^sup>* (svNode a) (svNode a')"
  using assms(1)
proof (induction rule: rtranclp_induct)
  case (step b c)
  then show ?case using sv_step_inv [OF _ assms(2)] by (meson rtranclp_trans)
qed (simp add: assms(3))

lemma server_inv_start: "ndSessions n = Map.empty \<Longrightarrow> server_inv (ListenAndServePayChAPI n)"
  by (auto simp: server_inv_def sig_inv_def ListenAndServePayChAPI_def sig_at_def split: sum.splits)

subsection \<open>Requests on a session that is free\<close>

lemma GetSession_free:
  "\<not> ndLocked n \<Longrightarrow> ndSessions n i = Some s \<Longrightarrow> GetSession i n = Done (Inr s, n)"
  by (cases n) (simp add: GetSession_def with_nlock_def)

lemma call_session_free:
  assumes "\<not> ndLocked (svNode a)" and "ndSessions (svNode a) i = Some s"
  shows "call_session i f a =
    andThen (f (ndContracts (svNode a)) (ndCurrencies (svNode a)) s) (\<lambda>(r, s').
      Done (r, a\<lparr>svNode := (svNode a)\<lparr>ndSessions := (ndSessions (svNode a))(i \<mapsto> s')\<rparr>\<rparr>))"
  using assms
  by (cases "f (ndContracts (svNode a)) (ndCurrencies (svNode a)) s")
     (auto simp: call_session_def call_node_def GetSession_free on_session_def deref_def)

lemma UnsubChProposals_free:
  "\<not> seLocked s \<Longrightarrow> UnsubChProposals s = Done (
     if \<not> seIsOpen s then (Some (NewAPIErrFailedPreCondition ErrSessionClosed), s)
     else if seNotifier s = None then (Some (NewAPIErrResourceNotFound ResTypeProposalSub (seID s)), s)
     else (None, s\<lparr>seNotifier := None\<rparr>))"
  by (cases s) (simp add: UnsubChProposals_def with_slock_def)

lemma put_session_same:
  "ndSessions (svNode a) i = Some s \<Longrightarrow>
     a\<lparr>svNode := (svNode a)\<lparr>ndSessions := (ndSessions (svNode a))(i \<mapsto> s)\<rparr>\<rparr> = a"
  by (cases a; cases "svNode a") (simp add: map_upd_triv)

lemma srv_UnsubPayChProposals_free:
  assumes "\<not> ndLocked (svNode a)" and "ndSessions (svNode a) i = Some s" and "\<not> seLocked s"
  shows "srv_UnsubPayChProposals i a =
     (if \<not> seIsOpen s then reply (Inl (NewAPIErrFailedPreCondition ErrSessionClosed)) a
      else if seNotifier s = None then reply (Inl (NewAPIErrResourceNotFound ResTypeProposalSub (seID s))) a
      else andThen (closeGrpcPayChProposalSub i (a\<lparr>svNode := (svNode a)\<lparr>ndSessions :=
             (ndSessions (svNode a))(i \<mapsto> s\<lparr>seNotifier := None\<rparr>)\<rparr>\<rparr>)) (reply (Inr True)))"
  by (simp add: srv_UnsubPayChProposals_def call_session_free [OF assms(1,2)] UnsubPayChProposals_def
      UnsubChProposals_free [OF assms(3)] as_result_def put_session_same [OF assms(2)])

lemma toGrpcError_simple:
  "aeAddInfo e = NoInfo \<or> (\<exists>t i. aeAddInfo e = ErrInfoResourceNotFound t i) \<Longrightarrow>
     \<exists>m. toGrpcError e = Done m \<and> meCode m = code_num (aeCode e)"
  using toGrpcError_returns [of e] toGrpcError_kept [of e] by fastforce

lemma closeGrpcPayChProposalSub_open:
  assumes "sig_inv a"
  shows "closeGrpcPayChProposalSub i a = (case svProposalSubs a i of
      None \<Rightarrow> Panic CloseOfNilChannel
    | Some c \<Rightarrow> Done (a\<lparr>svProposalSubs := (svProposalSubs a)(i := None), svClosedSignals := svClosedSignals a @ [c]\<rparr>))"
  using sig_invD(2) [OF assms, of "Inl i"]
  by (auto simp: closeGrpcPayChProposalSub_def close_signal_def split: option.splits)

lemma sig_inv_node [simp]: "sig_inv (a\<lparr>svNode := n\<rparr>) = sig_inv a"
proof -
  have "sig_at (a\<lparr>svNode := n\<rparr>) = sig_at a" by (rule sig_at_eqI) simp_all
  then show ?thesis by (simp add: sig_inv_def)
qed

lemma SubChProposals_subscribed:
  assumes "SubChProposals f s = Done (None, s')"
  shows "\<not> seLocked s \<and> seIsOpen s \<and> \<not> seLocked s' \<and> seIsOpen s' \<and> seNotifier s' = Some f"
  using assms by (auto simp: SubChProposals_def run_simps split: if_splits)

text \<open>The two halves of a subscription, on a session that is free.\<close>

lemma SubPayChProposals_subscribe_Done:
  assumes "\<not> ndLocked (svNode a)" and "ndSessions (svNode a) i = Some s"
    and "SubPayChProposals_subscribe i srv a = Done (Inr u, a1)"
  obtains s' f where "a1 = a\<lparr>svNode := (svNode a)\<lparr>ndSessions := (ndSessions (svNode a))(i \<mapsto> s')\<rparr>\<rparr>"
    and "\<not> seLocked s'" and "seIsOpen s'" and "seNotifier s' = Some f"
proof -
  from assms(3) obtain err s' where sub: "SubPayChProposals (ProposalEvent srv) s = Done (err, s')"
    and err: "as_result ((), err) = Inr u"
    and a1: "a1 = a\<lparr>svNode := (svNode a)\<lparr>ndSessions := (ndSessions (svNode a))(i \<mapsto> s')\<rparr>\<rparr>"
    by (auto simp: SubPayChProposals_subscribe_def call_session_free [OF assms(1,2)] elim!: andThen_DoneE
        split: sum.splits)
  with SubChProposals_subscribed [of "\<lambda>notif. ProposalEvent srv (toPayChProposalNotif notif)" s s'] show thesis
    by (intro that [OF a1]) (simp_all add: SubPayChProposals_def)
qed

end
