(* ===== verification/Grpc_Streams.thy ===== *)
theory Grpc_Streams
  imports Grpc_Safety
begin

text \<open>
  The properties of the gRPC server: the states it reaches, the life of a subscription and the
  replies to requests, with a small server on which they are applied.
\<close>

subsection \<open>Reachable states\<close>

text \<open>
  C12: in every state the server can reach, whatever the order in which its handlers, the
  halves of its subscription handlers, its notifiers and the steps of the sessions run: the
  node is in a state it reaches by itself; the sessions that have a map of subscriptions to
  updates are those of the node, so that the second half of a subscription never writes to a
  nil map; a signal in use is open and belongs to one subscription; and no signal is ever
  closed twice.
\<close>

theorem reachable_server_inv:
  assumes "node_New V cfg = Done (Inr n0)" and "sv_steps V (ListenAndServePayChAPI n0) a"
    and "addr_ok (evAddr V)"
  shows "(nd_step V)\<^sup>*\<^sup>* n0 (svNode a)
    \<and> (\<forall>i. svUpdateSubs a i = None \<longleftrightarrow> ndSessions (svNode a) i = None)
    \<and> (\<forall>i cid. ndSessions (svNode a) i \<noteq> None \<longrightarrow> returns (SubPayChUpdates_signal i cid a))
    \<and> (\<forall>k c. sig_at a k = Some c \<longrightarrow> c \<notin> set (svClosedSignals a) \<and> (\<forall>k'. sig_at a k' = Some c \<longrightarrow> k' = k))
    \<and> (\<forall>i. closeGrpcPayChProposalSub i a \<noteq> Panic CloseOfClosedChannel)
    \<and> (\<forall>i cid. closeGrpcPayChUpdateSub i cid a \<noteq> Panic CloseOfClosedChannel)
    \<and> distinct (svClosedSignals a)"
proof -
  have empty: "ndSessions n0 = Map.empty" and n0: "svNode (ListenAndServePayChAPI n0) = n0"
    using node_New_ok [of V cfg, where 'c = server_event] assms(1) by (auto simp: ListenAndServePayChAPI_def)
  have inv: "server_inv a" and nd: "(nd_step V)\<^sup>*\<^sup>* n0 (svNode a)"
    using sv_steps_inv [OF assms(2,3) server_inv_start [OF empty]] by (simp_all add: n0)
  then have sig: "sig_inv a" and dom: "dom (svUpdateSubs a) = dom (ndSessions (svNode a))"
    by (simp_all add: server_inv_def)
  have none: "svUpdateSubs a i = None \<longleftrightarrow> ndSessions (svNode a) i = None" for i
    using dom by (metis domIff)
  then have "returns (SubPayChUpdates_signal i cid a)" if "ndSessions (svNode a) i \<noteq> None" for i cid
    using that by (auto simp: SubPayChUpdates_signal_def make_signal_def split: option.splits)
  moreover have "closeGrpcPayChUpdateSub i cid a \<noteq> Panic CloseOfClosedChannel" for i cid
    using sig_invD(2) [OF sig, of "Inr (i, cid)"]
    by (auto simp: closeGrpcPayChUpdateSub_def close_signal_def split: option.splits)
  moreover have "closeGrpcPayChProposalSub i a \<noteq> Panic CloseOfClosedChannel" for i
    using closeGrpcPayChProposalSub_open [OF sig] by (simp split: option.splits)
  ultimately show ?thesis
    using nd none sig_invD(2,3,5) [OF sig] by blast
qed

definition sim_srv_node :: "(pstate, sim_world, server_event) node" where
  "sim_srv_node = \<lparr>ndCfg = sim_node_config, ndSessions = Map.empty, ndContracts = sim_CR,
     ndCurrencies = put_currency ETHSymbol (as_Currency dec_lib (new_currency dec_lib ETHSymbol ETHMaxDecimals)) NewRegistry,
     ndLocked = False\<rparr>"

lemma sim_srv_node_New: "node_New sim_env sim_node_config = Done (Inr sim_srv_node)"
  by (simp add: node_New_def sim_env_def sim_node_config_def NewROChainBackend_def sim_sdk_def
      initContractRegistry_def ParseAddr_String [OF hex_addr_lib_ok] NewContractRegistry_def
      ValidateAdjudicator_def ValidateAssetETH_def sample_eth_def Register_def isRegistered_def NewRegistry_def
      Let_def sim_srv_node_def sim_CR_def)

lemma sim_env_addr_ok: "addr_ok (evAddr sim_env)"
  by (simp add: sim_env_def hex_addr_lib_ok)

theorem reachable_server_inv_witness:
  "svProposalSubs (snd (SubPayChProposals_signal ''s'' (ListenAndServePayChAPI sim_srv_node))) ''s'' = Some 0
   \<and> distinct (svClosedSignals (snd (SubPayChProposals_signal ''s'' (ListenAndServePayChAPI sim_srv_node))))"
proof -
  let ?a = "snd (SubPayChProposals_signal ''s'' (ListenAndServePayChAPI sim_srv_node))"
  have "sv_step sim_env None (ListenAndServePayChAPI sim_srv_node) ?a"
    by (rule sv_step.proposals_signal [OF surjective_pairing])
  then have "sv_steps sim_env (ListenAndServePayChAPI sim_srv_node) ?a" by blast
  from reachable_server_inv [OF sim_srv_node_New this sim_env_addr_ok] show ?thesis
    by (simp add: SubPayChProposals_signal_def make_signal_def ListenAndServePayChAPI_def)
qed

subsection \<open>The life of a subscription\<close>

definition sim_srv_session :: "bool \<Rightarrow> (pstate, sim_world, server_event) session" where
  "sim_srv_session opn = (new_session ''s'' sim_config
     \<lparr>usPeerID = sim_peer OwnAlias 5, usOnChain = sim_cred 4, usOffChain = sim_cred 5\<rparr>
     \<lparr>clDbConn = Some 1, clRestoring = False\<rparr> sim_ids \<lparr>swRejected = 0, swDialer = [], swFunder = [2]\<rparr>)
     \<lparr>seIsOpen := opn\<rparr>"

text \<open>A server with one session, and a stream that waits for its signal when the session is closed.\<close>

definition sim_server :: "bool \<Rightarrow> (pstate, sim_world) server" where
  "sim_server opn = \<lparr>svNode = sim_srv_node\<lparr>ndSessions := [''s'' \<mapsto> sim_srv_session opn]\<rparr>,
     svProposalSubs = (if opn then Map.empty else [''s'' \<mapsto> 0]), svUpdateSubs = [''s'' \<mapsto> Map.empty],
     svNextSignal = 1, svClosedSignals = [], svSent = []\<rparr>"

lemma sim_server_sel [simp]:
  "\<not> ndLocked (svNode (sim_server opn))"
  "ndSessions (svNode (sim_server opn)) = [''s'' \<mapsto> sim_srv_session opn]"
  "svProposalSubs (sim_server opn) = (if opn then Map.empty else [''s'' \<mapsto> 0])"
  "svUpdateSubs (sim_server opn) = [''s'' \<mapsto> Map.empty]"
  "svNextSignal (sim_server opn) = 1"
  "svClosedSignals (sim_server opn) = []"
  by (simp_all add: sim_server_def sim_srv_node_def)

lemma sim_srv_session_sel [simp]:
  "seIsOpen (sim_srv_session opn) = opn" "\<not> seLocked (sim_srv_session opn)"
  "seNotifier (sim_srv_session opn) = None" "seNotifsCache (sim_srv_session opn) = []"
  "seOut (sim_srv_session opn) = []"
  by (simp_all add: sim_srv_session_def new_session_def)

lemma sim_server_inv: "server_inv (sim_server opn)"
  by (auto simp: server_inv_def sig_inv_def sig_at_def split: sum.splits if_splits option.splits)

text \<open>
  what a request to end the stream of proposals does, in every state in which the locks it
  needs are free: it is refused, and changes nothing, for a closed session and for one without
  a subscription; otherwise it ends the stream whose signal is registered for the session and
  no other stream, and removes the subscription; but without a registered signal it panics.
\<close>

theorem srv_UnsubPayChProposals_spec:
  assumes "\<not> ndLocked (svNode a)" and "ndSessions (svNode a) i = Some s" and "\<not> seLocked s" and "server_inv a"
  shows "if \<not> seIsOpen s then
      \<exists>m. srv_UnsubPayChProposals i a = Done (RespError m, a) \<and> meCode m = code_num ErrFailedPreCondition
    else if seNotifier s = None then
      \<exists>m. srv_UnsubPayChProposals i a = Done (RespError m, a) \<and> meCode m = code_num ErrResourceNotFound
    else case svProposalSubs a i of
      None \<Rightarrow> srv_UnsubPayChProposals i a = Panic CloseOfNilChannel
    | Some c \<Rightarrow> \<exists>a'. srv_UnsubPayChProposals i a = Done (MsgSuccess True, a')
        \<and> svClosedSignals a' = svClosedSignals a @ [c] \<and> c \<notin> set (svClosedSignals a)
        \<and> svProposalSubs a' = (svProposalSubs a)(i := None) \<and> svUpdateSubs a' = svUpdateSubs a
        \<and> ndSessions (svNode a') = (ndSessions (svNode a))(i \<mapsto> s\<lparr>seNotifier := None\<rparr>)"
proof -
  have sig: "sig_inv a" using assms(4) by (simp add: server_inv_def)
  note run = srv_UnsubPayChProposals_free [OF assms(1-3)]
  show ?thesis
  proof (cases "seIsOpen s \<and> seNotifier s \<noteq> None")
    case True
    have "c \<notin> set (svClosedSignals a)" if "svProposalSubs a i = Some c" for c
      using sig_invD(2) [OF sig, of "Inl i" c] that by simp
    moreover from True obtain f where "seIsOpen s" "seNotifier s = Some f" by blast
    ultimately show ?thesis
      using sig by (simp add: run closeGrpcPayChProposalSub_open reply_def split: option.splits)
  next
    case False
    have "aeAddInfo (NewAPIErrFailedPreCondition ErrSessionClosed) = NoInfo"
      by (simp add: NewAPIErrFailedPreCondition_def newAPIErrFailedPreCondition_def)
    moreover have "\<exists>t x. aeAddInfo (NewAPIErrResourceNotFound ResTypeProposalSub (seID s)) = ErrInfoResourceNotFound t x"
      by (simp add: NewAPIErrResourceNotFound_def Let_def)
    ultimately obtain m m' where
      "toGrpcError (NewAPIErrFailedPreCondition ErrSessionClosed) = Done m" "meCode m = code_num ErrFailedPreCondition"
      "toGrpcError (NewAPIErrResourceNotFound ResTypeProposalSub (seID s)) = Done m'" "meCode m' = code_num ErrResourceNotFound"
      using toGrpcError_simple [of "NewAPIErrFailedPreCondition ErrSessionClosed"]
        toGrpcError_simple [of "NewAPIErrResourceNotFound ResTypeProposalSub (seID s)"] by auto
    with False show ?thesis by (cases "seIsOpen s") (simp_all add: run reply_def)
  qed
qed

theorem srv_UnsubPayChProposals_spec_witness:
  "\<exists>m. srv_UnsubPayChProposals ''s'' (sim_server True) = Done (RespError m, sim_server True)
     \<and> meCode m = code_num ErrResourceNotFound"
  using srv_UnsubPayChProposals_spec [of "sim_server True" "''s''" "sim_srv_session True", OF _ _ _ sim_server_inv]
  by simp

text \<open>
  C20: the two halves of a subscription to proposals and the request that ends it. Once the
  handler has subscribed and registered its signal, the request succeeds and ends the stream
  of this handler. If the request comes between the two halves, before any signal was
  registered for the session, the server panics.
\<close>

theorem SubPayChProposals_then_Unsub:
  assumes "\<not> ndLocked (svNode a)" and "ndSessions (svNode a) i = Some s" and "server_inv a"
    and "SubPayChProposals_subscribe i srv a = Done (Inr u, a1)"
  shows "(case SubPayChProposals_signal i a1 of (c, a2) \<Rightarrow>
      \<exists>a3. srv_UnsubPayChProposals i a2 = Done (MsgSuccess True, a3)
        \<and> svClosedSignals a3 = svClosedSignals a @ [c] \<and> c \<notin> set (svClosedSignals a)
        \<and> (\<forall>k. sig_at a k \<noteq> Some c))
    \<and> (svProposalSubs a i = None \<longrightarrow> srv_UnsubPayChProposals i a1 = Panic CloseOfNilChannel)"
proof -
  from assms(1,2,4) obtain s' f where
    a1: "a1 = a\<lparr>svNode := (svNode a)\<lparr>ndSessions := (ndSessions (svNode a))(i \<mapsto> s')\<rparr>\<rparr>"
    and s': "\<not> seLocked s'" "seIsOpen s'" "seNotifier s' = Some f"
    by (rule SubPayChProposals_subscribe_Done)
  have sig: "sig_inv a" using assms(3) by (simp add: server_inv_def)
  let ?c = "svNextSignal a"
  have fresh: "?c \<notin> set (svClosedSignals a)" "sig_at a k \<noteq> Some ?c" for k
    using sig_invD(4) [OF sig, of ?c] sig_invD(1) [OF sig, of k ?c] by auto
  have "srv_UnsubPayChProposals i a1 = Panic CloseOfNilChannel" if "svProposalSubs a i = None"
  proof -
    have "srv_UnsubPayChProposals i a1 = andThen (closeGrpcPayChProposalSub i (a1\<lparr>svNode := (svNode a1)\<lparr>ndSessions :=
             (ndSessions (svNode a1))(i \<mapsto> s'\<lparr>seNotifier := None\<rparr>)\<rparr>\<rparr>)) (reply (Inr True))"
      using assms(1) s' by (subst srv_UnsubPayChProposals_free [where s = s']) (simp_all add: a1)
    with that sig show ?thesis by (simp add: a1 closeGrpcPayChProposalSub_open)
  qed
  moreover obtain a2 where a2: "SubPayChProposals_signal i a1 = (?c, a2)"
    and props: "svNode a2 = svNode a1" "svProposalSubs a2 i = Some ?c" "svClosedSignals a2 = svClosedSignals a"
    by (auto simp: SubPayChProposals_signal_def make_signal_def a1)
  moreover have "\<exists>a3. srv_UnsubPayChProposals i a2 = Done (MsgSuccess True, a3)
        \<and> svClosedSignals a3 = svClosedSignals a @ [?c]"
  proof -
    have "srv_UnsubPayChProposals i a2 = andThen (closeGrpcPayChProposalSub i (a2\<lparr>svNode := (svNode a2)\<lparr>ndSessions :=
             (ndSessions (svNode a2))(i \<mapsto> s'\<lparr>seNotifier := None\<rparr>)\<rparr>\<rparr>)) (reply (Inr True))"
      using assms(1) s' props(1) by (subst srv_UnsubPayChProposals_free [where s = s']) (simp_all add: a1)
    with props fresh(1) show ?thesis by (simp add: closeGrpcPayChProposalSub_def close_signal_def reply_def)
  qed
  ultimately show ?thesis using fresh by auto
qed

theorem SubPayChProposals_then_Unsub_witness:
  "\<exists>a1. SubPayChProposals_subscribe ''s'' 4 (sim_server True) = Done (Inr (), a1)
     \<and> srv_UnsubPayChProposals ''s'' a1 = Panic CloseOfNilChannel"
proof -
  have "\<exists>a1. SubPayChProposals_subscribe ''s'' 4 (sim_server True) = Done (Inr (), a1)"
    by (simp add: SubPayChProposals_subscribe_def call_session_free SubPayChProposals_def SubChProposals_def
        with_slock_def as_result_def)
  then obtain a1 where a1: "SubPayChProposals_subscribe ''s'' 4 (sim_server True) = Done (Inr (), a1)" by blast
  from SubPayChProposals_then_Unsub [OF _ _ sim_server_inv a1, of "sim_srv_session True"] a1 show ?thesis by auto
qed

text \<open>
  C26: the stream of proposals of a session that was closed never ends: its signal stays open
  whatever steps follow, as long as no session is opened under the same ID. Closing a session
  does not end the stream, and afterwards every request to end it is refused.
\<close>

theorem stream_of_closed_session_stays:
  fixes a a' :: "('p, 'w) server"
  assumes "server_inv a" and "addr_ok (evAddr V)" and "ndSessions (svNode a) i = Some s"
    and "\<not> seIsOpen s" and "svProposalSubs a i = Some c"
    and "(\<lambda>x y. \<exists>l. l \<noteq> Some i \<and> sv_step V l x y)\<^sup>*\<^sup>* a a'"
  shows "c \<notin> set (svClosedSignals a') \<and> (\<exists>s'. ndSessions (svNode a') i = Some s' \<and> \<not> seIsOpen s')"
proof -
  define J where "J x \<longleftrightarrow> sig_inv x \<and> c < svNextSignal x \<and> c \<notin> set (svClosedSignals x)
     \<and> (\<forall>k. sig_at x k = Some c \<longrightarrow> k = Inl i)
     \<and> (\<exists>s'. ndSessions (svNode x) i = Some s' \<and> \<not> seIsOpen s')" for x :: "('p, 'w) server"
  have sig: "sig_inv a" using assms(1) by (simp add: server_inv_def)
  have J: "J a"
    using sig_invD(1,2) [OF sig, of "Inl i" c] sig_invD(3) [OF sig, of "Inl i" c] assms(3-5) sig by (auto simp: J_def)
  have "J y" if Jx: "J x" and st: "sv_step V l x y" and l: "l \<noteq> Some i" for x y :: "('p, 'w) server" and l
  proof -
    have eff: "sv_effect V l x y" by (rule sv_step_effect [OF st assms(2)])
    from Jx obtain t where t: "ndSessions (svNode x) i = Some t" "\<not> seIsOpen t" by (auto simp: J_def)
    from eff have "dom (ndSessions (svNode y)) = dom (ndSessions (svNode x)) \<union> set_option l"
      by (simp only: sv_effect_def)
    with t(1) have "i \<in> dom (ndSessions (svNode y))" by (simp add: domI)
    then obtain t' where t': "ndSessions (svNode y) i = Some t'" by blast
    from eff have "\<And>s s'. ndSessions (svNode x) i = Some s \<Longrightarrow> ndSessions (svNode y) i = Some s' \<Longrightarrow> se_steps V s s'"
      using l by (simp only: sv_effect_def)
    with t(1) t' have "se_steps V t t'" by blast
    then have "se_evolves (evAddr V) t t'" by (rule se_steps_evolve)
    with t(2) have "\<not> seIsOpen t'" by (auto simp: se_evolves_def)
    moreover from eff have sigs: "signal_effect l x y" by (simp add: sv_effect_def)
    then have "sig_inv y" using Jx sig_inv_effect by (auto simp: J_def)
    moreover have "c < svNextSignal y \<and> c \<notin> set (svClosedSignals y) \<and> (\<forall>k. sig_at y k = Some c \<longrightarrow> k = Inl i)"
    proof -
      from sigs t consider "same_signals x y" | k where "makes_signal k x y"
        | k d where "closes_signal k d x y" "k \<noteq> Inl i" | j where "opens_session j x y"
        unfolding signal_effect_def by force
      then show ?thesis
      proof cases
        case (4 j)
        from Jx have "k = Inl i" if "sig_at y k = Some c" for k
          using opens_session_fewer [OF 4 that] by (simp add: J_def)
        with 4 Jx show ?thesis by (simp add: J_def opens_session_def)
      qed (use Jx in \<open>auto simp: J_def signal_defs split: if_splits\<close>)
    qed
    ultimately show ?thesis using t' by (simp add: J_def)
  qed
  with assms(6) J have "J a'"
    by (induction rule: rtranclp_induct) blast+
  then show ?thesis by (simp add: J_def)
qed

theorem stream_of_closed_session_stays_witness:
  "0 \<notin> set (svClosedSignals (snd (SubPayChProposals_signal ''t'' (sim_server False))))"
proof -
  have "sv_step sim_env None (sim_server False) (snd (SubPayChProposals_signal ''t'' (sim_server False)))"
    by (rule sv_step.proposals_signal [OF surjective_pairing])
  then have "(\<lambda>x y. \<exists>l. l \<noteq> Some ''s'' \<and> sv_step sim_env l x y)\<^sup>*\<^sup>* (sim_server False)
      (snd (SubPayChProposals_signal ''t'' (sim_server False)))" by (intro r_into_rtranclp) blast
  from stream_of_closed_session_stays [where s = "sim_srv_session False" and c = 0, OF sim_server_inv sim_env_addr_ok _ _ _ this]
  show ?thesis by simp
qed

subsection \<open>Replies\<close>

text \<open>
  C25: the reply to a request to register a currency. A success is reported with the symbol;
  an error reaches the client with its code and leaves the server as it was; but when the
  contract at the address of the asset, or at that of the token, is found to be invalid, the
  error is the one whose conversion panics, so that the request takes the node down.
\<close>

theorem srv_RegisterCurrency_spec:
  assumes "RegisterCurrency V tok ast (svNode a) = Done ((sy, ae), n)"
    and "registries_ok (ndContracts (svNode a)) (ndCurrencies (svNode a))"
  shows "case ae of
      None \<Rightarrow> srv_RegisterCurrency V tok ast a = Done (MsgSuccess sy, a\<lparr>svNode := n\<rparr>)
    | Some e \<Rightarrow> if aeCode e = ErrInvalidContracts then srv_RegisterCurrency V tok ast a = Panic NilDereference
        else \<exists>m. srv_RegisterCurrency V tok ast a = Done (RespError m, a)
          \<and> meCode m = code_num (aeCode e) \<and> meMessage m = Message e"
proof -
  have run: "srv_RegisterCurrency V tok ast a = reply (as_result (sy, ae)) (a\<lparr>svNode := n\<rparr>)"
    by (simp add: srv_RegisterCurrency_def call_node_def assms(1))
  show ?thesis
  proof (cases ae)
    case (Some e)
    have same: "n = svNode a" and ok: "api_ok e"
      and list: "aeCode e = ErrInvalidContracts \<Longrightarrow> \<exists>c cs. aeAddInfo e = ErrInfoInvalidContracts (c # cs)"
      using assms Some by (cases rule: RegisterCurrency_cases; auto split: option.splits prod.splits
        simp: NewAPIErrInvalidContracts_def Let_def)+
    show ?thesis
    proof (cases "aeCode e = ErrInvalidContracts")
      case True
      with list obtain c cs where "aeAddInfo e = ErrInfoInvalidContracts (c # cs)" by blast
      from toGrpcError_panic [OF this] True Some show ?thesis
        by (simp add: run as_result_def reply_def)
    next
      case False
      with ok have "aeAddInfo e \<noteq> ErrInfoInvalidContracts (c # cs)" for c cs
        by (auto simp: api_ok_def info_fits_def)
      then obtain m where "toGrpcError e = Done m" using toGrpcError_returns by blast
      with toGrpcError_kept [OF this] False Some same show ?thesis
        by (simp add: run as_result_def reply_def)
    qed
  qed (simp add: run as_result_def reply_def)
qed

text \<open>A chain on which the asset contract is not the expected one.\<close>

definition bad_env :: "(pstate, sim_world, int \<times> nat) env" where
  "bad_env = sim_env\<lparr>evEth := sample_eth\<lparr>elValidateAssetHolderERC20 := (\<lambda>a b c. Some (ENew ''code'')),
     elIsErrInvalidContractCode := (\<lambda>e. True)\<rparr>\<rparr>"

theorem srv_RegisterCurrency_spec_witness:
  "srv_RegisterCurrency bad_env (alString hex_addr_lib 7) (alString hex_addr_lib 8) (ListenAndServePayChAPI sim_srv_node)
     = Panic NilDereference"
proof -
  let ?a = "ListenAndServePayChAPI sim_srv_node :: (pstate, sim_world) server"
  have ok: "registries_ok (ndContracts (svNode ?a)) (ndCurrencies (svNode ?a))"
    using node_New_ok [of sim_env sim_node_config hex_addr_lib, where 'c = server_event] sim_srv_node_New
    by (auto simp: node_inv_def ListenAndServePayChAPI_def)
  have "\<exists>e n. RegisterCurrency bad_env (alString hex_addr_lib 7) (alString hex_addr_lib 8) (svNode ?a)
      = Done (([], Some e), n) \<and> aeCode e = ErrInvalidContracts"
    by (simp add: RegisterCurrency_def with_nlock_def ListenAndServePayChAPI_def sim_srv_node_def bad_env_def sim_env_def
        ParseAddr_String [OF hex_addr_lib_ok] RegisterAssetERC20_def sim_CR_def isAssetRegistered_def sample_eth_def
        ValidateAssetERC20_def ERC20Info_def NewInvalidContractError_def Let_def)
  then obtain e n where e: "RegisterCurrency bad_env (alString hex_addr_lib 7) (alString hex_addr_lib 8) (svNode ?a)
      = Done (([], Some e), n)" "aeCode e = ErrInvalidContracts" by blast
  from srv_RegisterCurrency_spec [OF e(1) ok] e(2) show ?thesis by simp
qed

end
