(* ===== verification/Grpc_Errors.thy ===== *)
theory Grpc_Errors
  imports Grpc_Streams
begin

text \<open>
  The errors of the requests are well formed: every error that an operation of the node, a
  session or a channel returns has the category and the kind of additional info that belong to
  its code, and so has the message that reaches the client.
\<close>

subsection \<open>What holds of every result\<close>

definition always :: "'a run \<Rightarrow> ('a \<Rightarrow> bool) \<Rightarrow> bool" where
  "always m Q \<longleftrightarrow> (\<forall>x. m = Done x \<longrightarrow> Q x)"

lemma always_simps [simp]: "always (Done x) Q \<longleftrightarrow> Q x" "always (Panic p) Q" "always Blocked Q"
  by (auto simp: always_def)

lemma always_bind: "always m P \<Longrightarrow> (\<And>x. P x \<Longrightarrow> always (f x) Q) \<Longrightarrow> always (andThen m f) Q"
  by (auto simp: always_def run_simps)

lemma always_any: "(\<And>x. always (f x) Q) \<Longrightarrow> always (andThen m f) Q"
  by (auto simp: always_def run_simps)

lemma alwaysD: "always m Q \<Longrightarrow> m = Done x \<Longrightarrow> Q x"
  by (simp add: always_def)

definition opt_ok :: "api_err option \<Rightarrow> bool" where
  "opt_ok ae \<longleftrightarrow> (\<forall>e. ae = Some e \<longrightarrow> api_ok e)"

definition sum_ok :: "api_err + 'a \<Rightarrow> bool" where
  "sum_ok r \<longleftrightarrow> (\<forall>e. r = Inl e \<longrightarrow> api_ok e)"

lemma opt_ok_simps [simp]: "opt_ok None" "opt_ok (Some e) \<longleftrightarrow> api_ok e"
  by (auto simp: opt_ok_def)

lemma opt_ok_map [simp]: "(\<And>e. api_ok (f e)) \<Longrightarrow> opt_ok (map_option f x)"
  by (cases x) simp_all

lemma sum_ok_simps [simp]: "sum_ok (Inr x)" "sum_ok (Inl e) \<longleftrightarrow> api_ok e"
  by (auto simp: sum_ok_def)

text \<open>The three forms of a result with a new state: an error, a value and an error, either of them.\<close>

abbreviation errO :: "(api_err option \<times> 's) run \<Rightarrow> bool" where
  "errO m \<equiv> always m (\<lambda>(ae, s). opt_ok ae)"

abbreviation errV :: "(('a \<times> api_err option) \<times> 's) run \<Rightarrow> bool" where
  "errV m \<equiv> always m (\<lambda>((x, ae), s). opt_ok ae)"

abbreviation errS :: "((api_err + 'a) \<times> 's) run \<Rightarrow> bool" where
  "errS m \<equiv> always m (\<lambda>(r, s). sum_ok r)"

named_theorems err_ok \<open>operations of which all errors are well formed\<close>

lemma always_locks [err_ok]:
  "(\<And>c. errO (fo c)) \<Longrightarrow> errO (with_lock ch fo)" "(\<And>c. errV (fv c)) \<Longrightarrow> errV (with_lock ch fv)"
  "(\<And>c. errO (go c)) \<Longrightarrow> errO (with_slock s go)" "(\<And>c. errV (gv c)) \<Longrightarrow> errV (with_slock s gv)"
  "(\<And>c. errS (gs c)) \<Longrightarrow> errS (with_slock s gs)" "(\<And>c. errS (hs c)) \<Longrightarrow> errS (with_nlock n hs)"
  "(\<And>c. errV (hv c)) \<Longrightarrow> errV (with_nlock n hv)"
  by (auto simp: with_lock_def with_slock_def with_nlock_def always_def run_simps)

subsection \<open>Channels\<close>

lemma handled [simp]:
  "api_ok (case handleChainError u t e of Some ae \<Rightarrow> ae | None \<Rightarrow> NewAPIErrUnknownInternal e)"
  "api_ok (case handleProposalError al t e of Some ae \<Rightarrow> ae | None \<Rightarrow> NewAPIErrUnknownInternal e)"
  by (auto split: option.split dest: api_ok_handlers)

lemma err_channel_parts [simp]:
  "opt_ok (fst (acceptChUpdate P entry ch))" "opt_ok (fst (rejectChUpdate P entry reason ch))"
  "opt_ok (fst (ch_register P ch))" "opt_ok (fst (answerUpdate P now entry accept ch))"
  by (auto simp: acceptChUpdate_def rejectChUpdate_def ch_register_def handleChRegisterError_def answerUpdate_def
      Let_def split: prod.splits if_splits)

lemma err_with_info: "opt_ok ae \<Longrightarrow> errV (with_info P ae ch)"
  by (auto simp: with_info_def intro: always_any)

lemma err_handleSendChUpdateError: "always (handleSendChUpdateError P ch e) api_ok"
  unfolding handleSendChUpdateError_def by (rule always_any) simp

lemma err_channel [err_ok]:
  "errV (SendChUpdate P upd ch)" "errV (RespondChUpdate P now uid accept ch)" "errV (ch_Close P ch)"
  "errO (SubChUpdates f ch)" "errO (UnsubChUpdates ch)"
  unfolding SendChUpdate_def RespondChUpdate_def ch_Close_def SubChUpdates_def UnsubChUpdates_def
  by (auto simp: Let_def split: option.splits prod.splits
      intro!: always_locks err_with_info always_any always_bind [OF err_handleSendChUpdateError];
      metis err_channel_parts fst_conv)+

subsection \<open>Payments on a channel\<close>

lemma err_make_updates: "always (make_updates ch pays) sum_ok"
proof (induction ch pays rule: make_updates.induct)
  case (2 ch pay pays)
  then show ?case
    by (auto split: option.splits sum.splits prod.splits intro!: always_any [where m = "ch_Currency a b" for a b]
        always_bind [where m = "make_updates a b" and P = sum_ok for a b])
qed simp

lemma err_payments [err_ok]:
  "errV (SendPayChUpdate P pays ch)" "errV (RespondPayChUpdate P now uid accept ch)" "errV (ClosePayCh P ch)"
  "errO (SubPayChUpdates g ch)" "errO (UnsubPayChUpdates ch)"
  unfolding SendPayChUpdate_def RespondPayChUpdate_def ClosePayCh_def SubPayChUpdates_def UnsubPayChUpdates_def
  by (auto split: sum.splits intro!: err_ok always_bind [OF err_make_updates] always_bind [OF err_channel(1)]
      always_bind [OF err_channel(2)] always_bind [OF err_channel(3)])

subsection \<open>Sessions\<close>

lemma err_handlers:
  "always (handleProposeChError s parts e) api_ok" "always (handleChProposalAcceptError s parts e) api_ok"
  by (auto simp: handleProposeChError_def handleChProposalAcceptError_def split: option.splits
      intro!: always_any dest: api_ok_handlers)

lemma err_retrievePartIDs: "sum_ok (retrievePartIDs ip als)"
  by (auto simp: retrievePartIDs_def sum_ok_def split: prod.splits if_splits)

lemma err_parse_row: "always (parse_row c row) sum_ok"
  by (induction row) (auto split: sum.splits intro!: always_any [where m = "deref a" for a]
      always_bind [where m = "parse_row a b" and P = sum_ok for a b])

lemma err_makeAllocation: "always (makeAllocation CR CU bi) sum_ok"
proof -
  have "always (allocation_loop CR CU syms rows) sum_ok" for syms rows
  proof (induction CR CU syms rows rule: allocation_loop.induct)
    case (2 CR CU symb syms rows)
    show ?case
      by (auto split: option.splits sum.splits prod.splits intro!: always_any always_bind [OF err_parse_row]
          always_bind [OF "2.IH"])
  qed simp
  then show ?thesis by (simp add: makeAllocation_def)
qed

lemma err_OpenCh [err_ok]: "errV (OpenCh S P CR CU bi ap d s)"
proof -
  have "errS (OpenCh_propose S P CR CU bi ap d s)"
    unfolding OpenCh_propose_def
    using err_retrievePartIDs
    by (auto simp: Let_def sum_ok_def split: sum.splits prod.splits
        intro!: always_any [where m = "sanitizeBalInfo b" for b] always_bind [OF err_makeAllocation]
          always_any [where m = "updateAssetsInFunder S CR a c w" for a c w] always_bind [OF err_handlers(1)]
          always_any [where m = "mapRun g c" for g c])
  moreover have "errV (OpenCh_add P ch v)" for ch v
    unfolding OpenCh_add_def by (auto intro!: always_any)
  ultimately show ?thesis
    unfolding OpenCh_def by (auto split: sum.splits elim!: always_bind)
qed

lemma err_acceptChProposal: "errV (acceptChProposal S P CR entry s)"
  unfolding acceptChProposal_def Let_def
  by (auto split: sum.splits prod.splits intro!: always_any [where m = "updateAssetsInFunder S CR a c w" for a c w]
      always_bind [OF err_handlers(2)] always_any [where m = "mapRun g c" for g c]
      always_any [where m = "addCh a b" for a b] always_any [where m = "getChInfo a b" for a b])

lemma err_rejectChProposal: "rejectChProposal S r reason s = (ae, s') \<Longrightarrow> opt_ok ae"
  by (auto simp: rejectChProposal_def split: prod.splits)

lemma err_RespondChProposal_answer: "errV (RespondChProposal_answer S P CR now accept entry s)"
  unfolding RespondChProposal_answer_def Let_def
  by (auto split: prod.splits dest: err_rejectChProposal intro: err_acceptChProposal)

lemma err_RespondChProposal [err_ok]: "errV (RespondChProposal S P CR now pid accept s)"
  unfolding RespondChProposal_def
  by (auto split: option.splits intro!: err_RespondChProposal_answer always_any [where m = "RespondChProposal_take a b" for a b])

lemma err_session_close [err_ok]: "errO (session_close S s)"
  unfolding session_close_def Let_def by (auto intro!: always_any)

lemma err_Close [err_ok]: "errV (Close S P force s)"
  unfolding Close_def Let_def
  by (auto intro!: always_locks always_any [where m = "rg_forEach f c" for f c] always_bind [OF err_session_close])

lemma err_session [err_ok]:
  "errO (AddPeerID L p s)" "errV (GetPeerID al s)" "errO (SubChProposals f s)" "errO (UnsubChProposals s)"
  "errV (session_DeployAssetERC20 S L CR tok s)" "errS (GetCh cid s)"
  unfolding AddPeerID_def GetPeerID_def SubChProposals_def UnsubChProposals_def session_DeployAssetERC20_def GetCh_def
  by (auto split: option.splits prod.splits sum.splits intro!: always_locks always_any dest: api_ok_handlers)

lemma err_CloseSession [err_ok]: "errV (CloseSession S P force s)"
proof -
  have "opt_ok (toPayChsCloseSessionErr ae)" if "opt_ok ae" for ae
    using that by (auto simp: toPayChsCloseSessionErr_def api_ok_def info_fits_def split: option.splits add_info.splits)
  then show ?thesis
    unfolding CloseSession_def by (auto intro!: always_bind [OF err_Close])
qed

lemma err_pay_session [err_ok]:
  "errV (OpenPayCh S P app0 CR CU bi d s)" "errV (RespondPayChProposal S P CR now pid accept s)"
  "errO (SubPayChProposals g s)" "errO (UnsubPayChProposals s)"
  unfolding OpenPayCh_def RespondPayChProposal_def SubPayChProposals_def UnsubPayChProposals_def
  by (auto intro!: err_ok always_bind [OF err_OpenCh] always_bind [OF err_RespondChProposal])

subsection \<open>The node\<close>

lemma err_node [err_ok]: "errV (RegisterCurrency V tok ast n)" "errS (GetSession i n)"
  unfolding RegisterCurrency_def GetSession_def Let_def
  by (auto split: option.splits prod.splits sum.splits intro!: always_locks always_any)

subsection \<open>Replies\<close>

text \<open>
  The category of a message is given by the hundreds of its code, and its additional info, read
  back, is one that belongs to the code.
\<close>

definition msg_ok :: "msg_error \<Rightarrow> bool" where
  "msg_ok m \<longleftrightarrow> (\<exists>c. meCode m = code_num c \<and> meCategory m + 1 = meCode m div 100 \<and> info_fits c (received_info m))"

lemma category_of_hundreds: "category_num (category_of_code c) + 1 = code_num c div 100"
  by (cases c) (simp_all add: category_of_code_def)

lemma toGrpcError_ok: "api_ok e \<Longrightarrow> always (toGrpcError e) msg_ok"
proof (unfold always_def, intro allI impI)
  fix m
  assume ok: "api_ok e" and m: "toGrpcError e = Done m"
  have "info_fits (aeCode e) (received_info m)"
    using ok toGrpcError_info [OF m] by (cases "aeAddInfo e") (auto simp: api_ok_def info_fits_def)
  with toGrpcError_kept [OF m] ok category_of_hundreds show "msg_ok m"
    by (auto simp: msg_ok_def api_ok_def)
qed

abbreviation reply_ok :: "('a response \<times> 's) run \<Rightarrow> bool" where
  "reply_ok r \<equiv> always r (\<lambda>(resp, s). \<forall>m. resp = RespError m \<longrightarrow> msg_ok m)"

lemma reply_reply_ok: "sum_ok r \<Longrightarrow> reply_ok (reply r a)"
  by (auto simp: reply_def split: sum.splits intro!: always_bind [OF toGrpcError_ok])

lemma sum_ok_as_result [simp]: "sum_ok (as_result (x, ae)) \<longleftrightarrow> opt_ok ae"
  by (auto simp: as_result_def sum_ok_def opt_ok_def split: option.splits)

lemma err_call_session:
  assumes "\<And>CR CU s. errS (f CR CU s)"
  shows "errS (call_session i f a)"
proof -
  have "errS (call_node (GetSession i) a)"
    unfolding call_node_def by (auto intro!: always_bind [OF err_node(2)])
  moreover have "errS (call_node (on_session i f) b)" for b
    unfolding call_node_def on_session_def
    by (auto simp: andThen_assoc intro!: always_any [where m = "deref x" for x] always_bind [OF assms])
  ultimately show ?thesis
    unfolding call_session_def by (auto split: sum.splits elim!: always_bind)
qed

lemma err_call_channel:
  assumes "\<And>ch. errS (f ch)"
  shows "errS (call_channel i cid f a)"
  unfolding call_channel_def on_channel_def
  by (intro err_call_session always_bind [OF err_session(6)])
     (auto split: sum.splits intro!: always_any [where m = "idx_at x y" for x y] always_bind [OF assms])

text \<open>The error messages that the handlers of the requests return in a state of the server.\<close>

inductive error_reply :: "('p, 'w, 'd) env \<Rightarrow> ('p, 'w) server \<Rightarrow> msg_error \<Rightarrow> bool"
  for V :: "('p, 'w, 'd) env" and a :: "('p, 'w) server" where
  "srv_RegisterCurrency V tok ast a = Done (RespError m, a') \<Longrightarrow> error_reply V a m"
| "srv_OpenSession V t w cfg a = Done (RespError m, a') \<Longrightarrow> error_reply V a m"
| "srv_AddPeerID (evAddr V) i p a = Done (RespError m, a') \<Longrightarrow> error_reply V a m"
| "srv_GetPeerID i al a = Done (RespError m, a') \<Longrightarrow> error_reply V a m"
| "srv_OpenPayCh V app0 i bi d a = Done (RespError m, a') \<Longrightarrow> error_reply V a m"
| "srv_GetPayChsInfo (evPch V) i a = Done (RespError m, a') \<Longrightarrow> error_reply V a m"
| "srv_RespondPayChProposal V now i pid accept a = Done (RespError m, a') \<Longrightarrow> error_reply V a m"
| "srv_CloseSession V i force a = Done (RespError m, a') \<Longrightarrow> error_reply V a m"
| "srv_DeployAssetERC20 V i tok a = Done (RespError m, a') \<Longrightarrow> error_reply V a m"
| "srv_SendPayChUpdate (evPch V) i cid pays a = Done (RespError m, a') \<Longrightarrow> error_reply V a m"
| "srv_RespondPayChUpdate (evPch V) now i cid uid accept a = Done (RespError m, a') \<Longrightarrow> error_reply V a m"
| "srv_GetPayChInfo (evPch V) i cid a = Done (RespError m, a') \<Longrightarrow> error_reply V a m"
| "srv_ClosePayCh (evPch V) i cid a = Done (RespError m, a') \<Longrightarrow> error_reply V a m"
| "srv_UnsubPayChProposals i a = Done (RespError m, a') \<Longrightarrow> error_reply V a m"
| "srv_UnsubPayChUpdates i cid a = Done (RespError m, a') \<Longrightarrow> error_reply V a m"

lemma reply_ok_session: "(\<And>CR CU s. errS (f CR CU s)) \<Longrightarrow> reply_ok (andThen (call_session i f a) (\<lambda>(r, b). reply r b))"
  by (rule always_bind [OF err_call_session]) (auto intro: reply_reply_ok)

lemma reply_ok_channel: "(\<And>ch. errS (f ch)) \<Longrightarrow> reply_ok (andThen (call_channel i cid f a) (\<lambda>(r, b). reply r b))"
  by (rule always_bind [OF err_call_channel]) (auto intro: reply_reply_ok)

lemma err_OpenSession: "always (OpenSession V t w cfg n) (\<lambda>((sid, infos, ae), n'). opt_ok ae)"
  by (auto simp: always_def elim: OpenSession_cases)

lemma err_pay_OpenSession: "always (pay_OpenSession V t w cfg n) (\<lambda>((sid, infos, ae), n'). opt_ok ae)"
  unfolding pay_OpenSession_def by (auto intro!: always_bind [OF err_OpenSession])

lemma reply_ok_node:
  "reply_ok (srv_RegisterCurrency V tok ast a)" "reply_ok (srv_OpenSession V t w cfg a)"
  unfolding srv_RegisterCurrency_def srv_OpenSession_def call_node_def
  by (auto simp: andThen_assoc split: option.splits
      intro!: always_bind [OF err_node(1)] always_bind [OF err_pay_OpenSession] reply_reply_ok)

lemma reply_ok_requests:
  "reply_ok (srv_AddPeerID L i p a)" "reply_ok (srv_GetPeerID i al a)" "reply_ok (srv_OpenPayCh V app0 i bi d a)"
  "reply_ok (srv_GetPayChsInfo P i a)" "reply_ok (srv_RespondPayChProposal V now i pid accept a)"
  "reply_ok (srv_CloseSession V i force a)" "reply_ok (srv_DeployAssetERC20 V i tok a)"
  unfolding srv_AddPeerID_def srv_GetPeerID_def srv_OpenPayCh_def srv_GetPayChsInfo_def srv_RespondPayChProposal_def
    srv_CloseSession_def srv_DeployAssetERC20_def
  by (rule reply_ok_session; auto intro!: always_any [where m = "deref x" for x]
      always_any [where m = "fromGrpcBalInfo x" for x] always_any [where m = "GetPayChsInfo x y" for x y]
      always_bind [OF err_session(1)] always_bind [OF err_session(2)] always_bind [OF err_session(5)]
      always_bind [OF err_CloseSession] always_bind [OF err_pay_session(1)] always_bind [OF err_pay_session(2)]
      split: prod.splits)+

lemma reply_ok_channels:
  "reply_ok (srv_SendPayChUpdate P i cid pays a)" "reply_ok (srv_RespondPayChUpdate P now i cid uid accept a)"
  "reply_ok (srv_GetPayChInfo P i cid a)" "reply_ok (srv_ClosePayCh P i cid a)"
  unfolding srv_SendPayChUpdate_def srv_RespondPayChUpdate_def srv_GetPayChInfo_def srv_ClosePayCh_def
  by (rule reply_ok_channel; auto intro!: always_any [where m = "GetPayChInfo x y" for x y]
      always_bind [OF err_payments(1)] always_bind [OF err_payments(2)] always_bind [OF err_payments(3)])+

lemma reply_ok_unsub: "reply_ok (srv_UnsubPayChProposals i a)" "reply_ok (srv_UnsubPayChUpdates i cid a)"
proof -
  have "errS (call_session i (\<lambda>CR CU s. andThen (UnsubPayChProposals s) (\<lambda>(err, s1). Done (as_result (True, err), s1))) a)"
    by (rule err_call_session) (auto intro!: always_bind [OF err_pay_session(4)])
  then show "reply_ok (srv_UnsubPayChProposals i a)"
    unfolding srv_UnsubPayChProposals_def
    by (rule always_bind) (auto split: sum.splits intro!: reply_reply_ok always_any [where m = "closeGrpcPayChProposalSub x y" for x y])
  have "errS (call_channel i cid (\<lambda>ch. andThen (UnsubPayChUpdates ch) (\<lambda>(err, ch1). Done (as_result (True, err), ch1))) a)"
    by (rule err_call_channel) (auto intro!: always_bind [OF err_payments(5)])
  then show "reply_ok (srv_UnsubPayChUpdates i cid a)"
    unfolding srv_UnsubPayChUpdates_def
    by (rule always_bind) (auto split: sum.splits intro!: reply_reply_ok always_any [where m = "closeGrpcPayChUpdateSub x y z" for x y z])
qed



end
