(* ===== verification/Files.thy ===== *)
theory Files
  imports Perun_Types "HOL-Library.Sublist"
begin

text \<open>
  The calls to the operating system that the program makes through the packages \<^verbatim>\<open>os\<close>,
  \<^verbatim>\<open>io/ioutil\<close> and \<^verbatim>\<open>path/filepath\<close> of the standard library: a file system is a map from paths
  to directories and files. A call fails when the tree does not allow it, or for a reason of
  the environment (rights, a full disk, two devices), which \<open>osFault\<close> gives for each call;
  \<open>osPartial\<close> is what a write that fails leaves in the file, and \<open>osRandom\<close> the numbers that the
  names of temporary files are made of.
\<close>

subsection \<open>State\<close>

datatype fnode = Directory | File string

record files =
  fsTree :: "string \<rightharpoonup> fnode"
  fsTime :: nat

record os =
  osFault :: "nat \<Rightarrow> goerr option"
  osPartial :: "nat \<Rightarrow> string"
  osRandom :: "nat \<Rightarrow> nat"
  osTempDir :: string

definition slash :: string where
  "slash = ''/''"

definition path_join :: "string \<Rightarrow> string \<Rightarrow> string" where
  "path_join a b = a @ slash @ b"

text \<open>The directory a path is in; the working directory, for a name without one, is there.\<close>

definition dirname :: "string \<Rightarrow> string" where
  "dirname p = rev (drop 1 (dropWhile (\<lambda>c. c \<noteq> CHR ''/'') (rev p)))"

definition parent_ok :: "files \<Rightarrow> string \<Rightarrow> bool" where
  "parent_ok f p \<longleftrightarrow> dirname p = [] \<or> fsTree f (dirname p) = Some Directory"

text \<open>\<open>below d p\<close>: the path is the given one, or of an entry below it.\<close>

definition below :: "string \<Rightarrow> string \<Rightarrow> bool" where
  "below d p \<longleftrightarrow> p = d \<or> prefix (d @ slash) p"

definition path_error :: "string \<Rightarrow> string \<Rightarrow> string \<Rightarrow> goerr" where
  "path_error op p why = ENew (op @ '' '' @ p @ '': '' @ why)"

definition tick :: "files \<Rightarrow> files" where
  "tick f = f\<lparr>fsTime := Suc (fsTime f)\<rparr>"

definition set_node :: "string \<Rightarrow> fnode \<Rightarrow> files \<Rightarrow> files" where
  "set_node p n f = f\<lparr>fsTree := (fsTree f)(p \<mapsto> n)\<rparr>"

text \<open>A call that may fail, with the reason that the tree gives when there is one.\<close>

definition sys :: "os \<Rightarrow> goerr option \<Rightarrow> 'a \<Rightarrow> (files \<Rightarrow> files) \<Rightarrow> files \<Rightarrow> (goerr + 'a) \<times> files" where
  "sys X reason x act f =
     (case reason of
        Some e \<Rightarrow> (Inl e, tick f)
      | None \<Rightarrow> (case osFault X (fsTime f) of Some e \<Rightarrow> (Inl e, tick f) | None \<Rightarrow> (Inr x, act (tick f))))"

subsection \<open>Calls\<close>

text \<open>What \<open>os.Stat\<close> says: the caller asks only whether the error is that there is no entry.\<close>

definition os_exists :: "os \<Rightarrow> string \<Rightarrow> files \<Rightarrow> bool \<times> files" where
  "os_exists X p f = (fsTree f p \<noteq> None \<or> osFault X (fsTime f) \<noteq> None, tick f)"

definition os_Open :: "os \<Rightarrow> string \<Rightarrow> files \<Rightarrow> (goerr + string) \<times> files" where
  "os_Open X p f =
     (case fsTree f p of
        None \<Rightarrow> sys X (Some (path_error ''open'' p ''no such file or directory'')) [] id f
      | Some Directory \<Rightarrow> sys X (Some (path_error ''read'' p ''is a directory'')) [] id f
      | Some (File s) \<Rightarrow> sys X None s id f)"

definition os_Create :: "os \<Rightarrow> string \<Rightarrow> files \<Rightarrow> (goerr + string) \<times> files" where
  "os_Create X p f =
     sys X (if \<not> parent_ok f p then Some (path_error ''open'' p ''no such file or directory'')
            else if fsTree f p = Some Directory then Some (path_error ''open'' p ''is a directory'')
            else None) p (set_node p (File [])) f"

definition os_Mkdir :: "os \<Rightarrow> string \<Rightarrow> files \<Rightarrow> (goerr + unit) \<times> files" where
  "os_Mkdir X p f =
     sys X (if \<not> parent_ok f p then Some (path_error ''mkdir'' p ''no such file or directory'')
            else if fsTree f p \<noteq> None then Some (path_error ''mkdir'' p ''file exists'')
            else None) () (set_node p Directory) f"

text \<open>A write of the whole content, and the end of an encoder, which writes nothing more.\<close>

definition file_Write :: "os \<Rightarrow> string \<Rightarrow> string \<Rightarrow> files \<Rightarrow> (goerr + unit) \<times> files" where
  "file_Write X p s f =
     (case osFault X (fsTime f) of
        Some e \<Rightarrow> (Inl e, set_node p (File (osPartial X (fsTime f))) (tick f))
      | None \<Rightarrow> (Inr (), set_node p (File s) (tick f)))"

definition file_Close :: "os \<Rightarrow> files \<Rightarrow> goerr option \<times> files" where
  "file_Close X f = (osFault X (fsTime f), tick f)"

text \<open>\<open>os.Remove\<close> of a file and \<open>os.RemoveAll\<close>, of which nobody reads the result.\<close>

definition os_RemoveAll :: "os \<Rightarrow> string \<Rightarrow> files \<Rightarrow> files" where
  "os_RemoveAll X p f =
     snd (sys X None () (\<lambda>f. f\<lparr>fsTree := \<lambda>q. if below p q then None else fsTree f q\<rparr>) f)"

text \<open>\<open>os.Rename\<close>: an existing directory is not replaced.\<close>

definition rename_tree :: "string \<Rightarrow> string \<Rightarrow> (string \<rightharpoonup> fnode) \<Rightarrow> (string \<rightharpoonup> fnode)" where
  "rename_tree src dest t =
     (\<lambda>p. if below dest p then t (src @ drop (length dest) p) else if below src p then None else t p)"

definition os_Rename :: "os \<Rightarrow> string \<Rightarrow> string \<Rightarrow> files \<Rightarrow> (goerr + unit) \<times> files" where
  "os_Rename X src dest f =
     (let err = (\<lambda>why. Some (path_error ''rename'' (src @ '' '' @ dest) why))
      in sys X (if fsTree f dest = Some Directory then err ''file exists''
                else if fsTree f src = None \<or> \<not> parent_ok f dest then err ''no such file or directory''
                else if src \<noteq> dest \<and> below src dest then err ''invalid argument''
                else if fsTree f src = Some Directory \<and> fsTree f dest \<noteq> None then err ''not a directory''
                else None)
           () (\<lambda>f. f\<lparr>fsTree := rename_tree src dest (fsTree f)\<rparr>) f)"

text \<open>
  \<open>ioutil.TempFile\<close> and \<open>ioutil.TempDir\<close> make names with a random number until one is free;
  they give up after 10000.
\<close>

primrec temp_loop ::
  "os \<Rightarrow> fnode \<Rightarrow> string \<Rightarrow> string \<Rightarrow> nat \<Rightarrow> files \<Rightarrow> (goerr + string) \<times> files" where
  "temp_loop X n pre suf 0 f = (Inl (path_error ''open'' (osTempDir X) ''file exists''), f)"
| "temp_loop X n pre suf (Suc k) f =
     (let p = path_join (osTempDir X) (pre @ show_nat (osRandom X (fsTime f)) @ suf)
      in if fsTree f p \<noteq> None then temp_loop X n pre suf k (tick f)
         else sys X (if fsTree f (osTempDir X) = Some Directory then None
                     else Some (path_error ''open'' p ''no such file or directory'')) p (set_node p n) f)"

definition TempFile :: "os \<Rightarrow> string \<Rightarrow> string \<Rightarrow> files \<Rightarrow> (goerr + string) \<times> files" where
  "TempFile X pre suf f = temp_loop X (File []) pre suf 10000 f"

definition TempDir :: "os \<Rightarrow> string \<Rightarrow> files \<Rightarrow> (goerr + string) \<times> files" where
  "TempDir X pre f = temp_loop X Directory pre [] 10000 f"

subsection \<open>Sequences of calls that end at the first error\<close>

definition bindR ::
  "((goerr + 'a) \<times> 's) run \<Rightarrow> ('a \<Rightarrow> 's \<Rightarrow> ((goerr + 'b) \<times> 's) run) \<Rightarrow> ((goerr + 'b) \<times> 's) run" where
  "bindR m k = andThen m (\<lambda>(r, s). case r of Inl e \<Rightarrow> Done (Inl e, s) | Inr x \<Rightarrow> k x s)"

definition wrapR :: "string \<Rightarrow> (goerr + 'a) \<times> 's \<Rightarrow> ((goerr + 'a) \<times> 's) run" where
  "wrapR msg = (\<lambda>(r, s). Done (map_sum (\<lambda>e. EWith e msg) id r, s))"

lemma bindR_Inr: "bindR m k = Done (Inr y, s') \<longleftrightarrow> (\<exists>x s. m = Done (Inr x, s) \<and> k x s = Done (Inr y, s'))"
  by (cases m) (auto simp: bindR_def split: sum.split prod.split)

lemma bindR_InrE:
  assumes "bindR m k = Done (Inr y, s')"
  obtains x s where "m = Done (Inr x, s)" and "k x s = Done (Inr y, s')"
  using assms by (auto simp: bindR_Inr)

lemma bindR_simps [simp]:
  "bindR (Done (Inr x, s)) k = k x s" "bindR (Done (Inl e, s)) k = Done (Inl e, s)"
  "bindR (Panic p) k = Panic p" "bindR Blocked k = Blocked"
  by (simp_all add: bindR_def)

lemma wrapR_Inr: "wrapR msg m = Done (Inr x, s) \<longleftrightarrow> m = (Inr x, s)"
  by (cases m; cases "fst m") (auto simp: wrapR_def)

subsection \<open>Laws\<close>

lemma tick_sel [simp]: "fsTree (tick f) = fsTree f" "fsTime (tick f) = Suc (fsTime f)"
  by (simp_all add: tick_def)

lemma set_node_sel [simp]: "fsTree (set_node p n f) = (fsTree f)(p \<mapsto> n)" "fsTime (set_node p n f) = fsTime f"
  by (simp_all add: set_node_def)

lemma sys_Inr:
  "sys X reason x act f = (Inr y, f') \<longleftrightarrow>
     reason = None \<and> osFault X (fsTime f) = None \<and> y = x \<and> f' = act (tick f)"
  by (auto simp: sys_def split: option.split)

lemma sys_Inl_tree: "sys X reason x act f = (Inl e, f') \<Longrightarrow> fsTree f' = fsTree f"
  by (auto simp: sys_def split: option.split_asm)

lemma below_refl [simp]: "below p p"
  by (simp add: below_def)

lemma below_join [simp]: "below d (path_join d n)"
  by (simp add: below_def path_join_def slash_def)

lemma below_trans: "below a b \<Longrightarrow> below b c \<Longrightarrow> below a c"
  by (auto simp: below_def prefix_def slash_def)

text \<open>Two paths of which none is below the other have no path below both.\<close>

definition apart :: "string \<Rightarrow> string \<Rightarrow> bool" where
  "apart p q \<longleftrightarrow> \<not> below p q \<and> \<not> below q p"

lemma apart_sym: "apart p q \<Longrightarrow> apart q p"
  by (simp add: apart_def)

lemma below_comparable:
  assumes "below p r" and "below q r"
  shows "below p q \<or> below q p"
proof -
  have shorter: "below p q" if "below p r" "below q r" "length p < length q" for p q
  proof -
    from that obtain a where a: "r = p @ a" "a = [] \<or> (\<exists>b. a = slash @ b)" by (auto simp: below_def prefix_def)
    from that obtain c where c: "r = q @ c" by (auto simp: below_def prefix_def)
    from a c that(3) obtain d where d: "q = p @ d" "d \<noteq> []" by (auto simp: append_eq_append_conv2)
    with a c have "a = d @ c" by simp
    with a(2) d(2) obtain b where "d = slash @ b"
      by (cases d) (auto simp: slash_def)
    with d show ?thesis by (simp add: below_def prefix_def)
  qed
  have "p = q" if "length p = length q"
    using assms that by (auto simp: below_def prefix_def)
  with shorter [of p q] shorter [of q p] assms show ?thesis
    by (metis below_refl linorder_neqE_nat)
qed

lemma apart_below:
  assumes "apart p q" and "below p p'" and "below q q'"
  shows "apart p' q'"
proof -
  have "\<not> below a' b'" if "apart a b" "below a a'" "below b b'" for a a' b b'
    using that below_comparable [of a b' b] below_trans [of a a' b'] by (auto simp: apart_def)
  with assms apart_sym [OF assms(1)] show ?thesis by (metis apart_def)
qed

lemma apart_neq: "apart p q \<Longrightarrow> p \<noteq> q"
  by (auto simp: apart_def)

lemma below_append: "below d p \<Longrightarrow> below s (s @ drop (length d) p)"
  by (auto simp: below_def prefix_def)

lemma rename_tree_dest [simp]: "below dest (dest @ r) \<Longrightarrow> rename_tree src dest t (dest @ r) = t (src @ r)"
  by (simp add: rename_tree_def)

lemma rename_tree_apart: "apart dest p \<Longrightarrow> apart src p \<Longrightarrow> rename_tree src dest t p = t p"
  by (simp add: rename_tree_def apart_def)

lemma temp_loop_Inr:
  assumes "temp_loop X n pre suf k f = (Inr p, f')"
  shows "\<exists>i. p = path_join (osTempDir X) (pre @ show_nat i @ suf) \<and> fsTree f p = None
    \<and> fsTree f' = (fsTree f)(p \<mapsto> n) \<and> fsTree f (osTempDir X) = Some Directory"
  using assms
proof (induction k arbitrary: f)
  case (Suc k)
  let ?p = "path_join (osTempDir X) (pre @ show_nat (osRandom X (fsTime f)) @ suf)"
  show ?case
  proof (cases "fsTree f ?p")
    case None
    with Suc.prems show ?thesis
      by (auto simp: Let_def sys_Inr split: if_splits)
  next
    case (Some x)
    with Suc.prems have "temp_loop X n pre suf k (tick f) = (Inr p, f')" by (simp add: Let_def)
    from Suc.IH [OF this] show ?thesis by simp
  qed
qed simp

lemma temp_loop_Inl: "temp_loop X n pre suf k f = (Inl e, f') \<Longrightarrow> fsTree f' = fsTree f"
  by (induction k arbitrary: f) (auto simp: Let_def split: if_splits dest: sys_Inl_tree)

lemmas TempFile_Inr = temp_loop_Inr [of _ "File []", folded TempFile_def]
lemmas TempDir_Inr = temp_loop_Inr [of _ Directory _ "[]", folded TempDir_def]

end
