(* ===== verification/Support.thy ===== *)
theory Support
  imports Files Timeouts
begin

text \<open>
  The logger of the program, \<^verbatim>\<open>log/logger.go\<close>, and the TCP communication backend,
  \<^verbatim>\<open>comm/tcp/tcp.go\<close>. The logger is a variable of the package; its levels are those of the logging
  library, of which \<open>parse\<close> is the parser. The path of a log file is cleaned before it is opened,
  which gives another name of the same file; the tree of \<^verbatim>\<open>Files\<close> has one name per file.
\<close>

subsection \<open>The logger\<close>

text \<open>Where a logger writes: to the standard output, or to the end of a file.\<close>

datatype log_out = Stdout | LogFile string

record 'l logger =
  lgLevel :: 'l
  lgOut :: log_out

text \<open>The variables \<open>logger\<close> of the package and of the \<^verbatim>\<open>go-perun\<close> library.\<close>

record 'l log_state =
  lsLogger :: "'l logger option"
  lsPerun :: "'l logger option"

record 'l log_entry =
  leLogger :: "'l logger"
  leFields :: "string \<rightharpoonup> string"

text \<open>Opening for appending, and creating when there is no file: what is there stays.\<close>

definition os_OpenAppend :: "os \<Rightarrow> string \<Rightarrow> files \<Rightarrow> (goerr + string) \<times> files" where
  "os_OpenAppend X p f =
     sys X (if fsTree f p = Some Directory then Some (path_error ''open'' p ''is a directory'')
            else if fsTree f p = None \<and> \<not> parent_ok f p then Some (path_error ''open'' p ''no such file or directory'')
            else None) p (\<lambda>f. if fsTree f p = None then set_node p (File []) f else f) f"

definition InitLogger ::
  "(string \<Rightarrow> goerr + 'l) \<Rightarrow> os \<Rightarrow> string \<Rightarrow> string \<Rightarrow> 'l log_state \<times> files \<Rightarrow> goerr option \<times> 'l log_state \<times> files" where
  "InitLogger parse X levelStr logFile = (\<lambda>(g, f).
     let install = (\<lambda>newLogger f. (None, g\<lparr>lsLogger := Some newLogger, lsPerun := Some newLogger\<rparr>, f))
     in case parse levelStr of
          Inl e \<Rightarrow> (Some e, g, f)
        | Inr level \<Rightarrow>
            if logFile = [] then install \<lparr>lgLevel = level, lgOut = Stdout\<rparr> f
            else case os_OpenAppend X logFile f of
              (Inl e, f) \<Rightarrow> (Some e, g, f)
            | (Inr p, f) \<Rightarrow> install \<lparr>lgLevel = level, lgOut = LogFile p\<rparr> f)"

text \<open>The package initialises its logger itself when nobody has.\<close>

definition default_logger :: "(string \<Rightarrow> goerr + 'l) \<Rightarrow> os \<Rightarrow> 'l log_state \<times> files \<Rightarrow> 'l log_state \<times> files" where
  "default_logger parse X = (\<lambda>(g, f). if lsLogger g = None then snd (InitLogger parse X ''debug'' [] (g, f)) else (g, f))"

definition NewLogger :: "(string \<Rightarrow> goerr + 'l) \<Rightarrow> os \<Rightarrow> 'l log_state \<times> files \<Rightarrow> 'l logger option \<times> 'l log_state \<times> files" where
  "NewLogger parse X gf = (case default_logger parse X gf of (g, f) \<Rightarrow> (lsLogger g, g, f))"

definition NewLoggerWithField ::
  "(string \<Rightarrow> goerr + 'l) \<Rightarrow> os \<Rightarrow> string \<Rightarrow> string \<Rightarrow> 'l log_state \<times> files \<Rightarrow> ('l log_entry \<times> 'l log_state \<times> files) run" where
  "NewLoggerWithField parse X key val gf =
     (case default_logger parse X gf of
        (g, f) \<Rightarrow> (case lsLogger g of
          None \<Rightarrow> Panic NilDereference
        | Some l \<Rightarrow> Done (\<lparr>leLogger = l, leFields = [key \<mapsto> val]\<rparr>, g, f)))"

definition NewDerivedLoggerWithField :: "'l log_entry option \<Rightarrow> string \<Rightarrow> string \<Rightarrow> 'l log_entry run" where
  "NewDerivedLoggerWithField parentLogger key val =
     (case parentLogger of
        None \<Rightarrow> Panic (PanicCall ''parent logger should not be nil'')
      | Some l \<Rightarrow> Done (l\<lparr>leFields := (leFields l)(key \<mapsto> val)\<rparr>))"

text \<open>The text of an entry: a triangle, in UTF-8, a blank and the text of the library.\<close>

definition customTextFormatter_Format :: "(string \<times> goerr option) \<Rightarrow> string \<times> goerr option" where
  "customTextFormatter_Format original = (case original of
     (originalText, err) \<Rightarrow> ([CHR 0xE2, CHR 0x96, CHR 0xB6, CHR '' ''] @ originalText, err))"

subsection \<open>Laws of the logger\<close>

text \<open>An initialisation that fails leaves the logger; one that succeeds sets both loggers; no file loses anything.\<close>

lemma InitLogger_spec:
  assumes "InitLogger parse X levelStr logFile (g, f) = (err, g', f')"
  shows "case err of
      Some e \<Rightarrow> g' = g \<and> fsTree f' = fsTree f
    | None \<Rightarrow> \<exists>level. parse levelStr = Inr level
        \<and> lsLogger g' = Some \<lparr>lgLevel = level, lgOut = (if logFile = [] then Stdout else LogFile logFile)\<rparr>
        \<and> lsPerun g' = lsLogger g' \<and> (\<forall>p n. fsTree f p = Some n \<longrightarrow> fsTree f' p = Some n)
        \<and> (logFile \<noteq> [] \<longrightarrow> (\<exists>s. fsTree f' logFile = Some (File s)))"
  using assms
  by (cases "fsTree f logFile"; cases "the (fsTree f logFile)")
    (auto simp: InitLogger_def Let_def os_OpenAppend_def sys_def tick_def set_node_def
      split: sum.splits if_splits option.splits)

text \<open>The loggers of sessions and of the node are never nil.\<close>

lemma default_logger_set:
  assumes "parse ''debug'' = Inr level" and "default_logger parse X (g, f) = (g', f')"
  shows "f' = f \<and> lsLogger g' \<noteq> None \<and> (lsLogger g \<noteq> None \<longrightarrow> g' = g)"
  using assms by (auto simp: default_logger_def InitLogger_def Let_def split: if_splits)

lemma NewLoggerWithField_returns:
  assumes "parse ''debug'' = Inr level"
  shows "\<exists>l g' f'. NewLoggerWithField parse X key val (g, f) = Done (l, g', f') \<and> leFields l key = Some val \<and> lsLogger g' = Some (leLogger l)"
proof -
  obtain g' f' where d: "default_logger parse X (g, f) = (g', f')" by (cases "default_logger parse X (g, f)")
  from default_logger_set [OF assms d] obtain l where "lsLogger g' = Some l" by blast
  with d show ?thesis by (simp add: NewLoggerWithField_def)
qed

text \<open>A channel logs with the fields of its session and with its own.\<close>

lemma derived_fields:
  assumes "NewDerivedLoggerWithField (Some l) key val = Done l'"
  shows "leLogger l' = leLogger l \<and> leFields l' key = Some val \<and> (\<forall>k. k \<noteq> key \<longrightarrow> leFields l' k = leFields l k)"
  using assms by (auto simp: NewDerivedLoggerWithField_def)

subsection \<open>The TCP backend\<close>

text \<open>The listener and the dialer are those of the \<^verbatim>\<open>go-perun\<close> library.\<close>

record tcp_backend =
  tbDialerTimeout :: duration

definition NewTCPBackend :: "duration \<Rightarrow> tcp_backend" where
  "NewTCPBackend dialerTimeout = \<lparr>tbDialerTimeout = dialerTimeout\<rparr>"

definition NewListener :: "(string \<Rightarrow> 'w \<Rightarrow> (goerr + 'n) \<times> 'w) \<Rightarrow> string \<Rightarrow> 'w \<Rightarrow> (goerr + 'n) \<times> 'w" where
  "NewListener newTCPListener addr w =
     (case newTCPListener addr w of
        (Inl e, w) \<Rightarrow> (Inl (EWith e ''initializing listener''), w)
      | (Inr l, w) \<Rightarrow> (Inr l, w))"

definition NewDialer :: "(duration \<Rightarrow> 'd) \<Rightarrow> tcp_backend \<Rightarrow> 'd" where
  "NewDialer newTCPDialer b = newTCPDialer (tbDialerTimeout b)"

lemma NewListener_Inr: "NewListener nl addr w = (Inr l, w') \<longleftrightarrow> nl addr w = (Inr l, w')"
  by (auto simp: NewListener_def split: prod.splits sum.splits)

end
