(* ===== verification/Tui_Table.thy ===== *)
theory Tui_Table
  imports Grpc_Server
begin

text \<open>
  The terminal client, \<^verbatim>\<open>cmd/perunnodetui\<close>: the data it keeps, the table on the screen
  (\<^verbatim>\<open>dashboard.go\<close>), the registry of the rows (\<^verbatim>\<open>registry.go\<close>) and the conversions of what it
  receives from the node (\<^verbatim>\<open>commands.go\<close>).

  A pointer to a channel is an index into the list of all channels made, and so is a pointer to
  a row of the table. A row holds what was written to it since it was last reset, each text with
  a flag that tells whether it is highlighted; the widgets are made and written to without
  errors. Indices of the client are Go \<open>int\<close>s and can be negative.
\<close>

subsection \<open>Data\<close>

datatype ch_phase = PhError | PhOpen | PhTransact | PhRegister | PhSettle | PhClosed

datatype response_status =
    NoUpdate | WaitingForPeer | WaitingForUser | Expired | Responding | UserRejected | PeerRejected
  | Accepted | ErrorStatus

fun status_String :: "response_status \<Rightarrow> string" where
  "status_String NoUpdate = []"
| "status_String WaitingForPeer = ''For Peer''"
| "status_String WaitingForUser = ''For User''"
| "status_String Expired = ''Expired''"
| "status_String Responding = ''Responding''"
| "status_String UserRejected = ''User Rej''"
| "status_String PeerRejected = ''Peer Rej''"
| "status_String Accepted = ''Accepted''"
| "status_String ErrorStatus = ''Error''"

fun phase_String :: "ch_phase \<Rightarrow> string" where
  "phase_String PhError = ''Error''"
| "phase_String PhOpen = ''Open''"
| "phase_String PhTransact = ''Transact''"
| "phase_String PhRegister = ''Register''"
| "phase_String PhSettle = ''Settle''"
| "phase_String PhClosed = ''Closed''"

record tui_bal =
  tbOurs :: string
  tbTheirs :: string
  tbVersion :: string

definition no_bal :: tui_bal where
  "no_bal = \<lparr>tbOurs = [], tbTheirs = [], tbVersion = []\<rparr>"

text \<open>The closure \<open>proposerFn\<close> captures the peer and the two amounts.\<close>

record tui_channel =
  tcPhase :: ch_phase
  tcPeer :: string
  tcCurrent :: tui_bal
  tcStatus :: response_status
  tcTimeout :: string
  tcProposed :: tui_bal
  tcChID :: string
  tcUpdateID :: string
  tcIsIncoming :: bool
  tcSNo :: int
  tcRow :: nat
  tcProposerFn :: "(string \<times> string \<times> string) option"

subsection \<open>Slices indexed by an \<open>int\<close>\<close>

definition int_at :: "'a list \<Rightarrow> int \<Rightarrow> 'a run" where
  "int_at xs i = (if 0 \<le> i then idx_at xs (nat i) else Panic IndexOutOfRange)"

definition make_slice :: "'a \<Rightarrow> int \<Rightarrow> 'a list run" where
  "make_slice zero n = (if 0 \<le> n then Done (replicate (nat n) zero) else Panic MakeSliceOutOfRange)"

lemma int_at_Done [run_simps]: "int_at xs i = Done x \<longleftrightarrow> 0 \<le> i \<and> nat i < length xs \<and> x = xs ! nat i"
  by (auto simp: int_at_def idx_at_def)

lemma make_slice_Done [run_simps]: "make_slice z n = Done xs \<longleftrightarrow> 0 \<le> n \<and> xs = replicate (nat n) z"
  by (auto simp: make_slice_def)

subsection \<open>The registry\<close>

record tui_registry =
  trProposals :: "ref option list"
  trByChID :: "string \<rightharpoonup> int"

definition newRegistry_tui :: "int \<Rightarrow> tui_registry run" where
  "newRegistry_tui cnt =
     andThen (make_slice None cnt) (\<lambda>ps. Done \<lparr>trProposals = ps, trByChID = Map.empty\<rparr>)"

definition putAtIndex :: "int \<Rightarrow> ref \<Rightarrow> tui_registry \<Rightarrow> tui_registry run" where
  "putAtIndex index p r =
     (if index < int (length (trProposals r))
      then if 0 \<le> index then Done (r\<lparr>trProposals := (trProposals r)[nat index := Some p]\<rparr>)
           else Panic IndexOutOfRange
      else Done r)"

definition getByIndex :: "int \<Rightarrow> tui_registry \<Rightarrow> ref option run" where
  "getByIndex index r =
     (if int (length (trProposals r)) \<le> index then Done None else int_at (trProposals r) index)"

definition setChID :: "string \<Rightarrow> int \<Rightarrow> tui_registry \<Rightarrow> tui_registry" where
  "setChID cid sNo r = r\<lparr>trByChID := (trByChID r)(cid \<mapsto> sNo)\<rparr>"

definition getByChID :: "string \<Rightarrow> tui_registry \<Rightarrow> ref option run" where
  "getByChID cid r = (case trByChID r cid of None \<Rightarrow> Done None | Some index \<Rightarrow> int_at (trProposals r) index)"

subsection \<open>The table\<close>

record tui_table =
  ttRows :: "(string \<times> bool) list list"
  ttOffset :: int
  ttCurrent :: int
  ttLast :: int

text \<open>Widths are those of \<open>%-6d%-12s%-10s%-8s%-10s%-5s\<close> and so on; the bar is one of UTF-8.\<close>

definition pad :: "nat \<Rightarrow> string \<Rightarrow> string" where
  "pad n s = s @ replicate (n - length s) CHR '' ''"

definition bar :: string where
  "bar = [CHR 0xE2, CHR 0x94, CHR 0x82]"

definition row_head :: "string list \<Rightarrow> string" where
  "row_head ws = ''  '' @ concat (map2 pad [6, 12, 10, 8, 10, 5] ws) @ bar @ ''  ''"

definition row_tail :: "string list \<Rightarrow> string" where
  "row_tail ws = concat (map2 pad [12, 8, 10, 5] ws)"

definition title1 :: string where
  "title1 = pad 29 [] @ pad 50 ''Current Balance'' @ pad 23 ''Proposed Balance''"

definition title2 :: string where
  "title2 = row_head [''S.No'', ''Phase'', ''Peer'', ''Self'', ''Peer'' @ [CHR 39] @ ''s'', ''Ver''] @ pad 12 ''Status''
     @ row_tail [''Timeout'', ''Self'', ''Peer'' @ [CHR 39] @ ''s'', ''Ver'']"

definition noData :: string where
  "noData = pad 53 [] @ bar @ pad 49 []"

definition newTable :: "int \<Rightarrow> tui_table run" where
  "newTable cntRows =
     andThen (make_slice [(noData, False)] cntRows) (\<lambda>rows.
     andThen (put_at rows 0 [(title1, True)]) (\<lambda>rows.
     andThen (put_at rows 1 [(title2, True)]) (\<lambda>rows.
     Done \<lparr>ttRows = rows, ttOffset = 3, ttCurrent = 1, ttLast = cntRows - 3\<rparr>)))"

definition getRow :: "tui_table \<Rightarrow> ((int \<times> nat) option \<times> tui_table) run" where
  "getRow t =
     (if ttCurrent t = ttLast t then Done (None, t)
      else let i = ttCurrent t - 1 + ttOffset t
           in andThen (int_at (ttRows t) i) (\<lambda>row.
              Done (Some (ttCurrent t, nat i), t\<lparr>ttCurrent := ttCurrent t + 1\<rparr>)))"

subsection \<open>Amounts\<close>

definition trimRight :: "char \<Rightarrow> string \<Rightarrow> string" where
  "trimRight c s = rev (dropWhile (\<lambda>d. d = c) (rev s))"

definition trimZeros :: "string \<Rightarrow> string" where
  "trimZeros s = (if CHR ''.'' \<in> set s then trimRight CHR ''.'' (trimRight CHR ''0'' s) else s)"

definition amountMaxLength :: nat where
  "amountMaxLength = 10"

definition truncateAtAmountMaxLen :: "string \<Rightarrow> string" where
  "truncateAtAmountMaxLen str = (if amountMaxLength < length str then take amountMaxLength str else str)"

text \<open>\<open>strconv.Atoi\<close>.\<close>

definition is_digit :: "char \<Rightarrow> bool" where
  "is_digit c \<longleftrightarrow> 48 \<le> (of_char c :: nat) \<and> of_char c < (58 :: nat)"

definition Atoi :: "string \<Rightarrow> goerr + int" where
  "Atoi s =
     (let neg = (s \<noteq> [] \<and> hd s = CHR ''-'');
          ds = (if s \<noteq> [] \<and> (hd s = CHR ''-'' \<or> hd s = CHR ''+'') then tl s else s);
          v = (if neg then - int (read_nat ds) else int (read_nat ds))
      in if ds = [] \<or> \<not> list_all is_digit ds then Inl (ENew ''invalid syntax'')
         else if v < - (2 ^ 63) \<or> 2 ^ 63 \<le> v then Inl (ENew ''value out of range'')
         else Inr v)"

text \<open>
  The balances after a payment. An amount that does not parse leaves the pointer to it nil; the
  errors are ignored.
\<close>

definition ok_or_nil :: "goerr + int \<Rightarrow> int option" where
  "ok_or_nil r = (case r of Inl e \<Rightarrow> None | Inr n \<Rightarrow> Some n)"

definition getProposedBalInfo ::
  "currency_if \<Rightarrow> tui_bal \<Rightarrow> string \<Rightarrow> bool \<Rightarrow> (goerr + tui_bal) run" where
  "getProposedBalInfo ethCurrency current amountStr isPayeePeer =
     (let currOurs = ok_or_nil (cuParse ethCurrency (tbOurs current));
          currTheirs = ok_or_nil (cuParse ethCurrency (tbTheirs current))
      in case cuParse ethCurrency amountStr of
           Inl e \<Rightarrow> Done (Inl (EWith e ''parsing amount''))
         | Inr amount \<Rightarrow>
             andThen (deref currOurs) (\<lambda>o1.
             andThen (deref currTheirs) (\<lambda>t1.
             let ours = (if isPayeePeer then o1 - amount else o1 + amount);
                 theirs = (if isPayeePeer then t1 + amount else t1 - amount)
             in Done (case Atoi (tbVersion current) of
                  Inl e \<Rightarrow> Inl (EWith e ''parsing version as integer'')
                | Inr currVersion \<Rightarrow> Inr
                    \<lparr>tbOurs = truncateAtAmountMaxLen (cuPrint ethCurrency ours),
                     tbTheirs = truncateAtAmountMaxLen (cuPrint ethCurrency theirs),
                     tbVersion = show_int (sint (word_of_int (currVersion + 1) :: 64 word))\<rparr>))))"

subsection \<open>What the node sends\<close>

primrec peer_loop :: "string list \<Rightarrow> nat \<Rightarrow> nat" where
  "peer_loop [] idx = 0"
| "peer_loop (p # ps) idx = (if p \<noteq> OwnAlias then idx else peer_loop ps (Suc idx))"

definition findPeerIndex :: "string list \<Rightarrow> nat" where
  "findPeerIndex parts = (if length parts \<noteq> 2 then 0 else peer_loop parts 0)"

definition grpcBalInfotoBalInfo :: "pb_bal_info \<Rightarrow> tui_bal run" where
  "grpcBalInfotoBalInfo b =
     (let peerIdx = findPeerIndex (pbParts b); ourIdx = peerIdx XOR 1
      in andThen (idx_at (pbBals b) 0) (\<lambda>row. case row of PBBal bal \<Rightarrow>
         andThen (idx_at bal ourIdx) (\<lambda>ours.
         andThen (idx_at bal peerIdx) (\<lambda>theirs.
         Done \<lparr>tbOurs = ours, tbTheirs = theirs, tbVersion = []\<rparr>))))"

definition grpcPayChInfotoBalInfo :: "pb_pay_ch_info \<Rightarrow> tui_bal run" where
  "grpcPayChInfotoBalInfo i =
     andThen (grpcBalInfotoBalInfo (ppBalInfo i)) (\<lambda>b. Done (b\<lparr>tbVersion := ppVersion i\<rparr>))"

end
