(* ===== verification/Tui.thy ===== *)
theory Tui
  imports Tui_Table
begin

text \<open>
  The channels of the terminal client (\<^verbatim>\<open>channels.go\<close>), its calls to the node
  (\<^verbatim>\<open>paymentclient.go\<close>) and its commands (\<^verbatim>\<open>commands.go\<close>).

  The connection to the node is a record of functions over the state \<open>'k\<close> of the node; the
  connection of a client that is not connected is nil. A method holds the lock of its channel
  over the calls it makes, so it is one step; \<open>propose\<close>, \<open>notifyIncomingChannel\<close> and
  \<open>notifyNonClosingUpdate\<close>, which take the lock again after a call or a pause, are given in
  parts. The clock is an argument: \<open>fmt\<close> is the formatting of a time of day.
\<close>

subsection \<open>State\<close>

record 'k tui_client =
  clOpenSession :: "string \<Rightarrow> 'k \<Rightarrow> (goerr + (string \<times> pb_pay_ch_info list) response) \<times> 'k"
  clOpenPayCh :: "string \<Rightarrow> pb_bal_info \<Rightarrow> 64 word \<Rightarrow> 'k \<Rightarrow> (goerr + pb_pay_ch_info response) \<times> 'k"
  clSubPayChProposals :: "string \<Rightarrow> 'k \<Rightarrow> goerr option \<times> 'k"
  clRespondPayChProposal :: "string \<Rightarrow> string \<Rightarrow> bool \<Rightarrow> 'k \<Rightarrow> (goerr + pb_pay_ch_info response) \<times> 'k"
  clSubPayChUpdates :: "string \<Rightarrow> string \<Rightarrow> 'k \<Rightarrow> goerr option \<times> 'k"
  clRespondPayChUpdate :: "string \<Rightarrow> string \<Rightarrow> string \<Rightarrow> bool \<Rightarrow> 'k \<Rightarrow> (goerr + pb_pay_ch_info response) \<times> 'k"
  clSendPayChUpdate :: "string \<Rightarrow> string \<Rightarrow> pb_payment list \<Rightarrow> 'k \<Rightarrow> (goerr + pb_pay_ch_info response) \<times> 'k"
  clClosePayCh :: "string \<Rightarrow> string \<Rightarrow> 'k \<Rightarrow> (goerr + pb_pay_ch_info response) \<times> 'k"

record 'k tui =
  tuClient :: "'k tui_client option"
  tuNode :: 'k
  tuSessionID :: string
  tuTable :: "tui_table option"
  tuRegistry :: "tui_registry option"
  tuChans :: "tui_channel list"
  tuLog :: "string list"

definition logError :: "string \<Rightarrow> 'k tui \<Rightarrow> 'k tui" where
  "logError msg u = u\<lparr>tuLog := tuLog u @ [''Error: '' @ msg]\<rparr>"

definition logInfo :: "string \<Rightarrow> 'k tui \<Rightarrow> 'k tui" where
  "logInfo msg u = u\<lparr>tuLog := tuLog u @ [msg]\<rparr>"

text \<open>A method of a channel, on a pointer to it.\<close>

definition on_tui ::
  "ref \<Rightarrow> (tui_channel \<Rightarrow> 'k tui \<Rightarrow> (tui_channel \<times> 'k tui) run) \<Rightarrow> 'k tui \<Rightarrow> 'k tui run" where
  "on_tui r f u =
     andThen (idx_at (tuChans u) r) (\<lambda>p.
     andThen (f p u) (\<lambda>(p', u'). Done (u'\<lparr>tuChans := (tuChans u')[r := p']\<rparr>)))"

subsection \<open>Calls to the node\<close>

definition errNotConnectedToNode :: goerr where
  "errNotConnectedToNode = EConst ''not connected to perun node''"

definition printAPIError :: "msg_error \<Rightarrow> string" where
  "printAPIError e = meMessage e"

text \<open>A call fails without a connection, and the failure of the connection itself is wrapped.\<close>

definition call_client ::
  "string \<Rightarrow> ('k tui_client \<Rightarrow> 'k \<Rightarrow> (goerr + 'a response) \<times> 'k) \<Rightarrow> 'k tui \<Rightarrow> (goerr + 'a response) \<times> 'k tui" where
  "call_client msg f u =
     (case tuClient u of
        None \<Rightarrow> (Inl errNotConnectedToNode, u)
      | Some client \<Rightarrow> (case f client (tuNode u) of
          (Inl e, k) \<Rightarrow> (Inl (EWith e msg), u\<lparr>tuNode := k\<rparr>)
        | (Inr resp, k) \<Rightarrow> (Inr resp, u\<lparr>tuNode := k\<rparr>)))"

definition challengeDurSecs :: "64 word" where
  "challengeDurSecs = 10"

definition newOutgoingChannelProposalFn ::
  "string \<Rightarrow> string \<Rightarrow> string \<Rightarrow> 'k tui \<Rightarrow> ((goerr + bool \<times> string \<times> tui_bal) \<times> 'k tui) run" where
  "newOutgoingChannelProposalFn peer ours theirs u =
     (case call_client ''sending open request'' (\<lambda>client. clOpenPayCh client (tuSessionID u)
         \<lparr>pbCurrencies = [ETHSymbol], pbParts = [OwnAlias, peer], pbBals = [PBBal [ours, theirs]]\<rparr>
         challengeDurSecs) u of
        (Inl e, u) \<Rightarrow> Done (Inl e, u)
      | (Inr (RespError m), u) \<Rightarrow>
          Done (if meCode m = code_num ErrPeerRejected then Inr (False, [], no_bal)
                else Inl (ENew (''open request failed: '' @ printAPIError m)), u)
      | (Inr (MsgSuccess i), u) \<Rightarrow>
          andThen (grpcPayChInfotoBalInfo i) (\<lambda>b. Done (Inr (True, ppChID i, b), u)))"

definition respondToProposal ::
  "string \<Rightarrow> bool \<Rightarrow> 'k tui \<Rightarrow> ((goerr + string \<times> tui_bal) \<times> 'k tui) run" where
  "respondToProposal proposalID accept u =
     (case call_client ''responding to proposal'' (\<lambda>client. clRespondPayChProposal client (tuSessionID u)
         proposalID accept) u of
        (Inl e, u) \<Rightarrow> Done (Inl e, u)
      | (Inr (RespError m), u) \<Rightarrow> Done (Inl (ENew (''Error responding to proposal: '' @ printAPIError m)), u)
      | (Inr (MsgSuccess i), u) \<Rightarrow>
          if \<not> accept then Done (Inr ([], no_bal), u)
          else andThen (grpcPayChInfotoBalInfo i) (\<lambda>b. Done (Inr (ppChID i, b), u)))"

definition subProposals :: "'k tui \<Rightarrow> goerr option \<times> 'k tui" where
  "subProposals u =
     (case tuClient u of
        None \<Rightarrow> (Some errNotConnectedToNode, u)
      | Some client \<Rightarrow> (case clSubPayChProposals client (tuSessionID u) (tuNode u) of
          (err, k) \<Rightarrow> (map_option (\<lambda>e. EWith e ''subscribing to proposals'') err, u\<lparr>tuNode := k\<rparr>)))"

definition subUpdates :: "string \<Rightarrow> 'k tui \<Rightarrow> goerr option \<times> 'k tui" where
  "subUpdates cid u =
     (case tuClient u of
        None \<Rightarrow> (Some errNotConnectedToNode, u)
      | Some client \<Rightarrow> (case clSubPayChUpdates client (tuSessionID u) cid (tuNode u) of
          (err, k) \<Rightarrow> (map_option (\<lambda>e. EWith e ''subscribing to updates'') err, u\<lparr>tuNode := k\<rparr>)))"

definition respondToUpdate ::
  "string \<Rightarrow> string \<Rightarrow> bool \<Rightarrow> 'k tui \<Rightarrow> ((goerr + tui_bal) \<times> 'k tui) run" where
  "respondToUpdate cid updateID accept u =
     (case call_client ''responding to update'' (\<lambda>client. clRespondPayChUpdate client (tuSessionID u)
         cid updateID accept) u of
        (Inl e, u) \<Rightarrow> Done (Inl e, u)
      | (Inr (RespError m), u) \<Rightarrow> Done (Inl (ENew (''responding to update: '' @ printAPIError m)), u)
      | (Inr (MsgSuccess i), u) \<Rightarrow> andThen (grpcPayChInfotoBalInfo i) (\<lambda>b. Done (Inr b, u)))"

definition sendUpdate ::
  "string \<Rightarrow> string \<Rightarrow> string \<Rightarrow> 'k tui \<Rightarrow> ((goerr + bool \<times> tui_bal) \<times> 'k tui) run" where
  "sendUpdate cid peer amount u =
     (case call_client ''sending channel update'' (\<lambda>client. clSendPayChUpdate client (tuSessionID u) cid
         [\<lparr>ptCurrency = ETHSymbol, ptPayee = peer, ptAmount = amount\<rparr>]) u of
        (Inl e, u) \<Rightarrow> Done (Inl e, u)
      | (Inr (RespError m), u) \<Rightarrow>
          Done (if meCode m = code_num ErrPeerRejected \<or> meCode m = code_num ErrPeerRequestTimedOut
                then Inr (False, no_bal)
                else Inl (ENew (''send update request failed: '' @ printAPIError m)), u)
      | (Inr (MsgSuccess i), u) \<Rightarrow> andThen (grpcPayChInfotoBalInfo i) (\<lambda>b. Done (Inr (True, b), u)))"

definition closeCh_call :: "string \<Rightarrow> 'k tui \<Rightarrow> ((goerr + tui_bal) \<times> 'k tui) run" where
  "closeCh_call cid u =
     (case call_client ''sending channel update'' (\<lambda>client. clClosePayCh client (tuSessionID u) cid) u of
        (Inl e, u) \<Rightarrow> Done (Inl e, u)
      | (Inr (RespError m), u) \<Rightarrow> Done (Inl (ENew (''close request failed: '' @ printAPIError m)), u)
      | (Inr (MsgSuccess i), u) \<Rightarrow> andThen (grpcPayChInfotoBalInfo i) (\<lambda>b. Done (Inr b, u)))"

subsection \<open>The row of a channel\<close>

definition clearUpdate :: "tui_channel \<Rightarrow> tui_channel" where
  "clearUpdate p = p\<lparr>tcStatus := NoUpdate, tcTimeout := [], tcProposed := no_bal, tcProposerFn := None\<rparr>"

definition trim_bal :: "tui_bal \<Rightarrow> tui_bal" where
  "trim_bal b = b\<lparr>tbOurs := trimZeros (tbOurs b), tbTheirs := trimZeros (tbTheirs b)\<rparr>"

definition row_text :: "tui_channel \<Rightarrow> (string \<times> bool) list" where
  "row_text p =
     [(row_head [show_int (tcSNo p), phase_String (tcPhase p), tcPeer p, tbOurs (tcCurrent p),
         tbTheirs (tcCurrent p), tbVersion (tcCurrent p)], False),
      (pad 12 (status_String (tcStatus p)), tcStatus p = WaitingForUser),
      (row_tail [tcTimeout p, tbOurs (tcProposed p), tbTheirs (tcProposed p), tbVersion (tcProposed p)], False)]"

definition refreshEntry :: "tui_channel \<Rightarrow> 'k tui \<Rightarrow> (tui_channel \<times> 'k tui) run" where
  "refreshEntry p u =
     (let p = p\<lparr>tcCurrent := trim_bal (tcCurrent p), tcProposed := trim_bal (tcProposed p)\<rparr>
      in andThen (deref (tuTable u)) (\<lambda>t.
         Done (p, u\<lparr>tuTable := Some (t\<lparr>ttRows := (ttRows t)[tcRow p := row_text p]\<rparr>)\<rparr>)))"

subsection \<open>Opening channels\<close>

text \<open>A new channel, if the table has a row for it, and the pointer to it.\<close>

definition newOutgoingChannel ::
  "string \<Rightarrow> string \<Rightarrow> string \<Rightarrow> 'k tui \<Rightarrow> (ref option \<times> 'k tui) run" where
  "newOutgoingChannel peer ours theirs u =
     andThen (deref (tuTable u)) (\<lambda>t.
     andThen (getRow t) (\<lambda>(got, t).
       let u = u\<lparr>tuTable := Some t\<rparr>
       in case got of
            None \<Rightarrow> Done (None, logError ''table full, no more channels can be added.'' u)
          | Some (i, row) \<Rightarrow> Done (Some (length (tuChans u)), u\<lparr>tuChans := tuChans u @
              [\<lparr>tcPhase = PhOpen, tcPeer = peer, tcCurrent = no_bal, tcStatus = WaitingForPeer, tcTimeout = [],
                tcProposed = \<lparr>tbOurs = ours, tbTheirs = theirs, tbVersion = ''0''\<rparr>, tcChID = [], tcUpdateID = [],
                tcIsIncoming = False, tcSNo = i, tcRow = row, tcProposerFn = Some (peer, ours, theirs)\<rparr>]\<rparr>)))"

definition newIncomingChannel ::
  "string \<Rightarrow> string \<Rightarrow> string \<Rightarrow> string \<Rightarrow> string \<Rightarrow> 'k tui \<Rightarrow> ((goerr + ref) \<times> 'k tui) run" where
  "newIncomingChannel proposalID peer ours theirs timeout u =
     andThen (deref (tuTable u)) (\<lambda>t.
     andThen (getRow t) (\<lambda>(got, t).
       let u = u\<lparr>tuTable := Some t\<rparr>
       in case got of
            None \<Rightarrow> Done (Inl (ENew ''table full, no more channels can be added''), u)
          | Some (i, row) \<Rightarrow> Done (Inr (length (tuChans u)), u\<lparr>tuChans := tuChans u @
              [\<lparr>tcPhase = PhOpen, tcPeer = peer, tcCurrent = no_bal, tcStatus = WaitingForUser, tcTimeout = timeout,
                tcProposed = \<lparr>tbOurs = ours, tbTheirs = theirs, tbVersion = ''0''\<rparr>, tcChID = [],
                tcUpdateID = proposalID, tcIsIncoming = True, tcSNo = i, tcRow = row, tcProposerFn = None\<rparr>]\<rparr>)))"

definition on_registry :: "(tui_registry \<Rightarrow> tui_registry run) \<Rightarrow> 'k tui \<Rightarrow> 'k tui run" where
  "on_registry f u =
     andThen (deref (tuRegistry u)) (\<lambda>r. andThen (f r) (\<lambda>r'. Done (u\<lparr>tuRegistry := Some r'\<rparr>)))"

definition toTransact :: "string \<Rightarrow> tui_bal \<Rightarrow> tui_channel \<Rightarrow> 'k tui \<Rightarrow> (tui_channel \<times> 'k tui) run" where
  "toTransact cid current p u =
     andThen (refreshEntry (clearUpdate (p\<lparr>tcChID := cid, tcCurrent := current, tcPhase := PhTransact\<rparr>)) u) (\<lambda>(p, u).
     case subUpdates cid u of
       (err, u) \<Rightarrow> Done (p, logInfo ''subscribed to updates'' (case err of
           None \<Rightarrow> u
         | Some e \<Rightarrow> logError (err_Error (EWith e ''subscribing to updates'')) u)))"

text \<open>The first part of \<open>propose\<close> is \<open>refreshEntry\<close>; the second makes the call.\<close>

definition propose_call :: "tui_channel \<Rightarrow> 'k tui \<Rightarrow> (tui_channel \<times> 'k tui) run" where
  "propose_call p u =
     andThen (deref (tcProposerFn p)) (\<lambda>(peer, ours, theirs).
     andThen (newOutgoingChannelProposalFn peer ours theirs u) (\<lambda>(res, u).
       case res of
         Inl e \<Rightarrow> Done (p, logError (err_Error e) u)
       | Inr (isAccepted, cid, currentBalInfo) \<Rightarrow>
           if \<not> isAccepted then refreshEntry (p\<lparr>tcPhase := PhError, tcStatus := PeerRejected\<rparr>) u
           else andThen (on_registry (\<lambda>r. Done (setChID cid (tcSNo p) r)) u) (toTransact cid currentBalInfo p)))"

definition notifyIncomingChannel_expire :: "tui_channel \<Rightarrow> 'k tui \<Rightarrow> (tui_channel \<times> 'k tui) run" where
  "notifyIncomingChannel_expire p u =
     (if tcStatus p = WaitingForUser \<and> tcPhase p = PhOpen
      then refreshEntry (p\<lparr>tcPhase := PhError, tcStatus := Expired\<rparr>) u
      else Done (p, u))"

subsection \<open>Responding\<close>

definition tc_respondToProposal :: "bool \<Rightarrow> tui_channel \<Rightarrow> 'k tui \<Rightarrow> (tui_channel \<times> 'k tui) run" where
  "tc_respondToProposal accept p u =
     andThen (refreshEntry (p\<lparr>tcStatus := Responding\<rparr>) u) (\<lambda>(p, u).
     andThen (respondToProposal (tcUpdateID p) accept u) (\<lambda>(res, u).
       case res of
         Inl e \<Rightarrow> Done (p, logError (err_Error (EWith e ''responding to proposal'')) u)
       | Inr (cid, currentBalInfo) \<Rightarrow>
           if \<not> accept then refreshEntry (p\<lparr>tcPhase := PhError, tcStatus := UserRejected\<rparr>) u
           else andThen (on_registry (\<lambda>r. Done (setChID cid (tcSNo p) r)) u) (toTransact cid currentBalInfo p)))"

definition add_F :: "tui_bal \<Rightarrow> tui_bal" where
  "add_F b = b\<lparr>tbVersion := tbVersion b @ '' F''\<rparr>"

definition tc_respondToUpdate :: "bool \<Rightarrow> tui_channel \<Rightarrow> 'k tui \<Rightarrow> (tui_channel \<times> 'k tui) run" where
  "tc_respondToUpdate accept p u =
     andThen (refreshEntry (p\<lparr>tcStatus := Responding\<rparr>) u) (\<lambda>(p, u).
     andThen (respondToUpdate (tcChID p) (tcUpdateID p) accept u) (\<lambda>(res, u).
       case res of
         Inl e \<Rightarrow> Done (p, logError (err_Error (EWith e ''responding to update'')) u)
       | Inr updatedBalInfo \<Rightarrow>
           if \<not> accept then refreshEntry (p\<lparr>tcStatus := UserRejected\<rparr>) u
           else let p = p\<lparr>tcCurrent := updatedBalInfo, tcStatus := Accepted\<rparr>
                in refreshEntry (if tcPhase p = PhRegister then p\<lparr>tcCurrent := add_F (tcCurrent p)\<rparr> else p) u))"

definition respond :: "bool \<Rightarrow> tui_channel \<Rightarrow> 'k tui \<Rightarrow> (tui_channel \<times> 'k tui) run" where
  "respond accept p u =
     (if tcStatus p \<noteq> WaitingForUser then Done (p, logError ''no response expected for the channel'' u)
      else if tcPhase p = PhOpen then tc_respondToProposal accept p u
      else if tcPhase p = PhTransact \<or> tcPhase p = PhRegister then tc_respondToUpdate accept p u
      else Done (p, u))"

subsection \<open>Notifications of updates\<close>

definition notifyClosingUpdate :: "tui_bal \<Rightarrow> string \<Rightarrow> tui_channel \<Rightarrow> 'k tui \<Rightarrow> (tui_channel \<times> 'k tui) run" where
  "notifyClosingUpdate updated errorMsg p u =
     (let (p, u) =
        (if errorMsg = [] then
           (let p = p\<lparr>tcPhase := PhClosed\<rparr>
            in (if tbVersion (tcCurrent p) \<noteq> tbVersion updated then p\<lparr>tcCurrent := add_F updated\<rparr> else p, u))
         else (p\<lparr>tcStatus := ErrorStatus\<rparr>,
               logError (''settling channel '' @ show_int (tcSNo p) @ '': '' @ errorMsg) u))
      in refreshEntry (clearUpdate p) u)"

definition notifyNonClosingUpdate ::
  "(int \<Rightarrow> string) \<Rightarrow> string \<Rightarrow> tui_bal \<Rightarrow> int \<Rightarrow> bool \<Rightarrow> tui_channel \<Rightarrow> 'k tui \<Rightarrow> (tui_channel \<times> 'k tui) run" where
  "notifyNonClosingUpdate fmt updateID proposed expiryUnix isFinal p u =
     (let p = p\<lparr>tcUpdateID := updateID, tcProposed := proposed, tcTimeout := fmt expiryUnix,
                tcStatus := WaitingForUser\<rparr>;
          p = (if isFinal then p\<lparr>tcProposed := add_F (tcProposed p), tcPhase := PhRegister\<rparr> else p)
      in refreshEntry p u)"

definition notifyNonClosingUpdate_expire :: "string \<Rightarrow> tui_channel \<Rightarrow> 'k tui \<Rightarrow> (tui_channel \<times> 'k tui) run" where
  "notifyNonClosingUpdate_expire currUpdateID p u =
     (if tcUpdateID p = currUpdateID \<and> tcStatus p = WaitingForUser \<and> (tcPhase p = PhTransact \<or> tcPhase p = PhRegister)
      then refreshEntry (p\<lparr>tcStatus := Expired\<rparr>) u
      else Done (p, u))"

subsection \<open>Sending updates and closing\<close>

definition ready_for_update :: "tui_channel \<Rightarrow> bool" where
  "ready_for_update p \<longleftrightarrow> tcPhase p = PhTransact \<and> tcStatus p \<noteq> WaitingForPeer \<and> tcStatus p \<noteq> WaitingForUser
     \<and> tcStatus p \<noteq> Responding"

definition tc_update ::
  "currency_if \<Rightarrow> string \<Rightarrow> bool \<Rightarrow> tui_channel \<Rightarrow> 'k tui \<Rightarrow> (tui_channel \<times> 'k tui) run" where
  "tc_update ethCurrency amount isPayeePeer p u =
     (let payee = (if isPayeePeer then tcPeer p else ''self'')
      in if \<not> ready_for_update p then Done (p, logError ''Channel not read for updates'' u)
         else andThen (getProposedBalInfo ethCurrency (tcCurrent p) amount isPayeePeer) (\<lambda>res.
           case res of
             Inl e \<Rightarrow> Done (p, logError (err_Error e) u)
           | Inr proposed \<Rightarrow>
               andThen (refreshEntry (p\<lparr>tcProposed := proposed, tcStatus := WaitingForPeer\<rparr>) u) (\<lambda>(p, u).
               andThen (sendUpdate (tcChID p) payee amount u) (\<lambda>(res, u).
                 case res of
                   Inl e \<Rightarrow> andThen (refreshEntry (p\<lparr>tcStatus := ErrorStatus\<rparr>) u) (\<lambda>(p, u).
                     Done (p, logError (err_Error e) u))
                 | Inr (isAccepted, updated) \<Rightarrow>
                     if \<not> isAccepted then refreshEntry (p\<lparr>tcStatus := PeerRejected\<rparr>) u
                     else refreshEntry (p\<lparr>tcStatus := Accepted, tcCurrent := updated\<rparr>) u))))"

text \<open>After an error of the call the function goes on with a \<open>balInfo\<close> whose fields are empty.\<close>

definition closeCh :: "tui_channel \<Rightarrow> 'k tui \<Rightarrow> (tui_channel \<times> 'k tui) run" where
  "closeCh p u =
     (if \<not> ready_for_update p
      then Done (p, logError ''cannot close channel: not in transact phase or has pending updates'' u)
      else andThen (refreshEntry (clearUpdate (p\<lparr>tcPhase := PhRegister\<rparr>)) u) (\<lambda>(p, u).
           andThen (closeCh_call (tcChID p) u) (\<lambda>(res, u).
           andThen (case res of
               Inl e \<Rightarrow> andThen (refreshEntry (p\<lparr>tcPhase := PhError\<rparr>) u) (\<lambda>(p, u).
                 Done (no_bal, p, logError (err_Error (EWith e ''closing channel'')) u))
             | Inr updated \<Rightarrow> Done (updated, p, u)) (\<lambda>(updated, p, u).
           let updated = (if tbVersion (tcCurrent p) \<noteq> tbVersion updated then add_F updated else updated)
           in refreshEntry (p\<lparr>tcCurrent := updated, tcPhase := PhSettle\<rparr>) u))))"

end
