(* ===== verification/Tui_Commands.thy ===== *)
theory Tui_Commands
  imports Tui
begin

text \<open>
  The commands the user types (\<^verbatim>\<open>commands.go\<close>), the goroutines that read the notifications of
  the node (\<^verbatim>\<open>paymentclient.go\<close>), and the start of the client (\<^verbatim>\<open>connect.go\<close>, \<^verbatim>\<open>dashboard.go\<close>).
  A handler that starts a goroutine returns it.
\<close>

subsection \<open>Commands\<close>

text \<open>\<open>strings.Split(input, " ")\<close>.\<close>

fun split_words :: "string \<Rightarrow> string list" where
  "split_words [] = [[]]"
| "split_words (c # cs) =
     (if c = CHR '' '' then [] # split_words cs
      else case split_words cs of w # ws \<Rightarrow> (c # w) # ws | [] \<Rightarrow> [[c]])"

text \<open>The handler of \<open>open\<close> up to the call of the node, which is the second part of \<open>propose\<close>.\<close>

definition openCmd_begin :: "string list \<Rightarrow> 'k tui \<Rightarrow> ((goerr + ref) \<times> 'k tui) run" where
  "openCmd_begin args u =
     (case args of
        [peer, ours, theirs] \<Rightarrow>
          andThen (newOutgoingChannel peer ours theirs u) (\<lambda>(p, u).
          andThen (deref p) (\<lambda>r.
          andThen (idx_at (tuChans u) r) (\<lambda>ch.
          andThen (on_registry (putAtIndex (tcSNo ch) r) u) (\<lambda>u.
          andThen (on_tui r refreshEntry u) (\<lambda>u. Done (Inr r, u))))))
      | _ \<Rightarrow> Done (Inl (ENew ''should have only 3 args''), u))"

definition openCmdHandler :: "string list \<Rightarrow> 'k tui \<Rightarrow> (goerr option \<times> 'k tui) run" where
  "openCmdHandler args u =
     andThen (openCmd_begin args u) (\<lambda>(res, u).
       case res of
         Inl e \<Rightarrow> Done (Some e, u)
       | Inr r \<Rightarrow> andThen (on_tui r propose_call u) (\<lambda>u. Done (None, u)))"

text \<open>Looking a channel up by its number, as the other handlers do.\<close>

definition with_SNo ::
  "string \<Rightarrow> (tui_channel \<Rightarrow> 'k tui \<Rightarrow> (tui_channel \<times> 'k tui) run) \<Rightarrow> 'k tui \<Rightarrow> (goerr option \<times> 'k tui) run" where
  "with_SNo arg f u =
     (case Atoi arg of
        Inl e \<Rightarrow> Done (Some (ENew ''first arg should a S.No''), u)
      | Inr index \<Rightarrow>
          andThen (deref (tuRegistry u)) (\<lambda>reg.
          andThen (getByIndex index reg) (\<lambda>p.
            case p of
              None \<Rightarrow> Done (Some (ENew ''first arg should a S.No''), u)
            | Some r \<Rightarrow> andThen (on_tui r f u) (\<lambda>u. Done (None, u)))))"

definition respondCmd :: "string list \<Rightarrow> bool \<Rightarrow> 'k tui \<Rightarrow> (goerr option \<times> 'k tui) run" where
  "respondCmd args accept u =
     (case args of [a] \<Rightarrow> with_SNo a (respond accept) u | _ \<Rightarrow> Done (Some (ENew ''should have only 3 args''), u))"

definition accCmdHandler :: "string list \<Rightarrow> 'k tui \<Rightarrow> (goerr option \<times> 'k tui) run" where
  "accCmdHandler args = respondCmd args True"

definition rejCmdHandler :: "string list \<Rightarrow> 'k tui \<Rightarrow> (goerr option \<times> 'k tui) run" where
  "rejCmdHandler args = respondCmd args False"

definition updateCmdHandler ::
  "currency_if \<Rightarrow> string list \<Rightarrow> bool \<Rightarrow> 'k tui \<Rightarrow> (goerr option \<times> 'k tui) run" where
  "updateCmdHandler ethCurrency args isPayeePeer u =
     (case args of
        [a, amount] \<Rightarrow> with_SNo a (tc_update ethCurrency amount isPayeePeer) u
      | _ \<Rightarrow> Done (Some (ENew ''should have only 2 args''), u))"

definition sendCmdHandler :: "currency_if \<Rightarrow> string list \<Rightarrow> 'k tui \<Rightarrow> (goerr option \<times> 'k tui) run" where
  "sendCmdHandler ethCurrency args = updateCmdHandler ethCurrency args True"

definition reqCmdHandler :: "currency_if \<Rightarrow> string list \<Rightarrow> 'k tui \<Rightarrow> (goerr option \<times> 'k tui) run" where
  "reqCmdHandler ethCurrency args = updateCmdHandler ethCurrency args False"

definition closeCmdHandler :: "string list \<Rightarrow> 'k tui \<Rightarrow> (goerr option \<times> 'k tui) run" where
  "closeCmdHandler args u =
     (case args of [a] \<Rightarrow> with_SNo a closeCh u | _ \<Rightarrow> Done (Some (ENew ''should have only 1 args''), u))"

definition commandHandlers ::
  "currency_if \<Rightarrow> string \<Rightarrow> (string list \<Rightarrow> 'k tui \<Rightarrow> (goerr option \<times> 'k tui) run) option" where
  "commandHandlers ethCurrency = map_of
     [(''open'', openCmdHandler), (''send'', sendCmdHandler ethCurrency), (''req'', reqCmdHandler ethCurrency),
      (''acc'', accCmdHandler), (''rej'', rejCmdHandler), (''close'', closeCmdHandler)]"

text \<open>The command is executed by a goroutine, whose errors are logged.\<close>

definition handleCmd :: "currency_if \<Rightarrow> string \<Rightarrow> goerr + ('k tui \<Rightarrow> 'k tui run)" where
  "handleCmd ethCurrency input =
     (case split_words input of
        command # arg # args \<Rightarrow>
          (case commandHandlers ethCurrency command of
             None \<Rightarrow> Inl (ENew (''invalid command: '' @ command))
           | Some handler \<Rightarrow> Inr (\<lambda>u. andThen (handler (arg # args) u) (\<lambda>(err, u).
               Done (case err of None \<Rightarrow> u | Some e \<Rightarrow> logError (err_Error (EWith e ''executing command'')) u))))
      | _ \<Rightarrow> Inl (ENew ''command should have at least 2 words''))"

subsection \<open>Notifications\<close>

text \<open>What \<open>Recv\<close> of a stream gives: the end of the stream or a failure, an error, a notification.\<close>

datatype 'a recv = RecvEOF | RecvFailed goerr | RecvError msg_error | RecvNotify 'a

type_synonym proposal_msg = "string \<times> pb_bal_info \<times> 64 word \<times> int"

type_synonym update_msg = "string \<times> pb_pay_ch_info \<times> pb_update_type \<times> int \<times> msg_error option"

text \<open>
  The goroutines of the client: the parts of \<open>propose\<close>, \<open>notifyIncomingChannel\<close> and
  \<open>notifyNonClosingUpdate\<close> that are still to run.
\<close>

datatype goroutine =
    ProposeCall ref
  | WaitProposal ref
  | ExpireProposal ref
  | ShowUpdate ref string tui_bal int bool
  | ReadUpdateID ref
  | ExpireUpdate ref string

definition run_goroutine ::
  "(int \<Rightarrow> string) \<Rightarrow> goroutine \<Rightarrow> 'k tui \<Rightarrow> (goroutine list \<times> 'k tui) run" where
  "run_goroutine fmt g u =
     (case g of
        ProposeCall r \<Rightarrow> andThen (on_tui r propose_call u) (\<lambda>u. Done ([], u))
      | WaitProposal r \<Rightarrow> andThen (on_tui r refreshEntry u) (\<lambda>u. Done ([ExpireProposal r], u))
      | ExpireProposal r \<Rightarrow> andThen (on_tui r notifyIncomingChannel_expire u) (\<lambda>u. Done ([], u))
      | ShowUpdate r updateID b expiry isFinal \<Rightarrow>
          andThen (on_tui r (notifyNonClosingUpdate fmt updateID b expiry isFinal) u) (\<lambda>u. Done ([ReadUpdateID r], u))
      | ReadUpdateID r \<Rightarrow> andThen (idx_at (tuChans u) r) (\<lambda>p. Done ([ExpireUpdate r (tcUpdateID p)], u))
      | ExpireUpdate r currUpdateID \<Rightarrow>
          andThen (on_tui r (notifyNonClosingUpdate_expire currUpdateID) u) (\<lambda>u. Done ([], u)))"

text \<open>
  One round of the loop of \<open>incomingChannelsHandler\<close>. The flag tells whether the loop goes on.
\<close>

definition incomingChannels_round ::
  "(int \<Rightarrow> string) \<Rightarrow> proposal_msg recv \<Rightarrow> 'k tui \<Rightarrow> (bool \<times> goroutine list \<times> 'k tui) run" where
  "incomingChannels_round fmt msg u =
     (case msg of
        RecvEOF \<Rightarrow> Done (False, [], logInfo ''Subscription to incoming proposal closed'' u)
      | RecvFailed e \<Rightarrow> Done (False, [],
          logError (''Subscription to incoming proposal closed with error '' @ err_Error e) u)
      | RecvError m \<Rightarrow> Done (False, [], logError (''In incoming proposal notification '' @ printAPIError m) u)
      | RecvNotify (updateID, bi, dur, expiry) \<Rightarrow>
          andThen (idx_at (pbParts bi) (findPeerIndex (pbParts bi))) (\<lambda>peer.
          andThen (grpcBalInfotoBalInfo bi) (\<lambda>proposed.
          andThen (newIncomingChannel updateID peer (tbOurs proposed) (tbTheirs proposed) (fmt expiry) u) (\<lambda>(p, u).
            case p of
              Inl e \<Rightarrow> Done (True, [], logError (err_Error (EWith e ''adding incoming channel to table'')) u)
            | Inr r \<Rightarrow>
                andThen (idx_at (tuChans u) r) (\<lambda>ch.
                andThen (on_registry (putAtIndex (tcSNo ch) r) u) (\<lambda>u. Done (True, [WaitProposal r], u)))))))"

definition incomingUpdate_round :: "update_msg recv \<Rightarrow> 'k tui \<Rightarrow> (bool \<times> goroutine list \<times> 'k tui) run" where
  "incomingUpdate_round msg u =
     (case msg of
        RecvEOF \<Rightarrow> Done (False, [], logInfo ''Subscription to incoming updates closed'' u)
      | RecvFailed e \<Rightarrow> Done (False, [],
          logError (''Subscription to incoming updates closed with error '' @ err_Error e) u)
      | RecvError m \<Rightarrow> Done (False, [], logError (''In incoming update notification '' @ printAPIError m) u)
      | RecvNotify (updateID, i, typ, expiry, err) \<Rightarrow>
          andThen (deref (tuRegistry u)) (\<lambda>reg.
          andThen (getByChID (ppChID i) reg) (\<lambda>p.
            case p of
              None \<Rightarrow> Done (False, [], logError ''update received for unknown channel id'' u)
            | Some r \<Rightarrow>
                andThen (grpcPayChInfotoBalInfo i) (\<lambda>b.
                if typ = PBClosed then
                  andThen (on_tui r (notifyClosingUpdate b (case err of None \<Rightarrow> [] | Some m \<Rightarrow> printAPIError m)) u)
                    (\<lambda>u. Done (False, [], u))
                else Done (True, [ShowUpdate r updateID b expiry (typ = PBFinal)], u)))))"

text \<open>
  The handlers read the messages of a stream, given by their positions, until a round says that
  the loop ends; a handler of a stream that never ends does not return.
\<close>

partial_function (option) incomingUpdateHandler ::
  "(nat \<Rightarrow> update_msg recv) \<Rightarrow> nat \<Rightarrow> goroutine list \<Rightarrow> 'k tui \<Rightarrow> (goroutine list \<times> 'k tui) run option" where
  "incomingUpdateHandler stream i gs u =
     (case incomingUpdate_round (stream i) u of
        Panic p \<Rightarrow> Some (Panic p)
      | Blocked \<Rightarrow> Some Blocked
      | Done (goes_on, g, u') \<Rightarrow> if goes_on then incomingUpdateHandler stream (Suc i) (gs @ g) u'
                         else Some (Done (gs @ g, u')))"

partial_function (option) incomingChannelsHandler ::
  "(int \<Rightarrow> string) \<Rightarrow> (nat \<Rightarrow> proposal_msg recv) \<Rightarrow> nat \<Rightarrow> goroutine list \<Rightarrow> 'k tui \<Rightarrow> (goroutine list \<times> 'k tui) run option" where
  "incomingChannelsHandler fmt stream i gs u =
     (case incomingChannels_round fmt (stream i) u of
        Panic p \<Rightarrow> Some (Panic p)
      | Blocked \<Rightarrow> Some Blocked
      | Done (goes_on, g, u') \<Rightarrow> if goes_on then incomingChannelsHandler fmt stream (Suc i) (gs @ g) u'
                         else Some (Done (gs @ g, u')))"

subsection \<open>The start of the client\<close>

definition connectToNode ::
  "(string \<Rightarrow> goerr + 'k tui_client) \<Rightarrow> string \<Rightarrow> string \<Rightarrow> 'k \<Rightarrow> (goerr + string \<times> 'k tui_client) \<times> 'k" where
  "connectToNode dial perunNodeURL configFileURL k =
     (case dial perunNodeURL of
        Inl e \<Rightarrow> (Inl (EWith e ''connecting to perun node''), k)
      | Inr apiClient \<Rightarrow> (case clOpenSession apiClient configFileURL k of
          (Inl e, k) \<Rightarrow> (Inl (EWith e ''opening session''), k)
        | (Inr (RespError m), k) \<Rightarrow> (Inl (ENew (printAPIError m)), k)
        | (Inr (MsgSuccess x), k) \<Rightarrow> (Inr (fst x, apiClient), k)))"

text \<open>The table and the registry for a terminal of height \<open>y\<close>; \<open>logsHeight\<close> is 8.\<close>

definition newDashboardScreen :: "int \<Rightarrow> 'k tui \<Rightarrow> 'k tui run" where
  "newDashboardScreen y u =
     (let elementHeight = 2; onChainBalHeight = elementHeight * 2; commandTBoxHeight = elementHeight * 2;
          tableHeight = y - (onChainBalHeight + commandTBoxHeight + 8)
      in andThen (newTable tableHeight) (\<lambda>t.
         andThen (newRegistry_tui (ttLast t - ttOffset t)) (\<lambda>r.
         Done (u\<lparr>tuTable := Some t, tuRegistry := Some r\<rparr>))))"

text \<open>
  The callback of the connect button; the on-chain address is parsed first. The stream of
  proposals is read by a goroutine from then on, before the screen is there.
\<close>

definition start_tui :: "'k \<Rightarrow> 'k tui" where
  "start_tui k = \<lparr>tuClient = None, tuNode = k, tuSessionID = [], tuTable = None, tuRegistry = None,
     tuChans = [], tuLog = []\<rparr>"

definition connect_subscribe ::
  "addr_lib \<Rightarrow> (string \<Rightarrow> goerr + 'k tui_client) \<Rightarrow> string \<Rightarrow> string \<Rightarrow> string \<Rightarrow> 'k tui \<Rightarrow> goerr option \<times> 'k tui" where
  "connect_subscribe L dial perunNodeURL configFileURL onChainAddr u =
     (let u = logInfo ''Connecting to perun node...'' u
      in case ParseAddr L onChainAddr of
           Inl e \<Rightarrow> (Some (EWith e ''parsing on-chain address''), u)
         | Inr _ \<Rightarrow> (case connectToNode dial perunNodeURL configFileURL (tuNode u) of
             (Inl e, k) \<Rightarrow> (Some (EWith e ''connecting to perun node''),
               u\<lparr>tuNode := k, tuSessionID := [], tuClient := None\<rparr>)
           | (Inr (sid, client), k) \<Rightarrow>
               (case subProposals (logInfo (''Session established. Session ID: '' @ sid)
                       (u\<lparr>tuNode := k, tuSessionID := sid, tuClient := Some client\<rparr>)) of
                  (Some e, u) \<Rightarrow> (Some (EWith e ''subscribing to proposals''), u)
                | (None, u) \<Rightarrow> (None, logInfo ''Subscribed to incoming proposals'' u))))"

definition getConnectFn ::
  "addr_lib \<Rightarrow> (string \<Rightarrow> goerr + 'k tui_client) \<Rightarrow> int \<Rightarrow> string \<Rightarrow> string \<Rightarrow> string \<Rightarrow> 'k tui
     \<Rightarrow> (goerr option \<times> 'k tui) run" where
  "getConnectFn L dial y perunNodeURL configFileURL onChainAddr u =
     (case connect_subscribe L dial perunNodeURL configFileURL onChainAddr u of
        (Some e, u) \<Rightarrow> Done (Some e, u)
      | (None, u) \<Rightarrow> andThen (newDashboardScreen y u) (\<lambda>u. Done (None, u)))"

end
