(* ===== verification/Cli.thy ===== *)
theory Cli
  imports Tui_Commands "HOL-Library.AList" "HOL-Library.List_Lexorder" "HOL-Library.Char_ord"
begin

text \<open>
  The command line client, \<^verbatim>\<open>cmd/perunnodecli\<close>: its state, the aliases it gives to channels and
  to requests to open channels (\<^verbatim>\<open>channel.go\<close>), the peers it completes (\<^verbatim>\<open>idprovider.go\<close>), and
  what it prints.

  A pointer to the info of a channel is an index into the list of all infos made: a command
  keeps it while a notification may remove the alias. What is printed is a list of texts, each
  with its colour and what follows it uncoloured. Formatting of types of the generated code and
  of times is a parameter; the methods of the service that the terminal client does not call
  extend its record.
\<close>

subsection \<open>Data\<close>

record open_channel_info =
  oiID :: string
  oiPeerAlias :: string
  oiLatest :: string

record 'k cli_client = "'k tui_client" +
  clTime :: "'k \<Rightarrow> (goerr + int) \<times> 'k"
  clGetConfig :: "'k \<Rightarrow> (goerr + config_resp) \<times> 'k"
  clAddPeerID :: "string \<Rightarrow> pb_peer_id \<Rightarrow> 'k \<Rightarrow> (goerr + bool response) \<times> 'k"
  clGetPeerID :: "string \<Rightarrow> string \<Rightarrow> 'k \<Rightarrow> (goerr + pb_peer_id response) \<times> 'k"
  clCloseSession :: "string \<Rightarrow> bool \<Rightarrow> 'k \<Rightarrow> (goerr + pb_pay_ch_info list response) \<times> 'k"
  clUnsubPayChProposals :: "string \<Rightarrow> 'k \<Rightarrow> (goerr + bool response) \<times> 'k"
  clUnsubPayChUpdates :: "string \<Rightarrow> string \<Rightarrow> 'k \<Rightarrow> (goerr + bool response) \<times> 'k"
  clGetPayChInfo :: "string \<Rightarrow> string \<Rightarrow> 'k \<Rightarrow> (goerr + pb_pay_ch_info response) \<times> 'k"

datatype colour = RedF | GreenF | Uncoloured

text \<open>The goroutines that read notifications.\<close>

datatype cli_sub = ProposalSub | PaymentSub string string

record 'k cli =
  ciClient :: "'k cli_client option"
  ciNode :: 'k
  ciSessionID :: string
  ciChCounter :: nat
  ciChList :: "string list"
  ciChMap :: "string \<rightharpoonup> ref"
  ciChObjs :: "open_channel_info list"
  ciChRev :: "string \<rightharpoonup> string"
  ciNotifCounter :: nat
  ciNotifList :: "string list"
  ciNotifMap :: "string \<rightharpoonup> proposal_msg"
  ciAliases :: "string list"
  ciChainAddr :: string
  ciSubs :: "cli_sub list"
  ciOut :: "(colour \<times> string \<times> string) list"

record cli_fmt =
  cfCategory :: "nat \<Rightarrow> string"
  cfAddInfo :: "pb_add_info option \<Rightarrow> string"
  cfTime :: "int \<Rightarrow> string"
  cfConfig :: "config_resp \<Rightarrow> string"
  cfHelpText :: "string \<Rightarrow> string"

definition start_cli :: "'k \<Rightarrow> 'k cli" where
  "start_cli k = \<lparr>ciClient = None, ciNode = k, ciSessionID = [], ciChCounter = 0, ciChList = [],
     ciChMap = Map.empty, ciChObjs = [], ciChRev = Map.empty, ciNotifCounter = 0, ciNotifList = [],
     ciNotifMap = Map.empty, ciAliases = [], ciChainAddr = [], ciSubs = [], ciOut = []\<rparr>"

subsection \<open>Printing\<close>

definition nl :: string where
  "nl = [CHR 0x0A]"

definition printf :: "colour \<Rightarrow> string \<Rightarrow> string \<Rightarrow> 'k cli \<Rightarrow> 'k cli" where
  "printf c msg end u = u\<lparr>ciOut := ciOut u @ [(c, msg, end)]\<rparr>"

definition redln :: "string \<Rightarrow> 'k cli \<Rightarrow> 'k cli" where
  "redln msg = printf RedF msg (nl @ nl)"

definition greenln :: "string \<Rightarrow> 'k cli \<Rightarrow> 'k cli" where
  "greenln msg = printf GreenF msg (nl @ nl)"

text \<open>The difference of two 64-bit times.\<close>

definition sub64 :: "int \<Rightarrow> int \<Rightarrow> int" where
  "sub64 a b = sint (word_of_int (a - b) :: 64 word)"

definition printNodeNotConnectedError :: "'k cli \<Rightarrow> 'k cli" where
  "printNodeNotConnectedError =
     redln (''Not connected to perun node, connect using '' @ [CHR 39] @ ''node connect'' @ [CHR 39] @ '' command.'')"

definition printArgCountError :: "string \<Rightarrow> string list \<Rightarrow> nat \<Rightarrow> 'k cli \<Rightarrow> 'k cli" where
  "printArgCountError help args reqArgCount u =
     printf Uncoloured (''Command help:'' @ [CHR 0x09] @ help) (nl @ nl)
       (redln (''Got '' @ show_nat (length args) @ '' arg(s). Want '' @ show_nat reqArgCount @ ''.'') u)"

definition printCommandSendingError :: "goerr \<Rightarrow> 'k cli \<Rightarrow> 'k cli" where
  "printCommandSendingError e = redln (''Error sending command to perun node: '' @ err_Error e @ ''.'')"

definition printUnknownChannelAliasError :: "string \<Rightarrow> 'k cli \<Rightarrow> 'k cli" where
  "printUnknownChannelAliasError chAlias u =
     redln (''Known channel aliases:'' @ nl @ show_slice (ciChList u))
       (redln (''Unknown channel alias '' @ chAlias) u)"

definition printUnknownChNotifError :: "string \<Rightarrow> 'k cli \<Rightarrow> 'k cli" where
  "printUnknownChNotifError channelNotifAlias u =
     redln (''Known channel opening request notification aliases:'' @ nl @ show_slice (ciNotifList u) @ ''.'')
       (redln (''Unknown channel opening request notification alias.'' @ channelNotifAlias) u)"

definition printNoPaymentNotifError :: "string \<Rightarrow> 'k cli \<Rightarrow> 'k cli" where
  "printNoPaymentNotifError chAlias =
     redln (''No payment notifications pending a response on this channel.'' @ chAlias)"

definition apiErrorString :: "cli_fmt \<Rightarrow> msg_error \<Rightarrow> string" where
  "apiErrorString F e = ''category: '' @ cfCategory F (meCategory e) @ '', code: '' @ show_nat (meCode e)
     @ '', message: '' @ meMessage e @ '', additional info: '' @ cfAddInfo F (meAddInfo e)"

subsection \<open>Aliases\<close>

definition addOpenChannelID :: "string \<Rightarrow> string \<Rightarrow> 'k cli \<Rightarrow> string \<times> 'k cli" where
  "addOpenChannelID cid peer u =
     (let n = ciChCounter u + 1;
          al = ''ch_'' @ show_nat n @ ''_'' @ peer
      in (al, u\<lparr>ciChCounter := n,
                ciChObjs := ciChObjs u @ [\<lparr>oiID = cid, oiPeerAlias = peer, oiLatest = []\<rparr>],
                ciChMap := (ciChMap u)(al \<mapsto> length (ciChObjs u)),
                ciChRev := (ciChRev u)(cid \<mapsto> al),
                ciChList := ciChList u @ [al]\<rparr>))"

text \<open>The first index of an alias, and the slice with the last entry moved to that index.\<close>

primrec alias_idx :: "string \<Rightarrow> string list \<Rightarrow> nat option" where
  "alias_idx al [] = None"
| "alias_idx al (x # xs) = (if x = al then Some 0 else map_option Suc (alias_idx al xs))"

definition remove_alias :: "string \<Rightarrow> string list \<Rightarrow> string list" where
  "remove_alias al xs =
     (case alias_idx al xs of None \<Rightarrow> xs | Some i \<Rightarrow> butlast (xs[i := last xs]))"

definition removeOpenChannelID :: "string \<Rightarrow> 'k cli \<Rightarrow> 'k cli" where
  "removeOpenChannelID al u =
     u\<lparr>ciChMap := (ciChMap u)(al := None), ciChList := remove_alias al (ciChList u)\<rparr>"

text \<open>The first part that is not the own alias, when there are two parts.\<close>

definition findPeerAlias :: "string list \<Rightarrow> string" where
  "findPeerAlias parts =
     (if length parts \<noteq> 2 then []
      else case find (\<lambda>p. p \<noteq> OwnAlias) parts of None \<Rightarrow> [] | Some p \<Rightarrow> p)"

definition addChannelNotif :: "proposal_msg \<Rightarrow> 'k cli \<Rightarrow> string \<times> 'k cli" where
  "addChannelNotif notif u =
     (case notif of (pid, bi, dur, expiry) \<Rightarrow>
      let n = ciNotifCounter u + 1;
          al = ''request_'' @ show_nat n @ ''_'' @ findPeerAlias (pbParts bi)
      in (al, u\<lparr>ciNotifCounter := n, ciNotifMap := (ciNotifMap u)(al \<mapsto> notif),
                ciNotifList := ciNotifList u @ [al]\<rparr>))"

definition removeChannelNotif :: "string \<Rightarrow> 'k cli \<Rightarrow> 'k cli" where
  "removeChannelNotif al u =
     u\<lparr>ciNotifMap := (ciNotifMap u)(al := None), ciNotifList := remove_alias al (ciNotifList u)\<rparr>"

definition addPeerAlias :: "string \<Rightarrow> 'k cli \<Rightarrow> 'k cli" where
  "addPeerAlias al u =
     (if alias_idx al (ciAliases u) = None then u\<lparr>ciAliases := ciAliases u @ [al]\<rparr> else u)"

definition resetLocalCache :: "'k cli \<Rightarrow> 'k cli" where
  "resetLocalCache u =
     u\<lparr>ciNotifCounter := 0, ciNotifList := [], ciNotifMap := Map.empty,
       ciChCounter := 0, ciChMap := Map.empty, ciChRev := Map.empty, ciChList := [], ciAliases := []\<rparr>"

subsection \<open>Balances\<close>

text \<open>
  The balances as a Go map, printed in the order of its keys; then every occurrence of the
  word that Go prints before a map is cut out of the text.
\<close>

primrec balance_loop :: "string list \<Rightarrow> nat \<Rightarrow> string list \<Rightarrow> (string \<times> string) list \<Rightarrow> (string \<times> string) list run" where
  "balance_loop [] i bal m = Done m"
| "balance_loop (p # ps) i bal m = andThen (idx_at bal i) (\<lambda>b. balance_loop ps (Suc i) bal (AList.update p b m))"

fun cut_map :: "string \<Rightarrow> string" where
  "cut_map [] = []"
| "cut_map (c # cs) = (if take 3 (c # cs) = ''map'' then cut_map (drop 2 cs) else c # cut_map cs)"

definition show_map :: "(string \<times> string) list \<Rightarrow> string" where
  "show_map m = ''map['' @ join (map (\<lambda>(k, v). k @ '':'' @ v) (sort_key fst m)) '' '' @ '']''"

definition toBalanceMap :: "string list \<Rightarrow> string list \<Rightarrow> string run" where
  "toBalanceMap parts bal = andThen (balance_loop parts 0 bal []) (\<lambda>m. Done (cut_map (show_map m)))"

definition bal0 :: "pb_bal_info \<Rightarrow> string list run" where
  "bal0 bi = andThen (idx_at (pbBals bi) 0) (\<lambda>b. Done (case b of PBBal bal \<Rightarrow> bal))"

definition prettifyBalanceInfo :: "pb_bal_info \<Rightarrow> string \<Rightarrow> string run" where
  "prettifyBalanceInfo balInfo v =
     andThen (idx_at (pbCurrencies balInfo) 0) (\<lambda>cur.
     andThen (bal0 balInfo) (\<lambda>bal.
     andThen (toBalanceMap (pbParts balInfo) bal) (\<lambda>m.
     Done (''Currency: '' @ cur @ '', Balance: '' @ m @ '', Version: '' @ v))))"

definition prettifyChannelOpeningRequest :: "proposal_msg \<Rightarrow> string run" where
  "prettifyChannelOpeningRequest notif =
     (case notif of (pid, bi, dur, expiry) \<Rightarrow>
      andThen (idx_at (pbCurrencies bi) 0) (\<lambda>cur.
      andThen (bal0 bi) (\<lambda>bal.
      andThen (toBalanceMap (pbParts bi) bal) (\<lambda>m.
      Done (''Currency: '' @ cur @ '', Balance: '' @ m)))))"

definition prettifyPayChInfo :: "pb_pay_ch_info option \<Rightarrow> string run" where
  "prettifyPayChInfo chInfo =
     andThen (deref chInfo) (\<lambda>i.
     andThen (bal0 (ppBalInfo i)) (\<lambda>bal.
     andThen (toBalanceMap (pbParts (ppBalInfo i)) bal) (\<lambda>m.
     Done (''ID: '' @ ppChID i @ '', Currency: '' @ show_slice (pbCurrencies (ppBalInfo i)) @ '', Version: ''
       @ ppVersion i @ '', Balance '' @ m))))"

definition prettifyPeer :: "pb_peer_id \<Rightarrow> string" where
  "prettifyPeer p = ''Alias: '' @ pbAlias p @ '', Off-chain Addr: '' @ pbOffChainAddress p
     @ '', Comm Addr: '' @ pbCommAddress p @ '', Comm Type: '' @ pbCommType p"

end
