(* ===== verification/Cli_Commands.thy ===== *)
theory Cli_Commands
  imports Cli
begin

text \<open>
  The commands of the command line client (\<^verbatim>\<open>node.go\<close>, \<^verbatim>\<open>session.go\<close>, \<^verbatim>\<open>idprovider.go\<close>,
  \<^verbatim>\<open>channel.go\<close>, \<^verbatim>\<open>payment.go\<close>, \<^verbatim>\<open>chain.go\<close>) and the goroutines that read notifications. The
  shell runs one command at a time; there are no locks. The response to a payment is in two
  parts, before and after the answer of the node, since notifications that arrive in between
  change what the second part overwrites.
\<close>

subsection \<open>Guards and calls\<close>

definition connected :: "('k cli \<Rightarrow> 'k cli run) \<Rightarrow> 'k cli \<Rightarrow> 'k cli run" where
  "connected f u = (if ciClient u = None then Done (printNodeNotConnectedError u) else f u)"

definition with_args :: "string \<Rightarrow> nat \<Rightarrow> string list \<Rightarrow> ('k cli \<Rightarrow> 'k cli run) \<Rightarrow> 'k cli \<Rightarrow> 'k cli run" where
  "with_args help countReqArgs args f u =
     (if length args \<noteq> countReqArgs then Done (printArgCountError help args countReqArgs u) else f u)"

definition call_cli :: "('k cli_client \<Rightarrow> 'k \<Rightarrow> 'b \<times> 'k) \<Rightarrow> 'k cli \<Rightarrow> ('b \<times> 'k cli) run" where
  "call_cli f u =
     andThen (deref (ciClient u)) (\<lambda>cl. case f cl (ciNode u) of (r, k) \<Rightarrow> Done (r, u\<lparr>ciNode := k\<rparr>))"

text \<open>A request of which errors are printed, with the text around that of the error.\<close>

definition request ::
  "cli_fmt \<Rightarrow> string \<Rightarrow> string \<Rightarrow> ('k cli_client \<Rightarrow> 'k \<Rightarrow> (goerr + 'a response) \<times> 'k) \<Rightarrow> 'k cli
     \<Rightarrow> ('a option \<times> 'k cli) run" where
  "request F before after f u =
     andThen (call_cli f u) (\<lambda>(r, u).
       case r of
         Inl e \<Rightarrow> Done (None, printCommandSendingError e u)
       | Inr (RespError m) \<Rightarrow> Done (None, redln (before @ apiErrorString F m @ after) u)
       | Inr (MsgSuccess x) \<Rightarrow> Done (Some x, u))"

definition on_success :: "('a \<Rightarrow> 'k cli \<Rightarrow> 'k cli run) \<Rightarrow> 'a option \<times> 'k cli \<Rightarrow> 'k cli run" where
  "on_success f r = (case r of (None, u) \<Rightarrow> Done u | (Some x, u) \<Rightarrow> f x u)"

definition print_help :: "cli_fmt \<Rightarrow> string \<Rightarrow> 'k cli \<Rightarrow> 'k cli run" where
  "print_help F name u = Done (printf Uncoloured (cfHelpText F name) nl u)"

primrec for_each :: "('a \<Rightarrow> 's \<Rightarrow> 's run) \<Rightarrow> 'a list \<Rightarrow> 's \<Rightarrow> 's run" where
  "for_each f [] s = Done s"
| "for_each f (x # xs) s = andThen (f x s) (for_each f xs)"

text \<open>A read of a Go map of strings gives the empty string for a missing key.\<close>

definition alias_of :: "string \<Rightarrow> 'k cli \<Rightarrow> string" where
  "alias_of cid u = (case ciChRev u cid of None \<Rightarrow> [] | Some al \<Rightarrow> al)"

text \<open>The info of a channel that an alias points to.\<close>

definition with_channel ::
  "string \<Rightarrow> (ref \<Rightarrow> open_channel_info \<Rightarrow> 'k cli \<Rightarrow> 'k cli run) \<Rightarrow> 'k cli \<Rightarrow> 'k cli run" where
  "with_channel chAlias f u =
     (case ciChMap u chAlias of
        None \<Rightarrow> Done (printUnknownChannelAliasError chAlias u)
      | Some r \<Rightarrow> andThen (idx_at (ciChObjs u) r) (\<lambda>chInfo. f r chInfo u))"

definition set_latest :: "ref \<Rightarrow> string \<Rightarrow> 'k cli \<Rightarrow> 'k cli run" where
  "set_latest r updateID u =
     andThen (idx_at (ciChObjs u) r) (\<lambda>chInfo.
     Done (u\<lparr>ciChObjs := (ciChObjs u)[r := chInfo\<lparr>oiLatest := updateID\<rparr>]\<rparr>))"

subsection \<open>The node\<close>

definition nodeFn :: "cli_fmt \<Rightarrow> 'k cli \<Rightarrow> 'k cli run" where
  "nodeFn F = print_help F ''node''"

definition getNodeTime :: "'k cli \<Rightarrow> ((goerr + int) \<times> 'k cli) run" where
  "getNodeTime = call_cli (\<lambda>cl. clTime cl)"

text \<open>
  When the address cannot be dialled the connection is nil, but the client made from it is not:
  the call that follows dereferences the connection.
\<close>

definition nodeConnectFn ::
  "cli_fmt \<Rightarrow> (string \<Rightarrow> goerr + 'k cli_client) \<Rightarrow> string \<Rightarrow> string list \<Rightarrow> 'k cli \<Rightarrow> 'k cli run" where
  "nodeConnectFn F dial help args = with_args help 1 args (\<lambda>u.
     case dial (args ! 0) of
       Inl e \<Rightarrow> Panic NilDereference
     | Inr conn \<Rightarrow> andThen (getNodeTime (u\<lparr>ciClient := Some conn\<rparr>)) (\<lambda>(r, u).
         Done (case r of
           Inl e \<Rightarrow> redln (''Error connecting to perun node: '' @ err_Error e) u
         | Inr t \<Rightarrow> greenln (''Connected to perun node at '' @ args ! 0 @ ''. Node time is '' @ cfTime F t) u)))"

definition nodeTimeFn :: "cli_fmt \<Rightarrow> string \<Rightarrow> string list \<Rightarrow> 'k cli \<Rightarrow> 'k cli run" where
  "nodeTimeFn F help args = connected (with_args help 0 args (\<lambda>u.
     andThen (getNodeTime u) (\<lambda>(r, u).
     Done (case r of
       Inl e \<Rightarrow> printCommandSendingError e u
     | Inr t \<Rightarrow> greenln (''Perun node time: '' @ cfTime F t) u))))"

definition nodeConfigFn :: "cli_fmt \<Rightarrow> string \<Rightarrow> string list \<Rightarrow> 'k cli \<Rightarrow> 'k cli run" where
  "nodeConfigFn F help args = connected (with_args help 0 args (\<lambda>u.
     andThen (call_cli (\<lambda>cl. clGetConfig cl) u) (\<lambda>(r, u).
     Done (case r of
       Inl e \<Rightarrow> printCommandSendingError e u
     | Inr cfg \<Rightarrow> greenln (''Perun node config:'' @ nl @ cfConfig F cfg) u))))"

subsection \<open>Peers\<close>

definition peerIDFn :: "cli_fmt \<Rightarrow> 'k cli \<Rightarrow> 'k cli run" where
  "peerIDFn F = connected (print_help F ''peer-id'')"

definition peerIDAddFn :: "cli_fmt \<Rightarrow> string \<Rightarrow> string list \<Rightarrow> 'k cli \<Rightarrow> 'k cli run" where
  "peerIDAddFn F help args = connected (with_args help 4 args (\<lambda>u.
     andThen (request F ''Error adding peer ID : '' [] (\<lambda>cl. clAddPeerID cl (ciSessionID u)
         \<lparr>pbAlias = args ! 0, pbOffChainAddress = args ! 1, pbCommAddress = args ! 2, pbCommType = args ! 3\<rparr>) u)
       (on_success (\<lambda>_ u. Done (greenln ''Peer ID added successfully.'' (addPeerAlias (args ! 0) u))))))"

definition peerIDGetFn :: "cli_fmt \<Rightarrow> string \<Rightarrow> string list \<Rightarrow> 'k cli \<Rightarrow> 'k cli run" where
  "peerIDGetFn F help args = connected (with_args help 1 args (\<lambda>u.
     andThen (request F ''Error adding peer ID : '' [] (\<lambda>cl. clGetPeerID cl (ciSessionID u) (args ! 0)) u)
       (on_success (\<lambda>p u. Done (greenln (prettifyPeer p) (addPeerAlias (args ! 0) u))))))"

subsection \<open>Payments\<close>

definition paymentFn :: "cli_fmt \<Rightarrow> 'k cli \<Rightarrow> 'k cli run" where
  "paymentFn F = connected (print_help F ''payment'')"

text \<open>Sending and requesting differ in the payee and in what is printed.\<close>

definition payment_update ::
  "cli_fmt \<Rightarrow> (open_channel_info \<Rightarrow> string) \<Rightarrow> string \<Rightarrow> string \<Rightarrow> string list \<Rightarrow> 'k cli \<Rightarrow> 'k cli run" where
  "payment_update F payee failed sent args = with_channel (args ! 0) (\<lambda>r chInfo u.
     andThen (request F failed ''.'' (\<lambda>cl. clSendPayChUpdate cl (ciSessionID u) (oiID chInfo)
         [\<lparr>ptCurrency = ETHSymbol, ptPayee = payee chInfo, ptAmount = args ! 1\<rparr>]) u)
       (on_success (\<lambda>i u. andThen (prettifyPayChInfo (Some i)) (\<lambda>s.
          Done (greenln (sent @ alias_of (ppChID i) u @ ''. Updated channel Info:'' @ nl @ s @ ''.'') u)))))"

definition paymentSendFn :: "cli_fmt \<Rightarrow> string \<Rightarrow> string list \<Rightarrow> 'k cli \<Rightarrow> 'k cli run" where
  "paymentSendFn F help args = connected (with_args help 2 args
     (payment_update F oiPeerAlias ''Error sending payment to peer: '' ''Payment sent to peer on channel '' args))"

definition paymentRequestFn :: "cli_fmt \<Rightarrow> string \<Rightarrow> string list \<Rightarrow> 'k cli \<Rightarrow> 'k cli run" where
  "paymentRequestFn F help args = connected (with_args help 2 args
     (payment_update F (\<lambda>_. OwnAlias) ''Error requesting payment from peer: ''
        ''Payment request accepted by peer on channel '' args))"

definition paymentSub :: "string \<Rightarrow> 'k cli \<Rightarrow> 'k cli run" where
  "paymentSub chAlias = with_channel chAlias (\<lambda>r chInfo u.
     andThen (call_cli (\<lambda>cl. clSubPayChUpdates cl (ciSessionID u) (oiID chInfo)) u) (\<lambda>(err, u).
     Done (case err of
       Some e \<Rightarrow> printCommandSendingError e u
     | None \<Rightarrow> greenln (''Subscribed to payment notifications on channel '' @ chAlias @ '' (ID: '' @ oiID chInfo @ '')'')
         (u\<lparr>ciSubs := ciSubs u @ [PaymentSub chAlias (oiID chInfo)]\<rparr>))))"

definition paymentSubFn :: "string \<Rightarrow> string list \<Rightarrow> 'k cli \<Rightarrow> 'k cli run" where
  "paymentSubFn help args = connected (with_args help 1 args (paymentSub (args ! 0)))"

definition paymentUnsub :: "cli_fmt \<Rightarrow> string \<Rightarrow> 'k cli \<Rightarrow> 'k cli run" where
  "paymentUnsub F chAlias = with_channel chAlias (\<lambda>r chInfo u.
     andThen (request F ''Error unsubscribing from payment notifications: '' []
         (\<lambda>cl. clUnsubPayChUpdates cl (ciSessionID u) (oiID chInfo)) u)
       (on_success (\<lambda>_ u. Done (greenln (''Unsubscribed from payment notifications for channel '' @ chAlias
          @ '' (ID: '' @ oiID chInfo @ '')'') u))))"

definition paymentUnsubFn :: "cli_fmt \<Rightarrow> string \<Rightarrow> string list \<Rightarrow> 'k cli \<Rightarrow> 'k cli run" where
  "paymentUnsubFn F help args = connected (with_args help 1 args (paymentUnsub F (args ! 0)))"

text \<open>
  The response to the latest payment, with the channel it is for when the node agreed. That there
  is no payment to respond to is printed, and the request is sent all the same.
\<close>

definition payment_respond ::
  "cli_fmt \<Rightarrow> string \<Rightarrow> bool \<Rightarrow> string \<Rightarrow> 'k cli \<Rightarrow> ((ref \<times> string \<times> pb_pay_ch_info) option \<times> 'k cli) run" where
  "payment_respond F failed accept chAlias u =
     (case ciChMap u chAlias of
        None \<Rightarrow> Done (None, printUnknownChannelAliasError chAlias u)
      | Some r \<Rightarrow> andThen (idx_at (ciChObjs u) r) (\<lambda>chInfo.
          let u = (if oiLatest chInfo = [] then printNoPaymentNotifError chAlias u else u)
          in andThen (request F failed [] (\<lambda>cl. clRespondPayChUpdate cl (ciSessionID u) (oiID chInfo)
               (oiLatest chInfo) accept) u) (\<lambda>(res, u). Done (map_option (\<lambda>i. (r, oiID chInfo, i)) res, u))))"

definition paymentAccept_done :: "ref \<times> string \<times> pb_pay_ch_info \<Rightarrow> 'k cli \<Rightarrow> 'k cli run" where
  "paymentAccept_done x u =
     (case x of (r, cid, i) \<Rightarrow>
      andThen (prettifyPayChInfo (Some i)) (\<lambda>s.
      set_latest r [] (greenln (''Payment channel updated. Alias: '' @ alias_of cid u @ ''. Updated Info:'' @ nl @ s) u)))"

definition paymentReject_done :: "ref \<times> string \<times> pb_pay_ch_info \<Rightarrow> 'k cli \<Rightarrow> 'k cli run" where
  "paymentReject_done x u =
     (case x of (r, cid, i) \<Rightarrow> set_latest r [] (greenln ''Payment channel update rejected successfully.'' u))"

definition paymentAccept :: "cli_fmt \<Rightarrow> string \<Rightarrow> string list \<Rightarrow> 'k cli \<Rightarrow> 'k cli run" where
  "paymentAccept F help args = connected (with_args help 1 args (\<lambda>u.
     andThen (payment_respond F ''Error accepting payment channel update: '' True (args ! 0) u)
       (on_success paymentAccept_done)))"

definition paymentReject :: "cli_fmt \<Rightarrow> string \<Rightarrow> string list \<Rightarrow> 'k cli \<Rightarrow> 'k cli run" where
  "paymentReject F help args = connected (with_args help 1 args (\<lambda>u.
     andThen (payment_respond F ''Error rejecting payment channel update: '' False (args ! 0) u)
       (on_success paymentReject_done)))"

subsection \<open>Channels\<close>

definition channelFn :: "cli_fmt \<Rightarrow> 'k cli \<Rightarrow> 'k cli run" where
  "channelFn F = connected (print_help F ''channel'')"

text \<open>A channel that was opened gets an alias, and its payments are subscribed to.\<close>

definition channel_opened :: "pb_pay_ch_info \<Rightarrow> 'k cli \<Rightarrow> 'k cli run" where
  "channel_opened i u =
     (case addOpenChannelID (ppChID i) (findPeerAlias (pbParts (ppBalInfo i))) u of
        (chAlias, u) \<Rightarrow> andThen (prettifyPayChInfo (Some i)) (\<lambda>s.
          paymentSub chAlias (greenln (''Channel opened. Alias: '' @ chAlias @ ''.'' @ nl @ s @ ''.'') u)))"

definition channelSendFn :: "cli_fmt \<Rightarrow> string \<Rightarrow> string list \<Rightarrow> 'k cli \<Rightarrow> 'k cli run" where
  "channelSendFn F help args = connected (with_args help 3 args (\<lambda>u.
     andThen (request F ''Error opening channel : '' [] (\<lambda>cl. clOpenPayCh cl (ciSessionID u)
         \<lparr>pbCurrencies = [ETHSymbol], pbParts = [OwnAlias, args ! 0], pbBals = [PBBal [args ! 1, args ! 2]]\<rparr> 10) u)
       (on_success channel_opened)))"

definition channelSub :: "'k cli \<Rightarrow> 'k cli run" where
  "channelSub u =
     andThen (call_cli (\<lambda>cl. clSubPayChProposals cl (ciSessionID u)) u) (\<lambda>(err, u).
     Done (case err of
       Some e \<Rightarrow> printCommandSendingError e u
     | None \<Rightarrow> greenln ''Subscribed to channel opening request notifications.''
         (u\<lparr>ciSubs := ciSubs u @ [ProposalSub]\<rparr>)))"

definition channelSubFn :: "string \<Rightarrow> string list \<Rightarrow> 'k cli \<Rightarrow> 'k cli run" where
  "channelSubFn help args = connected (with_args help 0 args channelSub)"

definition channelUnsub :: "cli_fmt \<Rightarrow> 'k cli \<Rightarrow> 'k cli run" where
  "channelUnsub F u =
     andThen (request F ''Error unsubscribing from channel proposals : '' ''.''
         (\<lambda>cl. clUnsubPayChProposals cl (ciSessionID u)) u) (on_success (\<lambda>_. Done))"

definition channelUnsubFn :: "cli_fmt \<Rightarrow> string \<Rightarrow> string list \<Rightarrow> 'k cli \<Rightarrow> 'k cli run" where
  "channelUnsubFn F help args = connected (with_args help 0 args (channelUnsub F))"

text \<open>The response to a request to open a channel. The request is removed whatever comes of it.\<close>

definition respond_request ::
  "cli_fmt \<Rightarrow> bool \<Rightarrow> (pb_pay_ch_info \<Rightarrow> 'k cli \<Rightarrow> 'k cli run) \<Rightarrow> string \<Rightarrow> 'k cli \<Rightarrow> 'k cli run" where
  "respond_request F accept f notifAlias u =
     (case ciNotifMap u notifAlias of
        None \<Rightarrow> Done (printUnknownChNotifError notifAlias u)
      | Some (pid, bi, dur, expiry) \<Rightarrow>
          andThen (request F ''Error responding accept to channel opening request : '' ''.''
            (\<lambda>cl. clRespondPayChProposal cl (ciSessionID u) pid accept) u) (\<lambda>r.
          andThen (on_success f r) (\<lambda>u. Done (removeChannelNotif notifAlias u))))"

definition channelAcceptFn :: "cli_fmt \<Rightarrow> string \<Rightarrow> string list \<Rightarrow> 'k cli \<Rightarrow> 'k cli run" where
  "channelAcceptFn F help args = connected (with_args help 1 args
     (respond_request F True channel_opened (args ! 0)))"

definition channelRejectFn :: "cli_fmt \<Rightarrow> string \<Rightarrow> string list \<Rightarrow> 'k cli \<Rightarrow> 'k cli run" where
  "channelRejectFn F help args = connected (with_args help 1 args
     (respond_request F False (\<lambda>_ u. Done (greenln ''Channel proposal rejected successfully.'' u)) (args ! 0)))"

definition chCloseNSettleFn :: "cli_fmt \<Rightarrow> string \<Rightarrow> string list \<Rightarrow> 'k cli \<Rightarrow> 'k cli run" where
  "chCloseNSettleFn F help args = connected (with_args help 1 args (with_channel (args ! 0) (\<lambda>r chInfo u.
     andThen (request F ''Error closing channel update: '' [] (\<lambda>cl. clClosePayCh cl (ciSessionID u) (oiID chInfo)) u)
       (on_success (\<lambda>i u. andThen (prettifyPayChInfo (Some i)) (\<lambda>s.
          Done (removeOpenChannelID (args ! 0)
            (greenln (''Channel closed. Alias: '' @ args ! 0 @ ''. Updated Info:'' @ nl @ s) u))))))))"

text \<open>The pending requests are printed in the order in which Go iterates over the map.\<close>

definition channelPendingFn :: "string list \<Rightarrow> string \<Rightarrow> string list \<Rightarrow> 'k cli \<Rightarrow> 'k cli run" where
  "channelPendingFn order help args = connected (with_args help 0 args (\<lambda>u.
     andThen (getNodeTime u) (\<lambda>(r, u).
       case r of
         Inl e \<Rightarrow> Done (printCommandSendingError e u)
       | Inr nodeTime \<Rightarrow> for_each (\<lambda>al u. case ciNotifMap u al of
             None \<Rightarrow> Done u
           | Some (pid, bi, dur, expiry) \<Rightarrow>
               andThen (prettifyChannelOpeningRequest (pid, bi, dur, expiry)) (\<lambda>s.
               Done (greenln (''Notification Alias: '' @ al @ ''.'' @ nl @ s @ ''.'' @ nl @ ''Expires in ''
                 @ show_int (sub64 expiry nodeTime) @ ''s.'') u))) order u)))"

definition getChannelInfo :: "cli_fmt \<Rightarrow> string \<Rightarrow> 'k cli \<Rightarrow> (pb_pay_ch_info option \<times> 'k cli) run" where
  "getChannelInfo F chAlias u =
     (case ciChMap u chAlias of
        None \<Rightarrow> Done (None, printUnknownChannelAliasError chAlias u)
      | Some r \<Rightarrow> andThen (idx_at (ciChObjs u) r) (\<lambda>chInfo.
          request F ''Error getting channel info: '' ''.'' (\<lambda>cl. clGetPayChInfo cl (ciSessionID u) (oiID chInfo)) u))"

definition print_channel :: "cli_fmt \<Rightarrow> string \<Rightarrow> string \<Rightarrow> 'k cli \<Rightarrow> 'k cli run" where
  "print_channel F end chAlias u =
     andThen (getChannelInfo F chAlias u) (\<lambda>(payChInfo, u).
     andThen (prettifyPayChInfo payChInfo) (\<lambda>s.
     Done (printf GreenF (''Channel '' @ chAlias @ '' Info:'' @ nl @ s @ ''.'') end u)))"

definition channelListOpenFn :: "cli_fmt \<Rightarrow> string \<Rightarrow> string list \<Rightarrow> 'k cli \<Rightarrow> 'k cli run" where
  "channelListOpenFn F help args = connected (with_args help 0 args (\<lambda>u.
     andThen (for_each (print_channel F nl) (ciChList u) u) (\<lambda>u. Done (printf Uncoloured [] nl u))))"

definition channelInfoFn :: "cli_fmt \<Rightarrow> string \<Rightarrow> string list \<Rightarrow> 'k cli \<Rightarrow> 'k cli run" where
  "channelInfoFn F help args = connected (with_args help 1 args (print_channel F (nl @ nl) (args ! 0)))"

end
