(* ===== verification/Cli_Shell.thy ===== *)
theory Cli_Shell
  imports Cli_Commands
begin

text \<open>
  The command line client continued: sessions (\<^verbatim>\<open>session.go\<close>), the address of the blockchain node
  (\<^verbatim>\<open>chain.go\<close>), the goroutines that read notifications (\<^verbatim>\<open>channel.go\<close>, \<^verbatim>\<open>payment.go\<close>) and the
  commands the shell offers.
\<close>

subsection \<open>Sessions\<close>

definition sessionFn :: "cli_fmt \<Rightarrow> 'k cli \<Rightarrow> 'k cli run" where
  "sessionFn F = connected (print_help F ''session'')"

definition restored_channel :: "pb_pay_ch_info \<Rightarrow> 'k cli \<Rightarrow> 'k cli run" where
  "restored_channel i u =
     (case addOpenChannelID (ppChID i) (findPeerAlias (pbParts (ppBalInfo i))) u of
        (chAlias, u) \<Rightarrow> andThen (prettifyPayChInfo (Some i)) (\<lambda>s.
          paymentSub chAlias (printf GreenF (''Channel restored. Alias: '' @ chAlias @ ''.'' @ nl @ s @ ''.'') nl u)))"

definition sessionOpenFn :: "cli_fmt \<Rightarrow> string \<Rightarrow> string list \<Rightarrow> 'k cli \<Rightarrow> 'k cli run" where
  "sessionOpenFn F help args = connected (with_args help 1 args (\<lambda>u.
     andThen (request F ''Error opening session : '' [] (\<lambda>cl. clOpenSession cl (args ! 0)) u)
       (on_success (\<lambda>(sid, restoredChs) u.
          andThen (for_each restored_channel restoredChs (greenln ''Session opened.'' (u\<lparr>ciSessionID := sid\<rparr>))) (\<lambda>u.
          channelSub (printf Uncoloured [] nl u))))))"

definition sessionCloseOpts :: "string list" where
  "sessionCloseOpts = [''force'', ''no-force'']"

text \<open>The subscription to requests is ended before the parameter is looked at.\<close>

definition sessionCloseFn :: "cli_fmt \<Rightarrow> string \<Rightarrow> string list \<Rightarrow> 'k cli \<Rightarrow> 'k cli run" where
  "sessionCloseFn F help args = connected (with_args help 1 args (\<lambda>u.
     andThen (channelUnsub F u) (\<lambda>u.
       if args ! 0 \<notin> set sessionCloseOpts
       then Done (redln (''Parameter should be one of these values: '' @ show_slice sessionCloseOpts) u)
       else andThen (call_cli (\<lambda>cl. clCloseSession cl (ciSessionID u) (args ! 0 = ''force'')) u) (\<lambda>(r, u).
         case r of
           Inl e \<Rightarrow> Done (printCommandSendingError e u)
         | Inr (RespError m) \<Rightarrow> andThen (channelSub u) (\<lambda>u.
             Done (redln (''Error closing session : '' @ apiErrorString F m) u))
         | Inr (MsgSuccess infos) \<Rightarrow>
             let u = resetLocalCache u; u = greenln (''Session closed. ID: '' @ ciSessionID u @ ''.'') u
             in if args ! 0 \<noteq> ''force'' then Done u
                else for_each (\<lambda>i u. andThen (prettifyPayChInfo (Some i)) (\<lambda>s.
                  Done (printf GreenF (''Channel persisted. Alias: '' @ alias_of (ppChID i) u @ ''.'' @ nl @ s @ ''.'') nl u)))
                  infos u))))"

subsection \<open>The blockchain\<close>

definition chainFn :: "cli_fmt \<Rightarrow> 'k cli \<Rightarrow> 'k cli run" where
  "chainFn F = print_help F ''chain''"

definition setChainAddrFn :: "string \<Rightarrow> string list \<Rightarrow> 'k cli \<Rightarrow> 'k cli run" where
  "setChainAddrFn help args = with_args help 1 args (\<lambda>u.
     Done (greenln (''Blockchain node address: '' @ args ! 0 @ nl) (u\<lparr>ciChainAddr := args ! 0\<rparr>)))"

definition getChainAddrFn :: "string \<Rightarrow> string list \<Rightarrow> 'k cli \<Rightarrow> 'k cli run" where
  "getChainAddrFn help args = with_args help 0 args (\<lambda>u.
     Done (greenln (''Blockchain node address: '' @ ciChainAddr u @ nl) u))"

subsection \<open>Notifications\<close>

text \<open>One round of the loop that reads requests to open channels; the flag says whether it goes on.\<close>

definition channelNotif_round :: "cli_fmt \<Rightarrow> proposal_msg recv \<Rightarrow> 'k cli \<Rightarrow> (bool \<times> 'k cli) run" where
  "channelNotif_round F msg u =
     (case msg of
        RecvEOF \<Rightarrow> Done (False, redln ''Channel opening request subscription closed.'' u)
      | RecvFailed e \<Rightarrow> Done (False,
          redln (''Error receiving channel opening request notification: '' @ err_Error e @ ''.'') u)
      | RecvError m \<Rightarrow> Done (False,
          redln (''Error received in channel opening request notification: '' @ apiErrorString F m @ ''.'') u)
      | RecvNotify notif \<Rightarrow>
          (case addChannelNotif notif u of (channelNotifAlias, u) \<Rightarrow>
           andThen (getNodeTime u) (\<lambda>(r, u).
             case r of
               Inl e \<Rightarrow> Done (False, printCommandSendingError e u)
             | Inr nodeTime \<Rightarrow> andThen (prettifyChannelOpeningRequest notif) (\<lambda>s.
                 Done (True, greenln (''Channel opening request notification received. Notification Alias: ''
                   @ channelNotifAlias @ ''.'' @ nl @ s @ ''.'' @ nl @ ''Expires in ''
                   @ show_int (sub64 (snd (snd (snd notif))) nodeTime) @ ''s.'') u)))))"

text \<open>
  An update replaces the one that awaits a response. The info of the channel is nil when the
  alias is not known any more or the node does not give it.
\<close>

definition show_update ::
  "cli_fmt \<Rightarrow> string \<Rightarrow> (string \<Rightarrow> 'k cli \<Rightarrow> 'k cli) \<Rightarrow> update_msg \<Rightarrow> int \<Rightarrow> 'k cli \<Rightarrow> 'k cli run" where
  "show_update F chAlias intro notif nodeTime u =
     (case notif of (updateID, proposed, typ, expiry, err) \<Rightarrow>
      andThen (getChannelInfo F chAlias u) (\<lambda>(currPayChInfo, u).
      andThen (deref currPayChInfo) (\<lambda>cur.
      andThen (prettifyBalanceInfo (ppBalInfo cur) (ppVersion cur)) (\<lambda>s1.
      andThen (prettifyBalanceInfo (ppBalInfo proposed) (ppVersion proposed)) (\<lambda>s2.
      let u = greenln (''Current:'' @ [CHR 0x09] @ s1 @ ''.'' @ nl @ ''Proposed:'' @ [CHR 0x09] @ s2 @ ''.'' @ nl
                @ ''Expires in '' @ show_int (sub64 expiry nodeTime) @ ''s.'') (intro (ppChID proposed) u)
      in andThen (deref (ciChMap u chAlias)) (\<lambda>r.
         andThen (idx_at (ciChObjs u) r) (\<lambda>chInfo.
         set_latest r updateID
           (if oiLatest chInfo \<noteq> []
            then printf GreenF (''Dropping older (now obselete) notification received on this channel.''
                   @ ''%!(EXTRA string='' @ oiLatest chInfo @ '')'') [] u
            else u))))))))"

definition handleUpdateTypeOpenNotif :: "cli_fmt \<Rightarrow> string \<Rightarrow> update_msg \<Rightarrow> int \<Rightarrow> 'k cli \<Rightarrow> 'k cli run" where
  "handleUpdateTypeOpenNotif F chAlias = show_update F chAlias (\<lambda>cid.
     printf GreenF (''Payment notification received on channel '' @ chAlias @ ''. (ID:'' @ cid @ '')'' @ nl) [])"

definition handleUpdateTypeFinalNotif :: "cli_fmt \<Rightarrow> string \<Rightarrow> update_msg \<Rightarrow> int \<Rightarrow> 'k cli \<Rightarrow> 'k cli run" where
  "handleUpdateTypeFinalNotif F chAlias = show_update F chAlias (\<lambda>cid u.
     printf GreenF ''Channel will be closed if this payment update is responded to.'' nl
       (printf GreenF (''Finalizing payment notification received on channel '' @ chAlias @ ''. (ID:'' @ cid @ '')'') nl u))"

definition handleUpdateTypeClosedNotif :: "cli_fmt \<Rightarrow> string \<Rightarrow> update_msg \<Rightarrow> 'k cli \<Rightarrow> 'k cli run" where
  "handleUpdateTypeClosedNotif F chAlias notif u =
     (case notif of (updateID, proposed, typ, expiry, err) \<Rightarrow>
      let u = printf GreenF (''Payment channel close notification received on channel '' @ chAlias @ '' (ID: ''
                @ ppChID proposed @ '')'' @ nl) [] u
      in andThen (prettifyBalanceInfo (ppBalInfo proposed) (ppVersion proposed)) (\<lambda>s.
         Done (removeOpenChannelID chAlias
           (case err of
              None \<Rightarrow> greenln (s @ ''.'') u
            | Some m \<Rightarrow> redln (''Error settling the state:'' @ nl @ s @ nl @ ''on the blockchain:''
                @ apiErrorString F m @ nl @ ''..'') u))))"

definition paymentNotif_round ::
  "cli_fmt \<Rightarrow> string \<Rightarrow> string \<Rightarrow> update_msg recv \<Rightarrow> 'k cli \<Rightarrow> (bool \<times> 'k cli) run" where
  "paymentNotif_round F chAlias cid msg u =
     (case msg of
        RecvEOF \<Rightarrow> Done (False, redln (''Subscription to payment channel notifications closed on channel '' @ chAlias
          @ '' (ID: '' @ cid @ '').'') u)
      | RecvFailed e \<Rightarrow> Done (False, redln (''Error receiving channel update notification: '' @ err_Error e) u)
      | RecvError m \<Rightarrow> Done (False, redln (''Error message received in update notification : '' @ apiErrorString F m) u)
      | RecvNotify notif \<Rightarrow>
          andThen (getNodeTime u) (\<lambda>(r, u).
            case r of
              Inl e \<Rightarrow> Done (False, printCommandSendingError e u)
            | Inr nodeTime \<Rightarrow>
                andThen (case fst (snd (snd notif)) of
                    PBOpen \<Rightarrow> handleUpdateTypeOpenNotif F chAlias notif nodeTime u
                  | PBFinal \<Rightarrow> handleUpdateTypeFinalNotif F chAlias notif nodeTime u
                  | PBClosed \<Rightarrow> handleUpdateTypeClosedNotif F chAlias notif u)
                  (\<lambda>u. Done (True, u))))"

text \<open>The goroutines, on a stream of messages from a position on.\<close>

partial_function (option) channelNotifHandler ::
  "cli_fmt \<Rightarrow> (nat \<Rightarrow> proposal_msg recv) \<Rightarrow> nat \<Rightarrow> 'k cli \<Rightarrow> 'k cli run option" where
  "channelNotifHandler F sub i u =
     (case channelNotif_round F (sub i) u of
        Panic p \<Rightarrow> Some (Panic p)
      | Blocked \<Rightarrow> Some Blocked
      | Done (goes_on, u') \<Rightarrow> if goes_on then channelNotifHandler F sub (Suc i) u' else Some (Done u'))"

partial_function (option) paymentNotifHandler ::
  "cli_fmt \<Rightarrow> string \<Rightarrow> string \<Rightarrow> (nat \<Rightarrow> update_msg recv) \<Rightarrow> nat \<Rightarrow> 'k cli \<Rightarrow> 'k cli run option" where
  "paymentNotifHandler F chAlias cid sub i u =
     (case paymentNotif_round F chAlias cid (sub i) u of
        Panic p \<Rightarrow> Some (Panic p)
      | Blocked \<Rightarrow> Some Blocked
      | Done (goes_on, u') \<Rightarrow> if goes_on then paymentNotifHandler F chAlias cid sub (Suc i) u' else Some (Done u'))"

end
