(* ===== verification/Cli_Table.thy ===== *)
theory Cli_Table
  imports Cli_Shell
begin

text \<open>
  The commands as the shell knows them, with their names, help texts, completions and functions.
  The shell runs the function of a command on its arguments, and offers what the completion gives.
\<close>

record 'k cli_cmd =
  cmName :: string
  cmHelp :: string
  cmCompleter :: "('k cli \<Rightarrow> string list) option"
  cmFunc :: "string list \<Rightarrow> 'k cli \<Rightarrow> 'k cli run"

text \<open>A function prints the help text of its own command when the arguments are wrong.\<close>

definition cmd ::
  "string \<Rightarrow> string \<Rightarrow> ('k cli \<Rightarrow> string list) option \<Rightarrow> (string \<Rightarrow> string list \<Rightarrow> 'k cli \<Rightarrow> 'k cli run) \<Rightarrow> 'k cli_cmd" where
  "cmd name help completer f =
     \<lparr>cmName = name, cmHelp = help, cmCompleter = completer, cmFunc = f help\<rparr>"

definition nodeConnectCmd :: "cli_fmt \<Rightarrow> (string \<Rightarrow> goerr + 'k cli_client) \<Rightarrow> 'k cli_cmd" where
  "nodeConnectCmd F dial = cmd ''connect'' (''Connect to a running perun node instance. Use tab completion to cycle through default values.'' @
     ''Usage: node connect [url]'')
     (Some (\<lambda>_. ['':50001''])) (nodeConnectFn F dial)"

definition nodeTimeCmd :: "cli_fmt \<Rightarrow> 'k cli_cmd" where
  "nodeTimeCmd F = cmd ''time'' ''Print node time.Usage: node time''
     None (nodeTimeFn F)"

definition nodeConfigCmd :: "cli_fmt \<Rightarrow> 'k cli_cmd" where
  "nodeConfigCmd F = cmd ''config'' ''Print node config.Usage: node config''
     None (nodeConfigFn F)"

definition sessionOpenCmd :: "cli_fmt \<Rightarrow> 'k cli_cmd" where
  "sessionOpenCmd F = cmd ''open'' (''Open a new session. Use tab completion to cycle through default values.'' @
     ''Usage: session open [session config file]'')
     (Some (\<lambda>_. [''alice/session.yaml'', ''bob/session.yaml''])) (sessionOpenFn F)"

definition sessionCloseCmd :: "cli_fmt \<Rightarrow> 'k cli_cmd" where
  "sessionCloseCmd F = cmd ''close'' (''Close the current session. Force will persist open chs'' @
     ''Usage: session close force|no-force'')
     (Some (\<lambda>_. sessionCloseOpts)) (sessionCloseFn F)"

definition peerIDAddCmd :: "cli_fmt \<Rightarrow> 'k cli_cmd" where
  "peerIDAddCmd F = cmd ''add'' (''Add a peer ID to the ID provider.'' @
     ''Usage: peer-id add [peer alias] [off-chain address] [comm address] [comm type]'')
     None (peerIDAddFn F)"

definition peerIDGetCmd :: "cli_fmt \<Rightarrow> 'k cli_cmd" where
  "peerIDGetCmd F = cmd ''get'' (''Get peer ID corresponding to the given Alias from the ID provider.'' @
     ''Usage: peer-id get [peer alias]'')
     None (peerIDGetFn F)"

definition channelSendCmd :: "cli_fmt \<Rightarrow> 'k cli_cmd" where
  "channelSendCmd F = cmd ''send-opening-request'' (''Send a request to open a channel with the peer.'' @
     ''Usage: channel send-opening-request [peer alias] [own amount] [peer amount]'')
     (Some ciAliases) (channelSendFn F)"

definition channelSubCmd :: "'k cli_cmd" where
  "channelSubCmd = cmd ''subscribe-to-opening-requests'' (''Subscribe to channel opening request notications from the peer.'' @
     ''Usage: channel subscribe-opening-request'')
     None channelSubFn"

definition channelUnsubCmd :: "cli_fmt \<Rightarrow> 'k cli_cmd" where
  "channelUnsubCmd F = cmd ''unsubcribe-from-opening-requests'' (''Unsubscribe from channel opening request notications from the peer.'' @
     ''Usage: channel unsubcribe-opening-request'')
     None (channelUnsubFn F)"

definition channelAcceptCmd :: "cli_fmt \<Rightarrow> 'k cli_cmd" where
  "channelAcceptCmd F = cmd ''accept-opening-request'' (''Accept channel opening request from the peer.'' @
     ''Usage: channel accept-opening-request [channel notification alias]'')
     (Some ciNotifList) (channelAcceptFn F)"

definition channelRejectCmd :: "cli_fmt \<Rightarrow> 'k cli_cmd" where
  "channelRejectCmd F = cmd ''reject-opening-request'' (''Reject channel opening request from the peer.'' @
     ''Usage: channel reject-opening-request [channel notification alias]'')
     (Some ciNotifList) (channelRejectFn F)"

definition channelListPendingCmd :: "string list \<Rightarrow> 'k cli_cmd" where
  "channelListPendingCmd order = cmd ''list-notifications-pending-response'' (''List channel opening request notifications pending a response.'' @
     ''Usage: channel list-notifications-pending-response'')
     None (channelPendingFn order)"

definition channelListOpenCmd :: "cli_fmt \<Rightarrow> 'k cli_cmd" where
  "channelListOpenCmd F = cmd ''list-open-channels'' (''Print the current channel info for all open channels.'' @
     ''Usage: channel list-open-channels'')
     None (channelListOpenFn F)"

definition channelInfoCmd :: "cli_fmt \<Rightarrow> 'k cli_cmd" where
  "channelInfoCmd F = cmd ''info'' ''Print the current channel info.Usage: channel info''
     (Some ciChList) (channelInfoFn F)"

definition channelCloseNSettleCmd :: "cli_fmt \<Rightarrow> 'k cli_cmd" where
  "channelCloseNSettleCmd F = cmd ''close-n-settle-on-chain'' (''Close the channel and settle the balance on the blockchain.'' @
     ''Usage: channel settle-on-chain [channel alias]'')
     (Some ciChList) (chCloseNSettleFn F)"

definition paymentSendCmd :: "cli_fmt \<Rightarrow> 'k cli_cmd" where
  "paymentSendCmd F = cmd ''send-to-peer'' ''Send a payment to the peer.Usage: payment send [channel alias] [amount]''
     (Some ciChList) (paymentSendFn F)"

definition paymentRequestCmd :: "cli_fmt \<Rightarrow> 'k cli_cmd" where
  "paymentRequestCmd F = cmd ''request-from-peer'' ''Request a payment from the peer.Usage: payment request [channel alias] [amount]''
     (Some ciChList) (paymentRequestFn F)"

definition paymentSubCmd :: "'k cli_cmd" where
  "paymentSubCmd = cmd ''subscribe-to-notifications'' ''Subscribe to payment notifications from the peer.Usage: payment sub [channel alias]''
     (Some ciChList) paymentSubFn"

definition paymentUnsubCmd :: "cli_fmt \<Rightarrow> 'k cli_cmd" where
  "paymentUnsubCmd F = cmd ''unsubscribe-to-notifications'' (''Unsubscribe from payment notifications from the peer.'' @
     ''Usage: payment unsub [channel alias]'')
     (Some ciChList) (paymentUnsubFn F)"

definition paymentAcceptCmd :: "cli_fmt \<Rightarrow> 'k cli_cmd" where
  "paymentAcceptCmd F = cmd ''accept-payment-update-from-peer'' (''Accept latest payment update from peer on the channel.'' @
     ''Usage: payment accept [channel alias]'')
     (Some ciChList) (paymentAccept F)"

definition paymentRejectCmd :: "cli_fmt \<Rightarrow> 'k cli_cmd" where
  "paymentRejectCmd F = cmd ''reject-payment-update-from-peer'' (''Reject latest payment update from peer on the channel.'' @
     ''Usage: payment reject [channel alias]'')
     (Some ciChList) (paymentReject F)"

definition setChainAddrCmd :: "'k cli_cmd" where
  "setChainAddrCmd = cmd ''set-blockchain-address'' (''Set address of the blockchain node for reading balance.'' @
     ''Usage: set-blockchain-address [address].'')
     (Some (\<lambda>_. [''ws://127.0.0.1:8545''])) setChainAddrFn"

definition getChainAddrCmd :: "'k cli_cmd" where
  "getChainAddrCmd = cmd ''get-blockchain-address'' (''Get address of the blockchain node for reading balance.'' @
     ''Usage: get-blockchain-address.'')
     None getChainAddrFn"

definition nodeCmds :: "cli_fmt \<Rightarrow> (string \<Rightarrow> goerr + 'k cli_client) \<Rightarrow> 'k cli_cmd list" where
  "nodeCmds F dial =
    [nodeConnectCmd F dial, nodeTimeCmd F, nodeConfigCmd F]"

definition sessionCmds :: "cli_fmt \<Rightarrow> 'k cli_cmd list" where
  "sessionCmds F =
    [sessionOpenCmd F, sessionCloseCmd F]"

definition peerIDCmds :: "cli_fmt \<Rightarrow> 'k cli_cmd list" where
  "peerIDCmds F =
    [peerIDAddCmd F, peerIDGetCmd F]"

definition channelCmds :: "cli_fmt \<Rightarrow> string list \<Rightarrow> 'k cli_cmd list" where
  "channelCmds F order =
    [channelSendCmd F, channelSubCmd, channelUnsubCmd F, channelAcceptCmd F, channelRejectCmd F,
     channelListPendingCmd order, channelListOpenCmd F, channelInfoCmd F, channelCloseNSettleCmd
     F]"

definition paymentCmds :: "cli_fmt \<Rightarrow> 'k cli_cmd list" where
  "paymentCmds F =
    [paymentSendCmd F, paymentRequestCmd F, paymentSubCmd, paymentUnsubCmd F, paymentAcceptCmd F,
     paymentRejectCmd F]"

definition chainCmds :: "'k cli_cmd list" where
  "chainCmds =
    [setChainAddrCmd, getChainAddrCmd]"

text \<open>All commands but the two that work on the blockchain itself.\<close>

definition cliCmds :: "cli_fmt \<Rightarrow> (string \<Rightarrow> goerr + 'k cli_client) \<Rightarrow> string list \<Rightarrow> 'k cli_cmd list" where
  "cliCmds F dial order =
     chainCmds @ nodeCmds F dial @ sessionCmds F @ peerIDCmds F @ channelCmds F order @ paymentCmds F"

end
