(* ===== verification/Cli_Safety.thy ===== *)
theory Cli_Safety
  imports Cli_Table
begin

text \<open>
  What holds of the command line client over time: its lists of aliases agree with its maps,
  an alias names one channel, and channels are never renamed.
\<close>

subsection \<open>Lists of aliases\<close>

lemma alias_idx_None: "alias_idx al xs = None \<longleftrightarrow> al \<notin> set xs"
  by (induction xs) auto

lemma alias_idx_Some: "alias_idx al xs = Some i \<Longrightarrow> i < length xs \<and> xs ! i = al"
  by (induction xs arbitrary: i) (auto split: if_splits)

lemma remove_alias_distinct:
  assumes "distinct xs"
  shows "distinct (remove_alias al xs) \<and> set (remove_alias al xs) = set xs - {al}"
proof (cases "alias_idx al xs")
  case None
  then have "al \<notin> set xs" by (simp add: alias_idx_None)
  with None assms show ?thesis by (simp add: remove_alias_def)
next
  case (Some i)
  then have i: "i < length xs" "xs ! i = al" by (auto dest: alias_idx_Some)
  then obtain ys l where xs: "xs = ys @ [l]" by (cases xs rule: rev_cases) auto
  with assms have ys: "distinct ys" "l \<notin> set ys" by auto
  have rm: "remove_alias al xs = butlast (xs[i := l])" using Some by (simp add: remove_alias_def xs)
  show ?thesis
  proof (cases "i < length ys")
    case True
    then have eq: "remove_alias al xs = ys[i := l]" "ys ! i = al" using i by (simp_all add: xs rm [unfolded xs] nth_append list_update_append)
    with ys True have "set (ys[i := l]) = insert l (set ys - {al})" "l \<noteq> al"
      using set_update_distinct [OF ys(1) True, of l] nth_mem [OF True] by auto
    moreover have "distinct (ys[i := l])" using ys by (intro distinct_list_update) auto
    ultimately show ?thesis using eq(1) by (auto simp: xs)
  next
    case False
    with i have "i = length ys" "al = l" by (auto simp: xs nth_append)
    with ys rm show ?thesis by (auto simp: xs)
  qed
qed

definition agree :: "string list \<Rightarrow> (string \<rightharpoonup> 'v) \<Rightarrow> bool" where
  "agree xs m \<longleftrightarrow> distinct xs \<and> set xs = dom m"

lemma agree_Nil [simp]: "agree [] Map.empty"
  by (simp add: agree_def)

lemma agree_add: "agree xs m \<Longrightarrow> m al = None \<Longrightarrow> agree (xs @ [al]) (m(al \<mapsto> v))"
  by (auto simp: agree_def)

lemma agree_remove: "agree xs m \<Longrightarrow> agree (remove_alias al xs) (m(al := None))"
  using remove_alias_distinct [of xs al] by (simp add: agree_def)

subsection \<open>Numbered aliases\<close>

definition numbered :: "string \<Rightarrow> nat \<Rightarrow> string \<Rightarrow> string" where
  "numbered w n peer = w @ show_nat n @ ''_'' @ peer"

lemma numbered_inj: "numbered w n p = numbered w m q \<Longrightarrow> n = m"
proof -
  assume "numbered w n p = numbered w m q"
  then have eq: "show_nat n @ CHR ''_'' # p = show_nat m @ CHR ''_'' # q" by (simp add: numbered_def)
  have "takeWhile (\<lambda>c. c \<noteq> CHR ''_'') (show_nat k @ CHR ''_'' # r) = show_nat k" for k r
    using underscore_not_in_show_nat [of k] by (subst takeWhile_append2) auto
  from this [of n p] this [of m q] eq show "n = m" by simp
qed

definition numbers_below :: "string \<Rightarrow> nat \<Rightarrow> (string \<rightharpoonup> 'v) \<Rightarrow> bool" where
  "numbers_below w n m \<longleftrightarrow> (\<forall>al \<in> dom m. \<exists>k p. k \<le> n \<and> al = numbered w k p)"

lemma numbers_below_empty [simp]: "numbers_below w n Map.empty"
  by (simp add: numbers_below_def)

lemma numbers_below_fresh: "numbers_below w n m \<Longrightarrow> m (numbered w (Suc n) p) = None"
  unfolding numbers_below_def by (metis domIff numbered_inj not_less_eq_eq order_refl)

lemma numbers_below_add: "numbers_below w n m \<Longrightarrow> numbers_below w (Suc n) (m(numbered w (Suc n) p \<mapsto> v))"
  unfolding numbers_below_def by (auto; meson domI le_SucI)

lemma numbers_below_remove: "numbers_below w n m \<Longrightarrow> numbers_below w n (m(al := None))"
  unfolding numbers_below_def by auto

subsection \<open>The invariant\<close>

definition chans_inv :: "'k cli \<Rightarrow> bool" where
  "chans_inv u \<longleftrightarrow> agree (ciChList u) (ciChMap u) \<and> numbers_below ''ch_'' (ciChCounter u) (ciChMap u)
     \<and> (\<forall>r \<in> ran (ciChMap u). r < length (ciChObjs u)) \<and> inj_on (ciChMap u) (dom (ciChMap u))
     \<and> (\<forall>cid al r. ciChRev u cid = Some al \<longrightarrow> ciChMap u al = Some r \<longrightarrow> oiID (ciChObjs u ! r) = cid)
     \<and> (\<forall>cid al. ciChRev u cid = Some al \<longrightarrow> (\<exists>k p. k \<le> ciChCounter u \<and> al = numbered ''ch_'' k p))
     \<and> (\<forall>r \<in> ran (ciChMap u). ciChRev u (oiID (ciChObjs u ! r)) \<noteq> None)"

definition cli_inv :: "'k cli \<Rightarrow> bool" where
  "cli_inv u \<longleftrightarrow> chans_inv u \<and> agree (ciNotifList u) (ciNotifMap u)
     \<and> numbers_below ''request_'' (ciNotifCounter u) (ciNotifMap u) \<and> distinct (ciAliases u)"

text \<open>
  How the client moves: a channel keeps its ID and its peer, and an alias that is known
  afterwards was known before, for the same channel, or names a channel that is new.
\<close>

definition cli_evolves :: "'k cli \<Rightarrow> 'k cli \<Rightarrow> bool" where
  "cli_evolves u u' \<longleftrightarrow> (cli_inv u \<longrightarrow> cli_inv u') \<and> length (ciChObjs u) \<le> length (ciChObjs u')
     \<and> (\<forall>r < length (ciChObjs u). oiID (ciChObjs u' ! r) = oiID (ciChObjs u ! r)
          \<and> oiPeerAlias (ciChObjs u' ! r) = oiPeerAlias (ciChObjs u ! r))
     \<and> (\<forall>al r. ciChMap u' al = Some r \<longrightarrow> ciChMap u al = Some r \<or> length (ciChObjs u) \<le> r)
     \<and> (ciClient u \<noteq> None \<longrightarrow> ciClient u' \<noteq> None)"

lemma cli_evolves_refl [simp]: "cli_evolves u u"
  by (simp add: cli_evolves_def)

lemma cli_evolves_trans:
  assumes "cli_evolves u v" and "cli_evolves v w"
  shows "cli_evolves u w"
  unfolding cli_evolves_def
proof (intro conjI allI impI)
  fix al r
  assume "ciChMap w al = Some r"
  with assms(2) have "ciChMap v al = Some r \<or> length (ciChObjs v) \<le> r" by (simp add: cli_evolves_def)
  with assms(1) show "ciChMap u al = Some r \<or> length (ciChObjs u) \<le> r"
    unfolding cli_evolves_def by (meson order_trans)
qed (use assms in \<open>auto simp: cli_evolves_def\<close>)

text \<open>Everything the invariant speaks of is unchanged.\<close>

definition same_aliases :: "'k cli \<Rightarrow> 'k cli \<Rightarrow> bool" where
  "same_aliases u u' \<longleftrightarrow> ciChCounter u' = ciChCounter u \<and> ciChList u' = ciChList u \<and> ciChMap u' = ciChMap u
     \<and> ciChObjs u' = ciChObjs u \<and> ciChRev u' = ciChRev u \<and> ciNotifCounter u' = ciNotifCounter u
     \<and> ciNotifList u' = ciNotifList u \<and> ciNotifMap u' = ciNotifMap u \<and> ciAliases u' = ciAliases u
     \<and> (ciClient u \<noteq> None \<longrightarrow> ciClient u' \<noteq> None)"

lemma same_aliases_evolves: "same_aliases u u' \<Longrightarrow> cli_evolves u u'"
  by (simp add: same_aliases_def cli_evolves_def cli_inv_def chans_inv_def)

lemma evolves_same: "cli_evolves u v \<Longrightarrow> same_aliases v w \<Longrightarrow> cli_evolves u w"
  by (blast intro: cli_evolves_trans same_aliases_evolves)

named_theorems cli_prims \<open>what the single changes of the state do\<close>

lemma evolves_frame [cli_prims]:
  "cli_evolves u v \<Longrightarrow> cli_evolves u (v\<lparr>ciNode := k\<rparr>)"
  "cli_evolves u v \<Longrightarrow> cli_evolves u (v\<lparr>ciSessionID := sid\<rparr>)"
  "cli_evolves u v \<Longrightarrow> cli_evolves u (v\<lparr>ciSubs := ss\<rparr>)"
  "cli_evolves u v \<Longrightarrow> cli_evolves u (v\<lparr>ciChainAddr := a\<rparr>)"
  "cli_evolves u v \<Longrightarrow> cli_evolves u (v\<lparr>ciClient := Some cl\<rparr>)"
  "cli_evolves u v \<Longrightarrow> cli_evolves u (printf c msg end v)"
  by (erule evolves_same, simp add: same_aliases_def printf_def)+

lemma evolves_print [cli_prims]:
  "cli_evolves u v \<Longrightarrow> cli_evolves u (redln msg v)"
  "cli_evolves u v \<Longrightarrow> cli_evolves u (greenln msg v)"
  "cli_evolves u v \<Longrightarrow> cli_evolves u (printNodeNotConnectedError v)"
  "cli_evolves u v \<Longrightarrow> cli_evolves u (printArgCountError help args n v)"
  "cli_evolves u v \<Longrightarrow> cli_evolves u (printCommandSendingError e v)"
  "cli_evolves u v \<Longrightarrow> cli_evolves u (printUnknownChannelAliasError al v)"
  "cli_evolves u v \<Longrightarrow> cli_evolves u (printUnknownChNotifError al v)"
  "cli_evolves u v \<Longrightarrow> cli_evolves u (printNoPaymentNotifError al v)"
  by (simp_all add: redln_def greenln_def printNodeNotConnectedError_def printArgCountError_def
      printCommandSendingError_def printUnknownChannelAliasError_def printUnknownChNotifError_def
      printNoPaymentNotifError_def cli_prims)

text \<open>The changes of the aliases.\<close>

lemma addOpenChannelID_inv:
  assumes "addOpenChannelID cid peer u = (al, u')"
  shows "al = numbered ''ch_'' (Suc (ciChCounter u)) peer \<and> cli_evolves u u' \<and> ciClient u' = ciClient u
    \<and> ciChMap u' = (ciChMap u)(al \<mapsto> length (ciChObjs u))
    \<and> ciChObjs u' = ciChObjs u @ [\<lparr>oiID = cid, oiPeerAlias = peer, oiLatest = []\<rparr>]"
proof -
  let ?o = "\<lparr>oiID = cid, oiPeerAlias = peer, oiLatest = []\<rparr>"
  from assms have al: "al = numbered ''ch_'' (Suc (ciChCounter u)) peer"
    and u': "u' = u\<lparr>ciChCounter := Suc (ciChCounter u), ciChObjs := ciChObjs u @ [?o],
                ciChMap := (ciChMap u)(al \<mapsto> length (ciChObjs u)), ciChRev := (ciChRev u)(cid \<mapsto> al),
                ciChList := ciChList u @ [al]\<rparr>"
    by (auto simp: addOpenChannelID_def Let_def numbered_def)
  have "chans_inv u'" if inv: "chans_inv u"
  proof -
    from inv have nb: "numbers_below ''ch_'' (ciChCounter u) (ciChMap u)" and ag: "agree (ciChList u) (ciChMap u)"
      and ran: "\<forall>r \<in> ran (ciChMap u). r < length (ciChObjs u)" and inj: "inj_on (ciChMap u) (dom (ciChMap u))"
      and rev: "\<And>c a r. ciChRev u c = Some a \<Longrightarrow> ciChMap u a = Some r \<Longrightarrow> oiID (ciChObjs u ! r) = c"
      and revs: "\<And>c a. ciChRev u c = Some a \<Longrightarrow> \<exists>k p. k \<le> ciChCounter u \<and> a = numbered ''ch_'' k p"
      and ids: "\<And>r. r \<in> ran (ciChMap u) \<Longrightarrow> ciChRev u (oiID (ciChObjs u ! r)) \<noteq> None"
      unfolding chans_inv_def by blast+
    have fresh: "ciChMap u al = None" unfolding al by (rule numbers_below_fresh [OF nb])
    have new: "ciChRev u c \<noteq> Some al" for c
      using revs [of c al] unfolding al by (metis numbered_inj not_less_eq_eq order_refl)
    have lt: "ciChMap u a = Some r \<Longrightarrow> r < length (ciChObjs u)" for a r using ran by (meson ranI)
    then have other: "ciChMap u a \<noteq> Some (length (ciChObjs u))" for a by blast
    show ?thesis
      unfolding chans_inv_def
    proof (intro conjI)
      show "agree (ciChList u') (ciChMap u')" by (simp add: u' agree_add [OF ag fresh])
      show "numbers_below ''ch_'' (ciChCounter u') (ciChMap u')" by (simp add: u' al numbers_below_add [OF nb])
      show "\<forall>r \<in> ran (ciChMap u'). r < length (ciChObjs u')"
        using ran fresh by (auto simp: u' less_SucI)
      show "inj_on (ciChMap u') (dom (ciChMap u'))"
        using inj other fresh by (auto simp: u' inj_on_def dom_def split: if_splits)
      show "\<forall>c a r. ciChRev u' c = Some a \<longrightarrow> ciChMap u' a = Some r \<longrightarrow> oiID (ciChObjs u' ! r) = c"
        using rev new lt by (auto simp: u' nth_append split: if_splits)
      show "\<forall>c a. ciChRev u' c = Some a \<longrightarrow> (\<exists>k p. k \<le> ciChCounter u' \<and> a = numbered ''ch_'' k p)"
        using revs by (auto simp: u' al split: if_splits) (meson le_SucI)+
      show "\<forall>r \<in> ran (ciChMap u'). ciChRev u' (oiID (ciChObjs u' ! r)) \<noteq> None"
        using ids ran fresh by (auto simp: u' nth_append)
    qed
  qed
  then have "cli_evolves u u'" by (auto simp: cli_evolves_def cli_inv_def u' nth_append)
  then show ?thesis using al by (simp add: u')
qed

lemma removeOpenChannelID_evolves [cli_prims]:
  "cli_evolves u v \<Longrightarrow> cli_evolves u (removeOpenChannelID al v)"
proof (erule cli_evolves_trans)
  have "chans_inv v \<Longrightarrow> chans_inv (removeOpenChannelID al v)"
    unfolding chans_inv_def removeOpenChannelID_def
    by (auto simp: agree_remove numbers_below_remove ran_def inj_on_def)
  then show "cli_evolves v (removeOpenChannelID al v)"
    by (auto simp: cli_evolves_def cli_inv_def removeOpenChannelID_def)
qed

lemma notifs_evolve [cli_prims]:
  "cli_evolves u v \<Longrightarrow> cli_evolves u (removeChannelNotif al v)"
  "cli_evolves u v \<Longrightarrow> cli_evolves u (addPeerAlias al v)"
  "cli_evolves u v \<Longrightarrow> cli_evolves u (resetLocalCache v)"
  by (auto elim!: cli_evolves_trans simp: cli_evolves_def cli_inv_def chans_inv_def removeChannelNotif_def
      addPeerAlias_def resetLocalCache_def agree_remove numbers_below_remove alias_idx_None)

lemma addChannelNotif_evolves:
  assumes "addChannelNotif notif u = (al, u')"
  shows "cli_evolves u u'"
proof -
  obtain pid bi dur expiry where n: "notif = (pid, bi, dur, expiry)" by (cases notif)
  from assms have al: "al = numbered ''request_'' (Suc (ciNotifCounter u)) (findPeerAlias (pbParts bi))"
    and u': "u' = u\<lparr>ciNotifCounter := Suc (ciNotifCounter u), ciNotifMap := (ciNotifMap u)(al \<mapsto> notif),
                ciNotifList := ciNotifList u @ [al]\<rparr>"
    by (auto simp: addChannelNotif_def Let_def numbered_def n)
  have "ciNotifMap u al = None" if "numbers_below ''request_'' (ciNotifCounter u) (ciNotifMap u)"
    unfolding al by (rule numbers_below_fresh [OF that])
  moreover have "numbers_below ''request_'' (Suc (ciNotifCounter u)) ((ciNotifMap u)(al \<mapsto> notif))"
    if "numbers_below ''request_'' (ciNotifCounter u) (ciNotifMap u)"
    unfolding al by (rule numbers_below_add [OF that])
  ultimately show ?thesis
    by (auto simp: u' cli_evolves_def cli_inv_def chans_inv_def agree_add)
qed

lemma set_latest_evolves: "set_latest r uid u = Done u' \<Longrightarrow> cli_evolves u u'"
  by (auto simp: set_latest_def run_simps cli_evolves_def cli_inv_def chans_inv_def nth_list_update)

subsection \<open>Commands\<close>

text \<open>What a command that returns may do, for commands with and without a result.\<close>

definition ok1 :: "'k cli \<Rightarrow> 'k cli run \<Rightarrow> bool" where
  "ok1 u m \<longleftrightarrow> (\<forall>u'. m = Done u' \<longrightarrow> cli_evolves u u')"

definition ok2 :: "'k cli \<Rightarrow> ('a \<times> 'k cli) run \<Rightarrow> bool" where
  "ok2 u m \<longleftrightarrow> (\<forall>x u'. m = Done (x, u') \<longrightarrow> cli_evolves u u')"

named_theorems cli_ok \<open>commands that respect the invariant\<close>

lemma ok_Done [cli_ok]:
  "cli_evolves u v \<Longrightarrow> ok1 u (Done v)" "cli_evolves u v \<Longrightarrow> ok2 u (Done (x, v))"
  by (simp_all add: ok1_def ok2_def)

lemma ok_stop [cli_ok]: "ok1 u (Panic p)" "ok2 u (Panic p)" "ok1 u Blocked" "ok2 u Blocked"
  by (simp_all add: ok1_def ok2_def)

lemma ok_pure: "(\<And>x. ok1 u (f x)) \<Longrightarrow> ok1 u (andThen m f)" "(\<And>x. ok2 u (g x)) \<Longrightarrow> ok2 u (andThen m g)"
  by (auto simp: ok1_def ok2_def run_simps)

lemma ok_bind1:
  "ok1 u m \<Longrightarrow> (\<And>v. cli_evolves u v \<Longrightarrow> ok1 u (f v)) \<Longrightarrow> ok1 u (andThen m f)"
  "ok1 u m \<Longrightarrow> (\<And>v. cli_evolves u v \<Longrightarrow> ok2 u (g v)) \<Longrightarrow> ok2 u (andThen m g)"
  by (auto simp: ok1_def ok2_def run_simps)

lemma ok_bind2:
  "ok2 u m \<Longrightarrow> (\<And>x v. cli_evolves u v \<Longrightarrow> ok1 u (f (x, v))) \<Longrightarrow> ok1 u (andThen m f)"
  "ok2 u m \<Longrightarrow> (\<And>x v. cli_evolves u v \<Longrightarrow> ok2 u (g (x, v))) \<Longrightarrow> ok2 u (andThen m g)"
  by (auto simp: ok1_def ok2_def run_simps)

lemma ok_trans:
  "cli_evolves u v \<Longrightarrow> ok1 v m \<Longrightarrow> ok1 u m" "cli_evolves u v \<Longrightarrow> ok2 v m' \<Longrightarrow> ok2 u m'"
  by (auto simp: ok1_def ok2_def intro: cli_evolves_trans)

lemma ok_guards [cli_ok]:
  "(\<And>u. ok1 u (f u)) \<Longrightarrow> ok1 u (connected f u)"
  "(\<And>u. ok1 u (f u)) \<Longrightarrow> ok1 u (with_args help n args f u)"
  by (auto simp: connected_def with_args_def cli_prims intro: cli_ok)

lemma ok_call [cli_ok]: "ok2 u (call_cli f u)"
  unfolding call_cli_def by (rule ok_pure(2)) (auto simp: cli_prims split: prod.splits intro!: cli_ok)

lemma ok_request [cli_ok]: "ok2 u (request F before after f u)"
  unfolding request_def
  by (rule ok_bind2 [OF ok_call]) (auto simp: cli_prims split: sum.splits response.splits intro: cli_ok)

lemma ok_on_success [cli_ok]: "cli_evolves u v \<Longrightarrow> (\<And>x. ok1 v (f x v)) \<Longrightarrow> ok1 u (on_success f (r, v))"
  by (auto simp: on_success_def split: option.splits intro: cli_ok ok_trans)

lemma ok_with_channel [cli_ok]: "(\<And>r c u. ok1 u (f r c u)) \<Longrightarrow> ok1 u (with_channel al f u)"
  by (auto simp: with_channel_def cli_prims split: option.splits intro: cli_ok ok_pure)

lemma ok_help [cli_ok]: "ok1 u (print_help F name u)"
  by (simp add: print_help_def ok_Done cli_prims)

lemma ok_for_each [cli_ok]: "(\<And>x u. ok1 u (f x u)) \<Longrightarrow> ok1 u (for_each f xs u)"
proof (induction xs arbitrary: u)
  case (Cons x xs)
  have "ok1 u (andThen (f x u) (for_each f xs))"
    by (rule ok_bind1(1) [OF Cons.prems]) (erule ok_trans, rule Cons.IH [OF Cons.prems])
  then show ?case by simp
qed (simp add: ok_Done)

end
