(* ===== verification/Cli_Steps.thy ===== *)
theory Cli_Steps
  imports Cli_Safety
begin

text \<open>
  Every command and every notification respects the invariant of the command line client; the
  step relation of the client, and the invariant of the states it reaches.
\<close>

subsection \<open>Operations\<close>

lemma ok_getNodeTime [cli_ok]: "ok2 u (getNodeTime u)"
  by (simp add: getNodeTime_def ok_call)

lemma ok_set_latest [cli_ok]: "cli_evolves u v \<Longrightarrow> ok1 u (set_latest r uid v)"
  by (auto simp: ok1_def intro: cli_evolves_trans set_latest_evolves)

lemma ok_paymentSub [cli_ok]: "ok1 u (paymentSub al u)"
  unfolding paymentSub_def
  by (intro ok_with_channel ok_bind2 ok_call) (auto simp: cli_prims split: option.splits intro!: ok_Done)

lemma ok_channel_opened [cli_ok]: "ok1 u (channel_opened i u)"
  by (auto simp: channel_opened_def cli_prims split: prod.splits dest!: addOpenChannelID_inv
      intro!: ok_pure ok_trans(1) [OF _ ok_paymentSub])

lemma ok_restored_channel [cli_ok]: "ok1 u (restored_channel i u)"
  by (auto simp: restored_channel_def cli_prims split: prod.splits dest!: addOpenChannelID_inv
      intro!: ok_pure ok_trans(1) [OF _ ok_paymentSub])

lemma ok_channelSub [cli_ok]: "ok1 u (channelSub u)"
  unfolding channelSub_def
  by (intro ok_bind2 ok_call) (auto simp: cli_prims split: option.splits intro!: ok_Done)

lemma ok_channelUnsub [cli_ok]: "ok1 u (channelUnsub F u)"
  unfolding channelUnsub_def by (intro ok_bind2 ok_request ok_on_success ok_Done) auto

lemma ok_payment_update [cli_ok]: "ok1 u (payment_update F payee failed sent args u)"
  unfolding payment_update_def
  by (intro ok_with_channel ok_bind2 ok_request ok_on_success ok_pure ok_Done) (simp_all add: cli_prims)

lemma ok_paymentUnsub [cli_ok]: "ok1 u (paymentUnsub F al u)"
  unfolding paymentUnsub_def
  by (intro ok_with_channel ok_bind2 ok_request ok_on_success ok_Done) (simp_all add: cli_prims)

lemma ok_payment_respond [cli_ok]: "ok2 u (payment_respond F failed accept al u)"
  unfolding payment_respond_def
  by (auto simp: cli_prims Let_def split: option.splits
      intro!: ok_Done ok_pure(2) [where m = "idx_at xs i" for xs i] ok_bind2(2) ok_trans(2) [OF _ ok_request])

lemma ok_payment_done [cli_ok]: "ok1 u (paymentAccept_done x u)" "ok1 u (paymentReject_done x u)"
  by (auto simp: paymentAccept_done_def paymentReject_done_def cli_prims split: prod.splits
      intro!: ok_pure(1) ok_set_latest)

lemma ok_respond_request [cli_ok]:
  "(\<And>i u. ok1 u (f i u)) \<Longrightarrow> ok1 u (respond_request F accept f al u)"
  unfolding respond_request_def
  by (auto simp: cli_prims split: option.splits prod.splits
      intro!: ok_bind2(1) [OF ok_request] ok_bind1(1) ok_on_success ok_Done)

lemma ok_getChannelInfo [cli_ok]: "ok2 u (getChannelInfo F al u)"
  by (auto simp: getChannelInfo_def cli_prims split: option.splits intro!: ok_pure(2) ok_Done ok_request)

lemma ok_print_channel [cli_ok]: "ok1 u (print_channel F end al u)"
  unfolding print_channel_def
  by (intro ok_bind2(1) [OF ok_getChannelInfo]) (auto simp: cli_prims intro!: ok_pure(1) ok_Done)

lemma ok_show_update:
  assumes "\<And>cid u v. cli_evolves u v \<Longrightarrow> cli_evolves u (intro cid v)"
  shows "ok1 u (show_update F al intro notif t u)"
  unfolding show_update_def
  by (cases notif) (auto simp: cli_prims Let_def assms intro!: ok_set_latest ok_bind2(1) [OF ok_getChannelInfo]
      ok_pure(1) [where m = "idx_at xs i" for xs i] ok_pure(1) [where m = "deref a" for a]
      ok_pure(1) [where m = "prettifyBalanceInfo b w" for b w])

lemma ok_updates [cli_ok]:
  "ok1 u (handleUpdateTypeOpenNotif F al notif t u)" "ok1 u (handleUpdateTypeFinalNotif F al notif t u)"
  "ok1 u (handleUpdateTypeClosedNotif F al notif u)"
  unfolding handleUpdateTypeOpenNotif_def handleUpdateTypeFinalNotif_def handleUpdateTypeClosedNotif_def
  by (auto simp: cli_prims Let_def split: prod.splits option.splits intro!: ok_show_update ok_pure(1) ok_Done)

lemma ok_paymentNotif_round: "ok2 u (paymentNotif_round F al cid msg u)"
  unfolding paymentNotif_round_def
  by (auto simp: cli_prims split: recv.splits sum.splits pb_update_type.splits
      intro!: ok_Done ok_bind2(2) [OF ok_getNodeTime] ok_bind1(2) ok_trans(1) [OF _ ok_updates(1)]
        ok_trans(1) [OF _ ok_updates(2)] ok_trans(1) [OF _ ok_updates(3)])

lemma ok_channelNotif_round: "ok2 u (channelNotif_round F msg u)"
  unfolding channelNotif_round_def
  by (auto simp: cli_prims split: recv.splits sum.splits prod.splits dest!: addChannelNotif_evolves
      intro!: ok_Done ok_pure(2) [where m = "prettifyChannelOpeningRequest n" for n]
        ok_bind2(2) [OF ok_trans(2) [OF _ ok_getNodeTime]])

subsection \<open>Commands\<close>

lemma ok_node_cmds [cli_ok]:
  "ok1 u (nodeConnectFn F dial help args u)" "ok1 u (nodeTimeFn F help args u)" "ok1 u (nodeConfigFn F help args u)"
  unfolding nodeConnectFn_def nodeTimeFn_def nodeConfigFn_def
  by (auto simp: cli_prims split: sum.splits intro!: ok_guards ok_stop ok_Done ok_bind2(1) [OF ok_call]
      ok_bind2(1) [OF ok_getNodeTime] ok_bind2(1) [OF ok_trans(2) [OF _ ok_getNodeTime]])

lemma ok_peer_cmds [cli_ok]:
  "ok1 u (peerIDAddFn F help args u)" "ok1 u (peerIDGetFn F help args u)"
  unfolding peerIDAddFn_def peerIDGetFn_def
  by (auto simp: cli_prims intro!: ok_guards ok_bind2(1) [OF ok_request] ok_on_success ok_Done)

lemma ok_payment_cmds [cli_ok]:
  "ok1 u (paymentSendFn F help args u)" "ok1 u (paymentRequestFn F help args u)"
  "ok1 u (paymentSubFn help args u)" "ok1 u (paymentUnsubFn F help args u)"
  "ok1 u (paymentAccept F help args u)" "ok1 u (paymentReject F help args u)"
  unfolding paymentSendFn_def paymentRequestFn_def paymentSubFn_def paymentUnsubFn_def paymentAccept_def
    paymentReject_def
  by (auto intro!: ok_guards cli_ok ok_bind2(1) [OF ok_payment_respond])

lemma ok_channel_cmds [cli_ok]:
  "ok1 u (channelSendFn F help args u)" "ok1 u (channelSubFn help args u)" "ok1 u (channelUnsubFn F help args u)"
  "ok1 u (channelAcceptFn F help args u)" "ok1 u (channelRejectFn F help args u)"
  "ok1 u (channelInfoFn F help args u)" "ok1 u (channelListOpenFn F help args u)"
  unfolding channelSendFn_def channelSubFn_def channelUnsubFn_def channelAcceptFn_def channelRejectFn_def
    channelInfoFn_def channelListOpenFn_def
  by (auto simp: cli_prims intro!: ok_guards cli_ok ok_bind2(1) [OF ok_request]
      ok_bind1(1) [OF ok_for_each [OF ok_print_channel]])

lemma ok_closing_cmds [cli_ok]:
  "ok1 u (chCloseNSettleFn F help args u)" "ok1 u (channelPendingFn order help args u)"
  unfolding chCloseNSettleFn_def channelPendingFn_def
  by (auto simp: cli_prims split: option.splits sum.splits prod.splits intro!: ok_guards ok_with_channel ok_Done
      ok_bind2(1) [OF ok_request] ok_bind2(1) [OF ok_getNodeTime] ok_on_success ok_trans(1) [OF _ ok_for_each]
      ok_pure(1) [where m = "prettifyPayChInfo n" for n] ok_pure(1) [where m = "prettifyChannelOpeningRequest n" for n])

lemma ok_sessionOpenFn [cli_ok]: "ok1 u (sessionOpenFn F help args u)"
  unfolding sessionOpenFn_def
  by (auto simp: cli_prims intro!: ok_guards ok_bind2(1) [OF ok_request] ok_on_success
      ok_bind1(1) [OF ok_trans(1) [OF _ ok_for_each [OF ok_restored_channel]]] ok_trans(1) [OF _ ok_channelSub])

lemma ok_sessionCloseFn [cli_ok]: "ok1 u (sessionCloseFn F help args u)"
  unfolding sessionCloseFn_def Let_def
  by (auto simp: cli_prims split: sum.splits response.splits intro!: ok_guards ok_Done
      ok_bind1(1) [OF ok_channelUnsub] ok_bind1(1) [OF ok_trans(1) [OF _ ok_channelSub]]
      ok_bind2(1) [OF ok_trans(2) [OF _ ok_call]] ok_trans(1) [OF _ ok_for_each]
      ok_pure(1) [where m = "prettifyPayChInfo n" for n])

lemma ok_chain_cmds [cli_ok]: "ok1 u (setChainAddrFn help args u)" "ok1 u (getChainAddrFn help args u)"
  unfolding setChainAddrFn_def getChainAddrFn_def by (auto simp: cli_prims intro!: ok_guards ok_Done)

lemmas cli_tables = cliCmds_def chainCmds_def nodeCmds_def sessionCmds_def peerIDCmds_def channelCmds_def
  paymentCmds_def

lemmas cli_cmds = cmd_def setChainAddrCmd_def getChainAddrCmd_def nodeConnectCmd_def nodeTimeCmd_def nodeConfigCmd_def
  sessionOpenCmd_def sessionCloseCmd_def peerIDAddCmd_def peerIDGetCmd_def channelSendCmd_def channelSubCmd_def
  channelUnsubCmd_def channelAcceptCmd_def channelRejectCmd_def channelListPendingCmd_def channelListOpenCmd_def
  channelInfoCmd_def channelCloseNSettleCmd_def paymentSendCmd_def paymentRequestCmd_def paymentSubCmd_def
  paymentUnsubCmd_def paymentAcceptCmd_def paymentRejectCmd_def

lemma ok_cliCmds: "c \<in> set (cliCmds F dial order) \<Longrightarrow> ok1 u (cmFunc c args u)"
  by (auto simp: cli_tables cli_cmds intro: cli_ok)

subsection \<open>Steps\<close>

text \<open>
  A command of the shell, the two parts of a response to a payment, a notification on a stream,
  and what the node does on its own.
\<close>

inductive cli_step :: "cli_fmt \<Rightarrow> (string \<Rightarrow> goerr + 'k cli_client) \<Rightarrow> 'k cli \<Rightarrow> 'k cli \<Rightarrow> bool"
  for F :: cli_fmt and dial :: "string \<Rightarrow> goerr + 'k cli_client" where
  command: "c \<in> set (cliCmds F dial order) \<Longrightarrow> cmFunc c args u = Done u' \<Longrightarrow> cli_step F dial u u'"
| respond: "payment_respond F failed accept al u = Done (x, u') \<Longrightarrow> cli_step F dial u u'"
| accepted: "paymentAccept_done x u = Done u' \<Longrightarrow> cli_step F dial u u'"
| rejected: "paymentReject_done x u = Done u' \<Longrightarrow> cli_step F dial u u'"
| proposal: "channelNotif_round F msg u = Done (goes_on, u') \<Longrightarrow> cli_step F dial u u'"
| update: "paymentNotif_round F al cid msg' u = Done (goes_on, u') \<Longrightarrow> cli_step F dial u u'"
| node: "cli_step F dial u (u\<lparr>ciNode := k\<rparr>)"

lemma cli_step_evolves: "cli_step F dial u u' \<Longrightarrow> cli_evolves u u'"
proof (induction rule: cli_step.induct)
  case (command c order args u u')
  then show ?case using ok_cliCmds [OF command(1), of u args] by (simp add: ok1_def)
next
  case (respond failed accept al u x u')
  then show ?case using ok_payment_respond [of u F failed accept al] by (auto simp: ok2_def)
next
  case (accepted x u u')
  then show ?case using ok_payment_done(1) [of u x] by (auto simp: ok1_def)
next
  case (rejected x u u')
  then show ?case using ok_payment_done(2) [of u x] by (auto simp: ok1_def)
next
  case (proposal msg u goes_on u')
  then show ?case using ok_channelNotif_round [of u F msg] by (auto simp: ok2_def)
next
  case (update al cid msg' u goes_on u')
  then show ?case using ok_paymentNotif_round [of u F al cid msg'] by (auto simp: ok2_def)
qed (simp add: cli_prims)

lemma cli_steps_evolve: "(cli_step F dial)\<^sup>*\<^sup>* u u' \<Longrightarrow> cli_evolves u u'"
  by (induction rule: rtranclp_induct) (auto intro: cli_evolves_trans cli_step_evolves)

lemma start_cli_inv: "cli_inv (start_cli k)"
  by (simp add: start_cli_def cli_inv_def chans_inv_def)

end
