(* ===== verification/Id_Storage.thy ===== *)
theory Id_Storage
  imports Files Session_Start
begin

text \<open>
  The file of the local ID provider, \<^verbatim>\<open>idprovider/local/idprovider.go\<close>: reading it and writing the
  cache back. The YAML library is a parameter; \<open>yaml_peers_ok\<close> says that what it has encoded
  decodes to the same map, up to the field that is not stored, and that an empty file decodes
  to no entries with the error of an end of file.
\<close>

record yaml_peers =
  ylEncode :: "(string \<rightharpoonup> peer_id) \<Rightarrow> goerr + string"
  ylDecode :: "string \<Rightarrow> (string \<times> peer_id) list \<times> goerr option"

definition io_EOF :: goerr where
  "io_EOF = EConst ''EOF''"

definition stored_peer :: "peer_id \<Rightarrow> peer_id" where
  "stored_peer p = p\<lparr>pOffChainAddr := None\<rparr>"

definition yaml_peers_ok :: "yaml_peers \<Rightarrow> bool" where
  "yaml_peers_ok Y \<longleftrightarrow> ylDecode Y [] = ([], Some io_EOF) \<and>
     (\<forall>m s. finite (dom m) \<longrightarrow> ylEncode Y m = Inr s \<longrightarrow>
       (\<exists>es. ylDecode Y s = (es, None) \<and> distinct (map fst es) \<and> map_of es = map_option stored_peer \<circ> m))"

subsection \<open>Operations\<close>

text \<open>The part of \<open>NewIDprovider\<close> that reads the file.\<close>

definition read_id_file :: "os \<Rightarrow> yaml_peers \<Rightarrow> files \<Rightarrow> string \<Rightarrow> goerr + (string \<times> peer_id) list" where
  "read_id_file X Y f filePath =
     (case os_Open X filePath f of
        (Inl e, _) \<Rightarrow> Inl e
      | (Inr s, _) \<Rightarrow> (case ylDecode Y s of
          (entries, None) \<Rightarrow> Inr entries
        | (entries, Some e) \<Rightarrow> if e \<noteq> io_EOF then Inl e else Inr entries))"

text \<open>
  The function that is deferred to close the file assigns its error to a variable that is not a
  result of the function: the error returned is that from before.
\<close>

definition write_encoded :: "os \<Rightarrow> goerr + string \<Rightarrow> string \<Rightarrow> string \<Rightarrow> files \<Rightarrow> goerr option \<times> files" where
  "write_encoded X encoded msg p f =
     (case encoded of
        Inl e \<Rightarrow> (Some (EWith e msg), f)
      | Inr s \<Rightarrow> (case file_Write X p s f of
          (Inl e, f1) \<Rightarrow> (Some (EWith e msg), f1)
        | (Inr _, f1) \<Rightarrow> (case file_Close X f1 of (err, f2) \<Rightarrow> (map_option (\<lambda>e. EWith e ''closing encoder'') err, f2))))"

definition UpdateStorage :: "os \<Rightarrow> yaml_peers \<Rightarrow> string \<Rightarrow> id_cache \<Rightarrow> files \<Rightarrow> goerr option \<times> files" where
  "UpdateStorage X Y localFilePath c f =
     (case os_Create X localFilePath f of
        (Inl e, f1) \<Rightarrow> (Some (EWith e ''opening ID provider file for writing''), f1)
      | (Inr p, f1) \<Rightarrow> (case write_encoded X (ylEncode Y (idByAlias c)) ''encoding data as yaml'' p f1 of
          (err, f2) \<Rightarrow> (err, snd (file_Close X f2))))"

subsection \<open>Laws\<close>

lemma os_Create_Inr: "os_Create X p f = (Inr q, f') \<Longrightarrow> q = p \<and> fsTree f' = (fsTree f)(p \<mapsto> File [])"
  by (auto simp: os_Create_def sys_Inr)

lemma write_encoded_tree:
  assumes "write_encoded X enc msg p f = (err, f')"
  shows "(\<exists>s. fsTree f' = (fsTree f)(p \<mapsto> File s)) \<or> (\<exists>e. enc = Inl e \<and> err \<noteq> None \<and> f' = f)"
    and "err = None \<Longrightarrow> \<exists>s. enc = Inr s \<and> fsTree f' = (fsTree f)(p \<mapsto> File s)"
  using assms
  by (auto simp: write_encoded_def file_Write_def file_Close_def split: sum.split_asm option.split_asm)

text \<open>The loop over the entries of the file, when all addresses parse.\<close>

lemma newIDProviderCache_loop_ok:
  assumes "\<forall>(al, p) \<in> set entries. \<exists>a. ParseAddr L (pOffChainAddrString p) = Inr a" and "distinct (map fst entries)"
  shows "\<exists>c'. newIDProviderCache_loop L entries c = Inr c'
    \<and> idByAlias c' = idByAlias c ++ (\<lambda>al. map_option
        (\<lambda>p. p\<lparr>pOffChainAddr := Some (projr (ParseAddr L (pOffChainAddrString p)))\<rparr>) (map_of entries al))
    \<and> (\<forall>s. idAliasByAddr c' s = idAliasByAddr c s
        \<or> (\<exists>(al, p) \<in> set entries. pOffChainAddrString p = s \<and> idAliasByAddr c' s = Some (pAlias p)))"
  using assms
proof (induction entries arbitrary: c)
  case Nil
  then show ?case by (simp add: map_add_def)
next
  case (Cons x rest)
  obtain al p where x: "x = (al, p)" by (cases x)
  with Cons.prems obtain a where a: "ParseAddr L (pOffChainAddrString p) = Inr a" by auto
  let ?c = "c\<lparr>idByAlias := (idByAlias c)(al \<mapsto> p\<lparr>pOffChainAddr := Some a\<rparr>),
     idAliasByAddr := (idAliasByAddr c)(pOffChainAddrString p \<mapsto> pAlias p)\<rparr>"
  have "\<forall>(al, p) \<in> set rest. \<exists>a. ParseAddr L (pOffChainAddrString p) = Inr a" "distinct (map fst rest)"
    using Cons.prems by auto
  from Cons.IH [OF this, of ?c] obtain c' where c': "newIDProviderCache_loop L rest ?c = Inr c'"
    "idByAlias c' = idByAlias ?c ++ (\<lambda>al. map_option
        (\<lambda>p. p\<lparr>pOffChainAddr := Some (projr (ParseAddr L (pOffChainAddrString p)))\<rparr>) (map_of rest al))"
    "\<forall>s. idAliasByAddr c' s = idAliasByAddr ?c s
        \<or> (\<exists>(al, p) \<in> set rest. pOffChainAddrString p = s \<and> idAliasByAddr c' s = Some (pAlias p))"
    by blast
  have "map_of rest al = None" using Cons.prems(2) x by (simp add: map_of_eq_None_iff)
  with c'(2) have "idByAlias c' = idByAlias c ++ (\<lambda>al. map_option
        (\<lambda>p. p\<lparr>pOffChainAddr := Some (projr (ParseAddr L (pOffChainAddrString p)))\<rparr>) (map_of (x # rest) al))"
    by (auto simp: x a map_add_def fun_eq_iff split: option.split)
  moreover have "idAliasByAddr c' s = idAliasByAddr c s
      \<or> (\<exists>(al, p) \<in> set (x # rest). pOffChainAddrString p = s \<and> idAliasByAddr c' s = Some (pAlias p))" for s
    using c'(3) [rule_format, of s] by (cases "s = pOffChainAddrString p") (auto simp: x)
  ultimately show ?case using c'(1) by (auto simp: x a)
qed

lemma newIDProviderCache_ok:
  assumes "\<forall>al p. map_of entries al = Some p \<longrightarrow> (\<exists>a. ParseAddr L (pOffChainAddrString p) = Inr a)"
    and "distinct (map fst entries)"
  shows "\<exists>c'. newIDProviderCache L entries = Inr c'
    \<and> idByAlias c' = (\<lambda>al. map_option
        (\<lambda>p. p\<lparr>pOffChainAddr := Some (projr (ParseAddr L (pOffChainAddrString p)))\<rparr>) (map_of entries al))
    \<and> (\<forall>s al. idAliasByAddr c' s = Some al \<longrightarrow>
        (\<exists>k p. map_of entries k = Some p \<and> pOffChainAddrString p = s \<and> al = pAlias p))"
proof -
  let ?c = "\<lparr>idByAlias = map_of entries, idAliasByAddr = Map.empty\<rparr>"
  have mem: "map_of entries al = Some p \<longleftrightarrow> (al, p) \<in> set entries" for al p
    using assms(2) by (simp add: map_of_eq_Some_iff)
  with assms(1) have "\<forall>(al, p) \<in> set entries. \<exists>a. ParseAddr L (pOffChainAddrString p) = Inr a" by fastforce
  from newIDProviderCache_loop_ok [OF this assms(2), of ?c] obtain c' where
    c': "newIDProviderCache L entries = Inr c'"
    "idByAlias c' = idByAlias ?c ++ (\<lambda>al. map_option
        (\<lambda>p. p\<lparr>pOffChainAddr := Some (projr (ParseAddr L (pOffChainAddrString p)))\<rparr>) (map_of entries al))"
    "\<forall>s. idAliasByAddr c' s = idAliasByAddr ?c s
        \<or> (\<exists>(al, p) \<in> set entries. pOffChainAddrString p = s \<and> idAliasByAddr c' s = Some (pAlias p))"
    by (auto simp: newIDProviderCache_def)
  have "idByAlias c' = (\<lambda>al. map_option
        (\<lambda>p. p\<lparr>pOffChainAddr := Some (projr (ParseAddr L (pOffChainAddrString p)))\<rparr>) (map_of entries al))"
    unfolding c'(2) by (auto simp: map_add_def fun_eq_iff split: option.split)
  moreover have "\<exists>k p. map_of entries k = Some p \<and> pOffChainAddrString p = s \<and> al = pAlias p"
    if "idAliasByAddr c' s = Some al" for s al
    using c'(3) [rule_format, of s] that mem by (auto; metis)
  ultimately show ?thesis using c'(1) by blast
qed

subsection \<open>Properties\<close>

lemma UpdateStorage_None:
  assumes "UpdateStorage X Y path c f = (None, f')"
  shows "\<exists>s. ylEncode Y (idByAlias c) = Inr s \<and> fsTree f' = (fsTree f)(path \<mapsto> File s)"
proof -
  from assms obtain f1 f2 where f1: "os_Create X path f = (Inr path, f1)" "fsTree f1 = (fsTree f)(path \<mapsto> File [])"
    and f2: "write_encoded X (ylEncode Y (idByAlias c)) ''encoding data as yaml'' path f1 = (None, f2)"
    and f': "f' = snd (file_Close X f2)"
    by (auto simp: UpdateStorage_def split: sum.split_asm prod.split_asm dest: os_Create_Inr)
  from write_encoded_tree(2) [OF f2 refl] obtain s where "ylEncode Y (idByAlias c) = Inr s"
    "fsTree f2 = (fsTree f1)(path \<mapsto> File s)" by blast
  with f1 f' show ?thesis by (auto simp: file_Close_def)
qed


text \<open>A system without faults, and a library that encodes at most one peer ID, as its alias and address.\<close>

definition sim_os :: os where
  "sim_os = \<lparr>osFault = (\<lambda>n. None), osPartial = (\<lambda>n. []), osRandom = id, osTempDir = ''/tmp''\<rparr>"

definition sim_yaml :: "peer_id \<Rightarrow> yaml_peers" where
  "sim_yaml q = \<lparr>ylEncode = (\<lambda>m. if m = [pAlias q \<mapsto> q] then Inr ''peer'' else Inl (ENew ''too many'')),
     ylDecode = (\<lambda>s. if s = [] then ([], Some io_EOF) else ([(pAlias q, stored_peer q)], None))\<rparr>"

lemma sim_yaml_ok: "yaml_peers_ok (sim_yaml q)"
  by (auto simp: yaml_peers_ok_def sim_yaml_def)


text \<open>
  An error after the file was opened leaves it without the peer IDs it had; when nothing has
  been written, the next start takes it for an empty ID provider.
\<close>

lemma failed_encoding_erases:
  assumes "ylEncode Y (idByAlias c) = Inl e" and "os_Create X path f = (Inr p, f1)" and "yaml_peers_ok Y"
  shows "\<exists>f'. UpdateStorage X Y path c f = (Some (EWith e ''encoding data as yaml''), f')
    \<and> fsTree f' = (fsTree f)(path \<mapsto> File [])
    \<and> (osFault X (fsTime f') = None \<longrightarrow> read_id_file X Y f' path = Inr [])"
  using assms os_Create_Inr [OF assms(2)]
  by (auto simp: UpdateStorage_def write_encoded_def file_Close_def read_id_file_def os_Open_def sys_def yaml_peers_ok_def)

text \<open>An error of closing the file is lost.\<close>

lemma close_error_lost:
  assumes "os_Create X path f = (Inr p, f1)" and "ylEncode Y (idByAlias c) = Inr s"
    and "osFault X (fsTime f1) = None" and "osFault X (Suc (fsTime f1)) = None" and "osFault X (Suc (Suc (fsTime f1))) = Some e"
  shows "fst (UpdateStorage X Y path c f) = None"
  using assms by (simp add: UpdateStorage_def write_encoded_def file_Write_def file_Close_def)

end
