(* ===== verification/Artifacts.thy ===== *)
theory Artifacts
  imports Id_Storage Node
begin

text \<open>
  The command \<^verbatim>\<open>perunnode generate\<close>, \<^verbatim>\<open>cmd/perunnode/generate.go\<close>, with the packages that make the
  wallets and configurations it writes: \<^verbatim>\<open>blockchain/ethereum/ethereumtest\<close>,
  \<^verbatim>\<open>session/sessiontest\<close>, \<^verbatim>\<open>node/nodetest\<close> and \<^verbatim>\<open>idprovider/idprovidertest\<close>. Parameters are the
  random numbers and the key store (\<open>glAccount\<close> gives the address of the next account, the name of its key file and
  the content), the addresses of contracts, the free ports and the YAML library.
\<close>

record 'r gen_lib =
  glRand :: "int \<Rightarrow> 'r"
  glAccount :: "'r \<Rightarrow> (address \<times> string \<times> string) \<times> 'r"
  glNewWallet :: "string \<Rightarrow> goerr option"
  glCreateAddress :: "address \<Rightarrow> nat \<Rightarrow> address"
  glFreePort :: "nat \<Rightarrow> goerr + nat"
  glPeers :: yaml_peers
  glEncodeNode :: "node_config \<Rightarrow> goerr + string"
  glEncodeSession :: "session_config \<Rightarrow> goerr + string"

subsection \<open>Wallets\<close>

record wallet_setup =
  wsKeystorePath :: string
  wsAccs :: "address list"

text \<open>\<open>NewRandomAccount\<close> of go-perun panics when the key cannot be stored.\<close>

primrec new_accounts ::
  "'r gen_lib \<Rightarrow> os \<Rightarrow> string \<Rightarrow> nat \<Rightarrow> 'r \<Rightarrow> files \<Rightarrow> ((address list \<times> 'r) \<times> files) run" where
  "new_accounts G X ksPath 0 r f = Done (([], r), f)"
| "new_accounts G X ksPath (Suc n) r f =
     (case glAccount G r of ((a, name, key), r1) \<Rightarrow>
        (case file_Write X (path_join ksPath name) key f of
           (Inl e, _) \<Rightarrow> Panic (PanicCall (err_Error e))
         | (Inr _, f1) \<Rightarrow> andThen (new_accounts G X ksPath n r1 f1) (\<lambda>((accs, r2), f2). Done ((a # accs, r2), f2))))"

definition NewWalletSetup ::
  "'r gen_lib \<Rightarrow> os \<Rightarrow> 'r \<Rightarrow> nat \<Rightarrow> files \<Rightarrow> ((goerr + wallet_setup \<times> 'r) \<times> files) run" where
  "NewWalletSetup G X r n f =
     bindR (wrapR ''creating temp directory for keystore'' (TempDir X ''perun-node-test-keystore-'' f)) (\<lambda>ksPath f.
       case glNewWallet G ksPath of
         Some e \<Rightarrow> Done (Inl (EWith e ''creating creating wallet''), os_RemoveAll X ksPath f)
       | None \<Rightarrow> andThen (new_accounts G X ksPath n r f) (\<lambda>((accs, r), f).
           Done (Inr (\<lparr>wsKeystorePath = ksPath, wsAccs = accs\<rparr>, r), f)))"

definition RandSeedForTestAccs :: int where
  "RandSeedForTestAccs = 1729"

definition OnChainTxTimeout :: duration where
  "OnChainTxTimeout = 60 * Second"

definition ChainURL :: string where
  "ChainURL = ''ws://127.0.0.1:8545''"

definition ChainConnTimeout :: duration where
  "ChainConnTimeout = 10 * Second"

definition ChainID :: int where
  "ChainID = 1337"

text \<open>The addresses that the first four contracts of the first account have.\<close>

definition ContractAddrs ::
  "'r gen_lib \<Rightarrow> os \<Rightarrow> files \<Rightarrow> ((address \<times> address \<times> (address \<times> address) list) \<times> files) run" where
  "ContractAddrs G X f =
     andThen (NewWalletSetup G X (glRand G RandSeedForTestAccs) 2 f) (\<lambda>(res, f).
       case res of
         Inl e \<Rightarrow> Panic (PanicCall ''Cannot setup test wallet'')
       | Inr (ws, _) \<Rightarrow> andThen (idx_at (wsAccs ws) 0) (\<lambda>acc.
           Done ((glCreateAddress G acc 0, glCreateAddress G acc 1,
                  [(glCreateAddress G acc 2, glCreateAddress G acc 3)]), f)))"

subsection \<open>Configurations\<close>

text \<open>The end of the functions that write a temporary file, which they remove after an error.\<close>

definition write_temp :: "os \<Rightarrow> goerr + string \<Rightarrow> string \<Rightarrow> string \<Rightarrow> files \<Rightarrow> (goerr + string) \<times> files" where
  "write_temp X encoded msg p f =
     (case write_encoded X encoded msg p f of
        (Some e, f1) \<Rightarrow> (Inl e, os_RemoveAll X p (snd (file_Close X f1)))
      | (None, f1) \<Rightarrow> (case file_Close X f1 of (Some e, f2) \<Rightarrow> (Inl e, f2) | (None, f2) \<Rightarrow> (Inr p, f2)))"

definition NewIDProvider :: "'r gen_lib \<Rightarrow> os \<Rightarrow> peer_id list \<Rightarrow> files \<Rightarrow> ((goerr + string) \<times> files) run" where
  "NewIDProvider G X peerIDs f =
     bindR (wrapR ''creating temp file for local idProvider'' (TempFile X [] [] f)) (\<lambda>tempFile f.
       let idProvider = foldl (\<lambda>m peer. m(pAlias peer \<mapsto> peer)) Map.empty peerIDs
       in Done (write_temp X (ylEncode (glPeers G) idProvider) ''encoding idProvider'' tempFile f))"

definition NewConfigFile :: "os \<Rightarrow> goerr + string \<Rightarrow> files \<Rightarrow> ((goerr + string) \<times> files) run" where
  "NewConfigFile X encoded f =
     bindR (wrapR ''creating temp file for config'' (TempFile X [] ''.yaml'' f)) (\<lambda>tempFile f.
       Done (write_temp X encoded ''encoding config'' tempFile f))"

definition PeerReconnTimeout :: duration where
  "PeerReconnTimeout = 20 * Second"

definition ResponseTimeout :: duration where
  "ResponseTimeout = 10 * Second"

text \<open>The part addresses are those of the first accounts, not of the ones after the first two.\<close>

definition newUserConfig ::
  "'r gen_lib \<Rightarrow> addr_lib \<Rightarrow> os \<Rightarrow> 'r \<Rightarrow> nat \<Rightarrow> files \<Rightarrow> ((goerr + (wallet_setup \<times> user_config) \<times> 'r) \<times> files) run" where
  "newUserConfig G L X r n f =
     bindR (andThen (NewWalletSetup G X r (2 + n) f) (wrapR ''new wallet setup'')) (\<lambda>(ws, r) f.
       case glFreePort G (fsTime f) of
         Inl e \<Rightarrow> Done (Inl (EWith e ''acquiring free port''), f)
       | Inr port \<Rightarrow>
           andThen (idx_at (wsAccs ws) 0) (\<lambda>onChain. andThen (idx_at (wsAccs ws) 1) (\<lambda>offChain.
           Done (Inr ((ws, \<lparr>ucAlias = ''test-user'', ucOnChainAddr = alString L onChain,
               ucOnChainWallet = \<lparr>wcKeystorePath = wsKeystorePath ws, wcPassword = []\<rparr>,
               ucPartAddrs = map (alString L) (take (length (drop 2 (wsAccs ws))) (wsAccs ws)),
               ucOffChainAddr = alString L offChain,
               ucOffChainWallet = \<lparr>wcKeystorePath = wsKeystorePath ws, wcPassword = []\<rparr>,
               ucCommAddr = ''127.0.0.1:'' @ show_nat port, ucCommType = ''tcp''\<rparr>), r), f))))"

definition newDatabaseDir :: "os \<Rightarrow> files \<Rightarrow> ((goerr + string) \<times> files) run" where
  "newDatabaseDir X f = wrapR ''creating temp directory for database'' (TempDir X [] f)"

definition session_NewConfig ::
  "'r gen_lib \<Rightarrow> addr_lib \<Rightarrow> os \<Rightarrow> 'r \<Rightarrow> peer_id list \<Rightarrow> files \<Rightarrow> ((goerr + session_config \<times> 'r) \<times> files) run" where
  "session_NewConfig G L X r peerIDs f =
     bindR (andThen (newUserConfig G L X r 0 f) (wrapR ''new user config'')) (\<lambda>((_, userCfg), r) f.
     andThen (ContractAddrs G X f) (\<lambda>((adjudicator, assetETH, _), f).
     bindR (newDatabaseDir X f) (\<lambda>databaseDir f.
     bindR (NewIDProvider G X peerIDs f) (\<lambda>idProviderURL f.
     Done (Inr (\<lparr>scUser = userCfg, scIDProviderType = ''local'', scIDProviderURL = idProviderURL,
        scChainURL = ChainURL, scChainID = ChainID, scChainConnTimeout = ChainConnTimeout,
        scOnChainTxTimeout = OnChainTxTimeout, scResponseTimeout = ResponseTimeout, scDatabaseDir = databaseDir,
        scPeerReconnTimeout = PeerReconnTimeout, scAssetETH = Some assetETH, scAdjudicator = Some adjudicator\<rparr>, r), f)))))"

definition node_NewConfig ::
  "'r gen_lib \<Rightarrow> addr_lib \<Rightarrow> os \<Rightarrow> bool \<Rightarrow> files \<Rightarrow> (node_config \<times> files) run" where
  "node_NewConfig G L X incERC20Assets f =
     andThen (ContractAddrs G X f) (\<lambda>((adjudicator, assetETH, assetERC20s), f).
       Done (\<lparr>ncLogLevel = ''debug'', ncLogFile = [], ncChainURL = ChainURL, ncChainID = ChainID,
          ncAdjudicator = alString L adjudicator, ncAssetETH = alString L assetETH,
          ncAssetERC20s = (if incERC20Assets then map (map_prod (alString L) (alString L)) assetERC20s else []),
          ncChainConnTimeout = ChainConnTimeout, ncOnChainTxTimeout = OnChainTxTimeout,
          ncResponseTimeout = ResponseTimeout, ncCommTypes = [''tcp''], ncIDProviderTypes = [''local''],
          ncCurrencyInterpreters = [''ETH'']\<rparr>, f))"

subsection \<open>The artifacts\<close>

definition aliceAlias :: string where "aliceAlias = ''alice''"
definition bobAlias :: string where "bobAlias = ''bob''"
definition nodeConfigFile :: string where "nodeConfigFile = ''node.yaml''"
definition sessionConfigFile :: string where "sessionConfigFile = ''session.yaml''"
definition keystoreDir :: string where "keystoreDir = ''keystore''"
definition idProviderFile :: string where "idProviderFile = ''idprovider.yaml''"
definition databaseDir :: string where "databaseDir = ''database''"

primrec isAnyDirPresent :: "os \<Rightarrow> string list \<Rightarrow> files \<Rightarrow> (bool \<times> string) \<times> files" where
  "isAnyDirPresent X [] f = ((False, []), f)"
| "isAnyDirPresent X (d # ds) f =
     (case os_exists X d f of (True, f1) \<Rightarrow> ((True, d), f1) | (False, f1) \<Rightarrow> isAnyDirPresent X ds f1)"

primrec makeDirs :: "os \<Rightarrow> string list \<Rightarrow> files \<Rightarrow> (goerr + unit) \<times> files" where
  "makeDirs X [] f = (Inr (), f)"
| "makeDirs X (d # ds) f =
     (case os_Mkdir X d f of
        (Inl e, f1) \<Rightarrow> (Inl (ENew (''creating dir - '' @ d)), f1)
      | (Inr _, f1) \<Rightarrow> makeDirs X ds f1)"

definition peerID :: "user_config \<Rightarrow> peer_id" where
  "peerID userCfg = \<lparr>pAlias = ucAlias userCfg, pOffChainAddr = None,
     pOffChainAddrString = ucOffChainAddr userCfg, pCommAddr = ucCommAddr userCfg, pCommType = ucCommType userCfg\<rparr>"

definition updatedConfigCopy :: "session_config \<Rightarrow> session_config" where
  "updatedConfigCopy cfg =
     (let u = scUser cfg
      in cfg\<lparr>scIDProviderURL := path_join (ucAlias u) idProviderFile,
             scDatabaseDir := path_join (ucAlias u) databaseDir,
             scUser := u\<lparr>ucOnChainWallet := (ucOnChainWallet u)\<lparr>wcKeystorePath := path_join (ucAlias u) keystoreDir\<rparr>,
                         ucOffChainWallet := (ucOffChainWallet u)\<lparr>wcKeystorePath := path_join (ucAlias u) keystoreDir\<rparr>\<rparr>\<rparr>)"

text \<open>Moving files, in the order in which the iteration takes the map.\<close>

primrec rename_all :: "os \<Rightarrow> (string \<times> string) list \<Rightarrow> files \<Rightarrow> string list \<times> files" where
  "rename_all X [] f = ([], f)"
| "rename_all X (sd # rest) f =
     (case os_Rename X (fst sd) (snd sd) f of (r, f1) \<Rightarrow>
      (case rename_all X rest f1 of (errs, f2) \<Rightarrow>
        (case r of
           Inl e \<Rightarrow> (fst sd @ '' to '' @ snd sd @ '': '' @ err_Error e) # errs
         | Inr _ \<Rightarrow> errs, f2)))"

definition moveFiles :: "os \<Rightarrow> (string \<times> string) list \<Rightarrow> files \<Rightarrow> (goerr + unit) \<times> files" where
  "moveFiles X srcDest f =
     (case rename_all X srcDest f of (errs, f1) \<Rightarrow>
        (if length errs \<noteq> 0 then Inl (ENew (''moving files: '' @ show_slice errs)) else Inr (), f1))"

definition generateNodeConfig :: "'r gen_lib \<Rightarrow> addr_lib \<Rightarrow> os \<Rightarrow> files \<Rightarrow> ((goerr + unit) \<times> files) run" where
  "generateNodeConfig G L X f =
     (case os_exists X nodeConfigFile f of
        (True, f) \<Rightarrow> Done (Inl (ENew (''file exists - '' @ nodeConfigFile)), f)
      | (False, f) \<Rightarrow>
          andThen (node_NewConfig G L X True f) (\<lambda>(nodeCfg, f).
          andThen (ContractAddrs G X f) (\<lambda>((adjudicator, assetETH, _), f).
          let nodeCfg = nodeCfg\<lparr>ncAdjudicator := alString L adjudicator, ncAssetETH := alString L assetETH\<rparr>
          in bindR (NewConfigFile X (glEncodeNode G nodeCfg) f) (\<lambda>tempNodeConfigFile f.
             Done (moveFiles X [(tempNodeConfigFile, nodeConfigFile)] f)))))"

text \<open>A map literal, whose keys are not constants: a key that occurs twice has its last value.\<close>

definition files_to_move :: "(string \<times> session_config) \<times> string \<Rightarrow> (string \<times> session_config) \<times> string \<Rightarrow> (string \<times> string) list" where
  "files_to_move = (\<lambda>((aliceCfgFile, aliceCfg), aliceIDProviderFile) ((bobCfgFile, bobCfg), bobIDProviderFile).
     foldl (\<lambda>m (src, dest). AList.update src dest m) []
       [(aliceCfgFile, path_join aliceAlias sessionConfigFile),
        (aliceIDProviderFile, path_join aliceAlias idProviderFile),
        (scDatabaseDir aliceCfg, path_join aliceAlias databaseDir),
        (wcKeystorePath (ucOnChainWallet (scUser aliceCfg)), path_join aliceAlias keystoreDir),
        (bobCfgFile, path_join bobAlias sessionConfigFile),
        (scDatabaseDir bobCfg, path_join bobAlias databaseDir),
        (bobIDProviderFile, path_join bobAlias idProviderFile),
        (wcKeystorePath (ucOnChainWallet (scUser bobCfg)), path_join bobAlias keystoreDir)])"

definition with_alias :: "string \<Rightarrow> session_config \<Rightarrow> session_config" where
  "with_alias al cfg = cfg\<lparr>scUser := (scUser cfg)\<lparr>ucAlias := al\<rparr>\<rparr>"

definition generateSessionConfig ::
  "'r gen_lib \<Rightarrow> addr_lib \<Rightarrow> os \<Rightarrow> ((string \<times> string) list \<Rightarrow> (string \<times> string) list) \<Rightarrow> files
     \<Rightarrow> ((goerr + unit) \<times> files) run" where
  "generateSessionConfig G L X order f =
     (case isAnyDirPresent X [aliceAlias, bobAlias] f of
        ((True, dirName), f) \<Rightarrow> Done (Inl (ENew (''dir exists - '' @ dirName)), f)
      | ((False, _), f) \<Rightarrow>
          bindR (Done (makeDirs X [aliceAlias, bobAlias] f)) (\<lambda>_ f.
          bindR (session_NewConfig G L X (glRand G RandSeedForTestAccs) [] f) (\<lambda>(aliceCfg, prng) f.
          let aliceCfg = with_alias aliceAlias aliceCfg
          in bindR (session_NewConfig G L X prng [] f) (\<lambda>(bobCfg, _) f.
          let bobCfg = with_alias bobAlias bobCfg
          in bindR (NewIDProvider G X [peerID (scUser bobCfg)] f) (\<lambda>aliceIDProviderFile f.
          bindR (NewIDProvider G X [peerID (scUser aliceCfg)] f) (\<lambda>bobIDProviderFile f.
          bindR (NewConfigFile X (glEncodeSession G (updatedConfigCopy aliceCfg)) f) (\<lambda>aliceCfgFile f.
          bindR (NewConfigFile X (glEncodeSession G (updatedConfigCopy bobCfg)) f) (\<lambda>bobCfgFile f.
          Done (moveFiles X (order (files_to_move ((aliceCfgFile, aliceCfg), aliceIDProviderFile)
            ((bobCfgFile, bobCfg), bobIDProviderFile))) f)))))))))"

subsection \<open>The command\<close>

text \<open>The flags of a command, as the library gives them.\<close>

record flag_set =
  fgChanged :: "string \<Rightarrow> bool"
  fgBool :: "string \<Rightarrow> goerr + bool"
  fgString :: "string \<Rightarrow> goerr + string"
  fgUint64 :: "string \<Rightarrow> goerr + nat"

primrec areAllFlagsUnspecified :: "flag_set \<Rightarrow> string list \<Rightarrow> bool" where
  "areAllFlagsUnspecified fs [] = True"
| "areAllFlagsUnspecified fs (g # gs) = (if fgChanged fs g then False else areAllFlagsUnspecified fs gs)"

primrec areAllFlagsSpecified :: "flag_set \<Rightarrow> string list \<Rightarrow> bool" where
  "areAllFlagsSpecified fs [] = True"
| "areAllFlagsSpecified fs (g # gs) = (if \<not> fgChanged fs g then False else areAllFlagsSpecified fs gs)"

definition onlyNodeF :: string where "onlyNodeF = ''only-node''"
definition onlySessionF :: string where "onlySessionF = ''only-session''"

definition unknown_flag :: "string \<Rightarrow> 'a run" where
  "unknown_flag g = Panic (PanicCall (''unknown flag '' @ g @ [CHR 0x0A]))"

text \<open>One of the two generations: what is printed, and the error; it is kept when there is nothing to generate.\<close>

definition generate_part ::
  "bool \<Rightarrow> (files \<Rightarrow> ((goerr + unit) \<times> files) run) \<Rightarrow> string \<Rightarrow> string \<Rightarrow> goerr option \<times> string list \<times> files
     \<Rightarrow> (goerr option \<times> string list \<times> files) run" where
  "generate_part wanted gen failed made = (\<lambda>(err, out, f).
     if \<not> wanted then Done (err, out, f)
     else andThen (gen f) (\<lambda>(r, f). case r of
       Inl e \<Rightarrow> Done (Some e, out @ [failed @ err_Error e @ [CHR 0x0A]], f)
     | Inr _ \<Rightarrow> Done (None, out @ [made @ [CHR 0x0A]], f)))"

text \<open>The exit status, what is printed and the files.\<close>

definition generate ::
  "'r gen_lib \<Rightarrow> addr_lib \<Rightarrow> os \<Rightarrow> ((string \<times> string) list \<Rightarrow> (string \<times> string) list) \<Rightarrow> flag_set \<Rightarrow> files
     \<Rightarrow> (nat \<times> string list \<times> files) run" where
  "generate G L X order fs f =
     (case fgBool fs onlyNodeF of
        Inl e \<Rightarrow> unknown_flag onlyNodeF
      | Inr genNodeConfig \<Rightarrow> (case fgBool fs onlySessionF of
        Inl e \<Rightarrow> unknown_flag onlySessionF
      | Inr genSessionConfig \<Rightarrow>
          (let both = areAllFlagsUnspecified fs [onlyNodeF, onlySessionF]
           in andThen (generate_part (genNodeConfig \<or> both) (generateNodeConfig G L X)
                ''Error generating node configuration artifacts: '' (''Generated node configuration file: '' @ nodeConfigFile)
                (None, [], f)) (\<lambda>st.
              andThen (generate_part (genSessionConfig \<or> both) (generateSessionConfig G L X order)
                ''Error generating session configuration artifacts: ''
                (''Generated session configuration artifacts: '' @ aliceAlias @ '', '' @ bobAlias @ '' directories'') st)
                (\<lambda>(err, out, f). Done (if err \<noteq> None then 1 else 0, out, f))))))"

end
