(* ===== verification/Artifacts_Laws.thy ===== *)
theory Artifacts_Laws
  imports Artifacts
begin

text \<open>
  What the steps of the generation of artifacts do to the file system: everything is made under
  new temporary paths, which are apart from each other and from the working directory, until
  the moves at the end.
\<close>

subsection \<open>New temporary paths\<close>

definition temp_path :: "os \<Rightarrow> string \<Rightarrow> bool" where
  "temp_path X d \<longleftrightarrow> (\<exists>n. CHR ''/'' \<notin> set n \<and> d = path_join (osTempDir X) n)"

definition frame :: "string set \<Rightarrow> files \<Rightarrow> files \<Rightarrow> bool" where
  "frame D f f' \<longleftrightarrow> (\<forall>p. (\<forall>d\<in>D. \<not> below d p) \<longrightarrow> fsTree f' p = fsTree f p)"

definition grows :: "os \<Rightarrow> string set \<Rightarrow> files \<Rightarrow> files \<Rightarrow> bool" where
  "grows X D f f' \<longleftrightarrow> frame D f f' \<and> (\<forall>d\<in>D. temp_path X d \<and> fsTree f d = None)"

lemma temp_apart:
  assumes "temp_path X d" and "temp_path X e" and "d \<noteq> e"
  shows "apart d e"
proof -
  have "\<not> below d e" if "temp_path X d" "temp_path X e" "d \<noteq> e" for d e
    using that by (auto simp: temp_path_def below_def prefix_def path_join_def slash_def)
  with assms show ?thesis by (auto simp: apart_def)
qed

lemma files_frame_trans: "frame D f g \<Longrightarrow> frame E g h \<Longrightarrow> frame (D \<union> E) f h"
  by (simp add: frame_def)

lemma temp_below: "temp_path X d \<Longrightarrow> temp_path X e \<Longrightarrow> below d e \<Longrightarrow> d = e"
  using temp_apart [of X d e] by (auto simp: apart_def)

lemma grows_trans:
  assumes "grows X D f g" and "grows X E g h"
  shows "grows X (D \<union> E) f h"
proof -
  have "fsTree f e = None" if "e \<in> E" for e
  proof (cases "e \<in> D")
    case True
    with assms(1) show ?thesis by (simp add: grows_def)
  next
    case False
    with assms that have "\<forall>d\<in>D. \<not> below d e" by (auto simp: grows_def dest: temp_below)
    with assms that show ?thesis by (auto simp: grows_def frame_def)
  qed
  with assms show ?thesis by (auto simp: grows_def intro: files_frame_trans)
qed

text \<open>What is below a temporary path that is there already is kept.\<close>

lemma grows_keep:
  assumes "grows X D f g" and "temp_path X d" and "fsTree f d \<noteq> None" and "below d p"
  shows "fsTree g p = fsTree f p"
proof -
  have "\<not> below e p" if "e \<in> D" for e
  proof
    assume "below e p"
    from that assms have "temp_path X e" "e \<noteq> d" by (auto simp: grows_def)
    with assms(2) have "apart e d" using temp_apart by blast
    with below_comparable [OF \<open>below e p\<close> assms(4)] show False by (simp add: apart_def)
  qed
  with assms(1) show ?thesis by (simp add: grows_def frame_def)
qed

lemma grows_refl [simp]: "grows X {} f f"
  by (simp add: grows_def frame_def)

lemma grows_tree: "grows X D f g \<Longrightarrow> fsTree h = fsTree g \<Longrightarrow> grows X D f h"
  by (simp add: grows_def frame_def)

text \<open>The paths of the working directory are relative, the temporary directory is not.\<close>

lemma temp_absolute: "prefix slash (osTempDir X) \<Longrightarrow> temp_path X d \<Longrightarrow> prefix slash d"
  by (auto simp: temp_path_def path_join_def prefix_def)

lemma local_apart:
  assumes "prefix slash d" and "\<not> prefix slash p" and "p \<noteq> []"
  shows "apart d p"
  using assms by (cases d; cases p) (auto simp: apart_def below_def slash_def prefix_def)

lemma grows_local:
  assumes "grows X D f g" and "prefix slash (osTempDir X)" and "\<not> prefix slash p"
  shows "fsTree g p = fsTree f p"
proof -
  have "\<not> below d p" if "d \<in> D" for d
  proof -
    from that assms(1,2) have "prefix slash d" by (auto simp: grows_def intro: temp_absolute)
    with assms(3) show ?thesis by (cases d; cases p) (auto simp: below_def slash_def prefix_def)
  qed
  with assms(1) show ?thesis by (simp add: grows_def frame_def)
qed

subsection \<open>The steps\<close>

lemma temp_path_name:
  assumes "CHR ''/'' \<notin> set pre" and "CHR ''/'' \<notin> set suf"
  shows "temp_path X (path_join (osTempDir X) (pre @ show_nat i @ suf))"
proof -
  have "CHR ''/'' \<notin> set (show_nat i)" by (rule not_in_show_nat) simp
  with assms show ?thesis by (auto simp: temp_path_def intro!: exI [of _ "pre @ show_nat i @ suf"])
qed

lemma temp_loop_grows:
  assumes "temp_loop X n pre suf k f = (Inr p, f')" and "CHR ''/'' \<notin> set pre" and "CHR ''/'' \<notin> set suf"
  shows "grows X {p} f f' \<and> fsTree f' p = Some n \<and> temp_path X p"
  using temp_loop_Inr [OF assms(1)] temp_path_name [OF assms(2,3), of X]
  by (auto simp: grows_def frame_def)

text \<open>The key file of an account in a directory.\<close>

definition has_key :: "'r gen_lib \<Rightarrow> files \<Rightarrow> string \<Rightarrow> address \<Rightarrow> bool" where
  "has_key G f d a \<longleftrightarrow>
     (\<exists>r name key r' s. glAccount G r = ((a, name, key), r') \<and> fsTree f (path_join d name) = Some (File s))"

lemma path_join_neq [simp]: "path_join d n \<noteq> d" "d \<noteq> path_join d n"
  by (simp_all add: path_join_def slash_def)

lemma file_Write_Inr: "file_Write X p s f = (Inr u, f') \<Longrightarrow> f' = set_node p (File s) (tick f)"
  by (auto simp: file_Write_def split: option.split_asm)

lemma new_accounts_Done:
  assumes "new_accounts G X ks n r f = Done ((accs, r'), f')"
  shows "length accs = n \<and> frame {ks} f f' \<and> fsTree f' ks = fsTree f ks \<and> (\<forall>a \<in> set accs. has_key G f' ks a)
    \<and> (\<forall>name s. fsTree f (path_join ks name) = Some (File s) \<longrightarrow> (\<exists>s'. fsTree f' (path_join ks name) = Some (File s')))"
  using assms
proof (induction n arbitrary: r f accs)
  case 0
  then show ?case by (simp add: frame_def)
next
  case (Suc n)
  obtain a name key r1 where acc: "glAccount G r = ((a, name, key), r1)" by (cases "glAccount G r") auto
  with Suc.prems obtain f1 as where f1: "f1 = set_node (path_join ks name) (File key) (tick f)"
    and rest: "new_accounts G X ks n r1 f1 = Done ((as, r'), f')" and accs: "accs = a # as"
    by (auto simp: run_simps split: sum.split_asm prod.split_asm dest: file_Write_Inr)
  from Suc.IH [OF rest] have IH: "length as = n" "frame {ks} f1 f'" "fsTree f' ks = fsTree f1 ks"
    "\<forall>a \<in> set as. has_key G f' ks a"
    "\<forall>name s. fsTree f1 (path_join ks name) = Some (File s) \<longrightarrow> (\<exists>s'. fsTree f' (path_join ks name) = Some (File s'))"
    by simp_all
  have "has_key G f' ks a"
    using IH(5) acc unfolding has_key_def f1 by (auto; metis)
  moreover have "frame {ks} f f'"
    using IH(2) by (auto simp: frame_def f1)
  moreover have "\<exists>s'. fsTree f' (path_join ks nm) = Some (File s')" if "fsTree f (path_join ks nm) = Some (File s)" for nm s
    using IH(5) that by (cases "path_join ks nm = path_join ks name") (auto simp: f1)
  ultimately show ?case using IH accs by (auto simp: f1)
qed

lemma NewWalletSetup_Inr:
  assumes "NewWalletSetup G X r n f = Done (Inr (ws, r'), f')"
  shows "grows X {wsKeystorePath ws} f f' \<and> temp_path X (wsKeystorePath ws)
    \<and> fsTree f' (wsKeystorePath ws) = Some Directory \<and> length (wsAccs ws) = n
    \<and> (\<forall>a \<in> set (wsAccs ws). has_key G f' (wsKeystorePath ws) a)"
proof -
  from assms obtain f1 where tmp: "TempDir X ''perun-node-test-keystore-'' f = (Inr (wsKeystorePath ws), f1)"
    and acc: "new_accounts G X (wsKeystorePath ws) n r f1 = Done ((wsAccs ws, r'), f')"
    by (auto simp: NewWalletSetup_def bindR_Inr wrapR_Inr run_simps split: option.split_asm)
  from temp_loop_grows [OF tmp [unfolded TempDir_def]] have g: "grows X {wsKeystorePath ws} f f1"
    "fsTree f1 (wsKeystorePath ws) = Some Directory" "temp_path X (wsKeystorePath ws)" by simp_all
  from new_accounts_Done [OF acc] g have "grows X {wsKeystorePath ws} f f'"
    by (auto simp: grows_def frame_def)
  with g new_accounts_Done [OF acc] show ?thesis by simp
qed

lemma ContractAddrs_Done:
  assumes "ContractAddrs G X f = Done (c, f')"
  shows "\<exists>D. grows X D f f'"
proof -
  from assms obtain ws r' where "NewWalletSetup G X (glRand G RandSeedForTestAccs) 2 f = Done (Inr (ws, r'), f')"
    unfolding ContractAddrs_def by (elim andThen_DoneE) (auto simp: run_simps split: sum.split_asm prod.split_asm)
  from NewWalletSetup_Inr [OF this] show ?thesis by blast
qed

lemma write_temp_Inr:
  assumes "write_temp X enc msg p f = (Inr q, f')"
  shows "q = p \<and> (\<exists>s. enc = Inr s \<and> fsTree f' = (fsTree f)(p \<mapsto> File s))"
  using assms
  by (auto simp: write_temp_def file_Close_def split: prod.split_asm option.split_asm dest: write_encoded_tree(2))

lemma temp_file_grows:
  assumes "TempFile X pre suf f = (Inr p, f1)" and "write_temp X enc msg p f1 = (Inr q, f')"
    and "CHR ''/'' \<notin> set pre" and "CHR ''/'' \<notin> set suf"
  shows "grows X {q} f f' \<and> temp_path X q \<and> (\<exists>s. enc = Inr s \<and> fsTree f' q = Some (File s))"
  using temp_loop_grows [OF assms(1) [unfolded TempFile_def] assms(3,4)] write_temp_Inr [OF assms(2)]
  by (auto simp: grows_def frame_def)

lemma NewConfigFile_Inr:
  assumes "NewConfigFile X enc f = Done (Inr p, f')"
  shows "grows X {p} f f' \<and> temp_path X p \<and> (\<exists>s. enc = Inr s \<and> fsTree f' p = Some (File s))"
  using assms
  by (auto simp: NewConfigFile_def bindR_Inr wrapR_Inr dest!: temp_file_grows)

lemma NewIDProvider_Inr:
  assumes "NewIDProvider G X [peer] f = Done (Inr p, f')"
  shows "grows X {p} f f' \<and> temp_path X p
    \<and> (\<exists>s. ylEncode (glPeers G) [pAlias peer \<mapsto> peer] = Inr s \<and> fsTree f' p = Some (File s))"
  using assms
  by (auto simp: NewIDProvider_def bindR_Inr wrapR_Inr Let_def dest!: temp_file_grows)

lemma NewIDProvider_grows: "NewIDProvider G X peers f = Done (Inr p, f') \<Longrightarrow> grows X {p} f f'"
  by (auto simp: NewIDProvider_def bindR_Inr wrapR_Inr Let_def dest!: temp_file_grows)

end
