(* ===== verification/Chain_Setup.thy ===== *)
theory Chain_Setup
  imports Artifacts_Laws
begin

text \<open>
  Reading balances and deploying contracts: \<^verbatim>\<open>blockchain/ethereum/chain.go\<close>, the deployments of
  \<^verbatim>\<open>blockchain/ethereum/internal/chain.go\<close>, and
  \<^verbatim>\<open>blockchain/ethereum/ethereumtest/setupcontracts.go\<close>, which deploys all contracts for a
  demonstration unless they are there. The blockchain is an abstract state with the calls made
  on it; \<open>kcEth\<close> is what the contract bindings read in a state.
\<close>

record 'c chain_lib =
  kcConnects :: "string \<Rightarrow> 'c \<Rightarrow> bool"
  kcDial :: "string \<Rightarrow> duration \<Rightarrow> 'c \<Rightarrow> goerr option"
  kcBalance :: "address \<Rightarrow> 'c \<Rightarrow> goerr + int"
  kcEth :: "'c \<Rightarrow> eth_lib"
  kcDeployAdjudicator :: "address \<Rightarrow> 'c \<Rightarrow> (goerr + address) \<times> 'c"
  kcDeployETHAssetholder :: "address \<Rightarrow> address \<Rightarrow> 'c \<Rightarrow> (goerr + address) \<times> 'c"
  kcDeployPerunToken :: "address list \<Rightarrow> int \<Rightarrow> address \<Rightarrow> 'c \<Rightarrow> (goerr + address) \<times> 'c"
  kcDeployERC20Assetholder :: "address \<Rightarrow> address \<Rightarrow> address \<Rightarrow> 'c \<Rightarrow> (goerr + address) \<times> 'c"

subsection \<open>The chain backend\<close>

definition BalanceAt :: "'c chain_lib \<Rightarrow> addr_lib \<Rightarrow> string \<Rightarrow> duration \<Rightarrow> address \<Rightarrow> 'c \<Rightarrow> goerr + int" where
  "BalanceAt K L url chainConnTimeout addr c =
     (case kcDial K url chainConnTimeout c of
        Some e \<Rightarrow> Inl (EWith e (''connecting to ethereum node at '' @ url))
      | None \<Rightarrow> (case kcBalance K addr c of
          Inl e \<Rightarrow> Inl (EWith e (''reading on-chain balance for '' @ alString L addr))
        | Inr bal \<Rightarrow> Inr bal))"

text \<open>A result with its error wrapped; the address that is returned with an error is not used.\<close>

definition wrap_result :: "string \<Rightarrow> (goerr + 'a) \<times> 'c \<Rightarrow> (goerr + 'a) \<times> 'c" where
  "wrap_result msg r = (map_sum (\<lambda>e. EWith e msg) id (fst r), snd r)"

definition DeployAdjudicator :: "'c chain_lib \<Rightarrow> address \<Rightarrow> 'c \<Rightarrow> (goerr + address) \<times> 'c" where
  "DeployAdjudicator K txSender c = wrap_result ''deploying adjudicator contract'' (kcDeployAdjudicator K txSender c)"

definition DeployAssetETH :: "'c chain_lib \<Rightarrow> address \<Rightarrow> address \<Rightarrow> 'c \<Rightarrow> (goerr + address) \<times> 'c" where
  "DeployAssetETH K adjAddr txSender c =
     wrap_result ''deploying asset ETH contract'' (kcDeployETHAssetholder K adjAddr txSender c)"

definition DeployPerunToken :: "'c chain_lib \<Rightarrow> address list \<Rightarrow> int \<Rightarrow> address \<Rightarrow> 'c \<Rightarrow> (goerr + address) \<times> 'c" where
  "DeployPerunToken K initAccs initBal txSender c =
     wrap_result ''deploying adjudicator contract'' (kcDeployPerunToken K initAccs initBal txSender c)"

definition cb_DeployAssetERC20 :: "'c chain_lib \<Rightarrow> address \<Rightarrow> address \<Rightarrow> address \<Rightarrow> 'c \<Rightarrow> (goerr + address) \<times> 'c" where
  "cb_DeployAssetERC20 K adj tokenERC20 txSender c =
     wrap_result ''deploying asset ERC20 contract'' (kcDeployERC20Assetholder K adj tokenERC20 txSender c)"

definition connect_chain_backend ::
  "'c chain_lib \<Rightarrow> ('p, 'w) sdk \<Rightarrow> addr_lib \<Rightarrow> string \<Rightarrow> credential \<Rightarrow> 'c \<Rightarrow> goerr option" where
  "connect_chain_backend K S L url cred c =
     NewChainBackend (S\<lparr>sdDialChain := \<lambda>url t. kcDial K url t c\<rparr>) L url ChainConnTimeout cred"

subsection \<open>Deployment of all contracts\<close>

definition deployContracts ::
  "'c chain_lib \<Rightarrow> address \<Rightarrow> address list \<Rightarrow> int \<Rightarrow> 'c \<Rightarrow> goerr option \<times> 'c" where
  "deployContracts K onChainAddr initAccs initBal c =
     (case DeployAdjudicator K onChainAddr c of
        (Inl e, c) \<Rightarrow> (Some (EWith e ''deploying adjudicator''), c)
      | (Inr adjudicator, c) \<Rightarrow>
     (case DeployAssetETH K adjudicator onChainAddr c of
        (Inl e, c) \<Rightarrow> (Some (EWith e ''deploying asset ETH''), c)
      | (Inr _, c) \<Rightarrow>
     (case DeployPerunToken K initAccs initBal onChainAddr c of
        (Inl e, c) \<Rightarrow> (Some (EWith e ''deploying perun token''), c)
      | (Inr tokenERC20PRN, c) \<Rightarrow>
     (case cb_DeployAssetERC20 K adjudicator tokenERC20PRN onChainAddr c of
        (Inl e, c) \<Rightarrow> (Some (EWith e ''deploying asset ERC20''), c)
      | (Inr _, c) \<Rightarrow> (None, c)))))"

primrec register_assets ::
  "eth_lib \<Rightarrow> addr_lib \<Rightarrow> (address \<times> address) list \<Rightarrow> contract_registry \<Rightarrow> (goerr + contract_registry) run" where
  "register_assets E L [] contracts = Done (Inr contracts)"
| "register_assets E L (ta # rest) contracts =
     andThen (RegisterAssetERC20 E L (fst ta) (snd ta) contracts) (\<lambda>(res, contracts).
       case res of
         Inl e \<Rightarrow> Done (Inl (EWith e (''registering erc20 token '' @ alString L (fst ta) @ '' with asset '' @ alString L (snd ta))))
       | Inr _ \<Rightarrow> register_assets E L rest contracts)"

definition newContractRegistry ::
  "'r gen_lib \<Rightarrow> os \<Rightarrow> eth_lib \<Rightarrow> addr_lib \<Rightarrow> bool \<Rightarrow> files \<Rightarrow> ((goerr + contract_registry) \<times> files) run" where
  "newContractRegistry G X E L incAssetERC20s f =
     andThen (ContractAddrs G X f) (\<lambda>((adjudicatorAddr, assetETHAddr, assetERC20Addrs), f).
       case NewContractRegistry E L adjudicatorAddr assetETHAddr of
         Inl e \<Rightarrow> Done (Inl (EWith e ''initializing contract registry''), f)
       | Inr contracts \<Rightarrow>
           if \<not> incAssetERC20s then Done (Inr contracts, f)
           else andThen (register_assets E L assetERC20Addrs contracts) (\<lambda>r. Done (r, f)))"

text \<open>The contracts are taken to be there when the adjudicator is.\<close>

definition SetupContracts ::
  "'c chain_lib \<Rightarrow> ('p, 'w) sdk \<Rightarrow> 'r gen_lib \<Rightarrow> addr_lib \<Rightarrow> os \<Rightarrow> string \<Rightarrow> bool \<Rightarrow> 'c \<times> files
     \<Rightarrow> ((goerr + contract_registry) \<times> 'c \<times> files) run" where
  "SetupContracts K S G L X chainURL incAssetERC20s = (\<lambda>(c, f).
     if \<not> kcConnects K chainURL c
     then Done (Inl (ENew (''cannot connect to ganache-cli node at '' @ chainURL)), c, f)
     else andThen (NewWalletSetup G X (glRand G RandSeedForTestAccs) 3 f) (\<lambda>(res, f).
       case res of
         Inl e \<Rightarrow> Done (Inl e, c, f)
       | Inr (ws, _) \<Rightarrow> andThen (idx_at (wsAccs ws) 0) (\<lambda>acc.
           case connect_chain_backend K S L chainURL
                  \<lparr>crAddr = Some acc, crWallet = 0, crKeystore = wsKeystorePath ws, crPassword = []\<rparr> c of
             Some e \<Rightarrow> Done (Inl (EWith e ''initializaing chain backend''), c, f)
           | None \<Rightarrow> andThen (ContractAddrs G X f) (\<lambda>((adjudicatorAddr, _, _), f).
               let registry = (\<lambda>c. andThen (newContractRegistry G X (kcEth K c) L incAssetERC20s f) (\<lambda>(r, f). Done (r, c, f)))
               in if ValidateAdjudicator (kcEth K c) L adjudicatorAddr = None then registry c
                  else case deployContracts K acc (wsAccs ws) (10 ^ 18 * 10 ^ 3) c of
                    (Some e, c) \<Rightarrow> Done (Inl e, c, f)
                  | (None, c) \<Rightarrow> registry c))))"

subsection \<open>The addresses\<close>

text \<open>The first account that the random numbers give.\<close>

definition demo_account :: "'r gen_lib \<Rightarrow> address" where
  "demo_account G = fst (fst (glAccount G (glRand G RandSeedForTestAccs)))"

lemma new_accounts_first:
  "new_accounts G X ks (Suc n) r f = Done ((accs, r'), f') \<Longrightarrow> 0 < length accs \<and> accs ! 0 = fst (fst (glAccount G r))"
  by (auto simp: run_simps split: prod.split_asm sum.split_asm)

lemma NewWalletSetup_first:
  assumes "NewWalletSetup G X r (Suc n) f = Done (Inr (ws, r'), f')"
  shows "0 < length (wsAccs ws) \<and> wsAccs ws ! 0 = fst (fst (glAccount G r))"
  using assms
  by (auto simp del: new_accounts.simps simp: NewWalletSetup_def bindR_Inr run_simps wrapR_Inr split: option.split_asm
      dest!: new_accounts_first)

lemma ContractAddrs_value:
  assumes "ContractAddrs G X f = Done ((adj, eth, erc20s), f')"
  shows "adj = glCreateAddress G (demo_account G) 0 \<and> eth = glCreateAddress G (demo_account G) 1
    \<and> erc20s = [(glCreateAddress G (demo_account G) 2, glCreateAddress G (demo_account G) 3)]"
proof -
  from assms obtain ws r' f1 where "NewWalletSetup G X (glRand G RandSeedForTestAccs) (Suc 1) f = Done (Inr (ws, r'), f1)"
    and "adj = glCreateAddress G (wsAccs ws ! 0) 0" "eth = glCreateAddress G (wsAccs ws ! 0) 1"
      "erc20s = [(glCreateAddress G (wsAccs ws ! 0) 2, glCreateAddress G (wsAccs ws ! 0) 3)]"
    unfolding ContractAddrs_def
    by (elim andThen_DoneE) (auto simp: run_simps numeral_2_eq_2 split: sum.split_asm prod.split_asm)
  with NewWalletSetup_first [OF this(1)] show ?thesis by (simp add: demo_account_def)
qed

subsection \<open>Contracts on the blockchain\<close>

text \<open>
  What is relied on of the blockchain: a deployment that succeeds gives the address made of the
  sender and the sender's number of transactions, which grows, and the code is there
  afterwards; a validation without error says that the code is there.
\<close>

datatype contract_code = CodeAdjudicator | CodeAssetETH address | CodeToken | CodeAssetERC20 address address

definition deploys ::
  "'r gen_lib \<Rightarrow> (address \<Rightarrow> 'c \<Rightarrow> nat) \<Rightarrow> ('c \<Rightarrow> address \<Rightarrow> contract_code option) \<Rightarrow> address \<Rightarrow> contract_code \<Rightarrow> 'c
     \<Rightarrow> (goerr + address) \<times> 'c \<Rightarrow> bool" where
  "deploys G nonce code s k c r \<longleftrightarrow>
     (case r of (Inl e, c') \<Rightarrow> True
      | (Inr a, c') \<Rightarrow> a = glCreateAddress G s (nonce s c) \<and> nonce s c' = Suc (nonce s c) \<and> code c' = (code c)(a \<mapsto> k))"

definition chain_ok ::
  "'c chain_lib \<Rightarrow> 'r gen_lib \<Rightarrow> (address \<Rightarrow> 'c \<Rightarrow> nat) \<Rightarrow> ('c \<Rightarrow> address \<Rightarrow> contract_code option) \<Rightarrow> bool" where
  "chain_ok K G nonce code \<longleftrightarrow>
     (\<forall>s c. deploys G nonce code s CodeAdjudicator c (kcDeployAdjudicator K s c))
     \<and> (\<forall>adj s c. deploys G nonce code s (CodeAssetETH adj) c (kcDeployETHAssetholder K adj s c))
     \<and> (\<forall>accs bal s c. deploys G nonce code s CodeToken c (kcDeployPerunToken K accs bal s c))
     \<and> (\<forall>adj t s c. deploys G nonce code s (CodeAssetERC20 adj t) c (kcDeployERC20Assetholder K adj t s c))
     \<and> (\<forall>c a. elValidateAdjudicator (kcEth K c) a = None \<longleftrightarrow> code c a = Some CodeAdjudicator)
     \<and> (\<forall>c a adj. elValidateAssetHolderETH (kcEth K c) a adj = None \<longleftrightarrow> code c a = Some (CodeAssetETH adj))
     \<and> (\<forall>s. inj_on (glCreateAddress G s) {..<2 ^ 64})"

lemma wrap_result_Inr: "wrap_result msg r = (Inr a, c) \<longleftrightarrow> r = (Inr a, c)"
  by (cases r; cases "fst r") (auto simp: wrap_result_def)

lemma ValidateAdjudicator_None: "chain_ok K G nonce code \<Longrightarrow> ValidateAdjudicator (kcEth K c) L a = None \<longleftrightarrow> code c a = Some CodeAdjudicator"
  by (simp add: ValidateAdjudicator_def chain_ok_def option.case_eq_if del: not_None_eq)

lemma ValidateAssetETH_None:
  "chain_ok K G nonce code \<Longrightarrow> ValidateAssetETH (kcEth K c) L adj a = None \<longleftrightarrow> code c a = Some (CodeAssetETH adj)"
  by (simp add: ValidateAssetETH_def chain_ok_def option.case_eq_if del: not_None_eq)

lemma deploysD: "deploys G nonce code s k c (Inr a, c') \<Longrightarrow>
    a = glCreateAddress G s (nonce s c) \<and> nonce s c' = Suc (nonce s c) \<and> code c' = (code c)(a \<mapsto> k)"
  by (simp add: deploys_def)

text \<open>The four contracts are at the next four addresses of the sender.\<close>

lemma deployContracts_None:
  assumes "chain_ok K G nonce code" and "deployContracts K s accs bal c = (None, c')"
  shows "code c' = (code c)(glCreateAddress G s (nonce s c) \<mapsto> CodeAdjudicator,
     glCreateAddress G s (nonce s c + 1) \<mapsto> CodeAssetETH (glCreateAddress G s (nonce s c)),
     glCreateAddress G s (nonce s c + 2) \<mapsto> CodeToken,
     glCreateAddress G s (nonce s c + 3) \<mapsto> CodeAssetERC20 (glCreateAddress G s (nonce s c)) (glCreateAddress G s (nonce s c + 2)))"
proof -
  from assms(2) obtain adj c1 eth c2 t c3 a where
    "kcDeployAdjudicator K s c = (Inr adj, c1)" "kcDeployETHAssetholder K adj s c1 = (Inr eth, c2)"
    "kcDeployPerunToken K accs bal s c2 = (Inr t, c3)" "kcDeployERC20Assetholder K adj t s c3 = (Inr a, c')"
    by (auto simp: deployContracts_def DeployAdjudicator_def DeployAssetETH_def DeployPerunToken_def
        cb_DeployAssetERC20_def wrap_result_Inr split: sum.split_asm prod.split_asm)
  with assms(1) have "deploys G nonce code s CodeAdjudicator c (Inr adj, c1)"
    "deploys G nonce code s (CodeAssetETH adj) c1 (Inr eth, c2)" "deploys G nonce code s CodeToken c2 (Inr t, c3)"
    "deploys G nonce code s (CodeAssetERC20 adj t) c3 (Inr a, c')"
    unfolding chain_ok_def by metis+
  from this [THEN deploysD] show ?thesis by (simp add: numeral_3_eq_3)
qed

lemma NewContractRegistry_Inr:
  assumes "NewContractRegistry E L adj eth = Inr r"
  shows "ValidateAdjudicator E L adj = None \<and> ValidateAssetETH E L adj eth = None \<and> Adjudicator r = adj \<and> AssetETH r = Done eth"
  using assms by (auto simp: NewContractRegistry_def Adjudicator_def AssetETH_def split: option.split_asm)

lemma newContractRegistry_False:
  assumes "newContractRegistry G X E L False f = Done (r, f')"
  shows "case NewContractRegistry E L (glCreateAddress G (demo_account G) 0) (glCreateAddress G (demo_account G) 1) of
      Inl e \<Rightarrow> r = Inl (EWith e ''initializing contract registry'') | Inr reg \<Rightarrow> r = Inr reg"
proof -
  from assms obtain adj eth erc20s f1 where c: "ContractAddrs G X f = Done ((adj, eth, erc20s), f1)"
    by (auto simp: newContractRegistry_def elim!: andThen_DoneE)
  from ContractAddrs_value [OF c] c assms show ?thesis
    by (auto simp: newContractRegistry_def split: sum.splits)
qed

text \<open>A run of \<open>SetupContracts\<close> that gets as far as looking for the contracts.\<close>

lemma SetupContracts_cases:
  assumes "SetupContracts K S G L X url False (c, f) = Done (r, c', f')"
  obtains (early) e where "r = Inl e" and "c' = c"
  | (found) f1 where "ValidateAdjudicator (kcEth K c) L (glCreateAddress G (demo_account G) 0) = None"
      and "newContractRegistry G X (kcEth K c) L False f1 = Done (r, f')" and "c' = c"
  | (failed) accs e where "ValidateAdjudicator (kcEth K c) L (glCreateAddress G (demo_account G) 0) \<noteq> None"
      and "deployContracts K (demo_account G) accs (10 ^ 18 * 10 ^ 3) c = (Some e, c')" and "r = Inl e"
  | (deployed) accs f1 where "ValidateAdjudicator (kcEth K c) L (glCreateAddress G (demo_account G) 0) \<noteq> None"
      and "deployContracts K (demo_account G) accs (10 ^ 18 * 10 ^ 3) c = (None, c')"
      and "newContractRegistry G X (kcEth K c') L False f1 = Done (r, f')"
proof (cases "kcConnects K url c")
  case False
  with assms early show ?thesis by (auto simp: SetupContracts_def)
next
  case True
  with assms obtain res f0 where ws: "NewWalletSetup G X (glRand G RandSeedForTestAccs) (Suc 2) f = Done (res, f0)"
    by (auto simp: SetupContracts_def numeral_3_eq_3 elim!: andThen_DoneE)
  show ?thesis
  proof (cases res)
    case (Inl e)
    with assms True ws early show ?thesis by (auto simp: SetupContracts_def numeral_3_eq_3)
  next
    case (Inr wr)
    obtain w r1 where wr: "wr = (w, r1)" by (cases wr)
    with ws Inr have acc: "0 < length (wsAccs w)" "wsAccs w ! 0 = demo_account G"
      using NewWalletSetup_first [of G X _ 2 f w r1 f0] by (auto simp: demo_account_def)
    let ?cred = "\<lparr>crAddr = Some (demo_account G), crWallet = 0, crKeystore = wsKeystorePath w, crPassword = []\<rparr>"
    show ?thesis
    proof (cases "connect_chain_backend K S L url ?cred c")
      case (Some e)
      with assms True ws Inr wr acc early show ?thesis by (auto simp: SetupContracts_def numeral_3_eq_3)
    next
      case None
      with assms True ws Inr wr acc obtain adj eth erc20s f1 where ca: "ContractAddrs G X f0 = Done ((adj, eth, erc20s), f1)"
        and rest: "(if ValidateAdjudicator (kcEth K c) L adj = None
           then andThen (newContractRegistry G X (kcEth K c) L False f1) (\<lambda>(r, f). Done (r, c, f))
           else case deployContracts K (demo_account G) (wsAccs w) (10 ^ 18 * 10 ^ 3) c of
             (Some e, c) \<Rightarrow> Done (Inl e, c, f1)
           | (None, c) \<Rightarrow> andThen (newContractRegistry G X (kcEth K c) L False f1) (\<lambda>(r, f). Done (r, c, f))) = Done (r, c', f')"
        by (auto simp: SetupContracts_def numeral_3_eq_3 Let_def elim!: andThen_DoneE)
      from ContractAddrs_value [OF ca] have adj: "adj = glCreateAddress G (demo_account G) 0" by simp
      show ?thesis
      proof (cases "ValidateAdjudicator (kcEth K c) L adj = None")
        case True
        with rest adj found [of f1] show ?thesis by (auto elim!: andThen_DoneE)
      next
        case False
        with rest adj failed [of "wsAccs w"] deployed [of "wsAccs w" f1] show ?thesis
          by (auto elim!: andThen_DoneE split: prod.split_asm option.split_asm)
      qed
    qed
  qed
qed

lemma address_neq:
  "chain_ok K G nonce code \<Longrightarrow> m \<noteq> n \<Longrightarrow> m < 2 ^ 64 \<Longrightarrow> n < 2 ^ 64 \<Longrightarrow> glCreateAddress G s m \<noteq> glCreateAddress G s n"
  unfolding chain_ok_def by (meson inj_onD lessThan_iff)

lemma deployed_adjudicator:
  assumes ok: "chain_ok K G nonce code" and "deployContracts K s accs bal c = (None, c')" and lim: "nonce s c + 3 < 2 ^ 64"
    and "code c (glCreateAddress G s 0) \<noteq> Some CodeAdjudicator"
  shows "code c' (glCreateAddress G s 0) = Some CodeAdjudicator \<longleftrightarrow> nonce s c = 0"
proof -
  let ?A = "glCreateAddress G s" and ?n = "nonce s c"
  have ne: "?A m \<noteq> ?A 0" if "0 < m" "m \<le> ?n + 3" for m
    using address_neq [OF ok, of m 0 s] that lim by simp
  note d = deployContracts_None [OF ok assms(2)]
  show ?thesis
  proof (cases "?n = 0")
    case True
    then show ?thesis using ne [of 1] ne [of 2] ne [of 3] by (simp add: d numeral_2_eq_2 numeral_3_eq_3)
  next
    case False
    then show ?thesis using ne [of ?n] ne [of "?n + 1"] ne [of "?n + 2"] ne [of "?n + 3"] assms(4) by (simp add: d)
  qed
qed

lemma deployed_found:
  assumes ok: "chain_ok K G nonce code" and "deployContracts K (demo_account G) accs bal c = (None, c')"
    and "nonce (demo_account G) c = 0"
    and r: "newContractRegistry G X (kcEth K c') L False f = Done (r, f')"
  shows "\<exists>reg. r = Inr reg"
proof -
  let ?A = "glCreateAddress G (demo_account G)"
  have ne: "?A 1 \<noteq> ?A 0" "?A 2 \<noteq> ?A 0" "?A 3 \<noteq> ?A 0" "?A 2 \<noteq> ?A 1" "?A 3 \<noteq> ?A 1"
    using address_neq [OF ok] by simp_all
  have "code c' (?A 0) = Some CodeAdjudicator" "code c' (?A 1) = Some (CodeAssetETH (?A 0))"
    using ne deployContracts_None [OF ok assms(2)] assms(3) by (simp_all add: numeral_2_eq_2 numeral_3_eq_3)
  then have "ValidateAdjudicator (kcEth K c') L (?A 0) = None" "ValidateAssetETH (kcEth K c') L (?A 0) (?A 1) = None"
    using ValidateAdjudicator_None [OF ok] ValidateAssetETH_None [OF ok] by blast+
  then have "\<exists>reg. NewContractRegistry (kcEth K c') L (?A 0) (?A 1) = Inr reg"
    by (simp add: NewContractRegistry_def)
  with newContractRegistry_False [OF r] show ?thesis by auto
qed

end
