(* ===== verification/Cli_Chain.thy ===== *)
theory Cli_Chain
  imports Cli_Steps Chain_Setup
begin

text \<open>
  The two commands of \<^verbatim>\<open>cmd/perunnodecli/chain.go\<close> that work on the blockchain itself: deploying the
  contracts and reading a balance. Their state is that of the client, the blockchain and the
  file system; only the output of the client changes.
\<close>

definition amountMaxLength :: nat where
  "amountMaxLength = 10"

definition setChainAddrCmdUsage :: string where
  "setChainAddrCmdUsage = ''Usage: set-blockchain-address [address].''"

definition chain_addr_not_set :: "'k cli \<Rightarrow> 'k cli" where
  "chain_addr_not_set = redln (''Chain address is not set, set using below command '' @ setChainAddrCmdUsage)"

definition deployPerunContractsFn ::
  "'c chain_lib \<Rightarrow> ('p, 'w) sdk \<Rightarrow> 'r gen_lib \<Rightarrow> addr_lib \<Rightarrow> os \<Rightarrow> string \<Rightarrow> string list \<Rightarrow> 'k cli \<times> 'c \<times> files
     \<Rightarrow> ('k cli \<times> 'c \<times> files) run" where
  "deployPerunContractsFn K S G L X help args = (\<lambda>(u, c, f).
     if length args \<noteq> 0 then Done (printArgCountError help args 0 u, c, f)
     else if ciChainAddr u = [] then Done (chain_addr_not_set u, c, f)
     else andThen (SetupContracts K S G L X (ciChainAddr u) False (c, f)) (\<lambda>(res, c, f).
       case res of
         Inl e \<Rightarrow> Done (redln (''Error deploying contracts: '' @ err_Error e) u, c, f)
       | Inr contracts \<Rightarrow> andThen (AssetETH contracts) (\<lambda>eth.
           Done (greenln (''Contracts deployed successfully.'' @ nl @ ''Adjudicator address: ''
             @ alString L (Adjudicator contracts) @ nl @ ''Asset ETH address: '' @ alString L eth @ nl) u, c, f))))"

text \<open>The amount in ether is cut to its first characters, which also cuts an amount without a decimal point.\<close>

definition shown_balance :: "'d decimal_lib \<Rightarrow> int \<Rightarrow> string" where
  "shown_balance D bal =
     (let ethAmount = currency_Print D (new_currency D ETHSymbol ETHMaxDecimals) bal
      in if length ethAmount > amountMaxLength then take amountMaxLength ethAmount else ethAmount)"

definition getOnChainBalanceFn ::
  "'c chain_lib \<Rightarrow> 'd decimal_lib \<Rightarrow> addr_lib \<Rightarrow> 'c \<Rightarrow> string \<Rightarrow> string list \<Rightarrow> 'k cli \<Rightarrow> 'k cli run" where
  "getOnChainBalanceFn K D L c help args = with_args help 1 args (\<lambda>u.
     if ciChainAddr u = [] then Done (chain_addr_not_set u)
     else case ParseAddr L (args ! 0) of
       Inl e \<Rightarrow> Done (redln (''Error parsing address: '' @ err_Error e) u)
     | Inr addr \<Rightarrow> (case BalanceAt K L (ciChainAddr u) ChainConnTimeout addr c of
         Inl e \<Rightarrow> Done (redln (''Error connecting to blockchain node: '' @ err_Error e) u)
       | Inr bal \<Rightarrow> Done (greenln (''On-chain balance: '' @ shown_balance D bal) u)))"

text \<open>The usage text of the second command names the first one.\<close>

definition aliceOnChainAddr :: string where
  "aliceOnChainAddr = ''0x8450c0055cB180C7C37A25866132A740b812937B''"

definition bobOnChainAddr :: string where
  "bobOnChainAddr = ''0xc4bA4815c82727554e4c12A07a139b74c6742322''"

definition deployPerunContractsHelp :: string where
  "deployPerunContractsHelp = ''Deploy perun smart contracts.Usage: deploy-perun-contracts.''"

definition getOnChainBalanceCmd :: "'c chain_lib \<Rightarrow> 'd decimal_lib \<Rightarrow> addr_lib \<Rightarrow> 'c \<Rightarrow> 'k cli_cmd" where
  "getOnChainBalanceCmd K D L c = cmd ''get-on-chain-balance'' ''Get on-chain balance.Usage: deploy-perun-contracts.''
     (Some (\<lambda>_. [aliceOnChainAddr, bobOnChainAddr])) (getOnChainBalanceFn K D L c)"

subsection \<open>What the commands keep\<close>

lemma chain_addr_not_set_evolves [cli_prims]: "cli_evolves u v \<Longrightarrow> cli_evolves u (chain_addr_not_set v)"
  by (simp add: chain_addr_not_set_def cli_prims)

lemma ok_getOnChainBalanceFn [cli_ok]: "ok1 u (getOnChainBalanceFn K D L c help args u)"
  unfolding getOnChainBalanceFn_def
  by (auto simp: cli_prims split: sum.splits intro!: ok_guards ok_Done)

lemma deployPerunContractsFn_Done:
  assumes "deployPerunContractsFn K S G L X help args (u, c, f) = Done (u', c', f')"
  shows "cli_evolves u u' \<and> (c' = c \<or> (\<exists>r. SetupContracts K S G L X (ciChainAddr u) False (c, f) = Done (r, c', f')))"
proof (cases "length args \<noteq> 0 \<or> ciChainAddr u = []")
  case True
  with assms show ?thesis by (auto simp: deployPerunContractsFn_def cli_prims split: if_splits)
next
  case False
  with assms obtain r c1 f1 where run: "SetupContracts K S G L X (ciChainAddr u) False (c, f) = Done (r, c1, f1)"
    by (auto simp: deployPerunContractsFn_def elim!: andThen_DoneE)
  show ?thesis
    by (cases r) (use assms False run in \<open>auto simp: deployPerunContractsFn_def cli_prims elim!: andThen_DoneE\<close>)
qed

text \<open>
  The command that deploys the contracts can be repeated: after a run that found or deployed
  the contracts, the next one changes nothing on the blockchain.
\<close>

lemma deployPerunContractsFn_keeps:
  assumes "chain_ok K G nonce code" and "code c (glCreateAddress G (demo_account G) 0) = Some CodeAdjudicator"
    and "deployPerunContractsFn K S G L X help args (u, c, f) = Done (u', c', f')"
  shows "c' = c"
proof -
  from deployPerunContractsFn_Done [OF assms(3)] consider "c' = c"
    | r where "SetupContracts K S G L X (ciChainAddr u) False (c, f) = Done (r, c', f')" by blast
  then show ?thesis
  proof cases
    case 2
    then show ?thesis
      by (cases rule: SetupContracts_cases) (use ValidateAdjudicator_None [OF assms(1), of c L] assms(2) in auto)
  qed
qed

text \<open>The amount shown is a beginning of the amount, so that a large one loses digits before the point.\<close>

lemma shown_balance_spec:
  "prefix (shown_balance D bal) (currency_Print D (new_currency D ETHSymbol ETHMaxDecimals) bal)"
  "length (shown_balance D bal) \<le> 10"
  by (auto simp: shown_balance_def Let_def take_is_prefix amountMaxLength_def)

end
