(* ===== verification/Node_Command.thy ===== *)
theory Node_Command
  imports Artifacts Grpc_Streams
begin

text \<open>
  The command \<^verbatim>\<open>perunnode run\<close>, \<^verbatim>\<open>cmd/perunnode/run.go\<close>: it reads the node configuration from the
  flags and the configuration file, starts the node and serves the API. The libraries for flags
  and configurations are parameters: \<open>vpReadInConfig\<close> is the error of reading a file, and
  \<open>vpUnmarshal\<close> the configuration made of the flags and of the file, if one was read.
\<close>

record viper =
  vpReadInConfig :: "string \<Rightarrow> goerr option"
  vpUnmarshal :: "string option \<Rightarrow> node_config \<times> goerr option"

definition configfileF :: string where "configfileF = ''configfile''"
definition grpcPortF :: string where "grpcPortF = ''grpcport''"

definition defaultConfigFile :: string where "defaultConfigFile = ''node.yaml''"
definition defaultGrpcPort :: nat where "defaultGrpcPort = 50001"

definition nodeCfgFlags :: "string list" where
  "nodeCfgFlags = [''logfile'', ''loglevel'', ''chainurl'', ''adjudicator'', ''assetETH'', ''chainconntimeout'',
     ''onchaintxtimeout'', ''responsetimeout'']"

definition supportedCommTypes :: "string list" where "supportedCommTypes = [''tcp'']"
definition supportedIDProviderTypes :: "string list" where "supportedIDProviderTypes = [''local'']"
definition supportedCurrencyInterpretters :: "string list" where "supportedCurrencyInterpretters = [''ETH'']"

text \<open>How the command goes on: the process exits with a status, or there is a result. The text is what is printed.\<close>

datatype 'a progress = Exit nat | Result 'a

definition unmarshal_config :: "viper \<Rightarrow> string option \<Rightarrow> string list \<Rightarrow> (node_config progress \<times> string list) run" where
  "unmarshal_config vp src out =
     (case vpUnmarshal vp src of
        (_, Some e) \<Rightarrow> Done (Exit 1, out @ [''Error marshaling node config from viper instance: '' @ err_Error e @ [CHR 0x0A]])
      | (cfg, None) \<Rightarrow> Done (Result (cfg\<lparr>ncCommTypes := supportedCommTypes, ncIDProviderTypes := supportedIDProviderTypes,
          ncCurrencyInterpreters := supportedCurrencyInterpretters\<rparr>), out))"

definition parseNodeConfig :: "flag_set \<Rightarrow> viper \<Rightarrow> (node_config progress \<times> string list) run" where
  "parseNodeConfig fs vp =
     (if areAllFlagsSpecified fs nodeCfgFlags then unmarshal_config vp None []
      else case fgString fs configfileF of
        Inl e \<Rightarrow> unknown_flag configfileF
      | Inr nodeCfgFile \<Rightarrow>
          (case vpReadInConfig vp nodeCfgFile of
             Some e \<Rightarrow> Done (Exit 1, [''Error reading node config file: '' @ err_Error e @ [CHR 0x0A]])
           | None \<Rightarrow> unmarshal_config vp (Some nodeCfgFile) [''Using node config file - '' @ nodeCfgFile @ [CHR 0x0A]]))"

text \<open>
  \<open>ListenAndServePayChAPI\<close> with its listener: the server that runs, or the error. \<open>show_cfg\<close>
  stands for the library that prints structures.
\<close>

definition listen_and_serve ::
  "(string \<Rightarrow> goerr option) \<Rightarrow> ('p, 'w, server_event) node \<Rightarrow> string \<Rightarrow> goerr + ('p, 'w) server" where
  "listen_and_serve listen n grpcAddr =
     (case listen grpcAddr of
        Some e \<Rightarrow> Inl (EWith e ''starting listener'')
      | None \<Rightarrow> Inr (ListenAndServePayChAPI n))"

definition run_node ::
  "('p, 'w, 'd) env \<Rightarrow> (string \<Rightarrow> goerr option) \<Rightarrow> (node_config \<Rightarrow> string) \<Rightarrow> flag_set \<Rightarrow> viper
     \<Rightarrow> (('p, 'w) server option progress \<times> string list) run" where
  "run_node V listen show_cfg fs vp =
     andThen (parseNodeConfig fs vp) (\<lambda>(r, out).
       case r of
         Exit k \<Rightarrow> Done (Exit k, out)
       | Result nodeCfg \<Rightarrow> (case fgUint64 fs grpcPortF of
           Inl e \<Rightarrow> Panic (PanicCall (''unknown flag port'' @ [CHR 0x0A]))
         | Inr grpcPort \<Rightarrow>
             (let grpcAddr = '':'' @ show_nat grpcPort
              in andThen (node_New V nodeCfg) (\<lambda>res.
                case res of
                  Inl e \<Rightarrow> Done (Result None, out @ [''Error initializing nodeAPI: '' @ err_Error e @ [CHR 0x0A]])
                | Inr nodeAPI \<Rightarrow>
                    (let out = out @ [''Running perun node with the below config:'' @ [CHR 0x0A] @ show_cfg nodeCfg @ ''.''
                           @ [CHR 0x0A, CHR 0x0A] @ ''Serving payment channel API via grpc at port '' @ grpcAddr
                           @ [CHR 0x0A, CHR 0x0A]]
                     in case listen_and_serve listen nodeAPI grpcAddr of
                          Inl e \<Rightarrow> Done (Result None, out @ [''Server returned with error: '' @ err_Error e @ [CHR 0x0A]])
                        | Inr a \<Rightarrow> Done (Result (Some a), out))))))"

text \<open>
  \<^verbatim>\<open>main.go\<close> and \<^verbatim>\<open>version.go\<close>: what is printed and the status of the process. An error of the
  command line, such as an unknown flag, is printed and the status is that of success.
\<close>

definition perunnode_main :: "goerr option \<Rightarrow> string list \<times> nat" where
  "perunnode_main err = (case err of Some e \<Rightarrow> ([err_Error e @ [CHR 0x0A]], 0) | None \<Rightarrow> ([], 0))"

definition versionFn :: "string \<Rightarrow> string \<Rightarrow> string \<Rightarrow> string" where
  "versionFn version gitCommitID goperunVersion =
     version @ '' Git revision: '' @ gitCommitID @ '' (go-perun version: '' @ goperunVersion @ '')'' @ [CHR 0x0A]"

subsection \<open>Laws\<close>

lemma areAllFlagsSpecified_iff: "areAllFlagsSpecified fs gs \<longleftrightarrow> (\<forall>g\<in>set gs. fgChanged fs g)"
  by (induction gs) auto

lemma areAllFlagsUnspecified_iff: "areAllFlagsUnspecified fs gs \<longleftrightarrow> (\<forall>g\<in>set gs. \<not> fgChanged fs g)"
  by (induction gs) auto

lemma unmarshal_config_Result:
  assumes "unmarshal_config vp src out = Done (Result cfg, out')"
  shows "\<exists>c. vpUnmarshal vp src = (c, None) \<and> cfg = c\<lparr>ncCommTypes := [''tcp''], ncIDProviderTypes := [''local''],
    ncCurrencyInterpreters := [''ETH'']\<rparr>"
  using assms
  by (auto simp: unmarshal_config_def supportedCommTypes_def supportedIDProviderTypes_def
      supportedCurrencyInterpretters_def split: prod.split_asm option.split_asm)

lemma parseNodeConfig_Result:
  assumes "parseNodeConfig fs vp = Done (Result cfg, out)"
  obtains src c where "vpUnmarshal vp src = (c, None)" and "cfg = c\<lparr>ncCommTypes := [''tcp''],
      ncIDProviderTypes := [''local''], ncCurrencyInterpreters := [''ETH'']\<rparr>"
    and "src = None \<longleftrightarrow> (\<forall>g\<in>set nodeCfgFlags. fgChanged fs g)"
    and "\<And>file. src = Some file \<Longrightarrow> fgString fs configfileF = Inr file \<and> vpReadInConfig vp file = None"
proof (cases "areAllFlagsSpecified fs nodeCfgFlags")
  case True
  with assms have "unmarshal_config vp None [] = Done (Result cfg, out)" by (simp add: parseNodeConfig_def)
  from unmarshal_config_Result [OF this] True that [of None] show ?thesis
    by (auto simp: areAllFlagsSpecified_iff)
next
  case False
  with assms obtain cf o1 where "fgString fs configfileF = Inr cf" "vpReadInConfig vp cf = None"
    "unmarshal_config vp (Some cf) o1 = Done (Result cfg, out)"
    by (auto simp: parseNodeConfig_def unknown_flag_def split: sum.split_asm option.split_asm)
  with unmarshal_config_Result [OF this(3)] False that [of "Some cf"] show ?thesis
    by (auto simp: areAllFlagsSpecified_iff)
qed

subsection \<open>Properties\<close>

text \<open>
  C19: what a node that serves was started with. Its configuration is that of the flags, read
  together with the file unless every flag of the configuration was given, in which case the
  file is not looked at; the supported types are those of the program whatever the file
  says. This is what the server answers to a request for the configuration in every state it reaches,
  and the registries of the node and its sessions keep their invariants.
\<close>

theorem run_node_serves:
  assumes "run_node V listen show_cfg fs vp = Done (Result (Some a0), out)"
    and "sv_steps V a0 a" and "addr_ok (evAddr V)"
  shows "\<exists>src c. vpUnmarshal vp src = (c, None)
    \<and> (src = None \<longleftrightarrow> (\<forall>g\<in>set nodeCfgFlags. fgChanged fs g))
    \<and> (\<forall>file. src = Some file \<longrightarrow> fgString fs configfileF = Inr file \<and> vpReadInConfig vp file = None)
    \<and> srv_GetConfig a = \<lparr>crChainAddress = ncChainURL c, crAdjudicator = ncAdjudicator c, crAssetETH = ncAssetETH c,
         crCommTypes = [''tcp''], crIdProviderTypes = [''local'']\<rparr>
    \<and> node_inv (evAddr V) (svNode a)"
proof -
  from assms(1) obtain cfg out1 port n where cfg: "parseNodeConfig fs vp = Done (Result cfg, out1)"
    and n: "node_New V cfg = Done (Inr n)" and a0: "a0 = ListenAndServePayChAPI n"
    by (auto simp: run_node_def listen_and_serve_def Let_def elim!: andThen_DoneE
        split: progress.split_asm sum.split_asm option.split_asm)
  from node_New_ok [of V cfg "evAddr V", where 'c = server_event] n
  have n_ok: "node_inv (evAddr V) n" "ndSessions n = Map.empty" "ndCfg n = cfg" by auto
  have "(nd_step V)\<^sup>*\<^sup>* n (svNode a)"
    using sv_steps_inv [OF assms(2,3)] server_inv_start [OF n_ok(2)] by (simp add: a0 ListenAndServePayChAPI_def)
  from nd_steps_evolve [OF this assms(3)] n_ok have end_ok: "ndCfg (svNode a) = cfg" "node_inv (evAddr V) (svNode a)"
    by (simp_all add: nd_evolves_def)
  from cfg show ?thesis
  proof (rule parseNodeConfig_Result)
    fix src c
    assume "vpUnmarshal vp src = (c, None)" "cfg = c\<lparr>ncCommTypes := [''tcp''],
      ncIDProviderTypes := [''local''], ncCurrencyInterpreters := [''ETH'']\<rparr>"
      "src = None \<longleftrightarrow> (\<forall>g\<in>set nodeCfgFlags. fgChanged fs g)"
      "\<And>file. src = Some file \<Longrightarrow> fgString fs configfileF = Inr file \<and> vpReadInConfig vp file = None"
    with end_ok show ?thesis
      by (intro exI [of _ src] exI [of _ c]) (simp add: srv_GetConfig_def GetConfig_def)
  qed
qed

theorem run_node_serves_witness:
  "\<exists>a0 out. run_node sim_env (\<lambda>addr. None) (\<lambda>c. [])
      \<lparr>fgChanged = \<lambda>g. False, fgBool = \<lambda>g. Inr False, fgString = \<lambda>g. Inr ''node.yaml'', fgUint64 = \<lambda>g. Inr 50001\<rparr>
      \<lparr>vpReadInConfig = \<lambda>file. None, vpUnmarshal = \<lambda>src. (sim_node_config\<lparr>ncCommTypes := [''udp'']\<rparr>, None)\<rparr>
      = Done (Result (Some a0), out) \<and> crCommTypes (srv_GetConfig a0) = [''tcp'']"
proof -
  let ?fs = "\<lparr>fgChanged = \<lambda>g. False, fgBool = \<lambda>g. Inr False, fgString = \<lambda>g. Inr ''node.yaml'', fgUint64 = \<lambda>g. Inr 50001\<rparr>"
  let ?vp = "\<lparr>vpReadInConfig = \<lambda>file. None, vpUnmarshal = \<lambda>src. (sim_node_config\<lparr>ncCommTypes := [''udp'']\<rparr>, None)\<rparr>"
  have "sim_node_config\<lparr>ncCommTypes := [''tcp''], ncIDProviderTypes := [''local''], ncCurrencyInterpreters := [''ETH'']\<rparr>
      = sim_node_config" by (simp add: sim_node_config_def)
  then obtain out where "parseNodeConfig ?fs ?vp = Done (Result sim_node_config, out)"
    by (simp add: parseNodeConfig_def nodeCfgFlags_def unmarshal_config_def supportedCommTypes_def
        supportedIDProviderTypes_def supportedCurrencyInterpretters_def)
  then obtain out' where run: "run_node sim_env (\<lambda>addr. None) (\<lambda>c. []) ?fs ?vp
      = Done (Result (Some (ListenAndServePayChAPI sim_srv_node)), out')"
    by (simp add: run_node_def listen_and_serve_def sim_srv_node_New Let_def)
  have "sv_steps sim_env (ListenAndServePayChAPI sim_srv_node) (ListenAndServePayChAPI sim_srv_node)" by simp
  from run_node_serves [OF run this sim_env_addr_ok]
  have "crCommTypes (srv_GetConfig (ListenAndServePayChAPI sim_srv_node)) = [''tcp'']" by fastforce
  with run show ?thesis by blast
qed

end
