(* ===== verification/Tui_Main.thy ===== *)
theory Tui_Main
  imports Support Cli_Chain Node_Command
begin

text \<open>
  The process of the terminal client, \<^verbatim>\<open>cmd/perunnodetui/main.go\<close>: its flags, the deployment of the
  contracts, its loggers and the event loop; the defaults of the connect screen (\<^verbatim>\<open>connect.go\<close>) and
  the goroutine that shows the balance and the time (\<^verbatim>\<open>dashboard.go\<close>). The loop and the goroutine are
  functions of the events they receive, in order; both receive from the channel \<open>quit\<close>.
\<close>

subsection \<open>Defaults\<close>

definition alice_role :: string where "alice_role = ''Alice''"
definition bob_role :: string where "bob_role = ''Bob''"
definition defaultNodeURL :: string where "defaultNodeURL = ''localhost:50001''"
definition defaultChainURL :: string where "defaultChainURL = ''ws://127.0.0.1:8545''"

text \<open>The maps of the defaults; another role reads the empty string.\<close>

definition defaultOnChainAddrs :: "string \<Rightarrow> string" where
  "defaultOnChainAddrs role =
     (if role = alice_role then ''0x8450c0055cB180C7C37A25866132A740b812937B''
      else if role = bob_role then ''0xc4bA4815c82727554e4c12A07a139b74c6742322'' else [])"

definition defaultConfigFileURL :: "string \<Rightarrow> string" where
  "defaultConfigFileURL role =
     (if role = alice_role then ''alice/session.yaml'' else if role = bob_role then ''bob/session.yaml'' else [])"

text \<open>The fields of the connect screen with their default texts.\<close>

definition connect_fields :: "string \<Rightarrow> (string \<times> string) list" where
  "connect_fields role =
     [(''Name              '', role), (''Perun Node URL    '', defaultNodeURL),
      (''Config file URL   '', defaultConfigFileURL role), (''Chain URL         '', defaultChainURL),
      (''On-Chain Addr     '', defaultOnChainAddrs role)]"

definition parseFlags :: "bool \<Rightarrow> bool \<Rightarrow> bool \<Rightarrow> bool \<times> string" where
  "parseFlags aliceFlag bobFlag deployFlag =
     (deployFlag, if aliceFlag \<and> \<not> bobFlag then alice_role else if \<not> aliceFlag \<and> bobFlag then bob_role else [])"

subsection \<open>The state of the process\<close>

datatype log_level = LevelInfo | LevelError

record tui_process =
  tpFile :: "(log_level \<times> string) list"
  tpBox :: "string list"
  tpQuitClosed :: bool
  tpBalance :: "string list"
  tpTime :: string

definition log_both :: "log_level \<Rightarrow> string \<Rightarrow> string \<Rightarrow> tui_process \<Rightarrow> tui_process" where
  "log_both lv msg shown p = p\<lparr>tpFile := tpFile p @ [(lv, msg)], tpBox := tpBox p @ [shown]\<rparr>"

definition tp_logErrorf :: "string \<Rightarrow> tui_process \<Rightarrow> tui_process" where
  "tp_logErrorf msg = log_both LevelError msg (''Error: '' @ msg @ nl)"

definition tp_logInfof :: "string \<Rightarrow> tui_process \<Rightarrow> tui_process" where
  "tp_logInfof msg = log_both LevelInfo msg (msg @ nl)"

definition tp_logError :: "string \<Rightarrow> tui_process \<Rightarrow> tui_process" where
  "tp_logError msg = log_both LevelError msg (''Error: '' @ msg @ nl)"

text \<open>An information without a format goes to the file at the level of errors.\<close>

definition tp_logInfo :: "string \<Rightarrow> tui_process \<Rightarrow> tui_process" where
  "tp_logInfo msg = log_both LevelError msg (msg @ nl)"

subsection \<open>The start\<close>

definition deployContractsIfRequested ::
  "'c chain_lib \<Rightarrow> ('p, 'w) sdk \<Rightarrow> 'r gen_lib \<Rightarrow> addr_lib \<Rightarrow> os \<Rightarrow> bool \<Rightarrow> 'c \<times> files \<Rightarrow> ('c \<times> files) run" where
  "deployContractsIfRequested K S G L X requested cf =
     (if \<not> requested then Done cf
      else andThen (SetupContracts K S G L X defaultChainURL False cf) (\<lambda>(r, cf).
        case r of Inl e \<Rightarrow> Panic (PanicCall (err_Error e)) | Inr _ \<Rightarrow> Done cf))"

definition initLoggers ::
  "(string \<Rightarrow> goerr + 'l) \<Rightarrow> os \<Rightarrow> goerr option \<Rightarrow> string \<Rightarrow> string \<Rightarrow> 'l log_state \<times> files
     \<Rightarrow> ('l logger option \<times> 'l log_state \<times> files) run" where
  "initLoggers parse X newText lv file_name gf =
     (case InitLogger parse X lv file_name gf of
        (Some e, _) \<Rightarrow> Panic (PanicCall (err_Error e))
      | (None, gf) \<Rightarrow> (case NewLogger parse X gf of
          (logger, gf) \<Rightarrow> (case newText of Some e \<Rightarrow> Panic (PanicCall (err_Error e)) | None \<Rightarrow> Done (logger, gf))))"

definition terminalMinX :: int where "terminalMinX = 106"
definition terminalMinY :: int where "terminalMinY = 29"

text \<open>The check of the size of the terminal: whether the client goes on.\<close>

definition size_check :: "int \<Rightarrow> int \<Rightarrow> tui_process \<Rightarrow> bool \<times> tui_process" where
  "size_check x y p =
     (if x < terminalMinX \<or> y < terminalMinY
      then (False, tp_logErrorf (''Terminal window size is '' @ show_int x @ '' x '' @ show_int y @ ''. Should be at least ''
        @ show_int terminalMinX @ '' x '' @ show_int terminalMinY) p)
      else (True, tp_logInfof (''Terminal window size: '' @ show_int x @ '' x '' @ show_int y) p))"

subsection \<open>The event loop\<close>

datatype tui_event = Redrawn "goerr option" | ErrSent "goerr option" | KeyPressed string | QuitSent

definition close_quit :: "tui_process \<Rightarrow> tui_process run" where
  "close_quit p = (if tpQuitClosed p then Panic CloseOfClosedChannel else Done (p\<lparr>tpQuitClosed := True\<rparr>))"

definition handleError :: "goerr option \<Rightarrow> tui_process \<Rightarrow> tui_process" where
  "handleError err p = (case err of None \<Rightarrow> p | Some e \<Rightarrow> tp_logError (err_Error e) p)"

text \<open>One round of the loop: whether it goes on.\<close>

definition event_round :: "tui_event \<Rightarrow> tui_process \<Rightarrow> (bool \<times> tui_process) run" where
  "event_round ev p =
     (case ev of
        Redrawn err \<Rightarrow> Done (True, handleError err p)
      | ErrSent e \<Rightarrow> Done (True, handleError e p)
      | KeyPressed k \<Rightarrow>
          if k = ''KeyEsc'' \<or> k = ''KeyCtrlC''
          then andThen (close_quit (tp_logErrorf (''Received '' @ k @ ''. Closing the client.'') p)) (\<lambda>p. Done (False, p))
          else Done (True, p)
      | QuitSent \<Rightarrow>
          andThen (close_quit (tp_logError ''User pressed quit button. Closing the client.'' p)) (\<lambda>p. Done (False, p)))"

text \<open>The loop on the events so far: whether it still waits for the next one.\<close>

primrec runEventLoop :: "tui_event list \<Rightarrow> tui_process \<Rightarrow> (bool \<times> tui_process) run" where
  "runEventLoop [] p = Done (True, p)"
| "runEventLoop (ev # evs) p =
     andThen (event_round ev p) (\<lambda>(goes_on, p). if goes_on then runEventLoop evs p else Done (False, p))"

subsection \<open>The balance and the time\<close>

definition readOnChainBal ::
  "'c chain_lib \<Rightarrow> 'd decimal_lib \<Rightarrow> addr_lib \<Rightarrow> string \<Rightarrow> address \<Rightarrow> 'c \<Rightarrow> goerr + string" where
  "readOnChainBal K D L chainURL onChainAddr c =
     (case BalanceAt K L chainURL ChainConnTimeout onChainAddr c of
        Inl e \<Rightarrow> Inl (EWith e ''reading on-chain balance'')
      | Inr onChainBalVal \<Rightarrow> Inr (shown_balance D onChainBalVal))"

text \<open>
  One round of the goroutine, at a time: \<open>write\<close> gives the error of writing to a text box;
  an address is filled up to 50 characters and a time to 13.
\<close>

definition update_round ::
  "'c chain_lib \<Rightarrow> 'd decimal_lib \<Rightarrow> addr_lib \<Rightarrow> (string \<Rightarrow> goerr option) \<Rightarrow> string \<Rightarrow> address \<Rightarrow> 'c \<Rightarrow> string
     \<Rightarrow> tui_process \<Rightarrow> tui_process" where
  "update_round K D L write chainURL onChainAddr c now p =
     (let res = readOnChainBal K D L chainURL onChainAddr c;
          onChainBal = (case res of Inl e \<Rightarrow> [] | Inr b \<Rightarrow> b);
          p = (case res of Inl e \<Rightarrow> handleError (Some (EWith e ''reading on-chain balance'')) p | Inr b \<Rightarrow> p);
          put = (\<lambda>msg what p. case write msg of
                   Some e \<Rightarrow> handleError (Some (EWith e what)) p
                 | None \<Rightarrow> p\<lparr>tpBalance := tpBalance p @ [msg]\<rparr>);
          addr = alString L onChainAddr;
          p = put (nl @ ''Address: '' @ addr @ replicate (50 - length addr) (CHR '' '') @ ''Balance:'')
                ''writing on-chain balance part 1'' (p\<lparr>tpBalance := []\<rparr>);
          p = (if onChainBal \<noteq> [] then put ('' '' @ onChainBal @ '' ETH '') ''writing on-chain balance part 2'' p else p);
          clock = nl @ replicate (13 - length now) (CHR '' '') @ now
      in case write clock of
           Some e \<Rightarrow> handleError (Some (EWith e ''writing time'')) (p\<lparr>tpTime := []\<rparr>)
         | None \<Rightarrow> p\<lparr>tpTime := clock\<rparr>)"

subsection \<open>Laws\<close>

lemma event_round_Done:
  assumes "\<not> tpQuitClosed p"
  shows "\<exists>goes_on p'. event_round ev p = Done (goes_on, p') \<and> tpQuitClosed p' = (\<not> goes_on)
    \<and> (goes_on \<longleftrightarrow> (\<forall>k. ev = KeyPressed k \<longrightarrow> k \<noteq> ''KeyEsc'' \<and> k \<noteq> ''KeyCtrlC'') \<and> ev \<noteq> QuitSent)"
  using assms
  by (cases ev) (auto simp: event_round_def close_quit_def handleError_def tp_logError_def tp_logErrorf_def log_both_def
      split: option.splits)

text \<open>
  The loop never panics, ends at the first key or message that asks for it, and has closed the
  channel, once, exactly when it has ended: the goroutine of the balance ends with it.
\<close>

lemma runEventLoop_spec:
  assumes "\<not> tpQuitClosed p"
  shows "\<exists>waits p'. runEventLoop evs p = Done (waits, p') \<and> tpQuitClosed p' = (\<not> waits)
    \<and> (waits \<longleftrightarrow> (\<forall>ev \<in> set evs. (\<forall>k. ev = KeyPressed k \<longrightarrow> k \<noteq> ''KeyEsc'' \<and> k \<noteq> ''KeyCtrlC'') \<and> ev \<noteq> QuitSent))"
  using assms
proof (induction evs arbitrary: p)
  case (Cons ev evs)
  from event_round_Done [OF Cons.prems, of ev] obtain goes_on p1 where ev: "event_round ev p = Done (goes_on, p1)"
    "tpQuitClosed p1 = (\<not> goes_on)"
    and iff: "goes_on \<longleftrightarrow> (\<forall>k. ev = KeyPressed k \<longrightarrow> k \<noteq> ''KeyEsc'' \<and> k \<noteq> ''KeyCtrlC'') \<and> ev \<noteq> QuitSent"
    by blast
  show ?case
  proof (cases goes_on)
    case True
    with Cons.IH [of p1] ev iff show ?thesis by simp
  next
    case False
    with ev iff show ?thesis by auto
  qed
qed auto

text \<open>The defaults of the programs fit together: what is generated, what the node reads and serves, and what the client asks for.\<close>

lemma defaults_agree:
  "defaultConfigFile = nodeConfigFile" "defaultChainURL = ChainURL"
  "defaultConfigFileURL alice_role = path_join aliceAlias sessionConfigFile"
  "defaultConfigFileURL bob_role = path_join bobAlias sessionConfigFile"
  "defaultNodeURL = ''localhost:'' @ show_nat defaultGrpcPort"
proof -
  have "show_nat 50001 = ''50001''" by (simp add: show_nat.simps digit_char_def char_of_def bit_Suc_0_iff)
  then show "defaultNodeURL = ''localhost:'' @ show_nat defaultGrpcPort"
    by (simp add: defaultNodeURL_def defaultGrpcPort_def)
qed (simp_all add: defaultConfigFile_def nodeConfigFile_def defaultChainURL_def ChainURL_def defaultConfigFileURL_def
    alice_role_def bob_role_def aliceAlias_def bobAlias_def sessionConfigFile_def path_join_def slash_def)

text \<open>A balance that cannot be read is left out of what is shown, and the error is logged.\<close>

lemma update_round_error:
  assumes "readOnChainBal K D L url addr c = Inl e" and "write = (\<lambda>_. None)"
  shows "length (tpBalance (update_round K D L write url addr c now p)) = 1
    \<and> tpBox (update_round K D L write url addr c now p)
      = tpBox p @ [''Error: '' @ err_Error (EWith e ''reading on-chain balance'') @ nl]"
  using assms by (simp add: update_round_def Let_def handleError_def tp_logError_def log_both_def)

lemma deployContractsIfRequested_Done:
  assumes "deployContractsIfRequested K S G L X requested (c, f) = Done (c', f')"
  shows "if requested then \<exists>reg. SetupContracts K S G L X defaultChainURL False (c, f) = Done (Inr reg, c', f')
    else c' = c \<and> f' = f"
  using assms
  by (auto simp: deployContractsIfRequested_def elim!: andThen_DoneE split: if_splits sum.split_asm)

end
