(* ===== verification/Tui_Screens.thy ===== *)
theory Tui_Screens
  imports Tui_Main "HOL-Library.Signed_Division"
begin

text \<open>
  The screens of the terminal client: the connect screen (\<^verbatim>\<open>connect.go\<close>), the dashboard
  (\<^verbatim>\<open>dashboard.go\<close>), the dummy dashboard and the whole of \<^verbatim>\<open>main\<close> (\<^verbatim>\<open>main.go\<close>). A layout is
  the tree that the code builds for the terminal library; what the library does with it is a
  parameter: whether a widget can be made, whether a layout can be built and shown, whether the
  parts of the library start.
\<close>

subsection \<open>Layouts\<close>

datatype line_style = Light | Round

datatype placement = PTop | PMiddle | PLeft | PCenter

datatype container_opt =
    BorderTitle string
  | BorderTitleAlignCenter
  | Border line_style
  | TitleColor nat
  | TitleFocusedColor nat
  | BorderColor nat
  | FocusedColor nat
  | AlignVertical placement
  | AlignHorizontal placement
  | PaddingLeft int
  | PaddingRight int
  | PaddingTop int
  | PaddingBottom int

datatype widget =
    Field string string
  | Button string nat int
  | LogBox
  | RowText nat
  | OnChainBalText
  | TimeText
  | CommandBox

datatype element = Row int "container_opt list" "element list" | Column int "container_opt list" "element list" | Widget widget

text \<open>The terminal library: the error of each of its calls, if there is one.\<close>

record termdash =
  tdText :: "goerr option"
  tdTextInput :: "widget \<Rightarrow> goerr option"
  tdButton :: "widget \<Rightarrow> goerr option"
  tdBuild :: "element list \<Rightarrow> goerr option"
  tdUpdate :: "element list \<Rightarrow> goerr option"
  tdTcell :: "goerr option"
  tdContainer :: "goerr option"
  tdController :: "goerr option"

definition logsHeight :: int where "logsHeight = 8"

definition verticalMiddle :: "container_opt list" where "verticalMiddle = [AlignVertical PMiddle]"
definition horizontalCenter :: "container_opt list" where "horizontalCenter = [AlignHorizontal PCenter]"
definition horizontalLeft :: "container_opt list" where "horizontalLeft = [AlignHorizontal PLeft]"

subsection \<open>The connect screen\<close>

record connect_screen =
  csWidth :: int
  csElementHeight :: int
  csButtonHeight :: int
  csCntFields :: int
  csSessionName :: widget
  csPerunNodeURL :: widget
  csConfigFileURL :: widget
  csChainURL :: widget
  csOnChainAddr :: widget
  csConnectBtn :: widget
  csQuitBtn :: widget

definition newField :: "termdash \<Rightarrow> string \<times> string \<Rightarrow> goerr + widget" where
  "newField T ld =
     (let tBox = Field (fst ld) (snd ld)
      in case tdTextInput T tBox of Some e \<Rightarrow> Inl e | None \<Rightarrow> Inr tBox)"

definition newButton :: "termdash \<Rightarrow> string \<Rightarrow> nat \<Rightarrow> int \<Rightarrow> goerr + widget" where
  "newButton T txt color buttonHeight =
     (let b = Button txt color buttonHeight in case tdButton T b of Some e \<Rightarrow> Inl e | None \<Rightarrow> Inr b)"

text \<open>A step of the constructor, with the message its error is wrapped in.\<close>

definition made :: "string \<Rightarrow> goerr + 'a \<Rightarrow> ('a \<Rightarrow> goerr + 'b) \<Rightarrow> goerr + 'b" where
  "made msg r k = (case r of Inl e \<Rightarrow> Inl (EWith e msg) | Inr x \<Rightarrow> k x)"

definition newConnectScreen :: "termdash \<Rightarrow> string \<Rightarrow> goerr + connect_screen" where
  "newConnectScreen T role =
     (let width = 65; elementHeight = 3; buttonHeight = 1; field = (\<lambda>i. newField T (connect_fields role ! i))
      in made ''initializing session name field'' (field 0) (\<lambda>sessionName.
         made ''initializing perun node URL field'' (field 1) (\<lambda>perunNodeURL.
         made ''initializing config URL field'' (field 2) (\<lambda>configFileURL.
         made ''initializing chain URL field'' (field 3) (\<lambda>chainURL.
         made ''initializing on-chain address field'' (field 4) (\<lambda>onChainAddr.
         made ''initializing connect button'' (newButton T ''Connect'' 3 buttonHeight) (\<lambda>connectBtn.
         made ''initializing quit button'' (newButton T ''Quit'' 2 buttonHeight) (\<lambda>quitBtn.
         Inr \<lparr>csWidth = width, csElementHeight = elementHeight, csButtonHeight = buttonHeight, csCntFields = 5,
           csSessionName = sessionName, csPerunNodeURL = perunNodeURL, csConfigFileURL = configFileURL,
           csChainURL = chainURL, csOnChainAddr = onChainAddr, csConnectBtn = connectBtn, csQuitBtn = quitBtn\<rparr>))))))))"

definition connect_layout :: "int \<Rightarrow> int \<Rightarrow> connect_screen \<Rightarrow> element list" where
  "connect_layout x y s =
     (let totalHeight = y - logsHeight;
          verticalFreeSpace = totalHeight - (csElementHeight s * csCntFields s + csButtonHeight s + 1);
          totalWidth = csWidth s;
          horizontalFreeSpace = x - totalWidth;
          field = (\<lambda>w. Row (csElementHeight s) verticalMiddle [Widget w])
      in [Row totalHeight [PaddingLeft (horizontalFreeSpace sdiv 2), PaddingRight (horizontalFreeSpace sdiv 2)]
            [Column totalWidth [AlignHorizontal PCenter, AlignVertical PMiddle,
                 PaddingTop (verticalFreeSpace sdiv 2), PaddingBottom (verticalFreeSpace sdiv 2)]
               [field (csSessionName s), field (csPerunNodeURL s), field (csConfigFileURL s), field (csChainURL s),
                field (csOnChainAddr s),
                Row (csButtonHeight s + 3) []
                  [Column (totalWidth sdiv 2) horizontalCenter [Widget (csConnectBtn s)],
                   Column (totalWidth sdiv 2) horizontalCenter [Widget (csQuitBtn s)]]]],
          Row logsHeight [BorderTitle ''Logs'', Border Round, BorderColor 1, FocusedColor 1, TitleColor 6,
              TitleFocusedColor 6, AlignVertical PTop, AlignHorizontal PLeft] [Widget LogBox]])"

text \<open>The end of both render functions: build the layout and show it.\<close>

definition show_layout :: "termdash \<Rightarrow> string \<Rightarrow> element list \<Rightarrow> goerr option" where
  "show_layout T what es =
     (case tdBuild T es of
        Some e \<Rightarrow> Some (EWith e (''building '' @ what))
      | None \<Rightarrow> map_option (\<lambda>e. EWith e (''updating '' @ what)) (tdUpdate T es))"

definition renderConnectScreen :: "termdash \<Rightarrow> int \<Rightarrow> int \<Rightarrow> connect_screen \<Rightarrow> goerr option" where
  "renderConnectScreen T x y s = show_layout T ''connect screen'' (connect_layout x y s)"

subsection \<open>The dashboard\<close>

record dashboard_screen =
  dsOnChainBalHeight :: int
  dsOnChainBalWidth :: int
  dsTimeWidth :: int
  dsTableHeight :: int
  dsCommandHeight :: int

definition tableWidth :: int where "tableWidth = 53 + 50"

text \<open>A dash is three bytes of UTF-8.\<close>

definition dashes :: "nat \<Rightarrow> string" where
  "dashes n = concat (replicate n [CHR 0xE2, CHR 0x80, CHR 0x95])"

definition headerRow :: string where
  "headerRow = dashes 21 @ ''Channels'' @ dashes 1 @ dashes 21 @ dashes 23 @ ''Updates'' @ dashes 23"

definition new_dashboard :: "termdash \<Rightarrow> int \<Rightarrow> 'k tui \<Rightarrow> ((goerr + dashboard_screen) \<times> 'k tui) run" where
  "new_dashboard T y u =
     andThen (newDashboardScreen y u) (\<lambda>u.
       let timeWidth = 18; elementHeight = 2
       in Done (made ''initializing on-chain balance text'' (case tdText T of Some e \<Rightarrow> Inl e | None \<Rightarrow> Inr ()) (\<lambda>_.
           made ''initializing time text'' (case tdText T of Some e \<Rightarrow> Inl e | None \<Rightarrow> Inr ()) (\<lambda>_.
           made ''initializing commands text'' (case tdTextInput T CommandBox of Some e \<Rightarrow> Inl e | None \<Rightarrow> Inr ()) (\<lambda>_.
           Inr \<lparr>dsOnChainBalHeight = elementHeight * 2, dsOnChainBalWidth = tableWidth - timeWidth, dsTimeWidth = timeWidth,
             dsTableHeight = y - (elementHeight * 2 + elementHeight * 2 + logsHeight), dsCommandHeight = elementHeight * 2\<rparr>))), u))"

text \<open>The rows of the table that are shown; there is an element for each row of the table.\<close>

primrec table_rows :: "nat list \<Rightarrow> nat \<Rightarrow> nat list \<Rightarrow> element list run" where
  "table_rows rowElements i [] = Done []"
| "table_rows rowElements i (_ # rest) =
     andThen (idx_at rowElements i) (\<lambda>w.
     andThen (table_rows rowElements (Suc i) rest) (\<lambda>es. Done (Row 1 [] [Widget (RowText w)] # es)))"

definition dashboard_layout :: "string \<Rightarrow> tui_table \<Rightarrow> dashboard_screen \<Rightarrow> element list run" where
  "dashboard_layout userName t d =
     andThen (make_slice 0 (ttLast t + 1)) (\<lambda>slots.
     andThen (table_rows [0..<length (ttRows t)] 0 slots) (\<lambda>tableRows.
     Done
      [Row (dsOnChainBalHeight d) []
         [Column (dsOnChainBalWidth d) [BorderTitle userName, TitleColor 7, TitleFocusedColor 7, BorderTitleAlignCenter,
              Border Round, FocusedColor 1] [Column (dsOnChainBalWidth d) horizontalLeft [Widget OnChainBalText]],
          Column (dsTimeWidth d) [BorderTitle ''Time'', TitleColor 5, TitleFocusedColor 5, BorderTitleAlignCenter,
              Border Round, FocusedColor 1] [Column (dsTimeWidth d) horizontalCenter [Widget TimeText]]],
       Row (dsTableHeight d) [BorderTitle headerRow, TitleColor 1, TitleFocusedColor 1, Border Round, FocusedColor 1] tableRows,
       Row (dsCommandHeight d) [BorderTitle ''Command Box'', TitleColor 5, TitleFocusedColor 5, Border Light, FocusedColor 1]
         [Widget CommandBox],
       Row logsHeight [BorderTitle ''Logs'', TitleColor 6, TitleFocusedColor 6, Border Round, AlignVertical PTop,
           AlignHorizontal PLeft, FocusedColor 1] [Widget LogBox]]))"

definition renderDashboardView :: "termdash \<Rightarrow> string \<Rightarrow> dashboard_screen \<Rightarrow> 'k tui \<Rightarrow> goerr option run" where
  "renderDashboardView T userName d u =
     andThen (deref (tuTable u)) (\<lambda>t.
     andThen (dashboard_layout userName t d) (\<lambda>es. Done (show_layout T ''dashboard screen'' es)))"

text \<open>
  The callback of the connect button: its error, and whether the goroutine that shows the balance has
  been started.
\<close>

definition connect_pressed ::
  "termdash \<Rightarrow> addr_lib \<Rightarrow> (string \<Rightarrow> goerr + 'k tui_client) \<Rightarrow> int \<Rightarrow> string \<Rightarrow> string \<Rightarrow> string \<Rightarrow> string \<Rightarrow> 'k tui
     \<Rightarrow> ((goerr option \<times> bool) \<times> 'k tui) run" where
  "connect_pressed T L dial y userName perunNodeURL configFileURL onChainAddr u =
     (case connect_subscribe L dial perunNodeURL configFileURL onChainAddr u of
        (Some e, u) \<Rightarrow> Done ((Some e, False), u)
      | (None, u) \<Rightarrow> andThen (new_dashboard T y u) (\<lambda>(res, u).
          case res of
            Inl e \<Rightarrow> Done ((Some (EWith e ''initializing dashboard screen''), False), u)
          | Inr d \<Rightarrow> andThen (renderDashboardView T userName d u) (\<lambda>err.
              Done (case err of
                  Some e \<Rightarrow> ((Some (EWith e ''rendering dashboard screen''), False), u)
                | None \<Rightarrow> ((None, True), u)))))"

subsection \<open>The dummy dashboard\<close>

text \<open>
  \<open>renderDummyDashboard\<close>, which is there for looking at the dashboard. The errors of the channels are
  thrown away: when the table is full the pointer is nil.
\<close>

definition dummy_channel ::
  "(nat \<Rightarrow> string) \<Rightarrow> nat \<Rightarrow> (tui_channel \<Rightarrow> tui_channel) \<Rightarrow> 'k tui \<Rightarrow> (ref \<times> 'k tui) run" where
  "dummy_channel clock i f u =
     andThen (newIncomingChannel [] ''peer'' [] [] (clock i) u) (\<lambda>(res, u).
       case res of
         Inl e \<Rightarrow> Panic NilDereference
       | Inr p \<Rightarrow> andThen (idx_at (tuChans u) p) (\<lambda>c. Done (p, u\<lparr>tuChans := (tuChans u)[p := f c]\<rparr>)))"

definition refresh_at :: "ref \<Rightarrow> 'k tui \<Rightarrow> 'k tui run" where
  "refresh_at p u = andThen (idx_at (tuChans u) p) (\<lambda>c. andThen (refreshEntry c u) (\<lambda>(c, u).
     Done (u\<lparr>tuChans := (tuChans u)[p := c]\<rparr>)))"

definition change_at :: "ref \<Rightarrow> (tui_channel \<Rightarrow> tui_channel) \<Rightarrow> 'k tui \<Rightarrow> 'k tui run" where
  "change_at p f u = andThen (idx_at (tuChans u) p) (\<lambda>c. Done (u\<lparr>tuChans := (tuChans u)[p := f c]\<rparr>))"

definition dummyBalInfo :: tui_bal where
  "dummyBalInfo = \<lparr>tbOurs = ''1.000000'', tbTheirs = ''2.6700000'', tbVersion = ''1''\<rparr>"

definition dummy_channels :: "(nat \<Rightarrow> string) \<Rightarrow> 'k tui \<Rightarrow> 'k tui run" where
  "dummy_channels clock u =
     andThen (dummy_channel clock 0 (\<lambda>c. c\<lparr>tcStatus := WaitingForPeer\<rparr>) u) (\<lambda>(p1, u).
     andThen (dummy_channel clock 1 (\<lambda>c. c\<lparr>tcStatus := Accepted, tcPhase := PhTransact\<rparr>) u) (\<lambda>(p2, u).
     andThen (dummy_channel clock 2 (\<lambda>c. c\<lparr>tcStatus := Responding, tcPhase := PhRegister\<rparr>) u) (\<lambda>(p3, u).
     andThen (dummy_channel clock 3 (\<lambda>c. c\<lparr>tcStatus := PeerRejected, tcPhase := PhSettle\<rparr>) u) (\<lambda>(p4, u).
     andThen (dummy_channel clock 4 (\<lambda>c. c\<lparr>tcPhase := PhClosed\<rparr>) u) (\<lambda>(p5, u).
     andThen (dummy_channel clock 5 (\<lambda>c. c\<lparr>tcPhase := PhError\<rparr>) u) (\<lambda>(p6, u).
     let dummy = (\<lambda>c. c\<lparr>tcCurrent := dummyBalInfo, tcProposed := dummyBalInfo\<rparr>)
     in andThen (change_at p1 dummy u) (\<lambda>u.
        andThen (change_at p2 dummy u) (\<lambda>u.
        andThen (change_at p3 (\<lambda>c. (dummy c)\<lparr>tcCurrent := dummyBalInfo\<lparr>tbTheirs := ''2.032''\<rparr>\<rparr>) u) (\<lambda>u.
        andThen (refresh_at p1 u) (\<lambda>u.
        andThen (refresh_at p2 u) (\<lambda>u.
        andThen (refresh_at p3 u) (\<lambda>u.
        andThen (refresh_at p4 u) (\<lambda>u.
        andThen (refresh_at p5 u) (refresh_at p6))))))))))))))"

definition renderDummyDashboard ::
  "termdash \<Rightarrow> addr_lib \<Rightarrow> int \<Rightarrow> string \<Rightarrow> (nat \<Rightarrow> string) \<Rightarrow> 'k tui \<Rightarrow> 'k tui run" where
  "renderDummyDashboard T L y userName clock u =
     (case ParseAddr L (defaultOnChainAddrs alice_role) of
        Inl e \<Rightarrow> Panic (PanicCall (err_Error e))
      | Inr _ \<Rightarrow> andThen (new_dashboard T y u) (\<lambda>(res, u).
          case res of
            Inl e \<Rightarrow> Panic (PanicCall (err_Error e))
          | Inr d \<Rightarrow> andThen (renderDashboardView T userName d u) (\<lambda>err.
              case err of Some e \<Rightarrow> Panic (PanicCall (err_Error e)) | None \<Rightarrow> dummy_channels clock u)))"

subsection \<open>The main function\<close>

text \<open>
  What \<open>main\<close> does once the terminal is there, on the events so far: whether it still waits for the
  next one. After this the terminal is closed.
\<close>

definition tui_run ::
  "termdash \<Rightarrow> int \<Rightarrow> int \<Rightarrow> string \<Rightarrow> tui_event list \<Rightarrow> tui_process \<Rightarrow> (bool \<times> tui_process) run" where
  "tui_run T x y userName evs p =
     (let stop = (\<lambda>e msg p. Done (False, tp_logError (err_Error (EWith e msg)) p))
      in case size_check x y p of
           (False, p) \<Rightarrow> Done (False, p)
         | (True, p) \<Rightarrow> (case tdContainer T of
             Some e \<Rightarrow> stop e ''initializing container'' p
           | None \<Rightarrow> (case newConnectScreen T userName of
               Inl e \<Rightarrow> stop e ''initializing connect screen'' p
             | Inr s \<Rightarrow> (case renderConnectScreen T x y s of
                 Some e \<Rightarrow> stop e ''rendering connect screen'' p
               | None \<Rightarrow> (case tdController T of
                   Some e \<Rightarrow> stop e ''initializing controller'' p
                 | None \<Rightarrow> runEventLoop evs p)))))"

definition logFile :: string where "logFile = ''perunnodetui.log''"
definition logLevel :: string where "logLevel = ''info''"

definition start_process :: tui_process where
  "start_process = \<lparr>tpFile = [], tpBox = [], tpQuitClosed = False, tpBalance = [], tpTime = []\<rparr>"

definition tui_main ::
  "'c chain_lib \<Rightarrow> ('p, 'w) sdk \<Rightarrow> 'r gen_lib \<Rightarrow> addr_lib \<Rightarrow> os \<Rightarrow> (string \<Rightarrow> goerr + 'l) \<Rightarrow> termdash
     \<Rightarrow> bool \<Rightarrow> bool \<Rightarrow> bool \<Rightarrow> int \<Rightarrow> int \<Rightarrow> tui_event list \<Rightarrow> 'c \<times> files \<Rightarrow> 'l log_state
     \<Rightarrow> ((bool \<times> tui_process) \<times> 'c \<times> files) run" where
  "tui_main K S G L X parse T aliceFlag bobFlag deployFlag x y evs cf g =
     (case parseFlags aliceFlag bobFlag deployFlag of
        (isDeployRequested, userName) \<Rightarrow>
          andThen (deployContractsIfRequested K S G L X isDeployRequested cf) (\<lambda>(c, f).
          andThen (initLoggers parse X (tdText T) logLevel logFile (g, f)) (\<lambda>(logger, g, f).
          case tdTcell T of
            Some e \<Rightarrow> Panic (PanicCall (err_Error (EWith e ''initializing tcell'')))
          | None \<Rightarrow> andThen (tui_run T x y userName evs start_process) (\<lambda>r. Done (r, c, f)))))"

text \<open>
  After the terminal has been opened \<open>main\<close> returns and does not panic, as its comment demands: whatever
  the size of the terminal, whatever fails in the library and whatever events come, so that the
  terminal is closed. It waits for more only while no event has asked it to end.
\<close>

lemma tui_run_returns:
  assumes "\<not> tpQuitClosed p"
  shows "\<exists>waits p'. tui_run T x y userName evs p = Done (waits, p')
    \<and> (waits \<longrightarrow> terminalMinX \<le> x \<and> terminalMinY \<le> y
        \<and> (\<forall>ev \<in> set evs. (\<forall>k. ev = KeyPressed k \<longrightarrow> k \<noteq> ''KeyEsc'' \<and> k \<noteq> ''KeyCtrlC'') \<and> ev \<noteq> QuitSent))"
proof (cases "x < terminalMinX \<or> y < terminalMinY")
  case True
  then show ?thesis by (intro exI [of _ False]) (simp add: tui_run_def size_check_def Let_def)
next
  case False
  define q where "q = snd (size_check x y p)"
  have q: "size_check x y p = (True, q)" "\<not> tpQuitClosed q"
    using False assms by (simp_all add: q_def size_check_def tp_logInfof_def log_both_def)
  from runEventLoop_spec [OF q(2), of evs] False show ?thesis
    by (auto simp: tui_run_def q(1) Let_def split: option.split sum.split)
qed

subsection \<open>What fits on the screen\<close>

text \<open>
  The rows that a layout asks for, and the rows that a container leaves for its content: a border
  takes one row at the top and one at the bottom, paddings take theirs. A layout fits when at every
  level the content asks for no more than is left for it.
\<close>

fun height :: "element \<Rightarrow> int" where
  "height (Row h os es) = h"
| "height _ = 0"

fun width :: "element \<Rightarrow> int" where
  "width (Column w os es) = w"
| "width _ = 0"

fun opt_rows :: "container_opt \<Rightarrow> int" where
  "opt_rows (Border l) = 2"
| "opt_rows (PaddingTop n) = n"
| "opt_rows (PaddingBottom n) = n"
| "opt_rows _ = 0"

definition inner_height :: "int \<Rightarrow> container_opt list \<Rightarrow> int" where
  "inner_height h os = h - sum_list (map opt_rows os)"

primrec rows_fit :: "element \<Rightarrow> int \<Rightarrow> bool" where
  "rows_fit (Row h os es) a \<longleftrightarrow> h \<le> a \<and> sum_list (map height es) \<le> inner_height h os
     \<and> list_all (\<lambda>f. f (inner_height h os)) (map rows_fit es)"
| "rows_fit (Column w os es) a \<longleftrightarrow> sum_list (map height es) \<le> inner_height a os
     \<and> list_all (\<lambda>f. f (inner_height a os)) (map rows_fit es)"
| "rows_fit (Widget w) a \<longleftrightarrow> True"

definition layout_fits :: "int \<Rightarrow> int \<Rightarrow> element list \<Rightarrow> bool" where
  "layout_fits x y es \<longleftrightarrow> sum_list (map height es) \<le> y \<and> list_all (\<lambda>e. rows_fit e y) es
     \<and> list_all (\<lambda>e. case e of Row h os cs \<Rightarrow> sum_list (map width cs) \<le> x | _ \<Rightarrow> True) es"

text \<open>The rows of the table that a layout shows.\<close>

primrec shown_rows :: "element \<Rightarrow> nat list" where
  "shown_rows (Row h os es) = concat (map shown_rows es)"
| "shown_rows (Column w os es) = concat (map shown_rows es)"
| "shown_rows (Widget w) = (case w of RowText i \<Rightarrow> [i] | _ \<Rightarrow> [])"

lemma table_rows_Done:
  "i + length slots \<le> length ws \<Longrightarrow>
     table_rows ws i slots = Done (map (\<lambda>w. Row 1 [] [Widget (RowText w)]) (take (length slots) (drop i ws)))"
proof (induction slots arbitrary: i)
  case (Cons a slots)
  then have "drop i ws = ws ! i # drop (Suc i) ws" by (simp add: Cons_nth_drop_Suc)
  with Cons show ?case by (simp add: idx_at_def)
qed simp

lemma dashboard_layout_Done:
  assumes "0 \<le> ttLast t" and "ttLast t + 1 \<le> int (length (ttRows t))"
  obtains es where "dashboard_layout name t d = Done es"
    and "map height es = [dsOnChainBalHeight d, dsTableHeight d, dsCommandHeight d, 8]"
    and "concat (map shown_rows es) = [0..<nat (ttLast t + 1)]"
    and "layout_fits x y es \<longleftrightarrow> dsOnChainBalHeight d + dsTableHeight d + dsCommandHeight d + 8 \<le> y
      \<and> dsOnChainBalHeight d \<le> y \<and> dsTableHeight d \<le> y \<and> dsCommandHeight d \<le> y \<and> 8 \<le> y
      \<and> 2 \<le> dsOnChainBalHeight d \<and> 2 \<le> dsCommandHeight d \<and> ttLast t + 3 \<le> dsTableHeight d
      \<and> dsOnChainBalWidth d + dsTimeWidth d \<le> x \<and> 0 \<le> x"
proof -
  let ?n = "nat (ttLast t + 1)"
  let ?rows = "map (\<lambda>w. Row 1 [] [Widget (RowText w)]) [0..<?n]"
  have rows: "table_rows [0..<length (ttRows t)] 0 (replicate ?n 0) = Done ?rows"
    using assms table_rows_Done [of 0 "replicate ?n 0" "[0..<length (ttRows t)]"] by (simp add: take_upt)
  have h: "sum_list (map height ?rows) = ttLast t + 1"
    using assms(1) by (simp add: comp_def sum_list_triv)
  have w: "sum_list (map width ?rows) = 0" by (simp add: comp_def sum_list_triv)
  have sh: "concat (map shown_rows ?rows) = [0..<?n]" by (simp add: comp_def)
  show thesis
    by (rule that) (use assms h w sh in
      \<open>auto simp: dashboard_layout_def rows make_slice_def logsHeight_def layout_fits_def inner_height_def horizontalLeft_def
        horizontalCenter_def list_all_iff\<close>)
qed

end
