(* ===== verification/Tui_Safety.thy ===== *)
theory Tui_Safety
  imports Tui_Commands
begin

text \<open>
  What holds of the terminal client over time. The abstract specification of a channel on the
  screen is its life cycle, a relation between phases; the client is a pool of goroutines that
  run on the shared state, and every step of it is a step of the life cycle of one channel or
  leaves the phases alone.
\<close>

subsection \<open>The life cycle\<close>

definition started :: "ch_phase \<Rightarrow> bool" where
  "started ph \<longleftrightarrow> ph \<in> {PhTransact, PhRegister, PhSettle, PhClosed}"

inductive lifecycle :: "ch_phase \<Rightarrow> ch_phase \<Rightarrow> bool" where
  not_opened: "lifecycle PhOpen PhError"
| opened: "lifecycle PhOpen PhTransact"
| final_update: "started ph \<Longrightarrow> lifecycle ph PhRegister"
| close_requested: "lifecycle PhTransact PhSettle"
| closing: "started ph \<Longrightarrow> lifecycle ph PhClosed"

code_pred lifecycle .

inductive_simps lifecycle_simps [simp]:
  "lifecycle PhOpen ph" "lifecycle PhError ph" "lifecycle PhTransact ph" "lifecycle PhRegister ph"
  "lifecycle PhSettle ph" "lifecycle PhClosed ph"

lemma started_simps [simp]:
  "\<not> started PhError" "\<not> started PhOpen" "started PhTransact" "started PhRegister" "started PhSettle" "started PhClosed"
  by (simp_all add: started_def)

abbreviation phase_moves :: "ch_phase \<Rightarrow> ch_phase \<Rightarrow> bool" where
  "phase_moves \<equiv> lifecycle\<^sup>=\<^sup>="

lemma started_stays: "phase_moves ph ph' \<Longrightarrow> started ph \<Longrightarrow> started ph'"
  by (auto elim: lifecycle.cases)

text \<open>A channel that does not transact any more never transacts again.\<close>

lemma no_transact: "lifecycle\<^sup>*\<^sup>* ph ph' \<Longrightarrow> ph \<notin> {PhOpen, PhTransact} \<Longrightarrow> ph' \<notin> {PhOpen, PhTransact}"
  by (induction rule: rtranclp_induct) (auto elim: lifecycle.cases)

subsection \<open>What the methods leave alone\<close>

definition same_table :: "tui_table option \<Rightarrow> tui_table option \<Rightarrow> bool" where
  "same_table t t' = rel_option (\<lambda>t t'. length (ttRows t') = length (ttRows t) \<and> ttOffset t' = ttOffset t
     \<and> ttCurrent t' = ttCurrent t \<and> ttLast t' = ttLast t) t t'"

definition frame :: "'k tui \<Rightarrow> 'k tui \<Rightarrow> bool" where
  "frame u u' \<longleftrightarrow> tuChans u' = tuChans u \<and> tuRegistry u' = tuRegistry u \<and> same_table (tuTable u) (tuTable u')"

lemma same_table_refl [simp]: "same_table t t"
  by (cases t) (simp_all add: same_table_def)

lemma same_table_trans: "same_table a b \<Longrightarrow> same_table b c \<Longrightarrow> same_table a c"
  by (cases a; cases b; cases c) (simp_all add: same_table_def)

lemma frame_refl [simp]: "frame u u"
  by (simp add: frame_def)

lemma frame_trans: "frame a b \<Longrightarrow> frame b c \<Longrightarrow> frame a c"
  by (auto simp: frame_def intro: same_table_trans)

lemma frame_log [simp]:
  "frame u (logError m v) = frame u v" "frame u (logInfo m v) = frame u v" "frame u (v\<lparr>tuNode := k\<rparr>) = frame u v"
  by (simp_all add: frame_def logError_def logInfo_def)

lemma tui_log_sel [simp]:
  "tuChans (logError m u) = tuChans u" "tuRegistry (logError m u) = tuRegistry u" "tuTable (logError m u) = tuTable u"
  "tuChans (logInfo m u) = tuChans u" "tuRegistry (logInfo m u) = tuRegistry u" "tuTable (logInfo m u) = tuTable u"
  by (simp_all add: logError_def logInfo_def)

named_theorems tui_frames \<open>operations that keep the frame\<close>

lemma call_client_frame [tui_frames]: "call_client msg f u = (r, u') \<Longrightarrow> frame u u'"
  by (auto simp: call_client_def split: option.splits prod.splits sum.splits)

lemma subUpdates_frame [tui_frames]: "subUpdates cid u = (r, u') \<Longrightarrow> frame u u'"
  by (auto simp: subUpdates_def split: option.splits prod.splits)

lemma calls_frame [tui_frames]:
  "newOutgoingChannelProposalFn peer ours theirs u = Done (r, u') \<Longrightarrow> frame u u'"
  "respondToProposal pid acc u = Done (r1, u') \<Longrightarrow> frame u u'"
  "respondToUpdate cid uid acc u = Done (r2, u') \<Longrightarrow> frame u u'"
  "sendUpdate cid peer amount u = Done (r3, u') \<Longrightarrow> frame u u'"
  "closeCh_call cid u = Done (r4, u') \<Longrightarrow> frame u u'"
  by (auto simp: newOutgoingChannelProposalFn_def respondToProposal_def respondToUpdate_def sendUpdate_def
      closeCh_call_def dest: call_client_frame elim!: andThen_DoneE split: sum.splits prod.splits response.splits if_splits)

text \<open>Writing the row of a channel trims the amounts of the channel.\<close>

definition trimmed :: "tui_channel \<Rightarrow> tui_channel" where
  "trimmed p = p\<lparr>tcCurrent := trim_bal (tcCurrent p), tcProposed := trim_bal (tcProposed p)\<rparr>"

lemma trimmed_sel [simp]:
  "tcPhase (trimmed p) = tcPhase p" "tcStatus (trimmed p) = tcStatus p" "tcSNo (trimmed p) = tcSNo p"
  "tcRow (trimmed p) = tcRow p" "tcChID (trimmed p) = tcChID p" "tcUpdateID (trimmed p) = tcUpdateID p"
  "tcPeer (trimmed p) = tcPeer p" "tcTimeout (trimmed p) = tcTimeout p"
  "tcCurrent (trimmed p) = trim_bal (tcCurrent p)"
  by (simp_all add: trimmed_def)

lemma refreshEntry_Done:
  assumes "refreshEntry p u = Done (p', u')"
  shows "p' = trimmed p \<and> frame u u'"
  using assms
  by (auto simp: refreshEntry_def Let_def run_simps deref_Done trimmed_def frame_def same_table_def)

lemma clearUpdate_sel [simp]:
  "tcPhase (clearUpdate p) = tcPhase p" "tcStatus (clearUpdate p) = NoUpdate" "tcSNo (clearUpdate p) = tcSNo p"
  "tcRow (clearUpdate p) = tcRow p" "tcChID (clearUpdate p) = tcChID p" "tcUpdateID (clearUpdate p) = tcUpdateID p"
  "tcCurrent (clearUpdate p) = tcCurrent p"
  by (simp_all add: clearUpdate_def)

subsection \<open>The effect of a method\<close>

text \<open>
  A method keeps the number and the row of its channel; either it keeps the ID of the channel
  and the registry, or it registers the channel, which then transacts.
\<close>

definition effect :: "tui_channel \<Rightarrow> 'k tui \<Rightarrow> tui_channel \<Rightarrow> 'k tui \<Rightarrow> bool" where
  "effect p u p' u' \<longleftrightarrow> tuChans u' = tuChans u \<and> same_table (tuTable u) (tuTable u') \<and> tcSNo p' = tcSNo p
     \<and> tcRow p' = tcRow p
     \<and> (tuRegistry u' = tuRegistry u \<and> tcChID p' = tcChID p
        \<or> (\<exists>reg. tuRegistry u = Some reg \<and> tuRegistry u' = Some (setChID (tcChID p') (tcSNo p) reg)
             \<and> tcPhase p' = PhTransact))"

lemma effect_frame: "frame u u' \<Longrightarrow> tcSNo p' = tcSNo p \<Longrightarrow> tcRow p' = tcRow p \<Longrightarrow> tcChID p' = tcChID p
     \<Longrightarrow> effect p u p' u'"
  by (simp add: effect_def frame_def)

text \<open>A channel that was proposed to the peer waits for the answer of the node.\<close>

definition waiting :: "tui_channel \<Rightarrow> bool" where
  "waiting p \<longleftrightarrow> tcPhase p = PhOpen \<and> tcStatus p = WaitingForPeer"

definition moves :: "tui_channel \<Rightarrow> 'k tui \<Rightarrow> tui_channel \<Rightarrow> 'k tui \<Rightarrow> bool" where
  "moves p u p' u' \<longleftrightarrow> effect p u p' u' \<and> phase_moves (tcPhase p) (tcPhase p')"

lemma moves_frame:
  "frame u u' \<Longrightarrow> tcSNo p' = tcSNo p \<Longrightarrow> tcRow p' = tcRow p \<Longrightarrow> tcChID p' = tcChID p
     \<Longrightarrow> phase_moves (tcPhase p) (tcPhase p') \<Longrightarrow> moves p u p' u'"
  by (simp add: moves_def effect_frame)

lemma refreshEntry_moves: "refreshEntry p u = Done (p', u') \<Longrightarrow> moves p u p' u' \<and> tcStatus p' = tcStatus p \<and> tcPhase p' = tcPhase p"
  using refreshEntry_Done [of p u p' u'] by (auto intro: moves_frame)

lemma toTransact_Done:
  assumes "toTransact cid b p u = Done (p', u')"
  shows "frame u u' \<and> tcPhase p' = PhTransact \<and> tcStatus p' = NoUpdate \<and> tcChID p' = cid \<and> tcSNo p' = tcSNo p
    \<and> tcRow p' = tcRow p \<and> tcCurrent p' = trim_bal b"
proof -
  let ?p = "clearUpdate (p\<lparr>tcChID := cid, tcCurrent := b, tcPhase := PhTransact\<rparr>)"
  from assms obtain u1 err u2 where r: "refreshEntry ?p u = Done (p', u1)" and s: "subUpdates cid u1 = (err, u2)"
    and u': "u' = logInfo ''subscribed to updates'' (case err of None \<Rightarrow> u2
         | Some e \<Rightarrow> logError (err_Error (EWith e ''subscribing to updates'')) u2)"
    by (auto simp: toTransact_def elim!: andThen_DoneE split: prod.splits)
  have "frame u u2" using refreshEntry_Done [OF r] subUpdates_frame [OF s] by (blast intro: frame_trans)
  then have "frame u u'" unfolding u' by (cases err) simp_all
  with refreshEntry_Done [OF r] show ?thesis by simp
qed

text \<open>Registering the channel and starting to transact, as two methods do.\<close>

lemma register_Done:
  assumes "andThen (on_registry (\<lambda>r. Done (setChID cid (tcSNo p) r)) u) (toTransact cid b p) = Done (p', u')"
  shows "effect p u p' u' \<and> tcPhase p' = PhTransact"
proof -
  from assms obtain reg u1 where reg: "tuRegistry u = Some reg" and u1: "u1 = u\<lparr>tuRegistry := Some (setChID cid (tcSNo p) reg)\<rparr>"
    and t: "toTransact cid b p u1 = Done (p', u')"
    by (auto simp: on_registry_def deref_Done elim!: andThen_DoneE)
  from toTransact_Done [OF t] reg u1 show ?thesis by (simp add: effect_def frame_def)
qed

subsection \<open>The methods\<close>

lemma propose_call_moves:
  assumes "propose_call p u = Done (p', u')" and "tcPhase p = PhOpen"
  shows "moves p u p' u'"
proof -
  from assms(1) obtain peer ours theirs res u1 where
    call: "newOutgoingChannelProposalFn peer ours theirs u = Done (res, u1)"
    and rest: "(case res of Inl e \<Rightarrow> Done (p, logError (err_Error e) u1)
       | Inr (isAccepted, cid, b) \<Rightarrow>
           if \<not> isAccepted then refreshEntry (p\<lparr>tcPhase := PhError, tcStatus := PeerRejected\<rparr>) u1
           else andThen (on_registry (\<lambda>r. Done (setChID cid (tcSNo p) r)) u1) (toTransact cid b p)) = Done (p', u')"
    by (auto simp: propose_call_def elim!: andThen_DoneE)
  have fr: "frame u u1" using call by (rule calls_frame)
  from rest consider (failed) e where "p' = p" "u' = logError (err_Error e) u1"
    | (rejected) "refreshEntry (p\<lparr>tcPhase := PhError, tcStatus := PeerRejected\<rparr>) u1 = Done (p', u')"
    | (opened) cid b where "andThen (on_registry (\<lambda>r. Done (setChID cid (tcSNo p) r)) u1) (toTransact cid b p) = Done (p', u')"
    by (auto split: sum.splits if_splits)
  then show ?thesis
  proof cases
    case failed
    with fr show ?thesis by (intro moves_frame) simp_all
  next
    case rejected
    from refreshEntry_Done [OF this] fr have "frame u u'" by (blast intro: frame_trans)
    with refreshEntry_Done [OF rejected] assms(2) show ?thesis
      by (intro moves_frame) (simp_all add: not_opened)
  next
    case (opened cid b)
    from register_Done [OF this] have eff: "effect p u1 p' u'" and ph: "tcPhase p' = PhTransact" by simp_all
    from eff fr have "effect p u p' u'" by (auto simp: effect_def frame_def intro: same_table_trans)
    with ph assms(2) show ?thesis by (simp add: moves_def)
  qed
qed

lemma respond_moves:
  assumes "respond accept p u = Done (p', u')"
  shows "moves p u p' u' \<and> (waiting p \<longrightarrow> waiting p')"
proof -
  consider (refused) "tcStatus p \<noteq> WaitingForUser" | (none) "tcStatus p = WaitingForUser" "tcPhase p \<notin> {PhOpen, PhTransact, PhRegister}"
    | (proposal) "tcStatus p = WaitingForUser" "tcPhase p = PhOpen"
    | (update) "tcStatus p = WaitingForUser" "tcPhase p \<in> {PhTransact, PhRegister}" by auto
  then show ?thesis
  proof cases
    case refused
    with assms show ?thesis by (auto simp: respond_def waiting_def intro!: moves_frame)
  next
    case none
    with assms have "p' = p" "u' = u" by (auto simp: respond_def split: if_splits)
    then show ?thesis by (auto intro!: moves_frame)
  next
    case proposal
    with assms have run: "tc_respondToProposal accept p u = Done (p', u')" by (simp add: respond_def)
    let ?p = "p\<lparr>tcStatus := Responding\<rparr>"
    from run obtain p1 u1 res u2 where r: "refreshEntry ?p u = Done (p1, u1)"
      and call: "respondToProposal (tcUpdateID p1) accept u1 = Done (res, u2)"
      and rest: "(case res of Inl e \<Rightarrow> Done (p1, logError (err_Error (EWith e ''responding to proposal'')) u2)
       | Inr (cid, b) \<Rightarrow>
           if \<not> accept then refreshEntry (p1\<lparr>tcPhase := PhError, tcStatus := UserRejected\<rparr>) u2
           else andThen (on_registry (\<lambda>r. Done (setChID cid (tcSNo p1) r)) u2) (toTransact cid b p1)) = Done (p', u')"
      by (auto simp: tc_respondToProposal_def elim!: andThen_DoneE)
    have fr: "frame u u2" and p1: "p1 = trimmed ?p"
      using refreshEntry_Done [OF r] calls_frame(2) [OF call] by (auto intro: frame_trans)
    from rest consider (failed) e where "p' = p1" "u' = logError (err_Error (EWith e ''responding to proposal'')) u2"
      | (rejected) "refreshEntry (p1\<lparr>tcPhase := PhError, tcStatus := UserRejected\<rparr>) u2 = Done (p', u')"
      | (opened) cid b where "andThen (on_registry (\<lambda>r. Done (setChID cid (tcSNo p1) r)) u2) (toTransact cid b p1) = Done (p', u')"
      by (auto split: sum.splits if_splits)
    then have "moves p u p' u'"
    proof cases
      case failed
      with fr p1 show ?thesis by (intro moves_frame) simp_all
    next
      case rejected
      from refreshEntry_Done [OF this] fr have "frame u u'" by (blast intro: frame_trans)
      with refreshEntry_Done [OF rejected] p1 proposal(2) show ?thesis
        by (intro moves_frame) (simp_all add: not_opened)
    next
      case (opened cid b)
      from register_Done [OF this] have eff: "effect p1 u2 p' u'" and ph: "tcPhase p' = PhTransact" by simp_all
      from eff fr p1 have "effect p u p' u'" by (auto simp: effect_def frame_def intro: same_table_trans)
      with ph proposal(2) show ?thesis by (simp add: moves_def)
    qed
    with proposal(1) show ?thesis by (simp add: waiting_def)
  next
    case update
    with assms have run: "tc_respondToUpdate accept p u = Done (p', u')"
      by (auto simp: respond_def split: if_splits)
    let ?p = "p\<lparr>tcStatus := Responding\<rparr>"
    from run obtain p1 u1 res u2 where r: "refreshEntry ?p u = Done (p1, u1)"
      and call: "respondToUpdate (tcChID p1) (tcUpdateID p1) accept u1 = Done (res, u2)"
      and rest: "(case res of Inl e \<Rightarrow> Done (p1, logError (err_Error (EWith e ''responding to update'')) u2)
       | Inr b \<Rightarrow> if \<not> accept then refreshEntry (p1\<lparr>tcStatus := UserRejected\<rparr>) u2
           else let p = p1\<lparr>tcCurrent := b, tcStatus := Accepted\<rparr>
                in refreshEntry (if tcPhase p = PhRegister then p\<lparr>tcCurrent := add_F (tcCurrent p)\<rparr> else p) u2) = Done (p', u')"
      by (auto simp: tc_respondToUpdate_def elim!: andThen_DoneE)
    have fr: "frame u u2" and p1: "p1 = trimmed ?p"
      using refreshEntry_Done [OF r] calls_frame(3) [OF call] by (auto intro: frame_trans)
    have "\<exists>q. (p' = q \<and> frame u2 u' \<or> refreshEntry q u2 = Done (p', u'))
        \<and> tcPhase q = tcPhase p \<and> tcSNo q = tcSNo p \<and> tcRow q = tcRow p \<and> tcChID q = tcChID p"
    proof (cases res)
      case (Inl e)
      with rest p1 show ?thesis by (intro exI [of _ p1]) auto
    next
      case (Inr b)
      let ?r = "p1\<lparr>tcCurrent := b, tcStatus := Accepted\<rparr>"
      let ?q = "if \<not> accept then p1\<lparr>tcStatus := UserRejected\<rparr>
              else if tcPhase ?r = PhRegister then ?r\<lparr>tcCurrent := add_F (tcCurrent ?r)\<rparr> else ?r"
      have "refreshEntry ?q u2 = Done (p', u')"
        using Inr rest by (cases accept) (simp_all add: Let_def)
      then show ?thesis by (intro exI [of _ ?q]) (simp add: p1)
    qed
    then obtain q where wr: "p' = q \<and> frame u2 u' \<or> refreshEntry q u2 = Done (p', u')"
        and q: "tcPhase q = tcPhase p" "tcSNo q = tcSNo p" "tcRow q = tcRow p" "tcChID q = tcChID p"
      by blast
    from wr fr have "frame u u' \<and> (p' = q \<or> p' = trimmed q)"
      using refreshEntry_Done [of q u2 p' u'] by (blast intro: frame_trans)
    then show ?thesis
      using q update(1) by (auto simp: waiting_def intro!: moves_frame)
  qed
qed

lemma notifyIncomingChannel_expire_moves:
  assumes "notifyIncomingChannel_expire p u = Done (p', u')"
  shows "moves p u p' u' \<and> (waiting p \<longrightarrow> waiting p')"
proof (cases "tcStatus p = WaitingForUser \<and> tcPhase p = PhOpen")
  case True
  with assms have "refreshEntry (p\<lparr>tcPhase := PhError, tcStatus := Expired\<rparr>) u = Done (p', u')"
    by (simp add: notifyIncomingChannel_expire_def)
  from refreshEntry_Done [OF this] True show ?thesis
    by (auto simp: waiting_def not_opened intro!: moves_frame)
next
  case False
  with assms have "p' = p" "u' = u" by (auto simp: notifyIncomingChannel_expire_def)
  then show ?thesis by (auto intro!: moves_frame)
qed

lemma notifyNonClosingUpdate_expire_moves:
  assumes "notifyNonClosingUpdate_expire uid p u = Done (p', u')"
  shows "moves p u p' u' \<and> (waiting p \<longrightarrow> waiting p')"
proof (cases "tcUpdateID p = uid \<and> tcStatus p = WaitingForUser \<and> (tcPhase p = PhTransact \<or> tcPhase p = PhRegister)")
  case True
  with assms have "refreshEntry (p\<lparr>tcStatus := Expired\<rparr>) u = Done (p', u')"
    by (simp add: notifyNonClosingUpdate_expire_def)
  from refreshEntry_Done [OF this] True show ?thesis
    by (auto simp: waiting_def intro!: moves_frame)
next
  case False
  with assms have "p' = p \<and> u' = u" unfolding notifyNonClosingUpdate_expire_def by (subst (asm) if_not_P) auto
  then show ?thesis by (auto intro!: moves_frame)
qed

lemma notifyNonClosingUpdate_moves:
  assumes "notifyNonClosingUpdate fmt uid b expiry isFinal p u = Done (p', u')" and "started (tcPhase p)"
  shows "moves p u p' u' \<and> (waiting p \<longrightarrow> waiting p')"
proof -
  let ?p = "p\<lparr>tcUpdateID := uid, tcProposed := b, tcTimeout := fmt expiry, tcStatus := WaitingForUser\<rparr>"
  let ?q = "if isFinal then ?p\<lparr>tcProposed := add_F (tcProposed ?p), tcPhase := PhRegister\<rparr> else ?p"
  have "refreshEntry ?q u = Done (p', u')"
    using assms(1) by (simp add: notifyNonClosingUpdate_def Let_def)
  from refreshEntry_Done [OF this] assms(2) show ?thesis
    by (auto simp: waiting_def final_update intro!: moves_frame)
qed

lemma notifyClosingUpdate_Done:
  assumes "notifyClosingUpdate b msg p u = Done (p', u')"
  shows "frame u u' \<and> tcSNo p' = tcSNo p \<and> tcRow p' = tcRow p \<and> tcChID p' = tcChID p \<and> tcStatus p' = NoUpdate
    \<and> tcPhase p' = (if msg = [] then PhClosed else tcPhase p)
    \<and> tcCurrent p' = trim_bal (if msg = [] \<and> tbVersion (tcCurrent p) \<noteq> tbVersion b then add_F b else tcCurrent p)"
proof -
  let ?p = "if msg = [] then if tbVersion (tcCurrent p) \<noteq> tbVersion b
       then p\<lparr>tcPhase := PhClosed, tcCurrent := add_F b\<rparr> else p\<lparr>tcPhase := PhClosed\<rparr> else p\<lparr>tcStatus := ErrorStatus\<rparr>"
  let ?u = "if msg = [] then u else logError (''settling channel '' @ show_int (tcSNo p) @ '': '' @ msg) u"
  have "refreshEntry (clearUpdate ?p) ?u = Done (p', u')"
    using assms by (auto simp: notifyClosingUpdate_def Let_def split: if_splits)
  from refreshEntry_Done [OF this] have "frame ?u u'" "p' = trimmed (clearUpdate ?p)" by simp_all
  moreover have "frame u ?u" by simp
  ultimately show ?thesis by (auto intro: frame_trans)
qed

lemma notifyClosingUpdate_moves:
  assumes "notifyClosingUpdate b msg p u = Done (p', u')" and "started (tcPhase p)"
  shows "moves p u p' u' \<and> (waiting p \<longrightarrow> waiting p')"
  using notifyClosingUpdate_Done [OF assms(1)] assms(2)
  by (auto simp: waiting_def closing intro!: moves_frame)

text \<open>Updates and closing keep the phase, except for the phases that closing goes through.\<close>

lemma tc_update_Done:
  assumes "tc_update C amount peer p u = Done (p', u')"
  shows "frame u u' \<and> tcSNo p' = tcSNo p \<and> tcRow p' = tcRow p \<and> tcChID p' = tcChID p \<and> tcPhase p' = tcPhase p
    \<and> (\<not> ready_for_update p \<longrightarrow> p' = p)"
proof -
  consider (refused) "\<not> ready_for_update p"
    | (bad) e where "ready_for_update p" "getProposedBalInfo C (tcCurrent p) amount peer = Done (Inl e)"
    | (sent) b p1 u1 res u2 where "ready_for_update p"
      "refreshEntry (p\<lparr>tcProposed := b, tcStatus := WaitingForPeer\<rparr>) u = Done (p1, u1)"
      "sendUpdate (tcChID p1) (if peer then tcPeer p else ''self'') amount u1 = Done (res, u2)"
      "(case res of
          Inl e \<Rightarrow> andThen (refreshEntry (p1\<lparr>tcStatus := ErrorStatus\<rparr>) u2) (\<lambda>(p, u).
            Done (p, logError (err_Error e) u))
        | Inr (isAccepted, updated) \<Rightarrow>
            if \<not> isAccepted then refreshEntry (p1\<lparr>tcStatus := PeerRejected\<rparr>) u2
            else refreshEntry (p1\<lparr>tcStatus := Accepted, tcCurrent := updated\<rparr>) u2) = Done (p', u')"
    using assms by (auto simp: tc_update_def Let_def elim!: andThen_DoneE split: if_splits sum.splits)
  then show ?thesis
  proof cases
    case refused
    with assms show ?thesis by (auto simp: tc_update_def Let_def)
  next
    case (bad e)
    with assms show ?thesis by (auto simp: tc_update_def Let_def)
  next
    case (sent b p1 u1 res u2)
    have fr: "frame u u2" and p1: "p1 = trimmed (p\<lparr>tcProposed := b, tcStatus := WaitingForPeer\<rparr>)"
      using refreshEntry_Done [OF sent(2)] calls_frame(4) [OF sent(3)] by (auto intro: frame_trans)
    from sent(4) obtain q u3 where wr: "refreshEntry q u2 = Done (p', u3)" and u': "frame u3 u'"
      and q: "tcPhase q = tcPhase p1 \<and> tcSNo q = tcSNo p1 \<and> tcRow q = tcRow p1 \<and> tcChID q = tcChID p1"
      by (cases res) (force elim!: andThen_DoneE split: prod.splits if_splits)+
    from refreshEntry_Done [OF wr] fr u' have "frame u u'" by (blast intro: frame_trans)
    with refreshEntry_Done [OF wr] q p1 sent(1) show ?thesis by simp
  qed
qed

definition final_bal :: "tui_bal \<Rightarrow> tui_bal \<Rightarrow> tui_bal" where
  "final_bal current updated = (if tbVersion current \<noteq> tbVersion updated then add_F updated else updated)"

lemma tbVersion_trim [simp]: "tbVersion (trim_bal b) = tbVersion b"
  by (simp add: trim_bal_def)

lemma closeCh_cases:
  assumes "closeCh p u = Done (p', u')"
  obtains (refused) "\<not> ready_for_update p" and "p' = p"
      and "u' = logError ''cannot close channel: not in transact phase or has pending updates'' u"
  | (answered) res p1 u1 u2 where "ready_for_update p"
      and "refreshEntry (clearUpdate (p\<lparr>tcPhase := PhRegister\<rparr>)) u = Done (p1, u1)"
      and "closeCh_call (tcChID p) u1 = Done (res, u2)"
      and "frame u u'" and "tcSNo p' = tcSNo p" and "tcRow p' = tcRow p" and "tcChID p' = tcChID p"
      and "tcPhase p' = PhSettle" and "tcStatus p' = NoUpdate"
      and "\<forall>b. res = Inr b \<longrightarrow> tcCurrent p' = trim_bal (final_bal (tcCurrent p) b)"
      and "\<forall>e. res = Inl e \<longrightarrow> tcCurrent p' = trim_bal (final_bal (tcCurrent p) no_bal)"
proof (cases "ready_for_update p")
  case False
  with assms show thesis by (intro refused) (simp_all add: closeCh_def)
next
  case True
  from assms True obtain p1 u1 res u2 where
    r: "refreshEntry (clearUpdate (p\<lparr>tcPhase := PhRegister\<rparr>)) u = Done (p1, u1)"
    and call: "closeCh_call (tcChID p1) u1 = Done (res, u2)"
    and rest: "andThen (case res of
               Inl e \<Rightarrow> andThen (refreshEntry (p1\<lparr>tcPhase := PhError\<rparr>) u2) (\<lambda>(p, u).
                 Done (no_bal, p, logError (err_Error (EWith e ''closing channel'')) u))
             | Inr updated \<Rightarrow> Done (updated, p1, u2)) (\<lambda>(updated, p, u).
           let updated = (if tbVersion (tcCurrent p) \<noteq> tbVersion updated then add_F updated else updated)
           in refreshEntry (p\<lparr>tcCurrent := updated, tcPhase := PhSettle\<rparr>) u) = Done (p', u')"
    by (auto simp: closeCh_def elim!: andThen_DoneE)
  have fr: "frame u u2" and p1: "p1 = trimmed (clearUpdate (p\<lparr>tcPhase := PhRegister\<rparr>))"
    using refreshEntry_Done [OF r] calls_frame(5) [OF call] by (auto intro: frame_trans)
  define b where "b = (case res of Inl e \<Rightarrow> no_bal | Inr b \<Rightarrow> b)"
  obtain q u3 where q: "q = p1 \<or> q = trimmed (p1\<lparr>tcPhase := PhError\<rparr>)" and u3: "frame u2 u3"
    and wr: "refreshEntry (q\<lparr>tcCurrent := final_bal (tcCurrent q) b, tcPhase := PhSettle\<rparr>) u3 = Done (p', u')"
  proof (cases res)
    case (Inl e)
    with rest obtain q u3 where e: "refreshEntry (p1\<lparr>tcPhase := PhError\<rparr>) u2 = Done (q, u3)"
      and f: "refreshEntry (q\<lparr>tcCurrent := final_bal (tcCurrent q) no_bal, tcPhase := PhSettle\<rparr>)
          (logError (err_Error (EWith e ''closing channel'')) u3) = Done (p', u')"
      by (auto simp: final_bal_def Let_def elim!: andThen_DoneE)
    with refreshEntry_Done [OF e] Inl show thesis
      by (intro that [of q "logError (err_Error (EWith e ''closing channel'')) u3"]) (simp_all add: b_def)
  next
    case (Inr c)
    with rest show thesis by (intro that [of p1 u2]) (simp_all add: final_bal_def Let_def b_def)
  qed
  have "frame u u'" using fr u3 refreshEntry_Done [OF wr] by (blast intro: frame_trans)
  moreover have "tbVersion (tcCurrent q) = tbVersion (tcCurrent p)" using q p1 by auto
  then have "final_bal (tcCurrent q) b = final_bal (tcCurrent p) b" by (simp add: final_bal_def)
  ultimately show thesis
    using refreshEntry_Done [OF wr] q p1 True r call
    by (intro answered [of p1 u1 res u2]) (auto simp: b_def)
qed

lemma closeCh_moves:
  assumes "closeCh p u = Done (p', u')"
  shows "moves p u p' u' \<and> (waiting p \<longrightarrow> waiting p')"
  using assms
proof (cases rule: closeCh_cases)
  case refused
  then show ?thesis by (auto intro!: moves_frame)
next
  case (answered res p1 u1 u2)
  from answered(1) have "tcPhase p = PhTransact" by (simp add: ready_for_update_def)
  with answered show ?thesis by (auto simp: waiting_def intro!: moves_frame)
qed

lemma tc_update_moves:
  assumes "tc_update C amount peer p u = Done (p', u')"
  shows "moves p u p' u' \<and> (waiting p \<longrightarrow> waiting p')"
  using tc_update_Done [OF assms] by (auto simp: waiting_def ready_for_update_def intro!: moves_frame)

end
