(* ===== verification/Tui_Refinement.thy ===== *)
theory Tui_Refinement
  imports Tui_Safety
begin

text \<open>
  The terminal client as a pool of goroutines on a shared state, its invariant and the proof
  that it implements the life cycle of a channel.
\<close>

subsection \<open>Steps\<close>

text \<open>
  A state of the client and the goroutines that are still to run. The user's commands, the
  rounds of the loops that read notifications and the goroutines run in any order; the node
  changes at any time.
\<close>

type_synonym 'k tui_system = "'k tui \<times> goroutine list"

inductive ts_step ::
  "currency_if \<Rightarrow> (int \<Rightarrow> string) \<Rightarrow> 'k tui_system \<Rightarrow> 'k tui_system \<Rightarrow> bool"
  for C :: currency_if and fmt :: "int \<Rightarrow> string" where
  open_cmd: "openCmd_begin args u = Done (r, u') \<Longrightarrow>
    ts_step C fmt (u, G) (u', (case r of Inr p \<Rightarrow> [ProposeCall p] | Inl e \<Rightarrow> []) @ G)"
| respond: "respondCmd args acc u = Done (e, u') \<Longrightarrow> ts_step C fmt (u, G) (u', G)"
| update: "updateCmdHandler C args peer u = Done (e, u') \<Longrightarrow> ts_step C fmt (u, G) (u', G)"
| close: "closeCmdHandler args u = Done (e, u') \<Longrightarrow> ts_step C fmt (u, G) (u', G)"
| proposals: "incomingChannels_round fmt msg u = Done (goes_on, gs, u') \<Longrightarrow> ts_step C fmt (u, G) (u', gs @ G)"
| updates: "incomingUpdate_round msg' u = Done (goes_on, gs, u') \<Longrightarrow> ts_step C fmt (u, G) (u', gs @ G)"
| run: "run_goroutine fmt g u = Done (gs, u') \<Longrightarrow> ts_step C fmt (u, G1 @ g # G2) (u', gs @ G1 @ G2)"
| node: "ts_step C fmt (u, G) (u\<lparr>tuNode := k\<rparr>, G)"

subsection \<open>The invariant\<close>

text \<open>
  The channel made first has number 1 and the row after the titles, and so on; the registry has
  the channels whose number is an index of it; and an ID of a channel is registered only for a
  channel that has started. The goroutines work on channels that exist; a call to open a channel
  is made once, for a channel that waits for it; and updates are shown for started channels.
\<close>

definition registry_ok :: "tui_registry \<Rightarrow> tui_channel list \<Rightarrow> bool" where
  "registry_ok reg chans \<longleftrightarrow>
     (\<forall>i < length (trProposals reg). trProposals reg ! i = (if 0 < i \<and> i \<le> length chans then Some (i - 1) else None))
   \<and> (\<forall>cid i. trByChID reg cid = Some i \<longrightarrow>
        (\<exists>r < length chans. i = int r + 1 \<and> started (tcPhase (chans ! r))))"

definition table_ok :: "int \<Rightarrow> tui_table \<Rightarrow> int \<Rightarrow> nat \<Rightarrow> bool" where
  "table_ok lst t n cnt \<longleftrightarrow> ttLast t = lst \<and> ttOffset t = 3 \<and> ttCurrent t = int cnt + 1 \<and> ttCurrent t \<le> ttLast t
     \<and> int (length (ttRows t)) = ttLast t + 3 \<and> n = ttLast t - 3"

definition chans_ok :: "tui_channel list \<Rightarrow> bool" where
  "chans_ok chans \<longleftrightarrow> (\<forall>r < length chans. tcSNo (chans ! r) = int r + 1 \<and> tcRow (chans ! r) = r + 3)"

definition tui_inv :: "int \<Rightarrow> 'k tui \<Rightarrow> bool" where
  "tui_inv lst u \<longleftrightarrow> chans_ok (tuChans u) \<and>
     (\<exists>t reg. tuTable u = Some t \<and> tuRegistry u = Some reg \<and> registry_ok reg (tuChans u)
        \<and> table_ok lst t (int (length (trProposals reg))) (length (tuChans u)))"

fun goroutine_ok :: "tui_channel list \<Rightarrow> goroutine \<Rightarrow> bool" where
  "goroutine_ok chans (ProposeCall r) \<longleftrightarrow> r < length chans \<and> waiting (chans ! r)"
| "goroutine_ok chans (ShowUpdate r uid b e f) \<longleftrightarrow> r < length chans \<and> started (tcPhase (chans ! r))"
| "goroutine_ok chans (WaitProposal r) \<longleftrightarrow> r < length chans"
| "goroutine_ok chans (ExpireProposal r) \<longleftrightarrow> r < length chans"
| "goroutine_ok chans (ReadUpdateID r) \<longleftrightarrow> r < length chans"
| "goroutine_ok chans (ExpireUpdate r uid) \<longleftrightarrow> r < length chans"

definition system_inv :: "int \<Rightarrow> 'k tui_system \<Rightarrow> bool" where
  "system_inv lst s \<longleftrightarrow> (case s of (u, G) \<Rightarrow> tui_inv lst u \<and> (\<forall>g \<in> set G. goroutine_ok (tuChans u) g)
     \<and> (\<forall>r. count_list G (ProposeCall r) \<le> 1))"

text \<open>What a step does to the channels: one may be added, and one may change.\<close>

definition chans_move :: "bool \<Rightarrow> tui_channel list \<Rightarrow> tui_channel list \<Rightarrow> bool" where
  "chans_move wt chans chans' \<longleftrightarrow> length chans \<le> length chans'
     \<and> (\<forall>r < length chans. phase_moves (tcPhase (chans ! r)) (tcPhase (chans' ! r))
          \<and> (wt \<longrightarrow> waiting (chans ! r) \<longrightarrow> waiting (chans' ! r)))
     \<and> (\<forall>r. length chans \<le> r \<longrightarrow> r < length chans' \<longrightarrow> tcPhase (chans' ! r) = PhOpen)"

lemma chans_move_refl [simp]: "chans_move wt c c"
  by (simp add: chans_move_def)

lemma chans_moveD:
  assumes "chans_move wt c c'" and "r < length c"
  shows "r < length c'" and "started (tcPhase (c ! r)) \<Longrightarrow> started (tcPhase (c' ! r))"
    and "wt \<Longrightarrow> waiting (c ! r) \<Longrightarrow> waiting (c' ! r)"
proof -
  from assms have "phase_moves (tcPhase (c ! r)) (tcPhase (c' ! r))" unfolding chans_move_def by blast
  then show "started (tcPhase (c ! r)) \<Longrightarrow> started (tcPhase (c' ! r))" by (rule started_stays)
qed (use assms in \<open>auto simp: chans_move_def\<close>)

lemma goroutine_ok_kept:
  "goroutine_ok c g \<Longrightarrow> chans_move wt c c' \<Longrightarrow> (\<forall>r. g \<noteq> ProposeCall r) \<Longrightarrow> goroutine_ok c' g"
  by (cases g) (simp_all add: chans_moveD)

lemma goroutine_ok_move: "goroutine_ok c g \<Longrightarrow> chans_move True c c' \<Longrightarrow> goroutine_ok c' g"
  by (cases g) (simp_all add: chans_moveD)

lemma registry_ok_move:
  assumes "registry_ok reg chans" and "chans_move wt chans chans'" and "length chans' = length chans"
  shows "registry_ok reg chans'"
proof -
  have "started (tcPhase (chans' ! r))" if "r < length chans" "started (tcPhase (chans ! r))" for r
    using chans_moveD(2) [OF assms(2)] that by blast
  then show ?thesis using assms(1,3) unfolding registry_ok_def by metis
qed

lemma table_ok_same:
  "same_table (Some t) t' \<Longrightarrow> table_ok lst t n cnt \<Longrightarrow> \<exists>t''. t' = Some t'' \<and> table_ok lst t'' n cnt"
  by (cases t') (simp_all add: same_table_def table_ok_def)

lemma tui_inv_frame:
  assumes "frame u u'" and "tui_inv lst u"
  shows "tui_inv lst u'"
  using assms table_ok_same unfolding tui_inv_def frame_def by metis

lemma chans_move_update:
  assumes "r < length chans" and "phase_moves (tcPhase (chans ! r)) (tcPhase p')"
    and "wt \<Longrightarrow> waiting (chans ! r) \<Longrightarrow> waiting p'"
  shows "chans_move wt chans (chans[r := p'])"
  using assms by (auto simp: chans_move_def nth_list_update)

text \<open>A method on one channel.\<close>

lemma on_tui_inv:
  assumes "on_tui r f u = Done u'" and "tui_inv lst u"
    and m: "\<And>p' u1. r < length (tuChans u) \<Longrightarrow> f (tuChans u ! r) u = Done (p', u1) \<Longrightarrow>
       moves (tuChans u ! r) u p' u1 \<and> (wt \<longrightarrow> waiting (tuChans u ! r) \<longrightarrow> waiting p')"
  shows "tui_inv lst u' \<and> chans_move wt (tuChans u) (tuChans u') \<and> length (tuChans u') = length (tuChans u)"
proof -
  let ?p = "tuChans u ! r"
  from assms(1) obtain p' u1 where r: "r < length (tuChans u)" and f: "f ?p u = Done (p', u1)"
    and u': "u' = u1\<lparr>tuChans := (tuChans u1)[r := p']\<rparr>"
    by (auto simp: on_tui_def run_simps)
  from m [OF r f] have mv: "moves ?p u p' u1" and w: "wt \<Longrightarrow> waiting ?p \<Longrightarrow> waiting p'" by blast+
  then have eff: "effect ?p u p' u1" and ph: "phase_moves (tcPhase ?p) (tcPhase p')" by (simp_all add: moves_def)
  have chans: "tuChans u' = (tuChans u)[r := p']" using eff u' by (simp add: effect_def)
  have cm: "chans_move wt (tuChans u) (tuChans u')" unfolding chans by (rule chans_move_update [OF r ph w])
  from assms(2) obtain t reg where tr: "tuTable u = Some t" "tuRegistry u = Some reg"
    and ok: "registry_ok reg (tuChans u)" "table_ok lst t (int (length (trProposals reg))) (length (tuChans u))"
    and ch: "chans_ok (tuChans u)"
    unfolding tui_inv_def by blast
  have ch': "chans_ok (tuChans u')" using ch eff r unfolding chans by (auto simp: chans_ok_def effect_def nth_list_update)
  from eff tr(1) have "same_table (Some t) (tuTable u')" by (simp add: effect_def u')
  then obtain t' where t': "tuTable u' = Some t'" "table_ok lst t' (int (length (trProposals reg))) (length (tuChans u))"
    using table_ok_same ok(2) by blast
  have "tuRegistry u1 = tuRegistry u \<or>
      (\<exists>reg. tuRegistry u = Some reg \<and> tuRegistry u1 = Some (setChID (tcChID p') (tcSNo ?p) reg) \<and> tcPhase p' = PhTransact)"
    using eff unfolding effect_def by blast
  with tr(2) consider "tuRegistry u' = Some reg"
    | "tuRegistry u' = Some (setChID (tcChID p') (tcSNo ?p) reg)" "tcPhase p' = PhTransact"
    unfolding u' by fastforce
  then obtain reg' where reg': "tuRegistry u' = Some reg'" "registry_ok reg' (tuChans u')"
    "length (trProposals reg') = length (trProposals reg)"
  proof cases
    case 1
    have "registry_ok reg (tuChans u')" by (rule registry_ok_move [OF ok(1) cm]) (simp add: chans)
    with 1 that show thesis by blast
  next
    case 2
    have "registry_ok reg (tuChans u')" by (rule registry_ok_move [OF ok(1) cm]) (simp add: chans)
    moreover have "tcSNo ?p = int r + 1" using ch r by (simp add: chans_ok_def)
    ultimately have "registry_ok (setChID (tcChID p') (tcSNo ?p) reg) (tuChans u')"
      using r 2(2) chans by (auto simp: registry_ok_def setChID_def)
    with 2 that show thesis by (simp add: setChID_def)
  qed
  moreover have "length (tuChans u') = length (tuChans u)" by (simp add: chans)
  ultimately show ?thesis
    unfolding tui_inv_def using t' ch' cm by metis
qed

subsection \<open>Adding a channel\<close>

lemma chans_move_append: "tcPhase p = PhOpen \<Longrightarrow> chans_move True c (c @ [p])"
  by (auto simp: chans_move_def nth_append less_Suc_eq)

lemma add_channel_inv:
  assumes inv: "tui_inv lst u" and t: "tuTable u = Some t" and row: "getRow t = Done (Some (i, row), t')"
    and c: "tcSNo c = i" "tcRow c = row" "tcPhase c = PhOpen"
    and put: "on_registry (putAtIndex i (length (tuChans u)))
       (u\<lparr>tuTable := Some t', tuChans := tuChans u @ [c]\<rparr>) = Done u'"
  shows "tui_inv lst u' \<and> tuChans u' = tuChans u @ [c]"
proof -
  let ?n = "length (tuChans u)"
  from inv t obtain reg where reg: "tuRegistry u = Some reg" "registry_ok reg (tuChans u)"
    and tab: "table_ok lst t (int (length (trProposals reg))) ?n" and ch: "chans_ok (tuChans u)"
    unfolding tui_inv_def by auto
  from row tab have i: "i = int ?n + 1" "row = ?n + 3" and t': "table_ok lst t' (int (length (trProposals reg))) (Suc ?n)"
    by (auto simp: getRow_def table_ok_def Let_def run_simps split: if_splits)
  let ?reg = "if Suc ?n < length (trProposals reg) then reg\<lparr>trProposals := (trProposals reg)[Suc ?n := Some ?n]\<rparr> else reg"
  have u': "u' = u\<lparr>tuTable := Some t', tuChans := tuChans u @ [c], tuRegistry := Some ?reg\<rparr>"
  proof -
    have "putAtIndex i ?n reg = Done ?reg" by (auto simp: putAtIndex_def i nat_add_distrib)
    with put reg(1) show ?thesis by (simp add: on_registry_def deref_def)
  qed
  have "\<exists>r < length (tuChans u @ [c]). j = int r + 1 \<and> started (tcPhase ((tuChans u @ [c]) ! r))"
    if j: "trByChID ?reg cid = Some j" for cid j
  proof -
    from j have "trByChID reg cid = Some j" by (simp split: if_splits)
    with reg(2) obtain r where "r < ?n" "j = int r + 1" "started (tcPhase (tuChans u ! r))"
      unfolding registry_ok_def by blast
    then show ?thesis by (intro exI [of _ r]) (simp add: nth_append)
  qed
  then have "registry_ok ?reg (tuChans u @ [c])"
    using reg(2) by (auto simp: registry_ok_def nth_list_update)
  moreover have "chans_ok (tuChans u @ [c])"
    using ch c i by (auto simp: chans_ok_def nth_append less_Suc_eq)
  moreover have "length (trProposals ?reg) = length (trProposals reg)" by simp
  ultimately show ?thesis
    using t' by (simp add: u' tui_inv_def)
qed

lemma openCmd_begin_inv:
  assumes "openCmd_begin args u = Done (r, u')" and "tui_inv lst u"
  shows "tui_inv lst u' \<and> (case r of
      Inl e \<Rightarrow> u' = u
    | Inr p \<Rightarrow> p = length (tuChans u) \<and> waiting (tuChans u' ! p) \<and> length (tuChans u') = Suc p
        \<and> chans_move True (tuChans u) (tuChans u'))"
proof (cases "\<exists>peer ours theirs. args = [peer, ours, theirs]")
  case False
  with assms show ?thesis by (auto simp: openCmd_begin_def split: list.splits)
next
  case True
  then obtain peer ours theirs where args: "args = [peer, ours, theirs]" by blast
  from assms(2) obtain t where t: "tuTable u = Some t" unfolding tui_inv_def by blast
  from assms(1) obtain p u1 ch u2 where new: "newOutgoingChannel peer ours theirs u = Done (Some p, u1)"
    and ch: "p < length (tuChans u1)" "ch = tuChans u1 ! p" and put: "on_registry (putAtIndex (tcSNo ch) p) u1 = Done u2"
    and ref: "on_tui p refreshEntry u2 = Done u'" and r: "r = Inr p"
    by (auto simp: openCmd_begin_def args deref_Done idx_at_Done elim!: andThen_DoneE)
  from new t obtain i row t' c where row: "getRow t = Done (Some (i, row), t')" and p: "p = length (tuChans u)"
    and u1: "u1 = u\<lparr>tuTable := Some t', tuChans := tuChans u @ [c]\<rparr>"
    and c: "tcSNo c = i" "tcRow c = row" "tcPhase c = PhOpen" "tcStatus c = WaitingForPeer"
    by (auto simp: newOutgoingChannel_def deref_def Let_def elim!: andThen_DoneE split: option.splits)
  have "tcSNo ch = i" using ch(2) p u1 c(1) by simp
  with put u1 p have "on_registry (putAtIndex i (length (tuChans u))) (u\<lparr>tuTable := Some t', tuChans := tuChans u @ [c]\<rparr>) = Done u2"
    by simp
  from add_channel_inv [OF assms(2) t row c(1-3) this] have inv2: "tui_inv lst u2" and chans2: "tuChans u2 = tuChans u @ [c]"
    by simp_all
  have "tui_inv lst u' \<and> chans_move True (tuChans u2) (tuChans u') \<and> length (tuChans u') = length (tuChans u2)"
    using ref inv2 by (rule on_tui_inv) (auto dest: refreshEntry_moves simp: waiting_def)
  moreover have "waiting (tuChans u2 ! p)" using c by (simp add: chans2 p waiting_def)
  moreover have "tcPhase (tuChans u' ! p) = PhOpen \<and> waiting (tuChans u' ! p)"
    using calculation chans_moveD(3) [of True "tuChans u2" "tuChans u'" p] chans2 p by (simp add: waiting_def)
  ultimately show ?thesis
    using r p chans2 by (auto simp: chans_move_def nth_append less_Suc_eq)
qed

lemma chans_move_weaken: "chans_move True c c' \<Longrightarrow> chans_move wt c c'"
  by (simp add: chans_move_def)

lemma incomingChannels_round_inv:
  assumes "incomingChannels_round fmt msg u = Done (goes_on, gs, u')" and "tui_inv lst u"
  shows "tui_inv lst u' \<and> chans_move True (tuChans u) (tuChans u')
    \<and> (gs = [] \<or> (\<exists>r. gs = [WaitProposal r] \<and> r < length (tuChans u')))"
proof -
  have log: "tui_inv lst (logError m u) \<and> tui_inv lst (logInfo m u)" for m
    using tui_inv_frame [OF _ assms(2)] by simp
  from assms(2) obtain t where t: "tuTable u = Some t" unfolding tui_inv_def by blast
  show ?thesis
  proof (cases msg)
    case (RecvNotify x)
    obtain uid bi dur expiry where x: "x = (uid, bi, dur, expiry)" by (cases x)
    from assms(1) obtain peer res u1 and b :: tui_bal where
      new: "newIncomingChannel uid peer (tbOurs b) (tbTheirs b) (fmt expiry) u = Done (res, u1)"
      and rest: "(case res of
          Inl e \<Rightarrow> Done (True, [], logError (err_Error (EWith e ''adding incoming channel to table'')) u1)
        | Inr r \<Rightarrow> andThen (idx_at (tuChans u1) r) (\<lambda>ch.
            andThen (on_registry (putAtIndex (tcSNo ch) r) u1) (\<lambda>u. Done (True, [WaitProposal r], u)))) = Done (goes_on, gs, u')"
      by (auto simp: incomingChannels_round_def RecvNotify x elim!: andThen_DoneE)
    show ?thesis
    proof (cases res)
      case (Inl e)
      with new t have "tuChans u1 = tuChans u \<and> frame u u1"
        by (auto simp: newIncomingChannel_def deref_def Let_def getRow_def frame_def elim!: andThen_DoneE
            split: option.splits if_splits)
      with tui_inv_frame [OF _ assms(2)] Inl rest show ?thesis by auto
    next
      case (Inr r)
      from new t Inr obtain i row t' c where row: "getRow t = Done (Some (i, row), t')" and r: "r = length (tuChans u)"
        and u1: "u1 = u\<lparr>tuTable := Some t', tuChans := tuChans u @ [c]\<rparr>"
        and c: "tcSNo c = i" "tcRow c = row" "tcPhase c = PhOpen"
        by (auto simp: newIncomingChannel_def deref_def Let_def elim!: andThen_DoneE split: option.splits)
      from rest Inr u1 r c(1) have "on_registry (putAtIndex i (length (tuChans u)))
          (u\<lparr>tuTable := Some t', tuChans := tuChans u @ [c]\<rparr>) = Done u'" and gs: "gs = [WaitProposal r]"
        by (auto elim!: andThen_DoneE)
      from add_channel_inv [OF assms(2) t row c this(1)] gs r c(3) show ?thesis
        by (simp add: chans_move_append)
    qed
  qed (use assms log in \<open>auto simp: incomingChannels_round_def\<close>)
qed

lemma incomingUpdate_round_inv:
  assumes "incomingUpdate_round msg u = Done (goes_on, gs, u')" and "tui_inv lst u"
  shows "tui_inv lst u' \<and> chans_move True (tuChans u) (tuChans u')
    \<and> (gs = [] \<or> (\<exists>r uid b e f. gs = [ShowUpdate r uid b e f] \<and> r < length (tuChans u') \<and> started (tcPhase (tuChans u' ! r))))"
proof -
  have log: "tui_inv lst (logError m u) \<and> tui_inv lst (logInfo m u)" for m
    using tui_inv_frame [OF _ assms(2)] by simp
  from assms(2) obtain reg where reg: "tuRegistry u = Some reg" "registry_ok reg (tuChans u)" unfolding tui_inv_def by blast
  show ?thesis
  proof (cases msg)
    case (RecvNotify x)
    obtain uid i ty expiry err where x: "x = (uid, i, ty, expiry, err)" by (cases x)
    from assms(1) reg(1) obtain p where p: "getByChID (ppChID i) reg = Done p"
      and rest: "(case p of
              None \<Rightarrow> Done (False, [], logError ''update received for unknown channel id'' u)
            | Some r \<Rightarrow> andThen (grpcPayChInfotoBalInfo i) (\<lambda>b.
                if ty = PBClosed then
                  andThen (on_tui r (notifyClosingUpdate b (case err of None \<Rightarrow> [] | Some m \<Rightarrow> printAPIError m)) u)
                    (\<lambda>u. Done (False, [], u))
                else Done (True, [ShowUpdate r uid b expiry (ty = PBFinal)], u))) = Done (goes_on, gs, u')"
      by (auto simp: incomingUpdate_round_def RecvNotify x deref_def elim!: andThen_DoneE)
    show ?thesis
    proof (cases p)
      case None
      with rest log show ?thesis by auto
    next
      case (Some r)
      from p Some obtain j where j: "trByChID reg (ppChID i) = Some j" "0 \<le> j" "nat j < length (trProposals reg)"
        "trProposals reg ! nat j = Some r"
        by (auto simp: getByChID_def int_at_Done split: option.splits)
      with reg(2) obtain q where q: "q < length (tuChans u)" "j = int q + 1" "started (tcPhase (tuChans u ! q))"
        unfolding registry_ok_def by blast
      have "trProposals reg ! Suc q = (if 0 < Suc q \<and> Suc q \<le> length (tuChans u) then Some (Suc q - 1) else None)"
        using reg(2) j(3) q(2) unfolding registry_ok_def by (simp add: nat_add_distrib)
      with j(4) q have st: "r < length (tuChans u)" "started (tcPhase (tuChans u ! r))"
        by (simp_all add: nat_add_distrib)
      from rest Some obtain b where b: "(if ty = PBClosed then
                  andThen (on_tui r (notifyClosingUpdate b (case err of None \<Rightarrow> [] | Some m \<Rightarrow> printAPIError m)) u)
                    (\<lambda>u. Done (False, [], u))
                else Done (True, [ShowUpdate r uid b expiry (ty = PBFinal)], u)) = Done (goes_on, gs, u')"
        by (auto elim!: andThen_DoneE)
      show ?thesis
      proof (cases "ty = PBClosed")
        case True
        with b have gs: "gs = []"
          and run: "on_tui r (notifyClosingUpdate b (case err of None \<Rightarrow> [] | Some m \<Rightarrow> printAPIError m)) u = Done u'"
          by (auto elim!: andThen_DoneE)
        from run have "tui_inv lst u' \<and> chans_move True (tuChans u) (tuChans u') \<and> length (tuChans u') = length (tuChans u)"
          using assms(2) by (rule on_tui_inv) (simp add: notifyClosingUpdate_moves [OF _ st(2)])
        with gs show ?thesis by simp
      next
        case False
        with b st assms(2) show ?thesis by auto
      qed
    qed
  qed (use assms log in \<open>auto simp: incomingUpdate_round_def\<close>)
qed

lemma with_SNo_inv:
  assumes "with_SNo arg f u = Done (e, u')" and "tui_inv lst u"
    and m: "\<And>p u p' u'. f p u = Done (p', u') \<Longrightarrow> moves p u p' u' \<and> (waiting p \<longrightarrow> waiting p')"
  shows "tui_inv lst u' \<and> chans_move True (tuChans u) (tuChans u')"
proof -
  from assms(1) have "u' = u \<or> (\<exists>r. on_tui r f u = Done u')"
    by (auto simp: with_SNo_def elim!: andThen_DoneE split: sum.splits option.splits)
  then show ?thesis
    using on_tui_inv [where wt = True, OF _ assms(2)] m assms(2) by fastforce
qed

lemma commands_inv:
  assumes "tui_inv lst u"
  shows "respondCmd args acc u = Done (e, u') \<Longrightarrow> tui_inv lst u' \<and> chans_move True (tuChans u) (tuChans u')"
    and "updateCmdHandler C args peer u = Done (e, u') \<Longrightarrow> tui_inv lst u' \<and> chans_move True (tuChans u) (tuChans u')"
    and "closeCmdHandler args u = Done (e, u') \<Longrightarrow> tui_inv lst u' \<and> chans_move True (tuChans u) (tuChans u')"
  using assms with_SNo_inv [OF _ assms respond_moves] with_SNo_inv [OF _ assms tc_update_moves]
    with_SNo_inv [OF _ assms closeCh_moves]
  by (auto simp: respondCmd_def updateCmdHandler_def closeCmdHandler_def split: list.splits)

subsection \<open>The pool\<close>

lemma goroutines_count:
  "(\<forall>r. ProposeCall r \<notin> set gs) \<Longrightarrow> count_list (gs @ G) (ProposeCall r) = count_list G (ProposeCall r)"
  by (simp add: count_list_0_iff)

text \<open>A goroutine that runs, other than the call to open a channel.\<close>

lemma run_goroutine_inv:
  assumes "run_goroutine fmt g u = Done (gs, u')" and "tui_inv lst u" and "goroutine_ok (tuChans u) g"
  shows "tui_inv lst u' \<and> chans_move (\<forall>r. g \<noteq> ProposeCall r) (tuChans u) (tuChans u')
    \<and> (\<forall>g' \<in> set gs. goroutine_ok (tuChans u') g') \<and> (\<forall>r. ProposeCall r \<notin> set gs)
    \<and> (\<forall>r. g = ProposeCall r \<longrightarrow> chans_move False (tuChans u) (tuChans u')
         \<and> (\<forall>q < length (tuChans u). q \<noteq> r \<longrightarrow> tuChans u' ! q = tuChans u ! q))"
proof (cases g)
  case (ProposeCall r)
  with assms(1) have run: "on_tui r propose_call u = Done u'" and gs: "gs = []"
    by (auto simp: run_goroutine_def elim!: andThen_DoneE)
  have ph: "tcPhase (tuChans u ! r) = PhOpen" using assms(3) by (simp add: ProposeCall waiting_def)
  have "tui_inv lst u' \<and> chans_move False (tuChans u) (tuChans u') \<and> length (tuChans u') = length (tuChans u)"
    using run assms(2) by (rule on_tui_inv) (simp add: propose_call_moves [OF _ ph])
  moreover from run obtain p' u1 where "propose_call (tuChans u ! r) u = Done (p', u1)"
    and u': "u' = u1\<lparr>tuChans := (tuChans u1)[r := p']\<rparr>" by (auto simp: on_tui_def run_simps)
  from propose_call_moves [OF this(1) ph] have "tuChans u1 = tuChans u" by (simp add: moves_def effect_def)
  ultimately show ?thesis using u' gs by (simp add: ProposeCall)
next
  case (WaitProposal r)
  with assms(1) have run: "on_tui r refreshEntry u = Done u'" and gs: "gs = [ExpireProposal r]"
    by (auto simp: run_goroutine_def elim!: andThen_DoneE)
  have "tui_inv lst u' \<and> chans_move True (tuChans u) (tuChans u') \<and> length (tuChans u') = length (tuChans u)"
    using run assms(2) by (rule on_tui_inv) (auto dest: refreshEntry_moves simp: waiting_def)
  with gs assms(3) show ?thesis by (simp add: WaitProposal)
next
  case (ExpireProposal r)
  with assms(1) have run: "on_tui r notifyIncomingChannel_expire u = Done u'" and gs: "gs = []"
    by (auto simp: run_goroutine_def elim!: andThen_DoneE)
  have "tui_inv lst u' \<and> chans_move True (tuChans u) (tuChans u') \<and> length (tuChans u') = length (tuChans u)"
    using run assms(2) by (rule on_tui_inv) (simp add: notifyIncomingChannel_expire_moves)
  with gs show ?thesis by (simp add: ExpireProposal)
next
  case (ShowUpdate r uid b e f)
  with assms(1) have run: "on_tui r (notifyNonClosingUpdate fmt uid b e f) u = Done u'" and gs: "gs = [ReadUpdateID r]"
    by (auto simp: run_goroutine_def elim!: andThen_DoneE)
  have st: "started (tcPhase (tuChans u ! r))" using assms(3) by (simp add: ShowUpdate)
  have "tui_inv lst u' \<and> chans_move True (tuChans u) (tuChans u') \<and> length (tuChans u') = length (tuChans u)"
    using run assms(2) by (rule on_tui_inv) (simp add: notifyNonClosingUpdate_moves [OF _ st])
  with gs assms(3) show ?thesis by (simp add: ShowUpdate)
next
  case (ReadUpdateID r)
  with assms show ?thesis by (auto simp: run_goroutine_def elim!: andThen_DoneE)
next
  case (ExpireUpdate r uid)
  with assms(1) have run: "on_tui r (notifyNonClosingUpdate_expire uid) u = Done u'" and gs: "gs = []"
    by (auto simp: run_goroutine_def elim!: andThen_DoneE)
  have "tui_inv lst u' \<and> chans_move True (tuChans u) (tuChans u') \<and> length (tuChans u') = length (tuChans u)"
    using run assms(2) by (rule on_tui_inv) (simp add: notifyNonClosingUpdate_expire_moves)
  with gs show ?thesis by (simp add: ExpireUpdate)
qed

lemma system_inv_move:
  assumes "system_inv lst (u, G)" and "tui_inv lst u'" and "chans_move True (tuChans u) (tuChans u')"
    and "\<forall>g \<in> set gs. goroutine_ok (tuChans u') g" and "\<forall>r. count_list (gs @ G) (ProposeCall r) \<le> 1"
  shows "system_inv lst (u', gs @ G)"
  using assms goroutine_ok_move [OF _ assms(3)] by (auto simp: system_inv_def)

text \<open>The node's own steps do not concern the channels.\<close>

lemma tui_inv_node: "tui_inv lst (u\<lparr>tuNode := k\<rparr>) = tui_inv lst u"
  by (simp add: tui_inv_def)

lemma ts_step_inv:
  assumes "ts_step C fmt (u, G) (u', G')" and inv: "system_inv lst (u, G)"
  shows "system_inv lst (u', G') \<and> chans_move False (tuChans u) (tuChans u')"
proof -
  have ui: "tui_inv lst u" and ok: "\<forall>g \<in> set G. goroutine_ok (tuChans u) g"
    and cnt: "\<forall>r. count_list G (ProposeCall r) \<le> 1" using inv by (simp_all add: system_inv_def)
  have simple: "system_inv lst (u', gs @ G) \<and> chans_move False (tuChans u) (tuChans u')"
    if "tui_inv lst u' \<and> chans_move True (tuChans u) (tuChans u')" and "\<forall>g \<in> set gs. goroutine_ok (tuChans u') g"
      and "\<forall>r. ProposeCall r \<notin> set gs" for gs
    using that cnt by (auto intro!: system_inv_move [OF inv] chans_move_weaken simp: goroutines_count simp del: count_list_append)
  from assms(1) show ?thesis
  proof cases
    case (open_cmd args r)
    note o = openCmd_begin_inv [OF open_cmd(2) ui]
    show ?thesis
    proof (cases r)
      case (Inl e)
      with o open_cmd(1) inv show ?thesis by simp
    next
      case (Inr p)
      from o [unfolded Inr sum.case] have p: "p = length (tuChans u)" "waiting (tuChans u' ! p)" "length (tuChans u') = Suc p"
        "chans_move True (tuChans u) (tuChans u')" "tui_inv lst u'" by blast+
      have "ProposeCall p \<notin> set G" using ok p(1) by force
      then have "\<forall>r. count_list ([ProposeCall p] @ G) (ProposeCall r) \<le> 1" using cnt by (auto simp: count_list_0_iff)
      with system_inv_move [OF inv p(5,4), of "[ProposeCall p]"] p Inr open_cmd(1) show ?thesis
        by (simp add: chans_move_weaken)
    qed
  next
    case (respond args acc e)
    with commands_inv(1) [OF ui respond(2)] simple [of "[]"] show ?thesis by simp
  next
    case (update args peer e)
    with commands_inv(2) [OF ui update(2)] simple [of "[]"] show ?thesis by simp
  next
    case (close args e)
    with commands_inv(3) [OF ui close(2)] simple [of "[]"] show ?thesis by simp
  next
    case (proposals msg goes_on gs)
    with incomingChannels_round_inv [OF proposals(2) ui] simple [of gs] show ?thesis by auto
  next
    case (updates msg goes_on gs)
    with incomingUpdate_round_inv [OF updates(2) ui] simple [of gs] show ?thesis by auto
  next
    case (run g gs G1 G2)
    have g: "goroutine_ok (tuChans u) g" using ok run(1) by simp
    note r = run_goroutine_inv [OF run(3) ui g]
    show ?thesis
    proof (cases "\<exists>q. g = ProposeCall q")
      case False
      have cnt': "\<forall>r. count_list (G1 @ G2) (ProposeCall r) \<le> 1"
        using cnt run(1) False by (auto split: if_splits)
      with ui ok run(1) have "system_inv lst (u, G1 @ G2)" by (auto simp: system_inv_def)
      moreover from r False have "tui_inv lst u'" "chans_move True (tuChans u) (tuChans u')"
        "\<forall>g' \<in> set gs. goroutine_ok (tuChans u') g'" "\<forall>r. ProposeCall r \<notin> set gs" by simp_all
      moreover have "\<forall>r. count_list (gs @ G1 @ G2) (ProposeCall r) \<le> 1"
        using cnt' goroutines_count [OF calculation(5)] by metis
      ultimately have "system_inv lst (u', gs @ G1 @ G2)" by (blast intro: system_inv_move)
      then show ?thesis
        using run(2) \<open>chans_move True (tuChans u) (tuChans u')\<close> by (simp add: chans_move_weaken)
    next
      case True
      then obtain q where q: "g = ProposeCall q" by blast
      have "goroutine_ok (tuChans u') g'" if "g' \<in> set (G1 @ G2)" for g'
      proof (cases "\<exists>p. g' = ProposeCall p")
        case False
        with that ok run(1) r q show ?thesis by (auto intro: goroutine_ok_kept)
      next
        case True
        then obtain p where p: "g' = ProposeCall p" by blast
        have "count_list G (ProposeCall q) = Suc (count_list (G1 @ G2) (ProposeCall q))" using run(1) q by simp
        with cnt have "count_list (G1 @ G2) (ProposeCall q) = 0" by (metis One_nat_def Suc_le_mono le_zero_eq)
        with that p have "p \<noteq> q" by (auto simp: count_list_0_iff)
        moreover have "goroutine_ok (tuChans u) g'" using ok that run(1) by auto
        ultimately show ?thesis using r q p by (auto simp: chans_move_def)
      qed
      moreover have "\<forall>r. count_list (G1 @ G2) (ProposeCall r) \<le> 1"
      proof
        fix p
        have "count_list (G1 @ G2) (ProposeCall p) \<le> count_list G (ProposeCall p)" using run(1) by simp
        with cnt show "count_list (G1 @ G2) (ProposeCall p) \<le> 1" by (meson le_trans)
      qed
      moreover have "gs = []" using run(3) q by (auto simp: run_goroutine_def elim!: andThen_DoneE)
      ultimately show ?thesis using r q run(2) by (auto simp: system_inv_def)
    qed
  next
    case (node k)
    with inv show ?thesis by (simp add: system_inv_def tui_inv_node)
  qed
qed

lemma ts_steps_inv:
  assumes "(ts_step C fmt)\<^sup>*\<^sup>* s s'" and "system_inv lst s"
  shows "system_inv lst s' \<and> length (tuChans (fst s)) \<le> length (tuChans (fst s'))
    \<and> (\<forall>r < length (tuChans (fst s)). lifecycle\<^sup>*\<^sup>* (tcPhase (tuChans (fst s) ! r)) (tcPhase (tuChans (fst s') ! r)))"
  using assms(1)
proof (induction rule: rtranclp_induct)
  case (step s' s'')
  obtain u' G' u'' G'' where s: "s' = (u', G')" "s'' = (u'', G'')" by (cases s'; cases s'')
  from ts_step_inv [OF step.hyps(2) [unfolded s], of lst] step.IH have
    inv: "system_inv lst s''" and mv: "chans_move False (tuChans u') (tuChans u'')" by (simp_all add: s)
  have "lifecycle\<^sup>*\<^sup>* (tcPhase (tuChans (fst s) ! r)) (tcPhase (tuChans u'' ! r))" if r: "r < length (tuChans (fst s))" for r
  proof -
    have "lifecycle\<^sup>*\<^sup>* (tcPhase (tuChans (fst s) ! r)) (tcPhase (tuChans u' ! r))" "r < length (tuChans u')"
      using step.IH r by (auto simp: s)
    moreover have "phase_moves (tcPhase (tuChans u' ! r)) (tcPhase (tuChans u'' ! r))"
      using mv calculation(2) unfolding chans_move_def by blast
    ultimately show ?thesis by (auto intro: rtranclp.rtrancl_into_rtrancl)
  qed
  moreover have "length (tuChans u') \<le> length (tuChans u'')" using mv by (simp add: chans_move_def)
  ultimately show ?case using inv step.IH by (auto simp: s)
qed (use assms(2) in simp)

subsection \<open>The start\<close>

lemma newDashboardScreen_Done:
  assumes "newDashboardScreen y u = Done u'" and "tuChans u = []" and "20 < y"
  shows "system_inv (y - 19) (u', []) \<and> tuChans u' = []
    \<and> (\<exists>t reg. tuTable u' = Some t \<and> tuRegistry u' = Some reg \<and> ttLast t = y - 19
        \<and> trProposals reg = replicate (nat (y - 22)) None \<and> 22 \<le> y)"
  using assms
  by (auto simp: newDashboardScreen_def newTable_def newRegistry_tui_def system_inv_def tui_inv_def chans_ok_def
      registry_ok_def table_ok_def run_simps elim!: andThen_DoneE)

end
