(* ===== verification/Tui_Props.thy ===== *)
theory Tui_Props
  imports Tui_Refinement
begin

text \<open>
  The properties of the terminal client. Its smallest terminal has 29 lines.
\<close>

subsection \<open>The life cycle of a channel\<close>

text \<open>
  C13: the terminal client implements the life cycle. In every state it reaches after the start,
  whatever the order of commands, notifications, time-outs and answers of the node, a step
  leaves the phase of a channel as it is or moves it along the life cycle; no channel is lost,
  and a channel that is added is in the phase of opening.
\<close>

theorem tui_refines_lifecycle:
  assumes "newDashboardScreen y u0 = Done u" and "tuChans u0 = []" and "29 \<le> y"
    and "(ts_step C fmt)\<^sup>*\<^sup>* (u, []) (u1, G1)" and "ts_step C fmt (u1, G1) (u2, G2)"
  shows "length (tuChans u1) \<le> length (tuChans u2)
    \<and> (\<forall>r < length (tuChans u1). tcPhase (tuChans u2 ! r) = tcPhase (tuChans u1 ! r)
         \<or> lifecycle (tcPhase (tuChans u1 ! r)) (tcPhase (tuChans u2 ! r)))
    \<and> (\<forall>r. length (tuChans u1) \<le> r \<longrightarrow> r < length (tuChans u2) \<longrightarrow> tcPhase (tuChans u2 ! r) = PhOpen)"
proof -
  from newDashboardScreen_Done [OF assms(1,2)] assms(3) have "system_inv (y - 19) (u, [])" by simp
  from ts_steps_inv [OF assms(4) this] have "system_inv (y - 19) (u1, G1)" by simp
  from ts_step_inv [OF assms(5) this] show ?thesis by (auto simp: chans_move_def)
qed

text \<open>A client of which the node refuses every proposal.\<close>

definition sim_refusal :: msg_error where
  "sim_refusal = \<lparr>meCategory = 1, meCode = 102, meMessage = ''rejected'', meAddInfo = None\<rparr>"

definition sim_tui_client :: "nat tui_client" where
  "sim_tui_client = \<lparr>clOpenSession = (\<lambda>f k. (Inr (MsgSuccess (''s'', [])), k)),
     clOpenPayCh = (\<lambda>s b d k. (Inr (RespError sim_refusal), Suc k)), clSubPayChProposals = (\<lambda>s k. (None, k)),
     clRespondPayChProposal = (\<lambda>s p a k. (Inr (RespError sim_refusal), Suc k)), clSubPayChUpdates = (\<lambda>s c k. (None, k)),
     clRespondPayChUpdate = (\<lambda>s c p a k. (Inr (RespError sim_refusal), Suc k)),
     clSendPayChUpdate = (\<lambda>s c p k. (Inr (RespError sim_refusal), Suc k)),
     clClosePayCh = (\<lambda>s c k. (Inr (RespError sim_refusal), Suc k))\<rparr>"

definition sim_tui0 :: "nat tui" where
  "sim_tui0 = (start_tui 0)\<lparr>tuClient := Some sim_tui_client, tuSessionID := ''s''\<rparr>"

lemma sim_dashboard:
  "\<exists>u. newDashboardScreen 29 sim_tui0 = Done u \<and> tuChans u = [] \<and> tuClient u = Some sim_tui_client"
  by (simp add: newDashboardScreen_def newTable_def newRegistry_tui_def make_slice_def sim_tui0_def start_tui_def)

lemma sim_open:
  assumes "newDashboardScreen 29 sim_tui0 = Done u"
  shows "\<exists>u'. openCmd_begin [''bob'', ''1'', ''2''] u = Done (Inr 0, u') \<and> length (tuChans u') = 1
    \<and> tcProposerFn (tuChans u' ! 0) = Some (''bob'', ''1'', ''2'') \<and> tuClient u' = Some sim_tui_client
    \<and> tuTable u' \<noteq> None"
  using assms
  by (auto simp: newDashboardScreen_def newTable_def newRegistry_tui_def make_slice_def sim_tui0_def start_tui_def
      openCmd_begin_def newOutgoingChannel_def getRow_def deref_def int_at_def idx_at_def put_at_def on_registry_def
      putAtIndex_def on_tui_def refreshEntry_def Let_def)

theorem tui_refines_lifecycle_witness:
  "\<exists>u u' :: nat tui. newDashboardScreen 29 sim_tui0 = Done u \<and> openCmd_begin [''bob'', ''1'', ''2''] u = Done (Inr 0, u')
     \<and> tcPhase (tuChans u' ! 0) = PhOpen"
proof -
  obtain u where u: "newDashboardScreen 29 sim_tui0 = Done u" "tuChans u = []" using sim_dashboard by blast
  obtain u' where u': "openCmd_begin [''bob'', ''1'', ''2''] u = Done (Inr 0, u')" "length (tuChans u') = 1"
    using sim_open [OF u(1)] by blast
  have ch: "tuChans sim_tui0 = []" by (simp add: sim_tui0_def start_tui_def)
  have "ts_step sim_currency (\<lambda>t. []) (u, []) (u', [ProposeCall 0])"
    using ts_step.open_cmd [OF u'(1), of sim_currency "\<lambda>t. []" "[]"] by simp
  from tui_refines_lifecycle [OF u(1) ch _ rtranclp.rtrancl_refl this] u u' show ?thesis by auto
qed


lemma sim_refused:
  assumes "newDashboardScreen 29 sim_tui0 = Done u" and "openCmd_begin [''bob'', ''1'', ''2''] u = Done (Inr 0, u')"
  shows "\<exists>u2. run_goroutine fmt (ProposeCall 0) u' = Done ([], u2) \<and> length (tuChans u2) = 1
    \<and> tcPhase (tuChans u2 ! 0) = PhError"
proof -
  from sim_open [OF assms(1)] assms(2) have u': "length (tuChans u') = 1"
    "tcProposerFn (tuChans u' ! 0) = Some (''bob'', ''1'', ''2'')" "tuClient u' = Some sim_tui_client" "tuTable u' \<noteq> None"
    by auto
  then show ?thesis
    by (auto simp: run_goroutine_def on_tui_def propose_call_def deref_def newOutgoingChannelProposalFn_def
        call_client_def sim_tui_client_def sim_refusal_def refreshEntry_def Let_def)
qed


subsection \<open>Rows and the registry\<close>



subsection \<open>Closing, paying and responding\<close>

lemma refreshEntry_node: "refreshEntry p u = Done (p', u') \<Longrightarrow> tuNode u' = tuNode u \<and> tuClient u' = tuClient u"
  by (auto simp: refreshEntry_def Let_def elim!: andThen_DoneE)

text \<open>
  C28: what closing does on every branch. A channel that is not ready is left alone and nothing
  is sent. Otherwise the node is asked to close the channel, and whatever it answers the channel
  is shown as being settled: with the closing balance when it agrees, and with no balance at all
  when it refuses, since the error is only logged.
\<close>

theorem closeCh_spec:
  assumes "closeCh p u = Done (p', u')"
  shows "if \<not> ready_for_update p then p' = p \<and> tuNode u' = tuNode u
    else tcPhase p' = PhSettle \<and> tcStatus p' = NoUpdate
      \<and> (\<exists>res u1 u2. tuNode u1 = tuNode u \<and> tuClient u1 = tuClient u \<and> closeCh_call (tcChID p) u1 = Done (res, u2)
           \<and> (case res of
                Inr b \<Rightarrow> tcCurrent p' = trim_bal (final_bal (tcCurrent p) b)
              | Inl e \<Rightarrow> tbOurs (tcCurrent p') = [] \<and> tbTheirs (tcCurrent p') = []))"
  using assms
proof (cases rule: closeCh_cases)
  case refused
  then show ?thesis by (simp add: logError_def)
next
  case (answered res p1 u1 u2)
  have no: "tbOurs (trim_bal (final_bal b no_bal)) = [] \<and> tbTheirs (trim_bal (final_bal b no_bal)) = []" for b
    by (simp add: trim_bal_def final_bal_def add_F_def no_bal_def trimZeros_def)
  have "tuNode u1 = tuNode u" "tuClient u1 = tuClient u" using refreshEntry_node [OF answered(2)] by simp_all
  moreover have "case res of Inr b \<Rightarrow> tcCurrent p' = trim_bal (final_bal (tcCurrent p) b)
      | Inl e \<Rightarrow> tbOurs (tcCurrent p') = [] \<and> tbTheirs (tcCurrent p') = []"
    using answered(10,11) no by (cases res) simp_all
  ultimately show ?thesis using answered(1,3,8,9) by auto
qed

definition sim_tui_channel :: tui_channel where
  "sim_tui_channel = \<lparr>tcPhase = PhTransact, tcPeer = ''bob'', tcCurrent = \<lparr>tbOurs = ''1'', tbTheirs = ''0'', tbVersion = ''4''\<rparr>,
     tcStatus = NoUpdate, tcTimeout = [], tcProposed = no_bal, tcChID = ''c'', tcUpdateID = [], tcIsIncoming = False,
     tcSNo = 1, tcRow = 3, tcProposerFn = None\<rparr>"

definition sim_tui :: "nat tui" where
  "sim_tui = sim_tui0\<lparr>tuTable := Some \<lparr>ttRows = [], ttOffset = 3, ttCurrent = 2, ttLast = 10\<rparr>\<rparr>"

lemma sim_tui_sel [simp]:
  "tuTable sim_tui = Some \<lparr>ttRows = [], ttOffset = 3, ttCurrent = 2, ttLast = 10\<rparr>"
  "tuClient sim_tui = Some sim_tui_client" "tuNode sim_tui = 0"
  by (simp_all add: sim_tui_def sim_tui0_def start_tui_def)

theorem closeCh_spec_witness:
  "\<exists>p' u'. closeCh sim_tui_channel sim_tui = Done (p', u') \<and> tcPhase p' = PhSettle \<and> tbOurs (tcCurrent p') = []"
proof -
  have ready: "ready_for_update sim_tui_channel" by (simp add: ready_for_update_def sim_tui_channel_def)
  have call: "closeCh_call cid v = Done (res, v') \<Longrightarrow> tuClient v = Some sim_tui_client \<Longrightarrow> \<exists>e. res = Inl e"
    for cid and v v' :: "nat tui" and res
    by (auto simp: closeCh_call_def call_client_def sim_tui_client_def)
  have "\<exists>p' u'. closeCh sim_tui_channel sim_tui = Done (p', u')"
    using ready by (simp add: closeCh_def refreshEntry_def deref_def Let_def closeCh_call_def call_client_def sim_tui_client_def)
  then obtain p' u' where run: "closeCh sim_tui_channel sim_tui = Done (p', u')" by blast
  from closeCh_spec [OF run] ready obtain res u1 u2 where sp: "tcPhase p' = PhSettle"
      "tuClient u1 = Some sim_tui_client" "closeCh_call (tcChID sim_tui_channel) u1 = Done (res, u2)"
      "case res of Inr b \<Rightarrow> tcCurrent p' = trim_bal (final_bal (tcCurrent sim_tui_channel) b)
        | Inl e \<Rightarrow> tbOurs (tcCurrent p') = [] \<and> tbTheirs (tcCurrent p') = []" by auto
  with call [OF sp(3,2)] run show ?thesis by auto
qed

text \<open>
  The client cannot pay on a channel with an empty balance. Such a balance does not parse,
  since it is less than one base unit; the error is ignored, and the subtraction that follows
  dereferences nil, in either direction of the payment, before anything is sent.
\<close>

theorem zero_balance_panics:
  assumes "decimal_ok D dval" and "ethCurrency = as_Currency D (new_currency D ETHSymbol ETHMaxDecimals)"
    and "ready_for_update p" and "cuParse ethCurrency amount = Inr n"
    and "bal = tbOurs (tcCurrent p) \<or> bal = tbTheirs (tcCurrent p)"
    and "dNewFromString D bal = Inr d" and "dval d = 0"
  shows "tc_update ethCurrency amount isPayeePeer p u = Panic NilDereference"
proof -
  have "cuParse ethCurrency bal \<noteq> Inr m" for m
    using assms(6,7) by (auto simp: assms(2) as_Currency_def Parse_Inr_iff [OF assms(1)] unit_value_def)
  then have "ok_or_nil (cuParse ethCurrency bal) = None"
    by (auto simp: ok_or_nil_def split: sum.splits)
  with assms(4,5) have "getProposedBalInfo ethCurrency (tcCurrent p) amount isPayeePeer = Panic NilDereference"
    by (auto simp: getProposedBalInfo_def Let_def deref_def split: option.splits)
  with assms(3) show ?thesis by (simp add: tc_update_def Let_def)
qed

theorem zero_balance_panics_witness:
  "tc_update (as_Currency dec_lib (new_currency dec_lib ETHSymbol ETHMaxDecimals)) ''1'' True sim_tui_channel sim_tui
     = Panic NilDereference"
proof -
  let ?C = "as_Currency dec_lib (new_currency dec_lib ETHSymbol ETHMaxDecimals)"
  have one: "dNewFromString dec_lib ''1'' = Inr (1, 0)" and zero: "dNewFromString dec_lib ''0'' = Inr (0, 0)"
    by code_simp+
  have "cuParse ?C ''1'' = Inr (10 ^ 18)"
    unfolding as_Currency_def currency_if.select_convs Parse_Inr_iff [OF dec_lib_ok]
    using one decimal_okD(5) [OF dec_lib_ok, of 18] by (simp add: unit_value_def new_currency_def ETHMaxDecimals_def)
  moreover have "ready_for_update sim_tui_channel" by (simp add: ready_for_update_def sim_tui_channel_def)
  ultimately show ?thesis
    using zero by (intro zero_balance_panics [OF dec_lib_ok refl, where bal = "''0''" and d = "(0, 0)"])
      (simp_all add: sim_tui_channel_def)
qed

text \<open>
  A response to a proposal that fails blocks the entry of the channel: its status remains
  that of responding, in which every further response and payment is refused, and the time-out
  of the proposal, which would mark it as expired, does nothing.
\<close>

theorem failed_response_blocks:
  assumes "tcStatus p = WaitingForUser" and "tcPhase p = PhOpen"
    and "refreshEntry (p\<lparr>tcStatus := Responding\<rparr>) u = Done (p1, u1)"
    and "respondToProposal (tcUpdateID p) accept u1 = Done (Inl e, u2)"
  shows "respond accept p u = Done (p1, logError (err_Error (EWith e ''responding to proposal'')) u2)
    \<and> tcStatus p1 = Responding \<and> tcPhase p1 = PhOpen
    \<and> (\<forall>b v. respond b p1 v = Done (p1, logError ''no response expected for the channel'' v))
    \<and> (\<forall>C amount peer v. tc_update C amount peer p1 v = Done (p1, logError ''Channel not read for updates'' v))
    \<and> (\<forall>v. notifyIncomingChannel_expire p1 v = Done (p1, v))"
proof -
  from refreshEntry_Done [OF assms(3)] have p1: "p1 = trimmed (p\<lparr>tcStatus := Responding\<rparr>)" by simp
  have "tc_respondToProposal accept p u = Done (p1, logError (err_Error (EWith e ''responding to proposal'')) u2)"
    using assms(3,4) by (simp add: tc_respondToProposal_def p1)
  with assms(1,2) show ?thesis
    by (simp add: respond_def p1 tc_update_def ready_for_update_def notifyIncomingChannel_expire_def Let_def)
qed

definition sim_incoming :: tui_channel where
  "sim_incoming = sim_tui_channel\<lparr>tcPhase := PhOpen, tcStatus := WaitingForUser, tcIsIncoming := True, tcUpdateID := ''p''\<rparr>"

theorem failed_response_blocks_witness:
  "\<exists>p1 v. respond True sim_incoming sim_tui = Done (p1, v) \<and> tcStatus p1 = Responding"
proof -
  have st: "tcStatus sim_incoming = WaitingForUser" "tcPhase sim_incoming = PhOpen" "tcUpdateID sim_incoming = ''p''"
    by (simp_all add: sim_incoming_def)
  obtain p1 u1 where r: "refreshEntry (sim_incoming\<lparr>tcStatus := Responding\<rparr>) sim_tui = Done (p1, u1)"
    by (simp add: refreshEntry_def deref_def Let_def)
  then have "tuClient u1 = Some sim_tui_client" using refreshEntry_node [OF r] by simp
  then obtain e u2 where "respondToProposal (tcUpdateID sim_incoming) True u1 = Done (Inl e, u2)"
    by (simp add: respondToProposal_def call_client_def sim_tui_client_def)
  from failed_response_blocks [OF st(1,2) r this] show ?thesis by blast
qed

subsection \<open>Reading notifications\<close>

lemma incomingUpdateHandler_step:
  "incomingUpdate_round (stream i) u = Done (True, g, v) \<Longrightarrow>
     incomingUpdateHandler stream i gs u = incomingUpdateHandler stream (Suc i) (gs @ g) v"
  by (subst incomingUpdateHandler.simps) simp

lemma incomingUpdateHandler_stop:
  assumes "\<nexists>g v. incomingUpdate_round (stream i) u = Done (True, g, v)"
  shows "\<exists>res. incomingUpdateHandler stream i gs u = Some res"
  using assms by (subst incomingUpdateHandler.simps) (auto split: run.splits if_splits)

text \<open>Messages that end the loop: anything but an update that does not close the channel.\<close>

fun ends_loop :: "update_msg recv \<Rightarrow> bool" where
  "ends_loop (RecvNotify (uid, i, ty, expiry, err)) \<longleftrightarrow> ty = PBClosed"
| "ends_loop RecvEOF \<longleftrightarrow> True"
| "ends_loop (RecvFailed e) \<longleftrightarrow> True"
| "ends_loop (RecvError m) \<longleftrightarrow> True"

lemma round_goes_on: "incomingUpdate_round msg u = Done (True, g, v) \<Longrightarrow> \<not> ends_loop msg"
  by (cases msg rule: ends_loop.cases)
     (auto simp: incomingUpdate_round_def elim!: andThen_DoneE split: option.splits if_splits)

text \<open>
  C33: the goroutine that reads the updates of a channel ends. However many updates come first,
  once the stream gives an error, its end or a closing update, the loop returns or the client
  has panicked before.
\<close>

theorem incomingUpdateHandler_returns:
  assumes "ends_loop (stream (i + k))"
  shows "\<exists>res. incomingUpdateHandler stream i gs u = Some res"
  using assms
proof (induction k arbitrary: i gs u)
  case 0
  then have "\<nexists>g v. incomingUpdate_round (stream i) u = Done (True, g, v)"
    using round_goes_on [of "stream i" u] by auto
  then show ?case by (rule incomingUpdateHandler_stop)
next
  case (Suc k)
  show ?case
  proof (cases "\<exists>g v. incomingUpdate_round (stream i) u = Done (True, g, v)")
    case True
    then obtain g v where "incomingUpdate_round (stream i) u = Done (True, g, v)" by blast
    with Suc show ?thesis by (simp add: incomingUpdateHandler_step)
  next
    case False
    then show ?thesis by (rule incomingUpdateHandler_stop)
  qed
qed

theorem incomingUpdateHandler_returns_witness:
  "\<exists>res. incomingUpdateHandler (\<lambda>n. if n < 3 then RecvNotify (''u'', \<lparr>ppChID = ''c'', ppBalInfo = \<lparr>pbCurrencies = [],
      pbParts = [], pbBals = []\<rparr>, ppVersion = ''1''\<rparr>, PBOpen, 0, None) else RecvEOF) 0 [] sim_tui = Some res"
  by (rule incomingUpdateHandler_returns [where k = 3]) simp

end
