(* ===== verification/Tui_Screens_Props.thy ===== *)
theory Tui_Screens_Props
  imports Tui_Screens Tui_Props
begin

text \<open>
  What the screens of the terminal client show: that the dashboard fits on every terminal that the
  client accepts, which channels are on it, and that the form of the connect screen asks for more
  rows than it has.
\<close>

lemma new_dashboard_Done:
  assumes "new_dashboard T y u0 = Done (Inr d, u)"
  shows "newDashboardScreen y u0 = Done u \<and> d = \<lparr>dsOnChainBalHeight = 4, dsOnChainBalWidth = 85, dsTimeWidth = 18,
    dsTableHeight = y - 16, dsCommandHeight = 4\<rparr>"
  using assms
  by (auto simp: new_dashboard_def made_def tableWidth_def logsHeight_def Let_def elim!: andThen_DoneE
      split: option.splits sum.splits)

text \<open>
  C30: the dashboard on a terminal of an accepted size. Drawing it never indexes out of range; its
  four boxes take exactly the height of the terminal and no more than its width, and the rows of
  every box fit into it. Of the channels that ever get a row of the table all are on the screen but
  the last one, number \<open>y - 20\<close>, whose row is the last of the table and is not drawn.
\<close>

theorem dashboard_shows_channels:
  assumes "size_check x y p = (True, p')" and "new_dashboard T y u0 = Done (Inr d, u)" and "tuChans u0 = []"
    and "tuTable u = Some t" and "(ts_step C fmt)\<^sup>*\<^sup>* (u, []) (u1, G1)"
  shows "\<exists>es. dashboard_layout name t d = Done es \<and> layout_fits x y es \<and> sum_list (map height es) = y
    \<and> (\<forall>r < length (tuChans u1). int r + 1 \<le> y - 20
         \<and> (tcRow (tuChans u1 ! r) \<in> set (concat (map shown_rows es)) \<longleftrightarrow> int r + 1 < y - 20))"
proof -
  have xy: "106 \<le> x" "29 \<le> y"
    using assms(1) by (auto simp: size_check_def terminalMinX_def terminalMinY_def split: if_splits)
  from new_dashboard_Done [OF assms(2)] have run: "newDashboardScreen y u0 = Done u"
    and d: "d = \<lparr>dsOnChainBalHeight = 4, dsOnChainBalWidth = 85, dsTimeWidth = 18, dsTableHeight = y - 16, dsCommandHeight = 4\<rparr>"
    by simp_all
  from newDashboardScreen_Done [OF run assms(3)] xy have inv: "system_inv (y - 19) (u, [])" by simp
  then have t: "ttLast t = y - 19" "int (length (ttRows t)) = y - 16"
    using assms(4) by (auto simp: system_inv_def tui_inv_def table_ok_def)
  from ts_steps_inv [OF assms(5) inv] have "tui_inv (y - 19) u1" by (simp add: system_inv_def)
  then have ch: "\<forall>r < length (tuChans u1). tcRow (tuChans u1 ! r) = r + 3" "int (length (tuChans u1)) + 1 \<le> y - 19"
    by (auto simp: tui_inv_def chans_ok_def table_ok_def)
  obtain es where es: "dashboard_layout name t d = Done es" "map height es = [4, y - 16, 4, 8]"
    "concat (map shown_rows es) = [0..<nat (y - 18)]" "layout_fits x y es"
    by (rule dashboard_layout_Done [of t name d x y]) (use t xy that in \<open>auto simp: d\<close>)
  have "sum_list (map height es) = y" by (simp add: es(2))
  with es ch show ?thesis by (intro exI [of _ es]) auto
qed

definition sim_termdash :: termdash where
  "sim_termdash = \<lparr>tdText = None, tdTextInput = \<lambda>w. None, tdButton = \<lambda>w. None, tdBuild = \<lambda>es. None, tdUpdate = \<lambda>es. None,
     tdTcell = None, tdContainer = None, tdController = None\<rparr>"

theorem dashboard_shows_channels_witness:
  "\<exists>(u :: nat tui) u1 t es. new_dashboard sim_termdash 29 sim_tui0 = Done (Inr \<lparr>dsOnChainBalHeight = 4, dsOnChainBalWidth = 85,
       dsTimeWidth = 18, dsTableHeight = 13, dsCommandHeight = 4\<rparr>, u) \<and> tuTable u = Some t
     \<and> openCmd_begin [''bob'', ''1'', ''2''] u = Done (Inr 0, u1) \<and> dashboard_layout ''Alice'' t \<lparr>dsOnChainBalHeight = 4,
       dsOnChainBalWidth = 85, dsTimeWidth = 18, dsTableHeight = 13, dsCommandHeight = 4\<rparr> = Done es
     \<and> layout_fits 106 29 es \<and> tcRow (tuChans u1 ! 0) \<in> set (concat (map shown_rows es))"
proof -
  obtain u where u: "newDashboardScreen 29 sim_tui0 = Done u" "tuChans u = []" using sim_dashboard by blast
  have d: "new_dashboard sim_termdash 29 sim_tui0 = Done (Inr \<lparr>dsOnChainBalHeight = 4, dsOnChainBalWidth = 85,
       dsTimeWidth = 18, dsTableHeight = 13, dsCommandHeight = 4\<rparr>, u)"
    by (simp add: new_dashboard_def u(1) made_def sim_termdash_def tableWidth_def logsHeight_def)
  have ch: "tuChans sim_tui0 = []" by (simp add: sim_tui0_def start_tui_def)
  obtain t where t: "tuTable u = Some t" using newDashboardScreen_Done [OF u(1) ch] by auto
  obtain u1 where u1: "openCmd_begin [''bob'', ''1'', ''2''] u = Done (Inr 0, u1)" "length (tuChans u1) = 1"
    using sim_open [OF u(1)] by blast
  have size: "\<exists>p'. size_check 106 29 start_process = (True, p')" by (simp add: size_check_def terminalMinX_def terminalMinY_def)
  have "ts_step sim_currency (\<lambda>t. []) (u, []) (u1, [ProposeCall 0])"
    using ts_step.open_cmd [OF u1(1), of sim_currency "\<lambda>t. []" "[]"] by simp
  then have steps: "(ts_step sim_currency (\<lambda>t. []))\<^sup>*\<^sup>* (u, []) (u1, [ProposeCall 0])" by (rule r_into_rtranclp)
  from size obtain p' where p': "size_check 106 29 start_process = (True, p')" by blast
  from dashboard_shows_channels [OF p' d ch t steps, of "''Alice''"] d t u1 show ?thesis by auto
qed

text \<open>
  The form of the connect screen asks for 19 rows, of which the padding above and below leaves 17 or
  18, on every terminal of an accepted size: the room is computed with one row between the
  fields and the buttons, the layout is made with three.
\<close>

lemma connect_form_short:
  assumes "newConnectScreen T role = Inr s" and "29 \<le> y"
  shows "\<exists>os cos fields logs. connect_layout x y s = [Row (y - 8) os [Column 65 cos fields], logs]
    \<and> sum_list (map height fields) = 19 \<and> inner_height (inner_height (y - 8) os) cos = 17 + (y - 25) mod 2
    \<and> \<not> layout_fits x y (connect_layout x y s)"
proof -
  from assms(1) have s: "csWidth s = 65" "csElementHeight s = 3" "csButtonHeight s = 1" "csCntFields s = 5"
    by (auto simp: newConnectScreen_def made_def Let_def split: sum.splits)
  have "(y - 25) sdiv 2 = (y - 25) div 2" using assms(2) by (simp add: signed_divide_int_def sgn_if)
  moreover have "y - 8 - (2 * ((y - 25) div 2)) = 17 + (y - 25) mod 2" by (simp add: minus_mod_eq_mult_div [symmetric])
  ultimately show ?thesis
    by (auto simp: connect_layout_def s Let_def logsHeight_def inner_height_def verticalMiddle_def layout_fits_def)
qed

subsection \<open>The dummy dashboard\<close>

text \<open>A client with \<open>k\<close> channels and room for \<open>n\<close> more.\<close>

definition room :: "nat \<Rightarrow> nat \<Rightarrow> 'k tui \<Rightarrow> bool" where
  "room k n u \<longleftrightarrow> length (tuChans u) = k \<and> (\<exists>t. tuTable u = Some t \<and> ttOffset t = 3 \<and> ttCurrent t = int k + 1
     \<and> ttCurrent t + int n \<le> ttLast t \<and> int (length (ttRows t)) = ttLast t + 3)"

lemma dummy_channel_room: "room k (Suc n) u \<Longrightarrow> \<exists>u'. dummy_channel clock i f u = Done (k, u') \<and> room (Suc k) n u'"
  by (auto simp: room_def dummy_channel_def newIncomingChannel_def deref_def getRow_def int_at_def idx_at_def Let_def nat_less_iff)

lemma change_at_room: "room k n u \<Longrightarrow> p < k \<Longrightarrow> \<exists>u'. change_at p f u = Done u' \<and> room k n u'"
  by (auto simp: room_def change_at_def idx_at_def)

lemma refresh_at_room: "room k n u \<Longrightarrow> p < k \<Longrightarrow> \<exists>u'. refresh_at p u = Done u' \<and> room k n u'"
  by (auto simp: room_def refresh_at_def refreshEntry_def deref_def idx_at_def Let_def)

lemma andThen_room:
  assumes "\<exists>u'. m = Done u' \<and> room k n u'" and "\<And>u'. room k n u' \<Longrightarrow> \<exists>u''. g u' = Done u'' \<and> room k n u''"
  shows "\<exists>u''. andThen m g = Done u'' \<and> room k n u''"
  using assms by auto

lemma andThen_new_channel:
  assumes "room k (Suc n) u" and "\<And>u'. room (Suc k) n u' \<Longrightarrow> \<exists>u''. g k u' = Done u'' \<and> room k' n' u''"
  shows "\<exists>u''. andThen (dummy_channel clock i f u) (\<lambda>(p, u). g p u) = Done u'' \<and> room k' n' u''"
  using dummy_channel_room [OF assms(1), of clock i f] assms(2) by auto

lemma dummy_channels_return:
  assumes "room 0 6 u"
  shows "\<exists>u'. dummy_channels clock u = Done u' \<and> room 6 0 u'"
proof -
  have n: "(6 :: nat) = Suc (Suc (Suc (Suc (Suc (Suc 0)))))" by simp
  show ?thesis
    unfolding dummy_channels_def Let_def n
    by (insert assms [unfolded n], (rule andThen_new_channel, assumption)+,
        (rule andThen_room, (rule change_at_room refresh_at_room, assumption, simp))+, rule refresh_at_room, assumption, simp)
qed

text \<open>On a terminal of an accepted size the dummy dashboard is shown, with its six channels, if the library has no errors.\<close>

lemma renderDummyDashboard_returns:
  assumes "ParseAddr L (defaultOnChainAddrs alice_role) = Inr addr" and "29 \<le> y" and "tuChans u0 = []"
    and "tdText T = None" and "tdTextInput T = (\<lambda>w. None)" and "tdBuild T = (\<lambda>es. None)" and "tdUpdate T = (\<lambda>es. None)"
  shows "\<exists>u. renderDummyDashboard T L y name clock u0 = Done u \<and> length (tuChans u) = 6"
proof -
  have "\<exists>u. newDashboardScreen y u0 = Done u"
    using assms(2) by (simp add: newDashboardScreen_def newTable_def newRegistry_tui_def make_slice_def put_at_def nat_less_iff Let_def)
  then obtain u where u: "newDashboardScreen y u0 = Done u" by blast
  obtain d where d: "new_dashboard T y u0 = Done (Inr d, u)"
    using u assms(4,5) by (simp add: new_dashboard_def made_def)
  have inv: "tui_inv (y - 19) u" and none: "tuChans u = []"
    using newDashboardScreen_Done [OF u assms(3)] assms(2) by (auto simp: system_inv_def)
  then obtain t where t: "tuTable u = Some t" "ttLast t = y - 19" "ttOffset t = 3" "ttCurrent t = 1"
    "int (length (ttRows t)) = y - 16"
    by (auto simp: tui_inv_def table_ok_def)
  obtain es where "dashboard_layout name t d = Done es"
    by (rule dashboard_layout_Done [of t name d 0 0]) (use t assms(2) that in auto)
  then have r: "renderDashboardView T name d u = Done None"
    using t assms(6,7) by (simp add: renderDashboardView_def deref_def show_layout_def)
  have "room 0 6 u" using t none assms(2) by (simp add: room_def)
  from dummy_channels_return [OF this, of clock] obtain u' where "dummy_channels clock u = Done u'" "room 6 0 u'" by blast
  with d r assms(1) show ?thesis by (auto simp: renderDummyDashboard_def room_def)
qed

end
