(* ===== verification/Artifacts_Props.thy ===== *)
theory Artifacts_Props
  imports Artifacts_Laws
begin

text \<open>The properties of the generation of artifacts.\<close>

subsection \<open>A session configuration\<close>

lemma two_accounts: "length xs = 2 \<Longrightarrow> xs ! 0 \<in> set xs \<and> xs ! Suc 0 \<in> set xs"
  by simp

lemma newUserConfig_Inr:
  assumes "newUserConfig G L X r 0 f = Done (Inr ((ws, u), r'), f')"
  shows "grows X {wsKeystorePath ws} f f' \<and> temp_path X (wsKeystorePath ws)
    \<and> fsTree f' (wsKeystorePath ws) = Some Directory
    \<and> wcKeystorePath (ucOnChainWallet u) = wsKeystorePath ws
    \<and> (\<exists>a b. ucOnChainAddr u = alString L a \<and> ucOffChainAddr u = alString L b
         \<and> has_key G f' (wsKeystorePath ws) a \<and> has_key G f' (wsKeystorePath ws) b)"
proof -
  from assms obtain n where ws: "NewWalletSetup G X r 2 f = Done (Inr (ws, r'), f')"
    and u: "wcKeystorePath (ucOnChainWallet u) = wsKeystorePath ws"
      "ucOnChainAddr u = alString L (wsAccs ws ! 0)" "ucOffChainAddr u = alString L (wsAccs ws ! Suc 0)"
    unfolding newUserConfig_def
    by (elim bindR_InrE) (auto simp: run_simps wrapR_Inr split: sum.split_asm prod.split_asm)
  from NewWalletSetup_Inr [OF ws] show ?thesis
    using two_accounts [of "wsAccs ws"] u by blast
qed

text \<open>What a session configuration made by \<open>NewConfig\<close> refers to.\<close>

definition backed :: "'r gen_lib \<Rightarrow> addr_lib \<Rightarrow> os \<Rightarrow> files \<Rightarrow> session_config \<Rightarrow> bool" where
  "backed G L X f cfg \<longleftrightarrow>
     (let u = scUser cfg; ks = wcKeystorePath (ucOnChainWallet u); db = scDatabaseDir cfg
      in temp_path X ks \<and> temp_path X db \<and> ks \<noteq> db \<and> fsTree f ks = Some Directory \<and> fsTree f db = Some Directory
       \<and> (\<exists>a b. ucOnChainAddr u = alString L a \<and> ucOffChainAddr u = alString L b \<and> has_key G f ks a \<and> has_key G f ks b))"

lemma has_key_keep:
  assumes "has_key G f ks a" and "grows X D f g" and "temp_path X ks" and "fsTree f ks \<noteq> None"
  shows "has_key G g ks a"
  using assms(1) grows_keep [OF assms(2,3,4), of "path_join ks n" for n]
  by (auto simp: has_key_def)

lemma backed_keep:
  assumes "backed G L X f cfg" and "grows X D f g"
  shows "backed G L X g cfg"
proof -
  let ?ks = "wcKeystorePath (ucOnChainWallet (scUser cfg))" and ?db = "scDatabaseDir cfg"
  from assms(1) have t: "temp_path X ?ks" "fsTree f ?ks = Some Directory" "temp_path X ?db" "fsTree f ?db = Some Directory"
    by (auto simp: backed_def Let_def)
  then have "fsTree g ?ks = Some Directory" "fsTree g ?db = Some Directory"
    using grows_keep [OF assms(2), of ?ks ?ks] grows_keep [OF assms(2), of ?db ?db] by simp_all
  with assms(1) t has_key_keep [OF _ assms(2), of G ?ks] show ?thesis
    by (fastforce simp: backed_def Let_def)
qed

lemma session_NewConfig_Inr:
  assumes "session_NewConfig G L X r [] f = Done (Inr (cfg, r'), f')"
  shows "(\<exists>D. grows X D f f' \<and> wcKeystorePath (ucOnChainWallet (scUser cfg)) \<in> D \<and> scDatabaseDir cfg \<in> D)
    \<and> backed G L X f' cfg"
proof -
  from assms obtain ws f1 c f2 f3 where
    u: "newUserConfig G L X r 0 f = Done (Inr ((ws, scUser cfg), r'), f1)"
    and c: "ContractAddrs G X f1 = Done (c, f2)"
    and db: "TempDir X [] f2 = (Inr (scDatabaseDir cfg), f3)"
    and ip: "NewIDProvider G X [] f3 = Done (Inr (scIDProviderURL cfg), f')"
    by (auto simp: session_NewConfig_def newDatabaseDir_def bindR_Inr run_simps wrapR_Inr)
  let ?ks = "wsKeystorePath ws" and ?db = "scDatabaseDir cfg"
  from newUserConfig_Inr [OF u] have ks: "grows X {?ks} f f1" "temp_path X ?ks" "fsTree f1 ?ks = Some Directory"
    "wcKeystorePath (ucOnChainWallet (scUser cfg)) = ?ks" by simp_all
  from ContractAddrs_Done [OF c] obtain D where D: "grows X D f1 f2" by blast
  have g3: "grows X {?db} f2 f3" "fsTree f3 ?db = Some Directory" "temp_path X ?db"
    using temp_loop_grows [OF db [unfolded TempDir_def]] by simp_all
  have f2: "fsTree f2 ?ks = Some Directory"
    using grows_keep [OF D ks(2), of ?ks] ks(3) by simp
  have ne: "?ks \<noteq> ?db" using g3(1) f2 by (auto simp: grows_def)
  note g = grows_trans [OF grows_trans [OF grows_trans [OF ks(1) D] g3(1)] NewIDProvider_grows [OF ip]]
  note k = grows_trans [OF grows_trans [OF D g3(1)] NewIDProvider_grows [OF ip]]
  have "fsTree f' ?ks = Some Directory"
    using grows_keep [OF k ks(2), of ?ks] ks(3) by simp
  moreover have "fsTree f' ?db = Some Directory"
    using grows_keep [OF NewIDProvider_grows [OF ip] g3(3), of ?db] g3(2) by simp
  moreover have "has_key G f1 ?ks a \<Longrightarrow> has_key G f' ?ks a" for a
    using has_key_keep [OF _ k ks(2)] ks(3) by simp
  ultimately have "backed G L X f' cfg"
    using newUserConfig_Inr [OF u] g3(3) ne by (fastforce simp: backed_def Let_def)
  with g ks(4) show ?thesis by blast
qed

subsection \<open>Moving files\<close>

definition moves_apart :: "(string \<times> string) list \<Rightarrow> bool" where
  "moves_apart ps \<longleftrightarrow> distinct ps \<and> (\<forall>x\<in>set ps. \<forall>y\<in>set ps. apart (fst x) (snd y)
     \<and> (x \<noteq> y \<longrightarrow> apart (fst x) (fst y) \<and> apart (snd x) (snd y)))"

lemma moves_apart_Cons: "moves_apart (p # ps) \<Longrightarrow> moves_apart ps"
  by (simp add: moves_apart_def)

lemma rename_all_ok:
  assumes "rename_all X ps f = ([], f')" and "moves_apart ps"
  shows "(\<forall>sd\<in>set ps. \<forall>r. below (snd sd) (snd sd @ r) \<longrightarrow> fsTree f' (snd sd @ r) = fsTree f (fst sd @ r))
    \<and> (\<forall>p. (\<forall>sd\<in>set ps. \<not> below (fst sd) p \<and> \<not> below (snd sd) p) \<longrightarrow> fsTree f' p = fsTree f p)"
  using assms
proof (induction ps arbitrary: f)
  case (Cons sd ps)
  obtain s d where sd: "sd = (s, d)" by (cases sd)
  from Cons.prems(1) obtain f1 where f1: "os_Rename X s d f = (Inr (), f1)" and rest: "rename_all X ps f1 = ([], f')"
    by (auto simp: sd split: prod.split_asm sum.split_asm)
  from f1 have t1: "fsTree f1 = rename_tree s d (fsTree f)"
    by (auto simp: os_Rename_def Let_def sys_Inr)
  note IH = Cons.IH [OF rest moves_apart_Cons [OF Cons.prems(2)]]
  have sep: "apart s (snd x) \<and> apart d (snd x) \<and> apart s (fst x) \<and> apart d (fst x)" if "x \<in> set ps" for x
    using that Cons.prems(2) apart_sym by (fastforce simp: moves_apart_def sd)
  have "fsTree f' (d @ r) = fsTree f (s @ r)" if "below d (d @ r)" for r
  proof -
    have "\<not> below (fst x) (d @ r) \<and> \<not> below (snd x) (d @ r)" if "x \<in> set ps" for x
      using sep [OF that] below_comparable [OF \<open>below d (d @ r)\<close>] by (auto simp: apart_def)
    with IH have "fsTree f' (d @ r) = fsTree f1 (d @ r)" by blast
    with that show ?thesis by (simp add: t1)
  qed
  moreover have "fsTree f' (snd x @ r) = fsTree f (fst x @ r)" if "x \<in> set ps" "below (snd x) (snd x @ r)" for x r
  proof -
    have b: "below (fst x) (fst x @ r)"
      using below_append [OF that(2), of "fst x"] by simp
    from IH that have "fsTree f' (snd x @ r) = fsTree f1 (fst x @ r)" by blast
    also have "\<dots> = fsTree f (fst x @ r)"
      unfolding t1 using sep [OF that(1)] b apart_below [OF _ below_refl b] by (intro rename_tree_apart) blast+
    finally show ?thesis .
  qed
  moreover have "fsTree f' p = fsTree f p" if "\<forall>x\<in>set (sd # ps). \<not> below (fst x) p \<and> \<not> below (snd x) p" for p
  proof -
    from that IH have "fsTree f' p = fsTree f1 p" by auto
    with that show ?thesis by (simp add: t1 rename_tree_def sd)
  qed
  ultimately show ?case by (auto simp: sd)
qed simp

lemma moves_apart_mset: "mset ps = mset qs \<Longrightarrow> moves_apart ps \<longleftrightarrow> moves_apart qs"
  by (metis moves_apart_def mset_eq_imp_distinct_iff mset_eq_setD)

lemma foldl_update_fresh:
  "distinct (map fst (m @ ps)) \<Longrightarrow> foldl (\<lambda>m (s, d). AList.update s d m) m ps = m @ ps"
proof (induction ps arbitrary: m)
  case (Cons p ps)
  obtain s d where p: "p = (s, d)" by (cases p)
  with Cons.prems have "s \<notin> fst ` set m" by auto
  then have "AList.update s d m = m @ [(s, d)]" by (induction m) auto
  with Cons p show ?case by simp
qed simp

subsection \<open>The artifacts of two users\<close>

lemma isAnyDirPresent_tree: "isAnyDirPresent X ds f = (r, f') \<Longrightarrow> fsTree f' = fsTree f"
  by (induction ds arbitrary: f) (auto simp: os_exists_def split: bool.split_asm prod.split_asm)

lemma makeDirs_Inr: "makeDirs X ds f = (Inr u, f') \<Longrightarrow> fsTree f' = (\<lambda>p. if p \<in> set ds then Some Directory else fsTree f p)"
  by (induction ds arbitrary: f)
     (auto simp: os_Mkdir_def sys_Inr fun_eq_iff split: sum.split_asm prod.split_asm)

lemma moveFiles_Inr: "moveFiles X ps f = (Inr u, f') \<longleftrightarrow> rename_all X ps f = ([], f')"
  by (cases "rename_all X ps f") (auto simp: moveFiles_def)

lemma generateSessionConfig_Inr:
  assumes "generateSessionConfig G L X order f = Done (Inr u, f')"
  obtains fm ac r fa bc r' fb ai fc bi fd acf fe bcf fg where
    "fsTree fm = (\<lambda>p. if p \<in> {''alice'', ''bob''} then Some Directory else fsTree f p)"
    and "session_NewConfig G L X (glRand G RandSeedForTestAccs) [] fm = Done (Inr (ac, r), fa)"
    and "session_NewConfig G L X r [] fa = Done (Inr (bc, r'), fb)"
    and "NewIDProvider G X [peerID (scUser (with_alias ''bob'' bc))] fb = Done (Inr ai, fc)"
    and "NewIDProvider G X [peerID (scUser (with_alias ''alice'' ac))] fc = Done (Inr bi, fd)"
    and "NewConfigFile X (glEncodeSession G (updatedConfigCopy (with_alias ''alice'' ac))) fd = Done (Inr acf, fe)"
    and "NewConfigFile X (glEncodeSession G (updatedConfigCopy (with_alias ''bob'' bc))) fe = Done (Inr bcf, fg)"
    and "rename_all X (order (files_to_move ((acf, with_alias ''alice'' ac), ai) ((bcf, with_alias ''bob'' bc), bi))) fg = ([], f')"
proof -
  from assms obtain d f0 where f0: "isAnyDirPresent X [aliceAlias, bobAlias] f = ((False, d), f0)"
    by (auto simp: generateSessionConfig_def split: prod.split_asm bool.split_asm)
  with assms obtain fm ac r fa bc r' fb ai fc bi fd acf fe bcf fg where
    fm: "makeDirs X [aliceAlias, bobAlias] f0 = (Inr (), fm)"
    and steps: "session_NewConfig G L X (glRand G RandSeedForTestAccs) [] fm = Done (Inr (ac, r), fa)"
    "session_NewConfig G L X r [] fa = Done (Inr (bc, r'), fb)"
    "NewIDProvider G X [peerID (scUser (with_alias ''bob'' bc))] fb = Done (Inr ai, fc)"
    "NewIDProvider G X [peerID (scUser (with_alias ''alice'' ac))] fc = Done (Inr bi, fd)"
    "NewConfigFile X (glEncodeSession G (updatedConfigCopy (with_alias ''alice'' ac))) fd = Done (Inr acf, fe)"
    "NewConfigFile X (glEncodeSession G (updatedConfigCopy (with_alias ''bob'' bc))) fe = Done (Inr bcf, fg)"
    "moveFiles X (order (files_to_move ((acf, with_alias ''alice'' ac), ai) ((bcf, with_alias ''bob'' bc), bi))) fg = (Inr (), f')"
    by (auto simp: generateSessionConfig_def Let_def aliceAlias_def bobAlias_def elim!: bindR_InrE)
  have "fsTree fm = (\<lambda>p. if p \<in> {''alice'', ''bob''} then Some Directory else fsTree f p)"
    using makeDirs_Inr [OF fm] isAnyDirPresent_tree [OF f0] by (auto simp: aliceAlias_def bobAlias_def)
  from that [OF this steps(1-6)] steps(7) show ?thesis by (simp add: moveFiles_Inr)
qed

text \<open>What is found in the directory of a user.\<close>

definition user_artifacts ::
  "'r gen_lib \<Rightarrow> addr_lib \<Rightarrow> files \<Rightarrow> string \<Rightarrow> session_config \<Rightarrow> peer_id \<Rightarrow> bool" where
  "user_artifacts G L f al cfg peer \<longleftrightarrow>
     (let u = scUser cfg; ks = path_join al ''keystore''; db = path_join al ''database'';
          ip = path_join al ''idprovider.yaml''; cf = path_join al ''session.yaml''
      in ucAlias u = al \<and> scIDProviderURL cfg = ip \<and> scDatabaseDir cfg = db
       \<and> wcKeystorePath (ucOnChainWallet u) = ks \<and> wcKeystorePath (ucOffChainWallet u) = ks
       \<and> (\<exists>s. glEncodeSession G cfg = Inr s \<and> fsTree f cf = Some (File s))
       \<and> (\<exists>s. ylEncode (glPeers G) [pAlias peer \<mapsto> peer] = Inr s \<and> fsTree f ip = Some (File s))
       \<and> fsTree f db = Some Directory \<and> fsTree f ks = Some Directory
       \<and> (\<exists>a b. ucOnChainAddr u = alString L a \<and> ucOffChainAddr u = alString L b \<and> has_key G f ks a \<and> has_key G f ks b))"

text \<open>One user: the four moves of the user's artifacts.\<close>

lemma user_artifacts_moved:
  assumes "backed G L X fg cfg" and "fsTree fg cf = Some (File s)" and "fsTree fg ip = Some (File s')"
    and "glEncodeSession G (updatedConfigCopy (with_alias al cfg)) = Inr s"
    and "ylEncode (glPeers G) [pAlias peer \<mapsto> peer] = Inr s'"
    and mv: "\<And>src dest r. (src, dest) \<in> {(cf, path_join al ''session.yaml''), (ip, path_join al ''idprovider.yaml''),
       (scDatabaseDir cfg, path_join al ''database''), (wcKeystorePath (ucOnChainWallet (scUser cfg)), path_join al ''keystore'')}
       \<Longrightarrow> below dest (dest @ r) \<Longrightarrow> fsTree f' (dest @ r) = fsTree fg (src @ r)"
  shows "user_artifacts G L f' al (updatedConfigCopy (with_alias al cfg)) peer"
proof -
  let ?u = "scUser cfg" and ?ks = "path_join al ''keystore''"
  have "fsTree f' (path_join al ''session.yaml'') = Some (File s)" "fsTree f' (path_join al ''idprovider.yaml'') = Some (File s')"
    "fsTree f' (path_join al ''database'') = Some Directory" "fsTree f' ?ks = Some Directory"
    using mv [of cf _ "[]"] mv [of ip _ "[]"] mv [of "scDatabaseDir cfg" _ "[]"]
      mv [of "wcKeystorePath (ucOnChainWallet ?u)" _ "[]"] assms(1-3)
    by (simp_all add: backed_def Let_def)
  moreover have key: "has_key G f' ?ks a" if "has_key G fg (wcKeystorePath (ucOnChainWallet ?u)) a" for a
  proof -
    have "fsTree f' (path_join ?ks n) = fsTree fg (path_join (wcKeystorePath (ucOnChainWallet ?u)) n)" for n
      using mv [of "wcKeystorePath (ucOnChainWallet ?u)" ?ks "slash @ n"] below_join [of ?ks n] by (simp add: path_join_def)
    with that show ?thesis by (simp add: has_key_def)
  qed
  ultimately show ?thesis
    using assms(1,4,5)
    by (auto simp: user_artifacts_def Let_def updatedConfigCopy_def with_alias_def idProviderFile_def databaseDir_def
        keystoreDir_def backed_def)
qed

lemma moves_apart_temps:
  assumes "distinct (map fst ps)" and "\<And>s d. (s, d) \<in> set ps \<Longrightarrow> temp_path X s \<and> \<not> prefix slash d \<and> d \<noteq> []"
    and "prefix slash (osTempDir X)" and "distinct (map snd ps)"
    and "\<And>d e. d \<in> set (map snd ps) \<Longrightarrow> e \<in> set (map snd ps) \<Longrightarrow> d \<noteq> e \<Longrightarrow> apart d e"
  shows "moves_apart ps"
proof -
  have "apart (fst x) (snd y)" if "x \<in> set ps" "y \<in> set ps" for x y
  proof (rule local_apart)
    show "prefix slash (fst x)"
      using assms(2) [of "fst x" "snd x"] that assms(3) temp_absolute by simp
    show "\<not> prefix slash (snd y)" "snd y \<noteq> []"
      using assms(2) [of "fst y" "snd y"] that by simp_all
  qed
  moreover have "apart (fst x) (fst y)" "apart (snd x) (snd y)" if "x \<in> set ps" "y \<in> set ps" "x \<noteq> y" for x y
  proof -
    have "fst x \<noteq> fst y" "snd x \<noteq> snd y"
      using that assms(1,4) by (auto simp: distinct_map dest: inj_onD)
    then show "apart (fst x) (fst y)" "apart (snd x) (snd y)"
      using assms(2) [of "fst x" "snd x"] assms(2) [of "fst y" "snd y"] assms(5) [of "snd x" "snd y"] that
        temp_apart [of X "fst x" "fst y"] by auto
  qed
  moreover have "distinct ps" using assms(1) by (simp add: distinct_map)
  ultimately show ?thesis by (simp add: moves_apart_def)
qed

definition artifact_dests :: "string list" where
  "artifact_dests = [''alice/session.yaml'', ''alice/idprovider.yaml'', ''alice/database'', ''alice/keystore'',
     ''bob/session.yaml'', ''bob/database'', ''bob/idprovider.yaml'', ''bob/keystore'']"

lemma artifact_dests_apart:
  "d \<in> set artifact_dests \<Longrightarrow> e \<in> set artifact_dests \<Longrightarrow> d \<noteq> e \<Longrightarrow> apart d e"
  by (simp add: artifact_dests_def) (elim disjE; simp add: apart_def below_def slash_def)

lemma artifact_dests_local: "d \<in> set artifact_dests \<Longrightarrow> \<not> prefix slash d \<and> d \<noteq> []"
  by (auto simp: artifact_dests_def slash_def)

text \<open>The temporary paths made so far: each was new when it was made.\<close>

definition temps_in :: "os \<Rightarrow> files \<Rightarrow> string list \<Rightarrow> bool" where
  "temps_in X f xs \<longleftrightarrow> distinct xs \<and> (\<forall>x\<in>set xs. temp_path X x \<and> fsTree f x \<noteq> None)"

lemma temps_add:
  assumes "temps_in X f xs" and "grows X D f g" and "distinct ys" and "set ys \<subseteq> D"
    and "\<And>y. y \<in> set ys \<Longrightarrow> fsTree g y \<noteq> None"
  shows "temps_in X g (ys @ xs)"
proof -
  have "fsTree g x \<noteq> None" if "x \<in> set xs" for x
    using that assms(1) grows_keep [OF assms(2), of x x] by (auto simp: temps_in_def)
  moreover have "y \<notin> set xs" if "y \<in> set ys" for y
  proof -
    from that assms(2,4) have "fsTree f y = None" by (auto simp: grows_def)
    with assms(1) show ?thesis by (auto simp: temps_in_def)
  qed
  moreover have "temp_path X y" if "y \<in> set ys" for y
    using that assms(2,4) by (auto simp: grows_def)
  ultimately show ?thesis using assms(1,3,5) by (auto simp: temps_in_def)
qed

lemma temps_add1: "temps_in X f xs \<Longrightarrow> grows X {y} f g \<Longrightarrow> fsTree g y \<noteq> None \<Longrightarrow> temps_in X g (y # xs)"
  using temps_add [of X f xs "{y}" g "[y]"] by simp

lemma temps_backed:
  assumes "temps_in X f xs" and "session_NewConfig G L X r [] f = Done (Inr (cfg, r'), f')"
  shows "temps_in X f' (scDatabaseDir cfg # wcKeystorePath (ucOnChainWallet (scUser cfg)) # xs)"
proof -
  from session_NewConfig_Inr [OF assms(2)] obtain D where D: "grows X D f f'"
    "wcKeystorePath (ucOnChainWallet (scUser cfg)) \<in> D" "scDatabaseDir cfg \<in> D" and b: "backed G L X f' cfg"
    by blast
  have "temps_in X f' ([scDatabaseDir cfg, wcKeystorePath (ucOnChainWallet (scUser cfg))] @ xs)"
    by (rule temps_add [OF assms(1) D(1)]) (use D b in \<open>auto simp: backed_def Let_def\<close>)
  then show ?thesis by simp
qed

lemma grows_some_keep: "grows X D f g \<Longrightarrow> temp_path X p \<Longrightarrow> fsTree f p = Some n \<Longrightarrow> fsTree g p = Some n"
  using grows_keep [of X D f g p p] by simp

text \<open>What has been made before the files are moved.\<close>

lemma generated_unmoved:
  assumes a: "session_NewConfig G L X r0 [] fm = Done (Inr (ac, r), fa)"
    and b: "session_NewConfig G L X r [] fa = Done (Inr (bc, r'), fb)"
    and ai: "NewIDProvider G X [pb] fb = Done (Inr ai, fc)"
    and bi: "NewIDProvider G X [pa] fc = Done (Inr bi, fd)"
    and acf: "NewConfigFile X ea fd = Done (Inr acf, fe)"
    and bcf: "NewConfigFile X eb fe = Done (Inr bcf, fg)"
  shows "backed G L X fg ac" and "backed G L X fg bc"
    and "\<exists>s. ylEncode (glPeers G) [pAlias pb \<mapsto> pb] = Inr s \<and> fsTree fg ai = Some (File s)"
    and "\<exists>s. ylEncode (glPeers G) [pAlias pa \<mapsto> pa] = Inr s \<and> fsTree fg bi = Some (File s)"
    and "\<exists>s. ea = Inr s \<and> fsTree fg acf = Some (File s)" and "\<exists>s. eb = Inr s \<and> fsTree fg bcf = Some (File s)"
    and "temps_in X fg [bcf, acf, bi, ai, scDatabaseDir bc, wcKeystorePath (ucOnChainWallet (scUser bc)),
           scDatabaseDir ac, wcKeystorePath (ucOnChainWallet (scUser ac))]"
    and "\<exists>D. grows X D fm fg"
proof -
  note g1 = NewIDProvider_Inr [OF ai] and g2 = NewIDProvider_Inr [OF bi]
    and g3 = NewConfigFile_Inr [OF acf] and g4 = NewConfigFile_Inr [OF bcf]
  note g34 = grows_trans [OF conjunct1 [OF g3] conjunct1 [OF g4]]
  note g234 = grows_trans [OF conjunct1 [OF g2] g34]
  note g = grows_trans [OF conjunct1 [OF g1] g234]
  obtain D E where D: "grows X D fm fa" and E: "grows X E fa fb" and bA: "backed G L X fa ac" and bB: "backed G L X fb bc"
    using session_NewConfig_Inr [OF a] session_NewConfig_Inr [OF b] by blast
  show "backed G L X fg ac" "backed G L X fg bc"
    using backed_keep [OF backed_keep [OF bA E] g] backed_keep [OF bB g] by simp_all
  show "\<exists>s. ylEncode (glPeers G) [pAlias pb \<mapsto> pb] = Inr s \<and> fsTree fg ai = Some (File s)"
    using g1 grows_some_keep [OF g234, of ai] by blast
  show "\<exists>s. ylEncode (glPeers G) [pAlias pa \<mapsto> pa] = Inr s \<and> fsTree fg bi = Some (File s)"
    using g2 grows_some_keep [OF g34, of bi] by blast
  show "\<exists>s. ea = Inr s \<and> fsTree fg acf = Some (File s)" "\<exists>s. eb = Inr s \<and> fsTree fg bcf = Some (File s)"
    using g3 g4 grows_some_keep [OF conjunct1 [OF g4], of acf] by blast+
  have "temps_in X fm []" by (simp add: temps_in_def)
  then have "temps_in X fb [scDatabaseDir bc, wcKeystorePath (ucOnChainWallet (scUser bc)),
      scDatabaseDir ac, wcKeystorePath (ucOnChainWallet (scUser ac))]"
    by (intro temps_backed [OF _ b] temps_backed [OF _ a])
  from temps_add1 [OF temps_add1 [OF temps_add1 [OF temps_add1 [OF this]]]] g1 g2 g3 g4
  show "temps_in X fg [bcf, acf, bi, ai, scDatabaseDir bc, wcKeystorePath (ucOnChainWallet (scUser bc)),
      scDatabaseDir ac, wcKeystorePath (ucOnChainWallet (scUser ac))]" by fastforce
  show "\<exists>D. grows X D fm fg"
    using grows_trans [OF grows_trans [OF D E] g] by blast
qed

lemma below_slash: "prefix slash s \<Longrightarrow> below s p \<Longrightarrow> prefix slash p"
  by (auto simp: below_def prefix_def)

text \<open>The moves, from temporary paths to the paths of the artifacts.\<close>

lemma temps_moves_apart:
  assumes "temps_in X f srcs" and "prefix slash (osTempDir X)" and "length srcs = length artifact_dests"
  shows "moves_apart (zip srcs artifact_dests)"
proof (rule moves_apart_temps [where X = X])
  have temps: "temp_path X s" if "s \<in> set srcs" for s
    using that assms(1) by (simp add: temps_in_def)
  show "temp_path X s \<and> \<not> prefix slash d \<and> d \<noteq> []" if "(s, d) \<in> set (zip srcs artifact_dests)" for s d
    using set_zip_leftD [OF that] set_zip_rightD [OF that] temps artifact_dests_local by blast
  show "apart d e" if "d \<in> set (map snd (zip srcs artifact_dests))" "e \<in> set (map snd (zip srcs artifact_dests))" "d \<noteq> e" for d e
    using that artifact_dests_apart assms(3) by simp
  show "distinct (map snd (zip srcs artifact_dests))" using assms(3) by (simp add: artifact_dests_def)
  show "distinct (map fst (zip srcs artifact_dests))" using assms(1,3) by (simp add: temps_in_def)
qed (fact assms(2))

lemma temps_moved:
  assumes "rename_all X ps f = ([], f')" and "temps_in X f srcs" and "prefix slash (osTempDir X)"
    and "length srcs = length artifact_dests" and "mset ps = mset (zip srcs artifact_dests)"
  shows "\<And>s d r. (s, d) \<in> set (zip srcs artifact_dests) \<Longrightarrow> below d (d @ r) \<Longrightarrow> fsTree f' (d @ r) = fsTree f (s @ r)"
    and "\<And>p. \<not> prefix slash p \<Longrightarrow> \<not> below ''alice'' p \<Longrightarrow> \<not> below ''bob'' p \<Longrightarrow> fsTree f' p = fsTree f p"
proof -
  let ?ps = "zip srcs artifact_dests"
  have temps: "temp_path X s" if "s \<in> set srcs" for s
    using that assms(2) by (simp add: temps_in_def)
  have "moves_apart ps"
    using moves_apart_mset [OF assms(5)] temps_moves_apart [OF assms(2,3,4)] by simp
  note r = rename_all_ok [OF assms(1) this, unfolded mset_eq_setD [OF assms(5)]]
  show "fsTree f' (d @ r) = fsTree f (s @ r)" if "(s, d) \<in> set ?ps" "below d (d @ r)" for s d r
    using bspec [OF conjunct1 [OF r] that(1)] that(2) by simp
  show "fsTree f' p = fsTree f p" if p: "\<not> prefix slash p" "\<not> below ''alice'' p" "\<not> below ''bob'' p" for p
  proof -
    have "\<not> below (fst sd) p \<and> \<not> below (snd sd) p" if "sd \<in> set ?ps" for sd
    proof
      obtain s d where sd: "sd = (s, d)" by (cases sd)
      with that have "s \<in> set srcs" "d \<in> set artifact_dests"
        using set_zip_leftD [of s d] set_zip_rightD [of s d] by simp_all
      then have "prefix slash s" "below ''alice'' d \<or> below ''bob'' d"
        using temps temp_absolute [OF assms(3)] by (auto simp: artifact_dests_def below_def slash_def)
      with p show "\<not> below (fst sd) p" "\<not> below (snd sd) p"
        using below_trans [of _ d p] below_slash [of s p] by (auto simp: sd)
    qed
    with conjunct2 [OF r] show ?thesis by blast
  qed
qed

lemma files_to_move_distinct:
  assumes "distinct [acf, ai, scDatabaseDir ac, wcKeystorePath (ucOnChainWallet (scUser ac)), bcf, scDatabaseDir bc, bi,
      wcKeystorePath (ucOnChainWallet (scUser bc))]"
  shows "files_to_move ((acf, ac), ai) ((bcf, bc), bi)
    = zip [acf, ai, scDatabaseDir ac, wcKeystorePath (ucOnChainWallet (scUser ac)), bcf, scDatabaseDir bc, bi,
        wcKeystorePath (ucOnChainWallet (scUser bc))] artifact_dests" (is "_ = ?ps")
proof -
  have "foldl (\<lambda>m (s, d). AList.update s d m) [] ?ps = [] @ ?ps"
    by (rule foldl_update_fresh) (use assms in \<open>simp add: artifact_dests_def\<close>)
  then show ?thesis
    by (simp add: files_to_move_def artifact_dests_def path_join_def slash_def aliceAlias_def bobAlias_def
        sessionConfigFile_def idProviderFile_def databaseDir_def keystoreDir_def)
qed

lemma with_alias_sel [simp]:
  "scDatabaseDir (with_alias al cfg) = scDatabaseDir cfg"
  "ucOnChainWallet (scUser (with_alias al cfg)) = ucOnChainWallet (scUser cfg)"
  "pAlias (peerID (scUser (with_alias al cfg))) = al"
  "peerID (scUser (updatedConfigCopy cfg)) = peerID (scUser cfg)"
  by (simp_all add: with_alias_def peerID_def updatedConfigCopy_def Let_def)

text \<open>
  The artifacts that \<open>generate\<close> writes fit together. When no error is returned, the
  directory of each of the two users has a session configuration that encodes, and all it
  names is there: a keystore with the key files of the on-chain and of the off-chain account,
  the database directory, and an ID provider file that encodes exactly the other user with the
  off-chain address of the other configuration. The order in which the files are moved does not
  matter, and nothing else of the working directory is touched.
\<close>

lemma generateSessionConfig_spec:
  assumes "generateSessionConfig G L X order f = Done (Inr (), f')"
    and "prefix ''/'' (osTempDir X)" and "\<And>m. mset (order m) = mset m"
  shows "\<exists>ac bc. user_artifacts G L f' ''alice'' ac (peerID (scUser bc))
    \<and> user_artifacts G L f' ''bob'' bc (peerID (scUser ac))
    \<and> (\<forall>p. \<not> prefix ''/'' p \<longrightarrow> \<not> below ''alice'' p \<longrightarrow> \<not> below ''bob'' p \<longrightarrow> fsTree f' p = fsTree f p)"
proof -
  from assms(2) have td: "prefix slash (osTempDir X)" by (simp add: slash_def)
  from assms(1) obtain fm ac r fa bc r' fb ai fc bi fd acf fe bcf fg where
    fm: "fsTree fm = (\<lambda>p. if p \<in> {''alice'', ''bob''} then Some Directory else fsTree f p)"
    and steps: "session_NewConfig G L X (glRand G RandSeedForTestAccs) [] fm = Done (Inr (ac, r), fa)"
      "session_NewConfig G L X r [] fa = Done (Inr (bc, r'), fb)"
      "NewIDProvider G X [peerID (scUser (with_alias ''bob'' bc))] fb = Done (Inr ai, fc)"
      "NewIDProvider G X [peerID (scUser (with_alias ''alice'' ac))] fc = Done (Inr bi, fd)"
      "NewConfigFile X (glEncodeSession G (updatedConfigCopy (with_alias ''alice'' ac))) fd = Done (Inr acf, fe)"
      "NewConfigFile X (glEncodeSession G (updatedConfigCopy (with_alias ''bob'' bc))) fe = Done (Inr bcf, fg)"
    and mv: "rename_all X (order (files_to_move ((acf, with_alias ''alice'' ac), ai) ((bcf, with_alias ''bob'' bc), bi))) fg = ([], f')"
    by (rule generateSessionConfig_Inr)
  note u = generated_unmoved [OF steps, simplified]
  let ?srcs = "[acf, ai, scDatabaseDir ac, wcKeystorePath (ucOnChainWallet (scUser ac)), bcf, scDatabaseDir bc, bi,
      wcKeystorePath (ucOnChainWallet (scUser bc))]"
  have srcs: "temps_in X fg ?srcs" using u(7) by (auto simp: temps_in_def)
  then have ps: "files_to_move ((acf, with_alias ''alice'' ac), ai) ((bcf, with_alias ''bob'' bc), bi) = zip ?srcs artifact_dests"
    using files_to_move_distinct [of acf ai "with_alias ''alice'' ac" bcf "with_alias ''bob'' bc" bi]
    by (simp add: temps_in_def)
  have "length ?srcs = length artifact_dests" by (simp add: artifact_dests_def)
  note moved = temps_moved [OF mv [unfolded ps] srcs td this assms(3)]
  obtain sa sb sca scb where s: "ylEncode (glPeers G) [''bob'' \<mapsto> peerID (scUser (with_alias ''bob'' bc))] = Inr sa"
    "fsTree fg ai = Some (File sa)" "ylEncode (glPeers G) [''alice'' \<mapsto> peerID (scUser (with_alias ''alice'' ac))] = Inr sb"
    "fsTree fg bi = Some (File sb)" "glEncodeSession G (updatedConfigCopy (with_alias ''alice'' ac)) = Inr sca"
    "fsTree fg acf = Some (File sca)" "glEncodeSession G (updatedConfigCopy (with_alias ''bob'' bc)) = Inr scb"
    "fsTree fg bcf = Some (File scb)"
    using u(3,4,5,6) by blast
  have "user_artifacts G L f' ''alice'' (updatedConfigCopy (with_alias ''alice'' ac)) (peerID (scUser (with_alias ''bob'' bc)))"
    by (rule user_artifacts_moved [OF u(1) s(6,2,5)])
      (simp add: s(1), rule moved(1), auto simp: artifact_dests_def path_join_def slash_def)
  moreover have "user_artifacts G L f' ''bob'' (updatedConfigCopy (with_alias ''bob'' bc)) (peerID (scUser (with_alias ''alice'' ac)))"
    by (rule user_artifacts_moved [OF u(2) s(8,4,7)])
      (simp add: s(3), rule moved(1), auto simp: artifact_dests_def path_join_def slash_def)
  moreover have "fsTree f' p = fsTree f p" if p: "\<not> prefix ''/'' p" "\<not> below ''alice'' p" "\<not> below ''bob'' p" for p
  proof -
    from p(1) have "\<not> prefix slash p" by (simp add: slash_def)
    moreover from u(8) obtain D where "grows X D fm fg" by blast
    ultimately have "fsTree f' p = fsTree fm p"
      using moved(2) [of p] p grows_local [OF _ td, of D fm fg p] by simp
    with p show ?thesis by (auto simp: fm)
  qed
  ultimately show ?thesis by (metis with_alias_sel(4))
qed

end
