(* ===== verification/Artifacts_Run.thy ===== *)
theory Artifacts_Run
  imports Artifacts_Props
begin

text \<open>
  A run of the generation on a simulated system without faults: that it succeeds, and the
  properties applied to it.
\<close>

subsection \<open>The simulated system\<close>

text \<open>Peer IDs of the simulated users, and a library that encodes a map with at most one of them.\<close>

definition sim_peer :: "string \<Rightarrow> string \<Rightarrow> peer_id" where
  "sim_peer al addr = \<lparr>pAlias = al, pOffChainAddr = None, pOffChainAddrString = addr,
     pCommAddr = ''127.0.0.1:'' @ show_nat 5750, pCommType = ''tcp''\<rparr>"

definition sim_peer_map :: "string \<Rightarrow> (string \<rightharpoonup> peer_id) \<Rightarrow> bool" where
  "sim_peer_map al m \<longleftrightarrow> m al \<noteq> None \<and> m = [al \<mapsto> sim_peer al (pOffChainAddrString (the (m al)))]"

definition sim_peers :: yaml_peers where
  "sim_peers = \<lparr>ylEncode = (\<lambda>m. if m = Map.empty then Inr ''{}''
       else if sim_peer_map ''bob'' m then Inr (''b'' @ pOffChainAddrString (the (m ''bob'')))
       else if sim_peer_map ''alice'' m then Inr (''a'' @ pOffChainAddrString (the (m ''alice'')))
       else Inl (ENew ''not supported'')),
     ylDecode = (\<lambda>s. case s of [] \<Rightarrow> ([], Some io_EOF)
       | c # rest \<Rightarrow> if c = CHR ''b'' then ([(''bob'', sim_peer ''bob'' rest)], None)
           else if c = CHR ''a'' then ([(''alice'', sim_peer ''alice'' rest)], None) else ([], None))\<rparr>"

lemma stored_sim_peer [simp]: "stored_peer (sim_peer al addr) = sim_peer al addr"
  by (simp add: stored_peer_def sim_peer_def)

lemma sim_peer_map_stored:
  assumes "sim_peer_map al m"
  shows "map_option stored_peer \<circ> m = [al \<mapsto> sim_peer al (pOffChainAddrString (the (m al)))]"
proof -
  obtain addr where m: "m = [al \<mapsto> sim_peer al addr]" using assms by (auto simp: sim_peer_map_def)
  show ?thesis unfolding m by (auto simp: fun_eq_iff sim_peer_def stored_peer_def)
qed

lemma sim_peers_ok: "yaml_peers_ok sim_peers"
  by (auto simp: yaml_peers_ok_def sim_peers_def sim_peer_map_stored split: if_splits)

lemma sim_encode_peer:
  "al = ''bob'' \<or> al = ''alice'' \<Longrightarrow> \<exists>s. ylEncode sim_peers [al \<mapsto> sim_peer al addr] = Inr s"
  by (auto simp: sim_peers_def sim_peer_map_def sim_peer_def)

definition sim_gen :: "nat gen_lib" where
  "sim_gen = \<lparr>glRand = (\<lambda>i. 0), glAccount = (\<lambda>r. ((word_of_nat r, ''key'', ''secret''), Suc r)), glNewWallet = (\<lambda>d. None),
     glCreateAddress = (\<lambda>a n. word_of_nat n), glFreePort = (\<lambda>t. Inr 5750),
     glPeers = sim_peers,
     glEncodeNode = (\<lambda>c. Inr ''node''), glEncodeSession = (\<lambda>c. Inr ''session'')\<rparr>"

definition sim_files :: files where
  "sim_files = \<lparr>fsTree = [''/tmp'' \<mapsto> Directory], fsTime = 0\<rparr>"

text \<open>The random numbers of the simulation count up: the digits of a name tell when it was made.\<close>

definition digits :: "string \<Rightarrow> string" where
  "digits p = filter (\<lambda>c. 48 \<le> (of_char c :: nat) \<and> of_char c < (58 :: nat)) p"

lemma digits_append [simp]: "digits (p @ q) = digits p @ digits q"
  by (simp add: digits_def)

lemma digits_show_nat [simp]: "digits (show_nat n) = show_nat n"
  by (simp add: digits_def filter_id_conv show_nat_digits)

lemma digits_Cons: "digits (c # p) = (if 48 \<le> (of_char c :: nat) \<and> of_char c < (58 :: nat) then c # digits p else digits p)"
  by (simp add: digits_def)

lemma digits_Nil [simp]: "digits [] = []"
  by (simp add: digits_def)

definition named_before :: "nat \<Rightarrow> string \<Rightarrow> bool" where
  "named_before t p \<longleftrightarrow> digits p = [] \<or> (\<exists>k < t. digits p = show_nat k)"

definition young :: "files \<Rightarrow> bool" where
  "young f \<longleftrightarrow> fsTree f ''/tmp'' = Some Directory \<and> (\<forall>p. fsTree f p \<noteq> None \<longrightarrow> named_before (fsTime f) p)"

lemma named_before_mono: "named_before t p \<Longrightarrow> t \<le> t' \<Longrightarrow> named_before t' p"
  by (auto simp: named_before_def intro: order.strict_trans2)

lemma young_tick: "young f \<Longrightarrow> young (tick f)"
  by (auto simp: young_def intro: named_before_mono [OF _ le_SucI [OF order.refl]])

lemma young_set_node: "young f \<Longrightarrow> p \<noteq> ''/tmp'' \<Longrightarrow> named_before (fsTime f) p \<Longrightarrow> young (set_node p n f)"
  by (auto simp: young_def)

lemma sim_os_sel [simp]: "osFault sim_os t = None" "osTempDir sim_os = ''/tmp''" "osRandom sim_os = id"
  by (simp_all add: sim_os_def)

lemma sys_sim: "sys sim_os None x act f = (Inr x, act (tick f))"
  by (simp add: sys_def)

text \<open>A temporary name that was given.\<close>

definition given :: "files \<Rightarrow> string \<Rightarrow> bool" where
  "given f p \<longleftrightarrow> named_before (fsTime f) p \<and> p \<noteq> ''/tmp'' \<and> (\<forall>q. path_join p q \<noteq> ''/tmp'')"

lemma sim_temp:
  assumes "young f" and "digits pre = []" and "digits suf = []"
  shows "\<exists>p f'. temp_loop sim_os n pre suf 10000 f = (Inr p, f') \<and> young f' \<and> given f' p \<and> fsTime f \<le> fsTime f'"
proof -
  let ?p = "path_join ''/tmp'' (pre @ show_nat (fsTime f) @ suf)"
  have d: "digits ?p = show_nat (fsTime f)"
    using assms(2,3) by (simp add: path_join_def slash_def digits_Cons)
  have "fsTree f ?p = None"
  proof (rule ccontr)
    assume "fsTree f ?p \<noteq> None"
    with assms(1) have "named_before (fsTime f) ?p" by (simp add: young_def)
    with d show False by (auto simp: named_before_def)
  qed
  moreover have "(10000 :: nat) = Suc 9999" by simp
  moreover have tmp: "fsTree f ''/tmp'' = Some Directory" using assms(1) by (simp add: young_def)
  ultimately have run: "temp_loop sim_os n pre suf 10000 f = (Inr ?p, set_node ?p n (tick f))"
    by (simp only: temp_loop.simps Let_def sim_os_sel id_apply if_True if_False simp_thms sys_sim)
  have b: "named_before (Suc (fsTime f)) ?p" using d by (auto simp: named_before_def)
  moreover have ne: "?p \<noteq> ''/tmp''" "path_join ?p q \<noteq> ''/tmp''" for q by (simp_all add: path_join_def slash_def)
  ultimately have "young (set_node ?p n (tick f))" using young_set_node [OF young_tick [OF assms(1)]] by simp
  with run b ne show ?thesis by (auto simp: given_def)
qed

lemma given_mono: "given f p \<Longrightarrow> fsTime f \<le> fsTime f' \<Longrightarrow> given f' p"
  by (auto simp: given_def intro: named_before_mono)

lemma sim_write:
  assumes "young f" and "given f p"
  shows "\<exists>f'. write_temp sim_os (Inr s) msg p f = (Inr p, f') \<and> young f' \<and> fsTime f \<le> fsTime f'"
proof -
  have "young (tick (tick (set_node p (File s) (tick f))))"
    using assms by (intro young_tick young_set_node) (auto simp: given_def intro: named_before_mono)
  then show ?thesis by (simp add: write_temp_def write_encoded_def file_Write_def file_Close_def)
qed

subsection \<open>The steps succeed\<close>

lemma sim_accounts:
  assumes "young f" and "given f ks"
  shows "\<exists>accs r' f'. new_accounts sim_gen sim_os ks n r f = Done ((accs, r'), f') \<and> young f' \<and> fsTime f \<le> fsTime f' \<and> length accs = n"
  using assms
proof (induction n arbitrary: r f)
  case (Suc n)
  let ?f = "set_node (path_join ks ''key'') (File ''secret'') (tick f)"
  have "young ?f"
    using Suc.prems
    by (intro young_set_node young_tick) (auto simp: given_def named_before_def path_join_def slash_def digits_Cons less_Suc_eq)
  moreover have "given ?f ks" using given_mono [OF Suc.prems(2)] by simp
  ultimately obtain accs r' f' where "new_accounts sim_gen sim_os ks n (Suc r) ?f = Done ((accs, r'), f')" "young f'"
    "fsTime ?f \<le> fsTime f'" "length accs = n"
    using Suc.IH by blast
  then show ?case by (simp add: sim_gen_def file_Write_def)
qed simp

lemma sim_wallet:
  assumes "young f"
  shows "\<exists>ws r' f'. NewWalletSetup sim_gen sim_os r n f = Done (Inr (ws, r'), f') \<and> young f' \<and> length (wsAccs ws) = n"
proof -
  have "digits ''perun-node-test-keystore-'' = []" by (simp add: digits_Cons)
  from sim_temp [OF assms this digits_Nil] obtain p f1 where
    "TempDir sim_os ''perun-node-test-keystore-'' f = (Inr p, f1)" "young f1" "given f1 p"
    unfolding TempDir_def by blast
  moreover from this sim_accounts obtain accs r' f' where
    "new_accounts sim_gen sim_os p n r f1 = Done ((accs, r'), f')" "young f'" "length accs = n" by blast
  moreover have "glNewWallet sim_gen p = None" by (simp add: sim_gen_def)
  ultimately show ?thesis by (simp add: NewWalletSetup_def wrapR_def)
qed

lemma sim_contracts: "young f \<Longrightarrow> \<exists>c f'. ContractAddrs sim_gen sim_os f = Done (c, f') \<and> young f'"
proof -
  assume "young f"
  from sim_wallet [OF this] obtain ws r' f' where
    "NewWalletSetup sim_gen sim_os (glRand sim_gen RandSeedForTestAccs) 2 f = Done (Inr (ws, r'), f')" "young f'" "length (wsAccs ws) = 2"
    by blast
  then show ?thesis by (simp add: ContractAddrs_def)
qed

lemma sim_idp:
  assumes "young f" and "ylEncode sim_peers (foldl (\<lambda>m peer. m(pAlias peer \<mapsto> peer)) Map.empty peers) = Inr s"
  shows "\<exists>p f'. NewIDProvider sim_gen sim_os peers f = Done (Inr p, f') \<and> young f'"
proof -
  from sim_temp [OF assms(1) digits_Nil digits_Nil] obtain p f1 where
    "TempFile sim_os [] [] f = (Inr p, f1)" "young f1" "given f1 p"
    unfolding TempFile_def by blast
  moreover from this obtain f' where "write_temp sim_os (Inr s) ''encoding idProvider'' p f1 = (Inr p, f')" "young f'"
    using sim_write by blast
  ultimately show ?thesis using assms(2) by (simp add: NewIDProvider_def wrapR_def sim_gen_def Let_def)
qed

lemma sim_idp1:
  assumes "young f" and "al = ''bob'' \<or> al = ''alice''" and "peerID u = sim_peer al (ucOffChainAddr u)"
  shows "\<exists>p f'. NewIDProvider sim_gen sim_os [peerID u] f = Done (Inr p, f') \<and> young f'"
proof -
  obtain s where "ylEncode sim_peers [al \<mapsto> sim_peer al (ucOffChainAddr u)] = Inr s" using sim_encode_peer [OF assms(2)] by blast
  moreover have "pAlias (sim_peer al (ucOffChainAddr u)) = al" by (simp add: sim_peer_def)
  ultimately show ?thesis using sim_idp [OF assms(1), of "[peerID u]" s] by (simp add: assms(3))
qed

lemma sim_config: "young f \<Longrightarrow> \<exists>p f'. NewConfigFile sim_os (Inr s) f = Done (Inr p, f') \<and> young f'"
proof -
  assume y: "young f"
  have "digits ''.yaml'' = []" by (simp add: digits_Cons)
  from sim_temp [OF y digits_Nil this] obtain p f1 where
    "TempFile sim_os [] ''.yaml'' f = (Inr p, f1)" "young f1" "given f1 p"
    unfolding TempFile_def by blast
  moreover from this obtain f' where "write_temp sim_os (Inr s) ''encoding config'' p f1 = (Inr p, f')" "young f'"
    using sim_write by blast
  ultimately show ?thesis by (simp add: NewConfigFile_def wrapR_def)
qed

lemma young_sim_files: "young sim_files"
  by (simp add: young_def sim_files_def named_before_def digits_Cons)

lemma sim_session: "young f \<Longrightarrow> \<exists>cfg r' f'. session_NewConfig sim_gen L sim_os r [] f = Done (Inr (cfg, r'), f') \<and> young f'
    \<and> peerID (scUser cfg) = sim_peer ''test-user'' (ucOffChainAddr (scUser cfg))"
proof -
  assume "young f"
  from sim_wallet [OF this] obtain ws r1 f1 where ws: "NewWalletSetup sim_gen sim_os r 2 f = Done (Inr (ws, r1), f1)"
    and l: "length (wsAccs ws) = 2" and y1: "young f1" by blast
  from ws l obtain u where u: "newUserConfig sim_gen L sim_os r 0 f = Done (Inr ((ws, u), r1), f1)"
    "peerID u = sim_peer ''test-user'' (ucOffChainAddr u)"
    by (simp add: newUserConfig_def wrapR_def sim_gen_def [THEN arg_cong [of _ _ glFreePort]] peerID_def sim_peer_def)
  from sim_contracts [OF y1] obtain c f2 where c: "ContractAddrs sim_gen sim_os f1 = Done (c, f2)" and y2: "young f2" by blast
  from sim_temp [OF y2 digits_Nil digits_Nil] obtain d f3 where d: "TempDir sim_os [] f2 = (Inr d, f3)" and y3: "young f3"
    unfolding TempDir_def by blast
  have "ylEncode sim_peers (foldl (\<lambda>m peer. m(pAlias peer \<mapsto> peer)) Map.empty []) = Inr ''{}''" by (simp add: sim_peers_def)
  from sim_idp [OF y3 this] obtain p f4 where p: "NewIDProvider sim_gen sim_os [] f3 = Done (Inr p, f4)" and y4: "young f4" by blast
  obtain c1 c2 c3 where "c = (c1, c2, c3)" by (cases c)
  with u c d p y4 show ?thesis by (simp add: session_NewConfig_def newDatabaseDir_def wrapR_def)
qed

lemma sim_rename:
  assumes "moves_apart ps"
    and "\<And>sd. sd \<in> set ps \<Longrightarrow> fsTree f (fst sd) \<noteq> None \<and> fsTree f (snd sd) = None \<and> fsTree f (dirname (snd sd)) = Some Directory"
    and "\<And>x y. x \<in> set ps \<Longrightarrow> y \<in> set ps \<Longrightarrow> \<not> below (fst x) (dirname (snd y)) \<and> \<not> below (snd x) (dirname (snd y))"
  shows "\<exists>f'. rename_all sim_os ps f = ([], f')"
  using assms
proof (induction ps arbitrary: f)
  case (Cons sd ps)
  obtain s d where sd: "sd = (s, d)" by (cases sd)
  from Cons.prems(1) have "apart s d" by (simp add: moves_apart_def sd)
  with Cons.prems(2) [of sd] have r: "os_Rename sim_os s d f = (Inr (), (tick f)\<lparr>fsTree := rename_tree s d (fsTree f)\<rparr>)"
    by (auto simp: os_Rename_def Let_def sd sys_sim parent_ok_def apart_def)
  let ?f = "(tick f)\<lparr>fsTree := rename_tree s d (fsTree f)\<rparr>"
  have "fsTree ?f (fst x) \<noteq> None \<and> fsTree ?f (snd x) = None \<and> fsTree ?f (dirname (snd x)) = Some Directory"
    if "x \<in> set ps" for x
  proof -
    have "apart d (fst x)" "apart s (fst x)" "apart d (snd x)" "apart s (snd x)"
      using that Cons.prems(1) apart_sym by (fastforce simp: moves_apart_def sd)+
    moreover have "rename_tree s d (fsTree f) (dirname (snd x)) = fsTree f (dirname (snd x))"
      using Cons.prems(3) [of sd x] that by (simp add: rename_tree_def sd)
    ultimately show ?thesis using Cons.prems(2) [of x] that by (simp add: rename_tree_apart)
  qed
  from Cons.IH [OF moves_apart_Cons [OF Cons.prems(1)] this] Cons.prems(3) obtain f' where
    "rename_all sim_os ps ?f = ([], f')" by auto
  with r show ?case by (simp add: sd)
qed simp

text \<open>The whole run.\<close>

lemma artifact_dests_dirname: "d \<in> set artifact_dests \<Longrightarrow> dirname d \<in> {''alice'', ''bob''}"
  by (auto simp: artifact_dests_def dirname_def)

lemma artifact_dests_below: "d \<in> set artifact_dests \<Longrightarrow> x \<in> {''alice'', ''bob''} \<Longrightarrow> \<not> below d x"
  by (auto simp: artifact_dests_def below_def slash_def)

lemma sim_generates:
  assumes "young f0" and "\<And>p. p \<in> set (''alice'' # ''bob'' # artifact_dests) \<Longrightarrow> fsTree f0 p = None"
  shows "\<exists>f'. generateSessionConfig sim_gen L sim_os id f0 = Done (Inr (), f')"
proof -
  define fm where "fm = set_node ''bob'' Directory (tick (set_node ''alice'' Directory (tick (tick (tick f0)))))"
  have y: "young fm"
    unfolding fm_def by (intro young_tick young_set_node assms(1)) (auto simp: named_before_def digits_Cons)
  have start: "isAnyDirPresent sim_os [aliceAlias, bobAlias] f0 = ((False, []), tick (tick f0))"
    "makeDirs sim_os [aliceAlias, bobAlias] (tick (tick f0)) = (Inr (), fm)"
    using assms(2) by (simp_all add: os_exists_def os_Mkdir_def sys_sim fm_def aliceAlias_def bobAlias_def parent_ok_def dirname_def)
  from sim_session [OF y] obtain ac r fa where a: "session_NewConfig sim_gen L sim_os (glRand sim_gen RandSeedForTestAccs) [] fm
      = Done (Inr (ac, r), fa)" and ya: "young fa" and pa: "peerID (scUser ac) = sim_peer ''test-user'' (ucOffChainAddr (scUser ac))"
    by blast
  from sim_session [OF ya] obtain bc r' fb where b: "session_NewConfig sim_gen L sim_os r [] fa = Done (Inr (bc, r'), fb)"
    and yb: "young fb" and pb: "peerID (scUser bc) = sim_peer ''test-user'' (ucOffChainAddr (scUser bc))" by blast
  have pb': "peerID (scUser (with_alias bobAlias bc)) = sim_peer ''bob'' (ucOffChainAddr (scUser (with_alias bobAlias bc)))"
    and pa': "peerID (scUser (with_alias aliceAlias ac)) = sim_peer ''alice'' (ucOffChainAddr (scUser (with_alias aliceAlias ac)))"
    using pa pb by (simp_all add: peerID_def sim_peer_def with_alias_def aliceAlias_def bobAlias_def)
  from sim_idp1 [OF yb disjI1 [OF refl] pb'] obtain ai fc where ai: "NewIDProvider sim_gen sim_os [peerID (scUser (with_alias bobAlias bc))] fb
      = Done (Inr ai, fc)" and yc: "young fc" by blast
  from sim_idp1 [OF yc disjI2 [OF refl] pa'] obtain bi fd where bi: "NewIDProvider sim_gen sim_os [peerID (scUser (with_alias aliceAlias ac))] fc
      = Done (Inr bi, fd)" and yd: "young fd" by blast
  have enc: "glEncodeSession sim_gen c = Inr ''session''" for c by (simp add: sim_gen_def)
  from sim_config [OF yd] obtain acf fe where acf: "NewConfigFile sim_os (Inr ''session'') fd = Done (Inr acf, fe)"
    and ye: "young fe" by blast
  from sim_config [OF ye] obtain bcf fg where bcf: "NewConfigFile sim_os (Inr ''session'') fe = Done (Inr bcf, fg)" by blast
  note u = generated_unmoved [OF a b ai bi acf bcf]
  let ?srcs = "[acf, ai, scDatabaseDir ac, wcKeystorePath (ucOnChainWallet (scUser ac)), bcf, scDatabaseDir bc, bi,
      wcKeystorePath (ucOnChainWallet (scUser bc))]"
  have srcs: "temps_in sim_os fg ?srcs" using u(7) by (auto simp: temps_in_def)
  then have ps: "files_to_move ((acf, with_alias aliceAlias ac), ai) ((bcf, with_alias bobAlias bc), bi) = zip ?srcs artifact_dests"
    using files_to_move_distinct [of acf ai "with_alias aliceAlias ac" bcf "with_alias bobAlias bc" bi]
    by (simp add: temps_in_def)
  have td: "prefix slash (osTempDir sim_os)" by (simp add: slash_def)
  from u(8) obtain D where "grows sim_os D fm fg" by blast
  then have loc: "fsTree fg p = fsTree fm p" if "\<not> prefix slash p" for p using grows_local [OF _ td] that by blast
  have dests: "fsTree fg d = None \<and> fsTree fg (dirname d) = Some Directory \<and> dirname d \<in> {''alice'', ''bob''}
      \<and> \<not> below d (dirname d')" if "d \<in> set artifact_dests" "d' \<in> set artifact_dests" for d d'
  proof -
    note l = artifact_dests_local [OF that(1)] artifact_dests_dirname [OF that(1)] artifact_dests_dirname [OF that(2)]
    have "fsTree fm d = fsTree f0 d" using l(2) by (auto simp: fm_def dirname_def)
    then have "fsTree fg d = None" using loc l(1) assms(2) that(1) by simp
    moreover have "fsTree fg (dirname d) = fsTree fm (dirname d)" by (rule loc) (use l(2) in \<open>auto simp: slash_def\<close>)
    then have "fsTree fg (dirname d) = Some Directory" using l(2) by (auto simp: fm_def)
    moreover have "\<not> below d (dirname d')" using artifact_dests_below [OF that(1)] l(3) by blast
    ultimately show ?thesis using l(2) by blast
  qed
  have "\<exists>f'. rename_all sim_os (zip ?srcs artifact_dests) fg = ([], f')"
  proof (rule sim_rename)
    show "moves_apart (zip ?srcs artifact_dests)"
      by (rule temps_moves_apart [OF srcs td]) (simp add: artifact_dests_def)
    show "fsTree fg (fst sd) \<noteq> None \<and> fsTree fg (snd sd) = None \<and> fsTree fg (dirname (snd sd)) = Some Directory"
      if "sd \<in> set (zip ?srcs artifact_dests)" for sd
    proof -
      from that have "fst sd \<in> set ?srcs" "snd sd \<in> set artifact_dests"
        by (metis prod.collapse set_zip_leftD, metis prod.collapse set_zip_rightD)
      with srcs dests show ?thesis unfolding temps_in_def by blast
    qed
    show "\<not> below (fst x) (dirname (snd y)) \<and> \<not> below (snd x) (dirname (snd y))"
      if "x \<in> set (zip ?srcs artifact_dests)" "y \<in> set (zip ?srcs artifact_dests)" for x y
    proof -
      from that have m: "fst x \<in> set ?srcs" "snd x \<in> set artifact_dests" "snd y \<in> set artifact_dests"
        by (metis prod.collapse set_zip_leftD, metis prod.collapse set_zip_rightD, metis prod.collapse set_zip_rightD)
      with srcs have "prefix slash (fst x)" unfolding temps_in_def using temp_absolute [OF td] by blast
      with below_slash [of "fst x" "dirname (snd y)"] dests [OF m(2,3)] dests [OF m(3,3)] show ?thesis
        by (auto simp: slash_def)
    qed
  qed
  then obtain f' where "moveFiles sim_os (zip ?srcs artifact_dests) fg = (Inr (), f')"
    using moveFiles_Inr by blast
  then show ?thesis
    by (simp add: generateSessionConfig_def start a b ai bi acf bcf enc Let_def ps del: isAnyDirPresent.simps makeDirs.simps)
qed

subsection \<open>Properties\<close>

lemma sim_run: "\<exists>f'. generateSessionConfig sim_gen L sim_os id sim_files = Done (Inr (), f')"
  by (rule sim_generates [OF young_sim_files]) (auto simp: sim_files_def artifact_dests_def)



lemma generate_part_Done:
  "generate_part True gen failed made (err, out, f) = Done (err', out', f') \<longleftrightarrow>
     (\<exists>r. gen f = Done (r, f') \<and> err' = (case r of Inl e \<Rightarrow> Some e | Inr _ \<Rightarrow> None)
       \<and> out' = out @ [(case r of Inl e \<Rightarrow> failed @ err_Error e | Inr _ \<Rightarrow> made) @ [CHR 0x0A]])"
  by (auto simp: generate_part_def run_simps split: sum.splits)

text \<open>
  The exit status of \<open>generate\<close>. When both kinds of artifacts are generated the status tells only about the
  session configurations: with a node configuration that is there already the command prints an
  error, leaves the file as it is and exits with the status of the other part. A directory of a
  user that is there already is not touched either.
\<close>

theorem generate_exit_status:
  assumes "generate G L X order fs f = Done (status, out, f')"
    and "\<not> fgChanged fs onlyNodeF" and "\<not> fgChanged fs onlySessionF"
  shows "\<exists>rn fn rs. generateNodeConfig G L X f = Done (rn, fn) \<and> generateSessionConfig G L X order fn = Done (rs, f')
    \<and> status = (case rs of Inl e \<Rightarrow> 1 | Inr _ \<Rightarrow> 0) \<and> length out = 2
    \<and> (fsTree f nodeConfigFile \<noteq> None \<longrightarrow> (\<exists>e. rn = Inl e) \<and> fsTree fn = fsTree f)
    \<and> (fsTree fn aliceAlias \<noteq> None \<or> fsTree fn bobAlias \<noteq> None \<longrightarrow> (\<exists>e. rs = Inl e) \<and> fsTree f' = fsTree fn)"
proof -
  from assms(1) obtain b1 b2 where "fgBool fs onlyNodeF = Inr b1" "fgBool fs onlySessionF = Inr b2"
    by (auto simp: generate_def unknown_flag_def split: sum.split_asm)
  with assms obtain st err where st: "generate_part True (generateNodeConfig G L X)
      ''Error generating node configuration artifacts: '' (''Generated node configuration file: '' @ nodeConfigFile)
      (None, [], f) = Done st"
    and err: "generate_part True (generateSessionConfig G L X order) ''Error generating session configuration artifacts: ''
      (''Generated session configuration artifacts: '' @ aliceAlias @ '', '' @ bobAlias @ '' directories'') st = Done (err, out, f')"
    and status: "status = (if err \<noteq> None then 1 else 0)"
    by (auto simp: generate_def Let_def elim!: andThen_DoneE)
  obtain e1 o1 fn where st_eq: "st = (e1, o1, fn)" by (cases st)
  from st [unfolded st_eq generate_part_Done] err [unfolded st_eq generate_part_Done] status obtain rn rs where
    n: "generateNodeConfig G L X f = Done (rn, fn)" and s: "generateSessionConfig G L X order fn = Done (rs, f')"
    and "status = (case rs of Inl e \<Rightarrow> 1 | Inr _ \<Rightarrow> 0)" "length out = 2"
    by (auto split: sum.split)
  moreover have "(\<exists>e. rn = Inl e) \<and> fsTree fn = fsTree f" if "fsTree f nodeConfigFile \<noteq> None"
    using n that by (auto simp: generateNodeConfig_def os_exists_def)
  moreover have "(\<exists>e. rs = Inl e) \<and> fsTree f' = fsTree fn" if there: "fsTree fn aliceAlias \<noteq> None \<or> fsTree fn bobAlias \<noteq> None"
  proof -
    obtain d f1 where "isAnyDirPresent X [aliceAlias, bobAlias] fn = ((True, d), f1)"
      using there by (cases "fst (os_exists X aliceAlias fn)") (auto simp: os_exists_def split: bool.split prod.split)
    with s isAnyDirPresent_tree [OF this] show ?thesis by (auto simp: generateSessionConfig_def)
  qed
  ultimately show ?thesis by blast
qed

theorem generate_exit_status_witness:
  "\<exists>out f'. generate sim_gen hex_addr_lib sim_os id
      \<lparr>fgChanged = \<lambda>g. False, fgBool = \<lambda>g. Inr False, fgString = \<lambda>g. Inr [], fgUint64 = \<lambda>g. Inr 0\<rparr>
      (set_node nodeConfigFile (File ''old'') sim_files) = Done (0, out, f') \<and> length out = 2"
proof -
  let ?fs = "\<lparr>fgChanged = \<lambda>g. False, fgBool = \<lambda>g. Inr False, fgString = \<lambda>g. Inr [], fgUint64 = \<lambda>g. Inr 0\<rparr>"
  let ?f = "set_node nodeConfigFile (File ''old'') sim_files"
  have "young (tick ?f)"
    by (intro young_tick young_set_node young_sim_files) (auto simp: nodeConfigFile_def named_before_def digits_Cons)
  then have "\<exists>f'. generateSessionConfig sim_gen hex_addr_lib sim_os id (tick ?f) = Done (Inr (), f')"
    by (rule sim_generates) (auto simp: artifact_dests_def nodeConfigFile_def sim_files_def)
  then obtain f' where s: "generateSessionConfig sim_gen hex_addr_lib sim_os id (tick ?f) = Done (Inr (), f')" by blast
  have n: "generateNodeConfig sim_gen hex_addr_lib sim_os ?f = Done (Inl (ENew (''file exists - '' @ nodeConfigFile)), tick ?f)"
    by (simp add: generateNodeConfig_def os_exists_def)
  from n s obtain out where run: "generate sim_gen hex_addr_lib sim_os id ?fs ?f = Done (0, out, f')"
    by (simp add: generate_def generate_part_def Let_def)
  from generate_exit_status [OF run] show ?thesis
    by (intro exI [of _ out] exI [of _ f'] conjI run) auto
qed

end
