(* ===== verification/Chain_Props.thy ===== *)
theory Chain_Props
  imports Chain_Setup Artifacts_Run
begin

text \<open>
  The property of the deployment of the contracts, and its run on a simulated blockchain.
\<close>


subsection \<open>A simulated blockchain\<close>

text \<open>A blockchain with one account that deploys: the number of transactions and the code.\<close>

definition sim_deploy :: "contract_code \<Rightarrow> nat \<times> (address \<rightharpoonup> contract_code) \<Rightarrow> (goerr + address) \<times> nat \<times> (address \<rightharpoonup> contract_code)" where
  "sim_deploy k = (\<lambda>(n, m). (Inr (word_of_nat n), Suc n, m(word_of_nat n \<mapsto> k)))"

definition sim_chain :: "(nat \<times> (address \<rightharpoonup> contract_code)) chain_lib" where
  "sim_chain = \<lparr>kcConnects = (\<lambda>u c. True), kcDial = (\<lambda>u t c. None), kcBalance = (\<lambda>a c. Inr (10 ^ 18)),
     kcEth = (\<lambda>(n, m). sample_eth\<lparr>
       elValidateAdjudicator := \<lambda>a. if m a = Some CodeAdjudicator then None else Some (ENew ''no contract''),
       elValidateAssetHolderETH := \<lambda>a adj. if m a = Some (CodeAssetETH adj) then None else Some (ENew ''no contract'')\<rparr>),
     kcDeployAdjudicator = (\<lambda>s. sim_deploy CodeAdjudicator),
     kcDeployETHAssetholder = (\<lambda>adj s. sim_deploy (CodeAssetETH adj)),
     kcDeployPerunToken = (\<lambda>accs bal s. sim_deploy CodeToken),
     kcDeployERC20Assetholder = (\<lambda>adj t s. sim_deploy (CodeAssetERC20 adj t))\<rparr>"

lemma sim_chain_ok: "chain_ok sim_chain sim_gen (\<lambda>s. fst) snd"
proof -
  have "inj_on (\<lambda>n. word_of_nat n :: address) {..<2 ^ 64}"
    by (rule inj_onI) (simp add: word_of_nat_eq_iff take_bit_nat_eq_self)
  then show ?thesis
    by (auto simp: chain_ok_def sim_chain_def sim_deploy_def deploys_def sim_gen_def split: prod.splits)
qed

lemma sim_setup:
  "\<exists>reg c' f'. SetupContracts sim_chain sim_sdk sim_gen hex_addr_lib sim_os url False ((0, Map.empty), sim_files)
     = Done (Inr reg, c', f')"
proof -
  from sim_wallet [OF young_sim_files] obtain ws r f1 where
    w: "NewWalletSetup sim_gen sim_os (glRand sim_gen RandSeedForTestAccs) 3 sim_files = Done (Inr (ws, r), f1)"
    and y: "young f1" and l: "length (wsAccs ws) = 3" by blast
  from sim_contracts [OF y] obtain adj eth erc20s f2 where
    ca: "ContractAddrs sim_gen sim_os f1 = Done ((adj, eth, erc20s), f2)" and y2: "young f2" by (metis prod_cases3)
  from sim_contracts [OF y2] obtain adj' eth' erc20s' f3 where
    ca2: "ContractAddrs sim_gen sim_os f2 = Done ((adj', eth', erc20s'), f3)" by (metis prod_cases3)
  have a: "adj = 0" "adj' = 0" "eth' = 1"
    using ContractAddrs_value [OF ca] ContractAddrs_value [OF ca2] by (simp_all add: sim_gen_def)
  have "idx_at (wsAccs ws) 0 = Done (wsAccs ws ! 0)" using l by simp
  then show ?thesis
    using w ca ca2 a
    by (auto simp: SetupContracts_def sim_chain_def connect_chain_backend_def NewChainBackend_def sim_sdk_def
        ValidateAdjudicator_def ValidateAssetETH_def deployContracts_def DeployAdjudicator_def DeployAssetETH_def
        DeployPerunToken_def cb_DeployAssetERC20_def wrap_result_def sim_deploy_def newContractRegistry_def
        NewContractRegistry_def Let_def)
qed


end
