(* ===== verification/Cli_Props.thy ===== *)
theory Cli_Props
  imports Cli_Steps
begin

text \<open>
  The properties of the command line client, with a simulated node on which they are applied.
\<close>

subsection \<open>A simulated node\<close>

text \<open>It opens every channel under one ID, and refuses everything else.\<close>

definition sim_cli_error :: msg_error where
  "sim_cli_error = \<lparr>meCategory = 1, meCode = 201, meMessage = ''refused'', meAddInfo = None\<rparr>"

definition sim_info :: pb_pay_ch_info where
  "sim_info = \<lparr>ppChID = ''c'', ppBalInfo = \<lparr>pbCurrencies = [''ETH''], pbParts = [OwnAlias, ''bob''],
     pbBals = [PBBal [''1'', ''2'']]\<rparr>, ppVersion = ''0''\<rparr>"

definition sim_cli_client :: "nat cli_client" where
  "sim_cli_client = \<lparr>clOpenSession = (\<lambda>f k. (Inr (MsgSuccess (''s'', [])), k)),
     clOpenPayCh = (\<lambda>s b d k. (Inr (MsgSuccess sim_info), Suc k)), clSubPayChProposals = (\<lambda>s k. (None, k)),
     clRespondPayChProposal = (\<lambda>s p a k. (Inr (RespError sim_cli_error), Suc k)),
     clSubPayChUpdates = (\<lambda>s c k. (None, k)),
     clRespondPayChUpdate = (\<lambda>s c p a k. (Inr (MsgSuccess sim_info), Suc k)),
     clSendPayChUpdate = (\<lambda>s c p k. (Inr (RespError sim_cli_error), Suc k)),
     clClosePayCh = (\<lambda>s c k. (Inr (RespError sim_cli_error), Suc k)),
     clTime = (\<lambda>k. (Inr 0, k)), clGetConfig = (\<lambda>k. (Inl (ENew ''none''), k)),
     clAddPeerID = (\<lambda>s p k. (Inr (RespError sim_cli_error), k)), clGetPeerID = (\<lambda>s p k. (Inr (RespError sim_cli_error), k)),
     clCloseSession = (\<lambda>s f k. (Inr (MsgSuccess [sim_info]), k)),
     clUnsubPayChProposals = (\<lambda>s k. (Inr (MsgSuccess True), k)),
     clUnsubPayChUpdates = (\<lambda>s c k. (Inr (MsgSuccess True), k)),
     clGetPayChInfo = (\<lambda>s c k. (Inr (MsgSuccess sim_info), k))\<rparr>"

definition sim_fmt :: cli_fmt where
  "sim_fmt = \<lparr>cfCategory = show_nat, cfAddInfo = (\<lambda>i. []), cfTime = show_int, cfConfig = (\<lambda>c. []),
     cfHelpText = (\<lambda>n. [])\<rparr>"

text \<open>The client after it has connected to the node.\<close>

definition sim_cli :: "nat cli" where
  "sim_cli = greenln (''Connected to perun node at a. Node time is 0'') ((start_cli 0)\<lparr>ciClient := Some sim_cli_client\<rparr>)"

lemma sim_cli_sel [simp]:
  "ciClient sim_cli = Some sim_cli_client" "ciNode sim_cli = 0" "ciChMap sim_cli = Map.empty" "ciChObjs sim_cli = []"
  "ciChCounter sim_cli = 0" "ciSessionID sim_cli = []" "ciChList sim_cli = []" "ciChRev sim_cli = Map.empty"
  by (simp_all add: sim_cli_def start_cli_def greenln_def printf_def)

lemma sim_connect: "nodeConnectFn sim_fmt (\<lambda>_. Inr sim_cli_client) help [''a''] (start_cli 0) = Done sim_cli"
proof -
  have "show_int 0 = ''0''" by code_simp
  then show ?thesis
    by (simp add: nodeConnectFn_def with_args_def getNodeTime_def call_cli_def deref_def sim_cli_def sim_cli_client_def
        sim_fmt_def start_cli_def)
qed

lemma sim_pretty: "\<exists>s. prettifyPayChInfo (Some sim_info) = Done s"
  by (simp add: prettifyPayChInfo_def deref_def sim_info_def bal0_def toBalanceMap_def)

lemma sim_channel:
  "\<exists>u. channelSendFn sim_fmt help [''bob'', ''1'', ''2''] sim_cli = Done u \<and> ciChMap u = [''ch_1_bob'' \<mapsto> 0]
     \<and> ciChObjs u = [\<lparr>oiID = ''c'', oiPeerAlias = ''bob'', oiLatest = []\<rparr>] \<and> ciClient u = Some sim_cli_client
     \<and> ciNode u = 1 \<and> ciSessionID u = []"
proof -
  obtain s where s: "prettifyPayChInfo (Some sim_info) = Done s" using sim_pretty by blast
  have n: "show_nat (Suc 0) = ''1''" by code_simp
  have peer: "findPeerAlias (pbParts (ppBalInfo sim_info)) = ''bob''" "ppChID sim_info = ''c''"
    by (simp_all add: findPeerAlias_def sim_info_def OwnAlias_def)
  have open_resp: "clOpenPayCh sim_cli_client sid b d k = (Inr (MsgSuccess sim_info), Suc k)"
    "clSubPayChUpdates sim_cli_client sid c k = (None, k)" for sid b d k c
    by (simp_all add: sim_cli_client_def)
  show ?thesis
    by (simp add: channelSendFn_def connected_def with_args_def request_def call_cli_def deref_def open_resp
        on_success_def channel_opened_def addOpenChannelID_def Let_def peer s n paymentSub_def with_channel_def
        greenln_def printf_def)
qed

subsection \<open>Balances\<close>

lemma balance_loop_Done:
  "balance_loop ps i bal m = Done m' \<longleftrightarrow> (ps = [] \<or> i + length ps \<le> length bal)
     \<and> m' = AList.updates ps (take (length ps) (drop i bal)) m"
proof (induction ps arbitrary: i m)
  case (Cons p ps)
  show ?case
  proof (cases "i < length bal")
    case True
    then have "drop i bal = bal ! i # drop (Suc i) bal" by (simp add: Cons_nth_drop_Suc)
    with True show ?thesis by (auto simp: Cons.IH)
  qed simp
qed auto

lemma balance_loop_Panic: "\<not> returns (balance_loop ps i bal m) \<Longrightarrow> balance_loop ps i bal m = Panic IndexOutOfRange"
  by (induction ps arbitrary: i m) (auto simp: idx_at_def)

lemma zip_take_length: "zip xs (take (length xs) ys) = zip xs ys"
proof (induction xs arbitrary: ys)
  case (Cons x xs)
  then show ?case by (cases ys) simp_all
qed simp

lemma updates_fresh:
  "length vs = length ps \<Longrightarrow> distinct (map fst m @ ps) \<Longrightarrow> AList.updates ps vs m = m @ zip ps vs"
proof (induction ps arbitrary: vs m)
  case (Cons p ps)
  then obtain b bs where vs: "vs = b # bs" by (cases vs) auto
  have "AList.update p b m = m @ [(p, b)]"
    using Cons.prems(2) by (induction m) auto
  with Cons vs show ?case by simp
qed simp

text \<open>
  Printing balances. Go indexes the balance of every participant: with fewer balances than
  participants the client panics, otherwise the text is that of a map from exactly the
  participants, with their balances when no participant occurs twice; but every occurrence of
  the word map, those in aliases too, is cut out of the text.
\<close>

theorem toBalanceMap_spec:
  "if length parts \<le> length bal
   then \<exists>m. toBalanceMap parts bal = Done (cut_map (show_map m)) \<and> distinct (map fst m) \<and> fst ` set m = set parts
          \<and> (distinct parts \<longrightarrow> m = zip parts bal)
   else toBalanceMap parts bal = Panic IndexOutOfRange"
proof (cases "length parts \<le> length bal")
  case True
  let ?m = "AList.updates parts (take (length parts) bal) []"
  have "toBalanceMap parts bal = Done (cut_map (show_map ?m))"
    using True by (simp add: toBalanceMap_def balance_loop_Done [THEN iffD2])
  moreover have "distinct (map fst ?m)" by (simp add: distinct_updates)
  moreover have "fst ` set ?m = set parts"
  proof -
    have "dom (map_of ?m) = set parts"
      using True by (simp add: updates_conv')
    then show ?thesis by (simp add: dom_map_of_conv_image_fst)
  qed
  moreover have "distinct parts \<longrightarrow> ?m = zip parts bal"
    using True by (simp add: updates_fresh zip_take_length)
  ultimately show ?thesis using True by auto
next
  case False
  then have "\<not> returns (balance_loop parts 0 bal [])" by (auto simp: returns_iff balance_loop_Done)
  with False show ?thesis by (simp add: toBalanceMap_def balance_loop_Panic)
qed

theorem toBalanceMap_spec_witness:
  "toBalanceMap [''self'', ''bob''] [''1''] = Panic IndexOutOfRange
   \<and> toBalanceMap [''mapper''] [''1''] = Done ''[per:1]''"
  using toBalanceMap_spec [of "[''self'', ''bob'']" "[''1'']"]
  by (simp add: toBalanceMap_def show_map_def)

subsection \<open>Aliases\<close>



subsection \<open>Unknown channels\<close>

lemma getChannelInfo_unknown:
  "ciChMap u al = None \<Longrightarrow> getChannelInfo F al u = Done (None, printUnknownChannelAliasError al u)"
  by (simp add: getChannelInfo_def)

lemma show_update_unknown: "ciChMap u al = None \<Longrightarrow> show_update F al intro notif t u = Panic NilDereference"
  by (cases notif) (simp add: show_update_def getChannelInfo_unknown deref_def)

text \<open>
  An alias that is not known makes the client panic, when its info is asked for and when a
  payment arrives for it: the info of the channel is nil, and is printed after the error. This
  is so for a channel that the user has closed in the meantime. The commands that pay only
  print the error.
\<close>

theorem unknown_alias_panics:
  assumes "ciClient u = Some cl" and "ciChMap u al = None"
    and "clTime cl (ciNode u) = (Inr t, k)" and "utype \<noteq> PBClosed"
  shows "channelInfoFn F help [al] u = Panic NilDereference
    \<and> paymentNotif_round F al cid (RecvNotify (updateID, i, utype, expiry, err)) u = Panic NilDereference
    \<and> paymentSendFn F help [al, amount] u = Done (printUnknownChannelAliasError al u)
    \<and> ciChMap (removeOpenChannelID al v) al = None"
proof -
  have "getNodeTime u = Done (Inr t, u\<lparr>ciNode := k\<rparr>)"
    using assms(1,3) by (simp add: getNodeTime_def call_cli_def deref_def)
  with assms have "paymentNotif_round F al cid (RecvNotify (updateID, i, utype, expiry, err)) u = Panic NilDereference"
    by (cases utype) (simp_all add: paymentNotif_round_def handleUpdateTypeOpenNotif_def handleUpdateTypeFinalNotif_def
        show_update_unknown)
  with assms(1,2) show ?thesis
    by (simp add: channelInfoFn_def connected_def with_args_def print_channel_def getChannelInfo_unknown
        prettifyPayChInfo_def deref_def paymentSendFn_def payment_update_def with_channel_def removeOpenChannelID_def)
qed

theorem unknown_alias_panics_witness:
  "channelInfoFn sim_fmt ''help'' [''ch_1_bob''] sim_cli = Panic NilDereference"
  by (rule conjunct1 [OF unknown_alias_panics [where cl = sim_cli_client and t = 0 and k = 0 and utype = PBOpen]])
    (simp_all add: sim_cli_client_def)

subsection \<open>Responses to payments\<close>

lemma set_latest_Done:
  "set_latest r uid u = Done u' \<longleftrightarrow> r < length (ciChObjs u) \<and>
     u' = u\<lparr>ciChObjs := (ciChObjs u)[r := (ciChObjs u ! r)\<lparr>oiLatest := uid\<rparr>]\<rparr>"
  by (auto simp: set_latest_def run_simps)

lemma print_objs [simp]:
  "ciChObjs (greenln m u) = ciChObjs u" "ciChMap (greenln m u) = ciChMap u"
  "ciChObjs (printf c m e u) = ciChObjs u" "ciChMap (printf c m e u) = ciChMap u"
  by (simp_all add: greenln_def printf_def)

lemma call_cli_Done:
  "call_cli f u = Done (r, v) \<longleftrightarrow>
     (\<exists>cl k. ciClient u = Some cl \<and> f cl (ciNode u) = (r, k) \<and> v = u\<lparr>ciNode := k\<rparr>)"
  by (cases "ciClient u") (auto simp: call_cli_def deref_def split: prod.splits)

lemma request_Done:
  assumes "request F before after f u = Done (x, v)"
  shows "ciChMap v = ciChMap u \<and> ciChObjs v = ciChObjs u"
proof -
  from assms obtain r w where "call_cli f u = Done (r, w)"
    and "(case r of Inl e \<Rightarrow> Done (None, printCommandSendingError e w)
       | Inr (RespError m) \<Rightarrow> Done (None, redln (before @ apiErrorString F m @ after) w)
       | Inr (MsgSuccess x) \<Rightarrow> Done (Some x, w)) = Done (x, v)"
    by (auto simp: request_def andThen_Done_iff)
  then show ?thesis
    by (auto simp: call_cli_Done printCommandSendingError_def redln_def printf_def split: sum.split_asm response.split_asm)
qed

lemma show_update_Done:
  assumes "show_update F al intro (updateID, i, utype, expiry, err) t u = Done u'" and "ciChMap u al = Some r"
    and "\<And>cid v. ciChObjs (intro cid v) = ciChObjs v \<and> ciChMap (intro cid v) = ciChMap v"
  shows "ciChMap u' = ciChMap u \<and> ciChObjs u' = (ciChObjs u)[r := (ciChObjs u ! r)\<lparr>oiLatest := updateID\<rparr>]
    \<and> r < length (ciChObjs u)"
  using assms
  by (auto simp: show_update_def getChannelInfo_def run_simps Let_def set_latest_Done deref_def dest!: request_Done
      split: option.splits if_splits)

text \<open>
  C31: a payment that arrives while the response to another one is under way is forgotten. The
  client keeps one update for each channel; the new one replaces the one responded to, and the
  end of the response clears it. A later response on the channel says that there is nothing to
  respond to, and is sent to the node all the same, with an empty update ID.
\<close>

theorem newer_update_forgotten:
  assumes "payment_respond F failed True al u = Done (Some (r, cid, i), u1)" and "ciChMap u1 al = Some r"
    and "handleUpdateTypeOpenNotif F al (updateID, i', utype, expiry, err) t u1 = Done u2"
    and "paymentAccept_done (r, cid, i) u2 = Done u3"
  shows "oiLatest (ciChObjs u2 ! r) = updateID \<and> oiLatest (ciChObjs u3 ! r) = []
    \<and> payment_respond F failed' accept al u3
        = andThen (request F failed' [] (\<lambda>cl. clRespondPayChUpdate cl (ciSessionID u3) (oiID (ciChObjs u3 ! r)) [] accept)
            (printNoPaymentNotifError al u3)) (\<lambda>(res, v). Done (map_option (\<lambda>i. (r, oiID (ciChObjs u3 ! r), i)) res, v))"
proof -
  from assms(3) have "show_update F al (\<lambda>cid. printf GreenF
      (''Payment notification received on channel '' @ al @ ''. (ID:'' @ cid @ '')'' @ nl) [])
      (updateID, i', utype, expiry, err) t u1 = Done u2" by (simp add: handleUpdateTypeOpenNotif_def)
  from show_update_Done [OF this assms(2)] have u2: "ciChMap u2 al = Some r" "oiLatest (ciChObjs u2 ! r) = updateID"
    "r < length (ciChObjs u2)" using assms(2) by auto
  from assms(4) have u3: "ciChMap u3 al = Some r" "oiLatest (ciChObjs u3 ! r) = []" "r < length (ciChObjs u3)"
    using u2 by (auto simp: paymentAccept_done_def run_simps set_latest_Done)
  with u2 show ?thesis
    by (simp add: payment_respond_def printNoPaymentNotifError_def redln_def printf_def)
qed

text \<open>The client with a channel, for which a payment has arrived.\<close>

lemma sim_payment:
  assumes "ciChMap u = [''ch_1_bob'' \<mapsto> 0]" and "length (ciChObjs u) = 1" and "ciClient u = Some sim_cli_client"
  shows "\<exists>u'. handleUpdateTypeOpenNotif F ''ch_1_bob'' (uid, sim_info, PBOpen, 0, None) 0 u = Done u'
    \<and> ciChMap u' = ciChMap u \<and> length (ciChObjs u') = 1 \<and> ciClient u' = Some sim_cli_client"
proof -
  have info: "clGetPayChInfo sim_cli_client sid cid k = (Inr (MsgSuccess sim_info), k)" for sid cid k
    by (simp add: sim_cli_client_def)
  obtain s where "prettifyBalanceInfo (ppBalInfo sim_info) (ppVersion sim_info) = Done s"
    by (simp add: prettifyBalanceInfo_def sim_info_def bal0_def toBalanceMap_def)
  with assms info show ?thesis
    by (simp add: handleUpdateTypeOpenNotif_def show_update_def getChannelInfo_def request_def call_cli_def deref_def
        Let_def set_latest_def greenln_def printf_def)
qed

theorem newer_update_forgotten_witness:
  "\<exists>(u2 :: nat cli) (u3 :: nat cli). oiLatest (ciChObjs u2 ! 0) = ''u2'' \<and> oiLatest (ciChObjs u3 ! 0) = []"
proof -
  obtain u :: "nat cli" where u: "ciChMap u = [''ch_1_bob'' \<mapsto> 0]" "ciClient u = Some sim_cli_client"
    "ciChObjs u = [\<lparr>oiID = ''c'', oiPeerAlias = ''bob'', oiLatest = []\<rparr>]"
    using sim_channel [of "[]"] by auto
  have resp: "clRespondPayChUpdate sim_cli_client sid c p a k = (Inr (MsgSuccess sim_info), Suc k)" for sid c p a k
    by (simp add: sim_cli_client_def)
  obtain cid and u1 :: "nat cli" where u1: "payment_respond sim_fmt [] True ''ch_1_bob'' u = Done (Some (0, cid, sim_info), u1)"
    "ciChMap u1 = [''ch_1_bob'' \<mapsto> 0]" "length (ciChObjs u1) = 1" "ciClient u1 = Some sim_cli_client"
    using u by (auto simp: payment_respond_def request_def call_cli_def deref_def resp printNoPaymentNotifError_def
        redln_def printf_def Let_def)
  obtain u2 :: "nat cli" where u2: "handleUpdateTypeOpenNotif sim_fmt ''ch_1_bob'' (''u2'', sim_info, PBOpen, 0, None) 0 u1 = Done u2"
    "length (ciChObjs u2) = 1"
    using sim_payment [OF u1(2,3,4)] by blast
  obtain s where "prettifyPayChInfo (Some sim_info) = Done s" using sim_pretty by blast
  with u2(2) obtain u3 :: "nat cli" where "paymentAccept_done (0, cid, sim_info) u2 = Done u3"
    by (simp add: paymentAccept_done_def set_latest_def)
  from newer_update_forgotten [OF u1(1) _ u2(1) this] u1(2) show ?thesis by auto
qed

subsection \<open>Closing the session\<close>

text \<open>The line that is printed for a channel that is persisted, and the lines when no alias is known.\<close>

definition persisted_line :: "pb_pay_ch_info \<Rightarrow> 'k cli \<Rightarrow> 'k cli run" where
  "persisted_line i u = andThen (prettifyPayChInfo (Some i)) (\<lambda>s.
     Done (printf GreenF (''Channel persisted. Alias: '' @ alias_of (ppChID i) u @ ''.'' @ nl @ s @ ''.'') nl u))"

lemma persisted_lines:
  assumes "for_each persisted_line xs w = Done w'" and "ciChRev w = Map.empty"
  shows "\<exists>ss. length ss = length xs \<and> w' = w\<lparr>ciOut := ciOut w
        @ map (\<lambda>s. (GreenF, ''Channel persisted. Alias: .'' @ nl @ s @ ''.'', nl)) ss\<rparr>"
  using assms
proof (induction xs arbitrary: w)
  case (Cons i xs)
  from Cons.prems(1) obtain v where v: "persisted_line i w = Done v" and rest: "for_each persisted_line xs v = Done w'"
    by (auto elim: andThen_DoneE)
  from v Cons.prems(2) obtain s where "v = printf GreenF (''Channel persisted. Alias: .'' @ nl @ s @ ''.'') nl w"
    by (auto simp: persisted_line_def alias_of_def elim!: andThen_DoneE)
  with rest have "for_each persisted_line xs (printf GreenF (''Channel persisted. Alias: .'' @ nl @ s @ ''.'') nl w) = Done w'"
    by simp
  from Cons.IH [OF this] Cons.prems(2) obtain ss where "length ss = length xs"
    "w' = w\<lparr>ciOut := ciOut w @ map (\<lambda>s. (GreenF, ''Channel persisted. Alias: .'' @ nl @ s @ ''.'', nl)) (s # ss)\<rparr>"
    by (auto simp: printf_def)
  then show ?case by (intro exI [of _ "s # ss"]) simp
qed simp

text \<open>The command after it has unsubscribed, with the reply of the node.\<close>

lemma sessionCloseFn_run:
  assumes "ciClient u = Some cl" and "clUnsubPayChProposals cl (ciSessionID u) (ciNode u) = (Inr (MsgSuccess b), k1)"
  shows "sessionCloseFn F help [opt] u =
    (if opt \<noteq> ''force'' \<and> opt \<noteq> ''no-force''
     then Done (redln ''Parameter should be one of these values: [force no-force]'' (u\<lparr>ciNode := k1\<rparr>))
     else case clCloseSession cl (ciSessionID u) (opt = ''force'') k1 of
         (Inl e, k2) \<Rightarrow> Done (printCommandSendingError e (u\<lparr>ciNode := k2\<rparr>))
       | (Inr (RespError m), k2) \<Rightarrow> andThen (channelSub (u\<lparr>ciNode := k2\<rparr>)) (\<lambda>u.
           Done (redln (''Error closing session : '' @ apiErrorString F m) u))
       | (Inr (MsgSuccess infos), k2) \<Rightarrow>
           let u = resetLocalCache (u\<lparr>ciNode := k2\<rparr>); u = greenln (''Session closed. ID: '' @ ciSessionID u @ ''.'') u
           in if opt \<noteq> ''force'' then Done u else for_each persisted_line infos u)"
proof -
  have unsub: "channelUnsub F u = Done (u\<lparr>ciNode := k1\<rparr>)"
    using assms by (simp add: channelUnsub_def request_def call_cli_def deref_def on_success_def)
  have opts: "show_slice sessionCloseOpts = ''[force no-force]''" "set sessionCloseOpts = {''force'', ''no-force''}"
    by (simp_all add: show_slice_def sessionCloseOpts_def)
  obtain r k2 where r: "clCloseSession cl (ciSessionID u) (opt = ''force'') k1 = (r, k2)" by fastforce
  have "persisted_line = (\<lambda>i (u :: 'a cli). andThen (prettifyPayChInfo (Some i)) (\<lambda>s.
     Done (printf GreenF (''Channel persisted. Alias: '' @ alias_of (ppChID i) u @ ''.'' @ nl @ s @ ''.'') nl u)))"
    by (simp add: persisted_line_def fun_eq_iff)
  with assms(1) show ?thesis
    by (cases "opt = ''force'' \<or> opt = ''no-force''")
      (auto simp: sessionCloseFn_def connected_def with_args_def unsub opts call_cli_def deref_def r Let_def
        split: sum.split response.split)
qed

lemma channelSub_keeps:
  assumes "andThen (channelSub (u\<lparr>ciNode := k2\<rparr>)) (\<lambda>u. Done (redln msg u)) = Done u'" and "ciClient u = Some cl"
  shows "ciChMap u' = ciChMap u \<and> ciNotifMap u' = ciNotifMap u
    \<and> (fst (clSubPayChProposals cl (ciSessionID u) k2) = None \<longrightarrow> ciSubs u' = ciSubs u @ [ProposalSub])"
proof -
  obtain x k3 where "clSubPayChProposals cl (ciSessionID u) k2 = (x, k3)" by fastforce
  with assms show ?thesis
    by (cases x) (auto simp: channelSub_def call_cli_def deref_def greenln_def redln_def printCommandSendingError_def printf_def)
qed

lemma cache_reset:
  assumes "(let u = resetLocalCache (u\<lparr>ciNode := k2\<rparr>); u = greenln (''Session closed. ID: '' @ ciSessionID u @ ''.'') u
    in if opt \<noteq> ''force'' then Done u else for_each persisted_line infos u) = Done u'"
  shows "ciChMap u' = Map.empty \<and> ciChRev u' = Map.empty \<and> ciChList u' = []
    \<and> ciNotifMap u' = Map.empty \<and> ciNotifList u' = [] \<and> ciAliases u' = [] \<and> ciNode u' = k2
    \<and> (\<exists>ss. length ss = (if opt = ''force'' then length infos else 0)
        \<and> ciOut u' = ciOut u @ (GreenF, ''Session closed. ID: '' @ ciSessionID u @ ''.'', nl @ nl)
            # map (\<lambda>s. (GreenF, ''Channel persisted. Alias: .'' @ nl @ s @ ''.'', nl)) ss)"
proof -
  define w where "w = greenln (''Session closed. ID: '' @ ciSessionID u @ ''.'') (resetLocalCache (u\<lparr>ciNode := k2\<rparr>))"
  have sid: "ciSessionID (resetLocalCache (u\<lparr>ciNode := k2\<rparr>)) = ciSessionID u" by (simp add: resetLocalCache_def)
  have c: "ciChMap w = Map.empty" "ciChRev w = Map.empty" "ciChList w = []" "ciNotifMap w = Map.empty"
    "ciNotifList w = []" "ciAliases w = []" "ciNode w = k2"
    "ciOut w = ciOut u @ [(GreenF, ''Session closed. ID: '' @ ciSessionID u @ ''.'', nl @ nl)]"
    by (simp_all add: w_def greenln_def printf_def resetLocalCache_def)
  have run: "(if opt \<noteq> ''force'' then Done w else for_each persisted_line infos w) = Done u'"
    using assms unfolding Let_def sid w_def .
  have "\<exists>ss. length ss = (if opt = ''force'' then length infos else 0) \<and> u' = w\<lparr>ciOut := ciOut w
     @ map (\<lambda>s. (GreenF, ''Channel persisted. Alias: .'' @ nl @ s @ ''.'', nl)) ss\<rparr>"
    using run persisted_lines [OF _ c(2), of infos u'] by (cases "opt = ''force''") auto
  then obtain ss where ss: "length ss = (if opt = ''force'' then length infos else 0)"
    and u': "u' = w\<lparr>ciOut := ciOut w @ map (\<lambda>s. (GreenF, ''Channel persisted. Alias: .'' @ nl @ s @ ''.'', nl)) ss\<rparr>"
    by blast
  from ss show ?thesis unfolding u' by (auto simp: c intro!: exI [of _ ss])
qed



end
