(* ===== verification/End_To_End.thy ===== *)
theory End_To_End
  imports Cli_Props Grpc_Streams
begin

text \<open>
  The command line client and the node together: a payment that is entered in the shell, sent as a
  request over gRPC, handled by the server and applied by the channel of the session. What the
  client relies on of the connection is a locale: a response that arrives is that of the handler.
  It is interpreted on a client of which every method is the handler of the server.
\<close>

subsection \<open>The channels of the sessions of a server\<close>

definition server_channel :: "('p, 'w) server \<Rightarrow> string \<Rightarrow> string \<Rightarrow> ('p, server_event) channel option" where
  "server_channel a sid cid =
     (case ndSessions (svNode a) sid of None \<Rightarrow> None | Some s \<Rightarrow> rg_lookup (seChs s) cid)"

definition registries_inv :: "('p, 'w) server \<Rightarrow> bool" where
  "registries_inv a \<longleftrightarrow> (\<forall>sid s. ndSessions (svNode a) sid = Some s \<longrightarrow> rg_inv (seChs s))"

lemma registries_inv_node: "node_inv L (svNode a) \<Longrightarrow> registries_inv a"
  by (auto simp: registries_inv_def node_inv_def se_inv_def)

lemma rg_lookup_write:
  assumes "rg_inv r" and "rg_lookup r cid = Some ch" and "rgIdxs r cid = Some i"
  shows "rg_lookup (rg_write i ch' r) = (rg_lookup r)(cid \<mapsto> ch')"
proof
  fix s
  show "rg_lookup (rg_write i ch' r) s = ((rg_lookup r)(cid \<mapsto> ch')) s"
    using assms by (cases "rgIdxs r s"; cases "s = cid") (auto simp: rg_lookup_def rg_write_def rg_inv_def nth_list_update)
qed

lemma session_request_Inr:
  assumes "call_session sid f a = Done (Inr x, a')"
  obtains s s' where "ndSessions (svNode a) sid = Some s"
    and "f (ndContracts (svNode a)) (ndCurrencies (svNode a)) s = Done (Inr x, s')"
    and "ndSessions (svNode a') = (ndSessions (svNode a))(sid \<mapsto> s')"
proof -
  from assms obtain sess a1 where g: "call_node (GetSession sid) a = Done (Inr sess, a1)"
    and c: "call_node (on_session sid f) a1 = Done (Inr x, a')"
    by (auto simp: call_session_def elim!: andThen_DoneE split: sum.split_asm)
  from g obtain n where n: "GetSession sid (svNode a) = Done (Inr sess, n)" and a1: "a1 = a\<lparr>svNode := n\<rparr>"
    by (auto simp: call_node_def elim!: andThen_DoneE)
  from n have eq: "ndSessions n = ndSessions (svNode a)" "ndContracts n = ndContracts (svNode a)"
    "ndCurrencies n = ndCurrencies (svNode a)"
    by (auto simp: GetSession_def run_simps split: option.split_asm)
  from c a1 obtain n' where "on_session sid f n = Done (Inr x, n')" and a': "a' = a1\<lparr>svNode := n'\<rparr>"
    by (auto simp: call_node_def elim!: andThen_DoneE)
  then obtain s s' where "ndSessions n sid = Some s" "f (ndContracts n) (ndCurrencies n) s = Done (Inr x, s')"
    "ndSessions n' = (ndSessions n)(sid \<mapsto> s')"
    by (auto simp: on_session_def deref_def elim!: andThen_DoneE split: option.split_asm)
  with that [of s s'] eq a' show thesis by simp
qed

lemma channel_in_session:
  assumes "andThen (GetCh cid s) (\<lambda>(found, s1). case found of Inl e \<Rightarrow> Done (Inl e, s1) | Inr slot \<Rightarrow> on_channel slot f s1)
      = Done (Inr x, s')"
  obtains i ch ch' where "rg_get (seChs s) cid = Done (Some (i, ch))" and "f (rgChs (seChs s) ! i) = Done (Inr x, ch')"
    and "seChs s' = rg_write i ch' (seChs s)"
proof -
  from assms obtain i s1 where "GetCh cid s = Done (Inr i, s1)" and f: "on_channel i f s1 = Done (Inr x, s')"
    by (auto elim!: andThen_DoneE split: sum.split_asm)
  then obtain ch where "rg_get (seChs s) cid = Done (Some (i, ch))" "seChs s1 = seChs s"
    by (auto simp: GetCh_def run_simps split: option.split_asm)
  with f that show thesis by (auto simp: on_channel_def run_simps)
qed

text \<open>A request on a channel changes this channel of this session, and no other.\<close>

lemma call_channel_Inr:
  assumes "call_channel sid cid f a = Done (Inr x, a')" and "registries_inv a"
  shows "\<exists>ch ch'. server_channel a sid cid = Some ch \<and> f ch = Done (Inr x, ch') \<and> server_channel a' sid cid = Some ch'
    \<and> (\<forall>sid' cid'. (sid', cid') \<noteq> (sid, cid) \<longrightarrow> server_channel a' sid' cid' = server_channel a sid' cid')"
proof -
  from assms(1) obtain s s' where s: "ndSessions (svNode a) sid = Some s"
    and c: "andThen (GetCh cid s) (\<lambda>(found, s1). case found of Inl e \<Rightarrow> Done (Inl e, s1) | Inr slot \<Rightarrow> on_channel slot f s1)
      = Done (Inr x, s')"
    and a': "ndSessions (svNode a') = (ndSessions (svNode a))(sid \<mapsto> s')"
    unfolding call_channel_def by (rule session_request_Inr)
  from c obtain i ch ch' where i: "rg_get (seChs s) cid = Done (Some (i, ch))" and f: "f (rgChs (seChs s) ! i) = Done (Inr x, ch')"
    and s': "seChs s' = rg_write i ch' (seChs s)" by (rule channel_in_session)
  note r = rg_get_Some [OF _ i]
  have inv: "rg_inv (seChs s)" using assms(2) s by (simp add: registries_inv_def)
  have l: "rg_lookup (seChs s) cid = Some ch" using r [OF inv] by (simp add: rg_lookup_def)
  note w = rg_lookup_write [OF inv l r(4) [OF inv], of ch']
  show ?thesis
    using s l w f a' s' r(2) [OF inv] by (auto simp: server_channel_def)
qed

lemma srv_SendPayChUpdate_success:
  assumes "srv_SendPayChUpdate P sid cid ps a = Done (MsgSuccess i, a')" and "registries_inv a"
  shows "\<exists>ch ch' pi. server_channel a sid cid = Some ch \<and> server_channel a' sid cid = Some ch'
    \<and> SendPayChUpdate P (fromGrpcPayments ps) ch = Done ((pi, None), ch') \<and> i = toGrpcPayChInfo pi
    \<and> (\<forall>sid' cid'. (sid', cid') \<noteq> (sid, cid) \<longrightarrow> server_channel a' sid' cid' = server_channel a sid' cid')"
proof -
  let ?f = "\<lambda>ch. andThen (SendPayChUpdate P (fromGrpcPayments ps) ch) (\<lambda>((i, err), ch1).
       Done (as_result (toGrpcPayChInfo i, err), ch1))"
  from assms(1) have "call_channel sid cid ?f a = Done (Inr i, a')"
    by (auto simp: srv_SendPayChUpdate_def reply_def elim!: andThen_DoneE split: sum.split_asm)
  from call_channel_Inr [OF this assms(2)] show ?thesis
    by (fastforce elim!: andThen_DoneE)
qed

subsection \<open>One payment\<close>

text \<open>The state after an amount of a currency has moved to the participant at an index.\<close>

definition paid :: "nat \<Rightarrow> nat \<Rightarrow> int \<Rightarrow> pstate \<Rightarrow> pstate" where
  "paid idx payee amt st =
     (let row = psBalances st ! idx; payer = payee XOR 1
      in st\<lparr>psBalances := (psBalances st)[idx := row[payer := row ! payer - amt, payee := row ! payee + amt]],
            psVersion := psVersion st + 1\<rparr>)"

definition pays ::
  "'p pchannel_api \<Rightarrow> string \<Rightarrow> string \<Rightarrow> ('p, 'ev) channel \<Rightarrow> ('p, 'ev) channel \<Rightarrow> bool" where
  "pays P payee amount ch ch' \<longleftrightarrow>
     (\<exists>idx cur amt i. ch_Currency ch ETHSymbol = Done (Some (idx, cur)) \<and> cuParse cur amount = Inr amt
        \<and> i < length (chParts ch) \<and> chParts ch ! i = payee
        \<and> idx < length (psBalances (pState P (chPch ch))) \<and> i < length (psBalances (pState P (chPch ch)) ! idx)
        \<and> i XOR 1 < length (psBalances (pState P (chPch ch)) ! idx)
        \<and> pState P (chPch ch') = paid idx i amt (pState P (chPch ch)))"

lemma one_payment:
  assumes "SendPayChUpdate P [\<lparr>pyCurrency = ETHSymbol, pyPayee = payee, pyAmount = amount\<rparr>] ch = Done ((i, None), ch')"
    and "pchannel_ok P"
  shows "chStatus ch = StatusOpen \<and> pays P payee amount ch ch' \<and> (\<exists>info. getChInfo P ch' = Done info \<and> i = toPayChInfo info)"
proof -
  from assms(1) obtain us info where us: "make_updates ch [\<lparr>pyCurrency = ETHSymbol, pyPayee = payee, pyAmount = amount\<rparr>] = Done (Inr us)"
    and send: "SendChUpdate P (\<lambda>state. andThen (run_updates us state) (\<lambda>st. Done (st, None))) ch = Done ((info, None), ch')"
    and i: "i = toPayChInfo info"
    by (auto simp: SendPayChUpdate_def simp del: make_updates.simps elim!: andThen_DoneE split: sum.splits)
  from us obtain idx cur amt payerIdx k where c: "ch_Currency ch ETHSymbol = Done (Some (idx, cur))" "cuParse cur amount = Inr amt"
    and p: "getPayerPayeeIdx (chParts ch) payee = Inr (payerIdx, k)" and us_eq: "us = [newUpdate payerIdx k idx amt]"
    by (auto elim!: andThen_DoneE split: option.splits sum.splits prod.splits)
  from p have k: "k < length (chParts ch)" "chParts ch ! k = payee" "payerIdx = k XOR 1"
    by (auto simp: getPayerPayeeIdx_def payee_loop_Inr)
  from SendChUpdate_Done [OF send assms(2)] us_eq obtain st where op: "chStatus ch = StatusOpen"
    and st: "newUpdate (k XOR 1) k idx amt (pState P (chPch ch)) = Done st"
    and st': "pState P (chPch ch') = st\<lparr>psVersion := psVersion (pState P (chPch ch)) + 1\<rparr>" "getChInfo P ch' = Done info"
    using k(3) by (auto elim!: andThen_DoneE)
  from newUpdate_Done [OF st] k st' c op i show ?thesis
    by (auto simp: pays_def paid_def Let_def)
qed

subsection \<open>The connection\<close>

text \<open>
  What a client relies on when it sends a payment: a response that it gets is the response that
  the handler returned, and the server is as the handler left it.
\<close>

locale payment_service =
  fixes P :: "'p pchannel_api"
    and send :: "string \<Rightarrow> string \<Rightarrow> pb_payment list \<Rightarrow> 'k \<Rightarrow> (goerr + pb_pay_ch_info response) \<times> 'k"
    and serving :: "'k \<Rightarrow> ('p, 'w) server option"
  assumes delivered: "send sid cid ps k = (Inr r, k') \<Longrightarrow>
    \<exists>a a'. serving k = Some a \<and> serving k' = Some a' \<and> srv_SendPayChUpdate P sid cid ps a = Done (r, a')"
begin

lemma payment_applied:
  assumes "send sid cid [\<lparr>ptCurrency = ETHSymbol, ptPayee = payee, ptAmount = amount\<rparr>] k = (Inr (MsgSuccess i), k')"
    and "serving k = Some a" and "registries_inv a" and "pchannel_ok P"
  shows "\<exists>a' ch ch' info. serving k' = Some a' \<and> server_channel a sid cid = Some ch \<and> server_channel a' sid cid = Some ch'
    \<and> chStatus ch = StatusOpen \<and> pays P payee amount ch ch'
    \<and> getChInfo P ch' = Done info \<and> i = toGrpcPayChInfo (toPayChInfo info)
    \<and> (\<forall>sid' cid'. (sid', cid') \<noteq> (sid, cid) \<longrightarrow> server_channel a' sid' cid' = server_channel a sid' cid')"
proof -
  from delivered [OF assms(1)] assms(2) obtain a' where a': "serving k' = Some a'"
    and h: "srv_SendPayChUpdate P sid cid [\<lparr>ptCurrency = ETHSymbol, ptPayee = payee, ptAmount = amount\<rparr>] a
      = Done (MsgSuccess i, a')" by auto
  from srv_SendPayChUpdate_success [OF h assms(3)] obtain ch ch' pi where
    ch: "server_channel a sid cid = Some ch" "server_channel a' sid cid = Some ch'"
    and run: "SendPayChUpdate P [\<lparr>pyCurrency = ETHSymbol, pyPayee = payee, pyAmount = amount\<rparr>] ch = Done ((pi, None), ch')"
    and i: "i = toGrpcPayChInfo pi"
    and rest: "\<forall>sid' cid'. (sid', cid') \<noteq> (sid, cid) \<longrightarrow> server_channel a' sid' cid' = server_channel a sid' cid'"
    by (auto simp: fromGrpcPayments_def fromGrpcPayment_def)
  from one_payment [OF run assms(4)] a' ch i rest show ?thesis by blast
qed

end

text \<open>
  A call over the connection. A handler that panics takes the node down, and the client gets an
  error from then on; a handler that never returns gives no response.
\<close>

definition grpc_call :: "('k \<Rightarrow> ('r \<times> 'k) run) \<Rightarrow> 'k option \<Rightarrow> (goerr + 'r) \<times> 'k option" where
  "grpc_call h k =
     (case k of
        None \<Rightarrow> (Inl (ENew ''connection refused''), None)
      | Some a \<Rightarrow> (case h a of
          Done (r, a') \<Rightarrow> (Inr r, Some a')
        | Panic _ \<Rightarrow> (Inl (ENew ''connection lost''), None)
        | Blocked \<Rightarrow> (Inl (ENew ''no response''), Some a)))"

definition grpc_stream :: "('k \<Rightarrow> ((goerr + 'r) \<times> 'k) run) \<Rightarrow> 'k option \<Rightarrow> goerr option \<times> 'k option" where
  "grpc_stream h k =
     (case grpc_call h k of
        (Inl e, k') \<Rightarrow> (Some e, k')
      | (Inr (Inl e), k') \<Rightarrow> (Some e, k')
      | (Inr (Inr _), k') \<Rightarrow> (None, k'))"

text \<open>
  The client of a server: its stub. The time, the state of the outside world for a new session,
  the app of the payment app and the stream that a subscription writes to are those of the call.
\<close>

definition grpc_client ::
  "('p, 'w, 'd) env \<Rightarrow> app \<Rightarrow> 'w \<Rightarrow> 8 word list \<Rightarrow> int \<Rightarrow> ref \<Rightarrow> ('p, 'w) server option cli_client" where
  "grpc_client V noApp w nowUTC now srv = \<lparr>
     clOpenSession = \<lambda>f. grpc_call (srv_OpenSession V nowUTC w f),
     clOpenPayCh = \<lambda>sid bi dur. grpc_call (srv_OpenPayCh V noApp sid (Some bi) dur),
     clSubPayChProposals = \<lambda>sid. grpc_stream (srv_SubPayChProposals sid srv),
     clRespondPayChProposal = \<lambda>sid pid accept. grpc_call (srv_RespondPayChProposal V now sid pid accept),
     clSubPayChUpdates = \<lambda>sid cid. grpc_stream (srv_SubPayChUpdates sid cid srv),
     clRespondPayChUpdate = \<lambda>sid cid uid accept. grpc_call (srv_RespondPayChUpdate (evPch V) now sid cid uid accept),
     clSendPayChUpdate = \<lambda>sid cid ps. grpc_call (srv_SendPayChUpdate (evPch V) sid cid ps),
     clClosePayCh = \<lambda>sid cid. grpc_call (srv_ClosePayCh (evPch V) sid cid),
     clTime = grpc_call (\<lambda>a. Done (srv_Time now, a)),
     clGetConfig = grpc_call (\<lambda>a. Done (srv_GetConfig a, a)),
     clAddPeerID = \<lambda>sid p. grpc_call (srv_AddPeerID (evAddr V) sid (Some p)),
     clGetPeerID = \<lambda>sid al. grpc_call (srv_GetPeerID sid al),
     clCloseSession = \<lambda>sid force. grpc_call (srv_CloseSession V sid force),
     clUnsubPayChProposals = \<lambda>sid. grpc_call (srv_UnsubPayChProposals sid),
     clUnsubPayChUpdates = \<lambda>sid cid. grpc_call (srv_UnsubPayChUpdates sid cid),
     clGetPayChInfo = \<lambda>sid cid. grpc_call (srv_GetPayChInfo (evPch V) sid cid)\<rparr>"

lemma grpc_call_Inr: "grpc_call h k = (Inr r, k') \<longleftrightarrow> (\<exists>a a'. k = Some a \<and> k' = Some a' \<and> h a = Done (r, a'))"
  by (auto simp: grpc_call_def split: option.splits run.splits prod.splits)

interpretation stub: payment_service "evPch V" "clSendPayChUpdate (grpc_client V noApp w nowUTC now srv)" "\<lambda>k. k"
  for V :: "('p, 'w, 'd) env" and noApp and w :: 'w and nowUTC now srv
  by unfold_locales (auto simp: grpc_client_def grpc_call_Inr)

subsection \<open>The shell\<close>

text \<open>A payment that the shell reports in green: what was sent, and what came back.\<close>

lemma payment_update_green:
  assumes "payment_update F payee failed sent args u = Done u'" and "ciOut u' = ciOut u @ [(GreenF, m, end)]"
  obtains r cl i s k where "ciChMap u (args ! 0) = Some r" and "r < length (ciChObjs u)" and "ciClient u = Some cl"
    and "clSendPayChUpdate cl (ciSessionID u) (oiID (ciChObjs u ! r))
         [\<lparr>ptCurrency = ETHSymbol, ptPayee = payee (ciChObjs u ! r), ptAmount = args ! 1\<rparr>] (ciNode u) = (Inr (MsgSuccess i), k)"
    and "prettifyPayChInfo (Some i) = Done s" and "ciNode u' = k"
    and "m = sent @ alias_of (ppChID i) u @ ''. Updated channel Info:'' @ nl @ s @ ''.''"
proof (cases "ciChMap u (args ! 0)")
  case None
  with assms show thesis
    by (auto simp: payment_update_def with_channel_def printUnknownChannelAliasError_def redln_def printf_def)
next
  case (Some r)
  with assms(1) obtain cl where r: "r < length (ciChObjs u)" and cl: "ciClient u = Some cl"
    by (auto simp: payment_update_def with_channel_def request_def call_cli_def deref_def idx_at_def
        elim!: andThen_DoneE split: option.split_asm if_splits)
  obtain res k where call: "clSendPayChUpdate cl (ciSessionID u) (oiID (ciChObjs u ! r))
         [\<lparr>ptCurrency = ETHSymbol, ptPayee = payee (ciChObjs u ! r), ptAmount = args ! 1\<rparr>] (ciNode u) = (res, k)"
    by (metis surj_pair)
  note d = assms(1) [unfolded payment_update_def with_channel_def request_def call_cli_def deref_def on_success_def] Some r cl call
  show thesis
  proof (cases res)
    case (Inl e)
    with d assms(2) show thesis by (auto simp: printCommandSendingError_def redln_def printf_def)
  next
    case (Inr resp)
    show thesis
    proof (cases resp)
      case (RespError x)
      with Inr d assms(2) show thesis by (auto simp: redln_def printf_def)
    next
      case (MsgSuccess i)
      with Inr d obtain s where s: "prettifyPayChInfo (Some i) = Done s"
        "u' = greenln (sent @ alias_of (ppChID i) (u\<lparr>ciNode := k\<rparr>) @ ''. Updated channel Info:'' @ nl @ s @ ''.'') (u\<lparr>ciNode := k\<rparr>)"
        by (auto elim!: andThen_DoneE)
      with that [OF Some r cl _ s(1)] call Inr MsgSuccess assms(2) show thesis
        by (auto simp: greenln_def printf_def alias_of_def)
    qed
  qed
qed

text \<open>The channels of a server that is reached from a start of the node are filed as the property needs.\<close>

lemma reachable_registries_inv:
  assumes "node_New V cfg = Done (Inr n0)" and "sv_steps V (ListenAndServePayChAPI n0) a" and "addr_ok (evAddr V)"
  shows "registries_inv a"
proof -
  have n0: "node_inv (evAddr V) n0" "ndSessions n0 = Map.empty" "svNode (ListenAndServePayChAPI n0) = n0"
    using node_New_ok [of V cfg "evAddr V", where 'c = server_event] assms(1) by (auto simp: ListenAndServePayChAPI_def)
  with sv_steps_inv [OF assms(2,3) server_inv_start] have "(nd_step V)\<^sup>*\<^sup>* n0 (svNode a)" by simp
  then have "nd_evolves (evAddr V) n0 (svNode a)" using nd_steps_evolve assms(3) by blast
  with n0(1) show ?thesis by (auto simp: nd_evolves_def intro: registries_inv_node)
qed

text \<open>
  C4: a payment that is entered in the shell. When the shell reports the payment in green, the
  channel of the session that the alias stands for was open, and at the node exactly the amount
  entered has moved, in ether and as the channel's currency reads it, from the one participant to
  the other: to the peer for a payment sent, to the user for a payment requested. The version
  has grown by one, nothing else of the state has changed, no other channel of any session has
  changed, and the text printed is that of the channel after the payment.
\<close>

theorem shell_payment_end_to_end:
  assumes "paymentSendFn F help [al, amount] u = Done u' \<and> payee = oiPeerAlias
      \<or> paymentRequestFn F help [al, amount] u = Done u' \<and> payee = (\<lambda>_. OwnAlias)"
    and "ciOut u' = ciOut u @ [(GreenF, m, end)]"
    and "ciClient u = Some (grpc_client V noApp w nowUTC now srv)" and "ciNode u = Some a"
    and "registries_inv a" and "pchannel_ok (evPch V)"
  shows "\<exists>r cid a' ch ch' info pre s. ciChMap u al = Some r \<and> r < length (ciChObjs u) \<and> cid = oiID (ciChObjs u ! r)
    \<and> ciNode u' = Some a' \<and> server_channel a (ciSessionID u) cid = Some ch \<and> server_channel a' (ciSessionID u) cid = Some ch'
    \<and> chStatus ch = StatusOpen \<and> pays (evPch V) (payee (ciChObjs u ! r)) amount ch ch'
    \<and> getChInfo (evPch V) ch' = Done info \<and> prettifyPayChInfo (Some (toGrpcPayChInfo (toPayChInfo info))) = Done s
    \<and> m = pre @ s @ ''.''
    \<and> (\<forall>sid' cid'. (sid', cid') \<noteq> (ciSessionID u, cid) \<longrightarrow> server_channel a' sid' cid' = server_channel a sid' cid')"
proof -
  from assms(1,3) obtain failed sent where "payment_update F payee failed sent [al, amount] u = Done u'"
    by (auto simp: paymentSendFn_def paymentRequestFn_def connected_def with_args_def)
  then obtain r cl i s k where r: "ciChMap u al = Some r" "r < length (ciChObjs u)" and cl: "ciClient u = Some cl"
    and call: "clSendPayChUpdate cl (ciSessionID u) (oiID (ciChObjs u ! r))
         [\<lparr>ptCurrency = ETHSymbol, ptPayee = payee (ciChObjs u ! r), ptAmount = amount\<rparr>] (ciNode u) = (Inr (MsgSuccess i), k)"
    and out: "prettifyPayChInfo (Some i) = Done s" "ciNode u' = k"
      "m = sent @ alias_of (ppChID i) u @ ''. Updated channel Info:'' @ nl @ s @ ''.''"
    using assms(2) by (elim payment_update_green) auto
  have "clSendPayChUpdate (grpc_client V noApp w nowUTC now srv) (ciSessionID u) (oiID (ciChObjs u ! r))
      [\<lparr>ptCurrency = ETHSymbol, ptPayee = payee (ciChObjs u ! r), ptAmount = amount\<rparr>] (Some a) = (Inr (MsgSuccess i), k)"
    using call cl assms(3,4) by simp
  from stub.payment_applied [OF this refl assms(5,6)] r out show ?thesis
    by (metis append.assoc)
qed

subsection \<open>A run\<close>

definition sim_pay_server :: "(pstate, sim_world) server" where
  "sim_pay_server = (sim_server True)\<lparr>svNode := (svNode (sim_server True))
     \<lparr>ndSessions := [''s'' \<mapsto> (sim_srv_session True)\<lparr>seChs := rg_put sim_channel newChRegistry\<rparr>]\<rparr>\<rparr>"

definition sim_grpc_client :: "(pstate, sim_world) server option cli_client" where
  "sim_grpc_client = grpc_client sim_env \<lparr>appDef = 0, appData = 0\<rparr> \<lparr>swRejected = 0, swDialer = [], swFunder = []\<rparr> [] 0 0"

definition sim_payer :: "(pstate, sim_world) server option cli" where
  "sim_payer = (start_cli (Some sim_pay_server))\<lparr>ciClient := Some sim_grpc_client, ciSessionID := ''s'',
     ciChMap := [''ch_1_bob'' \<mapsto> 0],
     ciChObjs := [\<lparr>oiID = chID (sim_channel :: (pstate, server_event) channel), oiPeerAlias = ''bob'', oiLatest = []\<rparr>]\<rparr>"

lemma sim_pay_server_inv: "registries_inv sim_pay_server"
  by (auto simp: registries_inv_def sim_pay_server_def rg_inv_put split: if_splits)

lemma sim_pays:
  "\<exists>i ch'. SendPayChUpdate sim_api [sim_payment] (sim_channel :: (pstate, 'ev) channel) = Done ((i, None), ch')
     \<and> psBalances (chPch ch') = [[6, 24]] \<and> (\<exists>s. prettifyPayChInfo (Some (toGrpcPayChInfo i)) = Done s)"
proof -
  let ?ch = "sim_channel :: (pstate, 'ev) channel"
  let ?st = "sim_state\<lparr>psBalances := [[6, 24]], psVersion := 1\<rparr>"
  have cur: "ch_Currency ?ch ''ETH'' = Done (Some (0, sim_currency))"
    by (simp add: ch_Currency_def sim_channel_def newCh_def)
  have parse: "read_int ''4'' = 4"
    by (simp add: read_int_def read_nat_def char_digit_def)
  have idx: "getPayerPayeeIdx (chParts ?ch) ''bob'' = Inr (0, 1)"
    by (simp add: getPayerPayeeIdx_def sim_channel_def newCh_def)
  have mk: "make_updates ?ch [sim_payment] = Done (Inr [newUpdate 0 1 0 4])"
    by (simp add: sim_payment_def cur parse idx)
  have ch: "\<not> chLocked ?ch" "chStatus ?ch = StatusOpen" "chPch ?ch = sim_state"
    by (simp_all add: sim_channel_def newCh_def)
  have upd: "pUpdateBy sim_api d (\<lambda>state. andThen (run_updates [newUpdate 0 (Suc 0) 0 4] state) (\<lambda>st. Done (st, None)))
      sim_state = Done (?st, None)" for d
    by (simp add: sim_api_def newUpdate_def sim_state_def)
  obtain info where i: "getChInfo sim_api (?ch\<lparr>chLocked := True, chPch := ?st\<rparr>) = Done info"
    and bi: "ciBalInfo info = \<lparr>biCurrencies = [''ETH''], biParts = [''self'', ''bob''], biBals = [[show_int 6, show_int 24]]\<rparr>"
    by (simp add: getChInfo_def makeChInfo_def makeBalInfoFromState_def makeBalInfoFromRawBal_def sim_channel_def newCh_def
        sim_api_def sim_currency_def)
  have pretty: "\<exists>s. prettifyPayChInfo (Some (toGrpcPayChInfo (toPayChInfo info))) = Done s"
    by (simp add: prettifyPayChInfo_def deref_def bal0_def toGrpcPayChInfo_def toPayChInfo_def ToGrpcBalInfo_def bi toBalanceMap_def)
  have "SendChUpdate sim_api (\<lambda>state. andThen (run_updates [newUpdate 0 (Suc 0) 0 4] state) (\<lambda>st. Done (st, None))) ?ch
      = Done ((info, None), ?ch\<lparr>chLocked := True, chPch := ?st, chLocked := False\<rparr>)"
    by (simp add: SendChUpdate_def with_lock_def ch upd with_info_def i Let_def del: run_updates.simps)
  with mk have "SendPayChUpdate sim_api [sim_payment] ?ch
      = Done ((toPayChInfo info, None), ?ch\<lparr>chLocked := True, chPch := ?st, chLocked := False\<rparr>)"
    by (simp add: SendPayChUpdate_def del: run_updates.simps)
  then show ?thesis
    by (intro exI [of _ "toPayChInfo info"] exI [of _ "?ch\<lparr>chLocked := True, chPch := ?st, chLocked := False\<rparr>"] conjI pretty)
      simp_all
qed

lemma sim_served:
  "\<exists>i a'. srv_SendPayChUpdate sim_api ''s'' (chID (sim_channel :: (pstate, server_event) channel))
      [\<lparr>ptCurrency = ETHSymbol, ptPayee = ''bob'', ptAmount = ''4''\<rparr>] sim_pay_server = Done (MsgSuccess i, a')
    \<and> (\<exists>s. prettifyPayChInfo (Some i) = Done s)"
proof -
  let ?ch = "sim_channel :: (pstate, server_event) channel"
  from sim_pays obtain i ch' s where run: "SendPayChUpdate sim_api [sim_payment] ?ch = Done ((i, None), ch')"
    and s: "prettifyPayChInfo (Some (toGrpcPayChInfo i)) = Done s" by blast
  have p: "fromGrpcPayments [\<lparr>ptCurrency = ETHSymbol, ptPayee = ''bob'', ptAmount = ''4''\<rparr>] = [sim_payment]"
    by (simp add: fromGrpcPayments_def fromGrpcPayment_def sim_payment_def ETHSymbol_def)
  have get: "rg_get (rg_put ?ch newChRegistry) (chID ?ch) = Done (Some (0, ?ch))"
    by (simp add: rg_get_def rg_put_def rg_append_def newChRegistry_def)
  have at: "idx_at (rgChs (rg_put ?ch newChRegistry)) 0 = Done ?ch"
    by (simp add: rg_put_def rg_append_def newChRegistry_def)
  show ?thesis
    using s
    by (simp add: srv_SendPayChUpdate_def call_channel_def call_session_def call_node_def GetSession_def with_nlock_def
        sim_pay_server_def on_session_def deref_def GetCh_def with_slock_def get on_channel_def at p run as_result_def
        reply_def)
qed

theorem shell_payment_end_to_end_witness:
  "\<exists>u' a' ch'. paymentSendFn sim_fmt [] [''ch_1_bob'', ''4''] sim_payer = Done u' \<and> ciNode u' = Some a'
    \<and> server_channel a' ''s'' (chID (sim_channel :: (pstate, server_event) channel)) = Some ch'
    \<and> pays sim_api ''bob'' ''4'' sim_channel ch'"
proof -
  let ?ch = "sim_channel :: (pstate, server_event) channel"
  from sim_served obtain i a1 s where
    srv: "srv_SendPayChUpdate sim_api ''s'' (chID ?ch)
      [\<lparr>ptCurrency = ETHSymbol, ptPayee = ''bob'', ptAmount = ''4''\<rparr>] sim_pay_server = Done (MsgSuccess i, a1)"
    and s: "prettifyPayChInfo (Some i) = Done s" by blast
  have env: "evPch sim_env = sim_api" by (simp add: sim_env_def)
  have call: "clSendPayChUpdate sim_grpc_client ''s'' (chID ?ch) [\<lparr>ptCurrency = ETHSymbol, ptPayee = ''bob'', ptAmount = ''4''\<rparr>]
      (Some sim_pay_server) = (Inr (MsgSuccess i), Some a1)"
    using srv by (simp add: sim_grpc_client_def grpc_client_def grpc_call_def env)
  obtain u' m where run: "paymentSendFn sim_fmt [] [''ch_1_bob'', ''4''] sim_payer = Done u'"
    and out: "ciOut u' = ciOut sim_payer @ [(GreenF, m, nl @ nl)]"
    by (simp add: paymentSendFn_def connected_def with_args_def payment_update_def with_channel_def request_def
        call_cli_def deref_def sim_payer_def start_cli_def call on_success_def s greenln_def printf_def)
  have sel: "ciClient sim_payer = Some sim_grpc_client" "ciNode sim_payer = Some sim_pay_server"
    "ciChMap sim_payer = [''ch_1_bob'' \<mapsto> 0]" "ciSessionID sim_payer = ''s''"
    "ciChObjs sim_payer = [\<lparr>oiID = chID ?ch, oiPeerAlias = ''bob'', oiLatest = []\<rparr>]"
    by (simp_all add: sim_payer_def start_cli_def)
  have ch: "server_channel sim_pay_server ''s'' (chID ?ch) = Some ?ch"
    by (simp add: server_channel_def sim_pay_server_def rg_lookup_def rg_put_def rg_append_def newChRegistry_def)
  have ok: "pchannel_ok (evPch sim_env)" by (simp add: env sim_api_ok)
  from shell_payment_end_to_end [OF disjI1 [OF conjI [OF run refl]] out sel(1) [unfolded sim_grpc_client_def] sel(2)
      sim_pay_server_inv ok] ch run sel
  show ?thesis by (auto simp: env)
qed

end
