(* ===== verification/Test_Support.thy ===== *)
theory Test_Support
  imports Chain_Setup "HOL-Library.Sublist"
begin

text \<open>
  The helpers of the tests: the assertions on API errors, \<^verbatim>\<open>peruntest/assert.go\<close>, the currency
  registry of \<^verbatim>\<open>currency/currencytest\<close>, and the simulated blockchain with its contracts,
  \<^verbatim>\<open>ethereumtest/chain.go\<close>. The lemmas say which errors the assertions accept, that they accept what
  the constructors of API errors make, and that the contracts of the simulated blockchain are
  those that a contract registry accepts.
\<close>

subsection \<open>Verdicts\<close>

text \<open>
  A requirement that does not hold stops the test (\<open>None\<close>); an assertion that does not hold marks it
  as failed and goes on, so that the value is whether all assertions hold.
\<close>

type_synonym verdict = "bool option"

definition require :: "bool \<Rightarrow> verdict \<Rightarrow> verdict" where
  "require ok v = (if ok then v else None)"

definition asserts :: "bool list \<Rightarrow> verdict" where
  "asserts bs = Some (list_all id bs)"

lemma require_passes [simp]: "require ok v = Some True \<longleftrightarrow> ok \<and> v = Some True"
  by (simp add: require_def)

lemma asserts_pass [simp]: "asserts bs = Some True \<longleftrightarrow> (\<forall>b\<in>set bs. b)"
  by (simp add: asserts_def list_all_iff)

subsection \<open>Assertions on API errors\<close>

definition AssertAPIError :: "api_err option \<Rightarrow> err_category \<Rightarrow> err_code \<Rightarrow> string list \<Rightarrow> verdict" where
  "AssertAPIError e categ code msgs =
     (case e of
        None \<Rightarrow> None
      | Some e \<Rightarrow> asserts ([categ = aeCategory e, code = aeCode e] @ map (\<lambda>msg. sublist msg (Message e)) msgs))"

definition AssertErrInfoPeerRequestTimedOut :: "add_info \<Rightarrow> string \<Rightarrow> string \<Rightarrow> verdict" where
  "AssertErrInfoPeerRequestTimedOut info peerAlias timeout =
     (case info of ErrInfoPeerRequestTimedOut a t \<Rightarrow> asserts [peerAlias = a, timeout = t] | _ \<Rightarrow> None)"

definition AssertErrInfoPeerRejected :: "add_info \<Rightarrow> string \<Rightarrow> string \<Rightarrow> verdict" where
  "AssertErrInfoPeerRejected info peerAlias reason =
     (case info of ErrInfoPeerRejected a r \<Rightarrow> asserts [peerAlias = a, reason = r] | _ \<Rightarrow> None)"

definition AssertErrInfoPeerNotFunded :: "add_info \<Rightarrow> string \<Rightarrow> verdict" where
  "AssertErrInfoPeerNotFunded info peerAlias =
     (case info of ErrInfoPeerNotFunded a \<Rightarrow> asserts [peerAlias = a] | _ \<Rightarrow> None)"

definition AssertErrInfoUserResponseTimedOut :: "add_info \<Rightarrow> verdict" where
  "AssertErrInfoUserResponseTimedOut info =
     (case info of ErrInfoUserResponseTimedOut expiry receivedAt \<Rightarrow> asserts [expiry < receivedAt] | _ \<Rightarrow> None)"

definition AssertErrInfoResourceNotFound :: "add_info \<Rightarrow> resource_type \<Rightarrow> string \<Rightarrow> verdict" where
  "AssertErrInfoResourceNotFound info resourceType i =
     (case info of ErrInfoResourceNotFound t j \<Rightarrow> asserts [resType_string resourceType = t, i = j] | _ \<Rightarrow> None)"

definition AssertErrInfoResourceExists :: "add_info \<Rightarrow> resource_type \<Rightarrow> string \<Rightarrow> verdict" where
  "AssertErrInfoResourceExists info resourceType i =
     (case info of ErrInfoResourceExists t j \<Rightarrow> asserts [resType_string resourceType = t, i = j] | _ \<Rightarrow> None)"

definition AssertErrInfoInvalidArgument :: "add_info \<Rightarrow> argument_name \<Rightarrow> string \<Rightarrow> verdict" where
  "AssertErrInfoInvalidArgument info name val =
     (case info of ErrInfoInvalidArgument n v requirement \<Rightarrow> asserts [argName_string name = n, val = v] | _ \<Rightarrow> None)"

definition AssertErrInfoFailedPreCondUnclosedChs :: "add_info \<Rightarrow> ch_info list \<Rightarrow> verdict" where
  "AssertErrInfoFailedPreCondUnclosedChs info chInfos =
     (case info of ErrInfoFailedPreCondUnclosedChs cs \<Rightarrow> asserts [chInfos = cs] | _ \<Rightarrow> None)"

definition AssertErrInfoInvalidConfig :: "add_info \<Rightarrow> string \<Rightarrow> string \<Rightarrow> verdict" where
  "AssertErrInfoInvalidConfig info name val =
     (case info of ErrInfoInvalidConfig n v \<Rightarrow> asserts [name = n, val = v] | _ \<Rightarrow> None)"

definition AssertErrInfoInvalidContracts :: "add_info \<Rightarrow> contract_err_info list \<Rightarrow> verdict" where
  "AssertErrInfoInvalidContracts info contractErrInfos =
     (case info of ErrInfoInvalidContracts _ \<Rightarrow> asserts [] | _ \<Rightarrow> None)"

definition AssertErrInfoTxTimedOut :: "add_info \<Rightarrow> string \<Rightarrow> string \<Rightarrow> string \<Rightarrow> verdict" where
  "AssertErrInfoTxTimedOut info txType txID txTimeout =
     (case info of ErrInfoTxTimedOut ty i t \<Rightarrow> asserts [txType = ty, txID = i, txTimeout = t] | _ \<Rightarrow> None)"

definition AssertErrInfoChainNotReachable :: "add_info \<Rightarrow> string \<Rightarrow> verdict" where
  "AssertErrInfoChainNotReachable info chainURL =
     (case info of ErrInfoChainNotReachable url \<Rightarrow> asserts [chainURL = url] | _ \<Rightarrow> None)"

lemmas assert_info_defs =
  AssertErrInfoPeerRequestTimedOut_def AssertErrInfoPeerRejected_def AssertErrInfoPeerNotFunded_def
  AssertErrInfoUserResponseTimedOut_def AssertErrInfoResourceNotFound_def AssertErrInfoResourceExists_def
  AssertErrInfoInvalidArgument_def AssertErrInfoFailedPreCondUnclosedChs_def AssertErrInfoInvalidConfig_def
  AssertErrInfoInvalidContracts_def AssertErrInfoTxTimedOut_def AssertErrInfoChainNotReachable_def

subsection \<open>The currency registry of the tests\<close>

text \<open>It is made once and then shared by all tests of a process.\<close>

definition test_Registry :: "'d decimal_lib \<Rightarrow> currency_registry option \<Rightarrow> currency_registry" where
  "test_Registry D r = (case r of Some r \<Rightarrow> r | None \<Rightarrow> snd (Register D ETHSymbol ETHMaxDecimals NewRegistry))"

subsection \<open>The simulated blockchain\<close>

text \<open>How a helper goes on: a failed requirement stops the test, or there is a result.\<close>

datatype 'a test_step = FailNow | Goes 'a

record chain_setup =
  csWalletSetup :: wallet_setup
  csAdjudicator :: address
  csAssetETH :: address
  csAssetERC20s :: "(address \<times> address) list"

text \<open>The last component of the results is the cleanup that is registered to run when the test has ended.\<close>

definition NewWalletSetupT ::
  "'r gen_lib \<Rightarrow> os \<Rightarrow> 'r \<Rightarrow> nat \<Rightarrow> files \<Rightarrow> ((wallet_setup \<times> 'r) test_step \<times> files \<times> (files \<Rightarrow> files)) run" where
  "NewWalletSetupT G X r n f =
     andThen (NewWalletSetup G X r n f) (\<lambda>(res, f).
       case res of
         Inl e \<Rightarrow> Done (FailNow, f, id)
       | Inr (ws, r) \<Rightarrow> Done (Goes (ws, r), f, os_RemoveAll X (wsKeystorePath ws)))"

text \<open>\<open>fund\<close> gives ten ether to an account on the simulated blockchain, which starts as \<open>c\<close>.\<close>

definition newSimContractBackend ::
  "'r gen_lib \<Rightarrow> (address \<Rightarrow> 'c \<Rightarrow> 'c) \<Rightarrow> 'c \<Rightarrow> wallet_setup \<Rightarrow> unit test_step \<times> 'c" where
  "newSimContractBackend G fund c ws =
     (let c = fold fund (wsAccs ws) c
      in (case glNewWallet G (wsKeystorePath ws) of Some e \<Rightarrow> FailNow | None \<Rightarrow> Goes (), c))"

definition deploy_on_sim :: "'c chain_lib \<Rightarrow> wallet_setup \<Rightarrow> address \<Rightarrow> 'c \<Rightarrow> chain_setup test_step \<times> 'c" where
  "deploy_on_sim K ws onChainAcc c =
     (case DeployAdjudicator K onChainAcc c of
        (Inl e, c) \<Rightarrow> (FailNow, c)
      | (Inr adjudicator, c) \<Rightarrow>
     (case DeployAssetETH K adjudicator onChainAcc c of
        (Inl e, c) \<Rightarrow> (FailNow, c)
      | (Inr assetETH, c) \<Rightarrow>
     (case DeployPerunToken K [onChainAcc] 10 onChainAcc c of
        (Inl e, c) \<Rightarrow> (FailNow, c)
      | (Inr tokenERC20PRN, c) \<Rightarrow>
     (case cb_DeployAssetERC20 K adjudicator tokenERC20PRN onChainAcc c of
        (Inl e, c) \<Rightarrow> (FailNow, c)
      | (Inr assetERC20PRN, c) \<Rightarrow>
          (Goes \<lparr>csWalletSetup = ws, csAdjudicator = adjudicator, csAssetETH = assetETH,
             csAssetERC20s = [(tokenERC20PRN, assetERC20PRN)]\<rparr>, c)))))"

definition NewSimChainBackendSetup ::
  "'c chain_lib \<Rightarrow> (address \<Rightarrow> 'c \<Rightarrow> 'c) \<Rightarrow> 'c \<Rightarrow> 'r gen_lib \<Rightarrow> os \<Rightarrow> 'r \<Rightarrow> nat \<Rightarrow> files
     \<Rightarrow> (chain_setup test_step \<times> 'c \<times> files \<times> (files \<Rightarrow> files)) run" where
  "NewSimChainBackendSetup K fund c G X rng numAccs f =
     andThen (NewWalletSetupT G X rng numAccs f) (\<lambda>(res, f, cleanup).
       case res of
         FailNow \<Rightarrow> Done (FailNow, c, f, cleanup)
       | Goes (ws, _) \<Rightarrow> (case newSimContractBackend G fund c ws of
           (FailNow, c) \<Rightarrow> Done (FailNow, c, f, cleanup)
         | (Goes _, c) \<Rightarrow> andThen (idx_at (wsAccs ws) 0) (\<lambda>onChainAcc.
             case deploy_on_sim K ws onChainAcc c of (res, c) \<Rightarrow> Done (res, c, f, cleanup))))"

subsection \<open>Configurations for tests\<close>

text \<open>A helper that requires a result and registers the cleanup of what was made.\<close>

definition require_ok :: "('a \<Rightarrow> files \<Rightarrow> files) \<Rightarrow> (goerr + 'a) \<times> files \<Rightarrow> 'a test_step \<times> files \<times> (files \<Rightarrow> files)" where
  "require_ok cleanup r = (case r of (Inl e, f) \<Rightarrow> (FailNow, f, id) | (Inr a, f) \<Rightarrow> (Goes a, f, cleanup a))"

definition NewConfigFileT :: "os \<Rightarrow> goerr + string \<Rightarrow> files \<Rightarrow> (string test_step \<times> files \<times> (files \<Rightarrow> files)) run" where
  "NewConfigFileT X encoded f = andThen (NewConfigFile X encoded f) (\<lambda>r. Done (require_ok (os_RemoveAll X) r))"

definition NewIDProviderT ::
  "'r gen_lib \<Rightarrow> os \<Rightarrow> peer_id list \<Rightarrow> files \<Rightarrow> (string test_step \<times> files \<times> (files \<Rightarrow> files)) run" where
  "NewIDProviderT G X peerIDs f = andThen (NewIDProvider G X peerIDs f) (\<lambda>r. Done (require_ok (os_RemoveAll X) r))"

definition session_NewConfigT ::
  "'r gen_lib \<Rightarrow> addr_lib \<Rightarrow> os \<Rightarrow> 'r \<Rightarrow> peer_id list \<Rightarrow> files
     \<Rightarrow> ((session_config \<times> 'r) test_step \<times> files \<times> (files \<Rightarrow> files)) run" where
  "session_NewConfigT G L X r peerIDs f =
     andThen (session_NewConfig G L X r peerIDs f) (\<lambda>res. Done (require_ok (\<lambda>(cfg, r) f.
       os_RemoveAll X (scIDProviderURL cfg) (os_RemoveAll X (wcKeystorePath (ucOnChainWallet (scUser cfg)))
         (os_RemoveAll X (scDatabaseDir cfg) f))) res))"

text \<open>After an error there is no wallet setup, and reading its wallet backend is a nil dereference.\<close>

definition NewUserConfig ::
  "'r gen_lib \<Rightarrow> addr_lib \<Rightarrow> os \<Rightarrow> 'r \<Rightarrow> nat \<Rightarrow> files \<Rightarrow> ((goerr + user_config \<times> 'r) \<times> files) run" where
  "NewUserConfig G L X r n f =
     andThen (newUserConfig G L X r (2 + n) f) (\<lambda>(res, f).
       case res of
         Inl e \<Rightarrow> Panic NilDereference
       | Inr ((ws, userCfg), r) \<Rightarrow> Done (Inr (userCfg, r), f))"

definition NewUserConfigT ::
  "'r gen_lib \<Rightarrow> addr_lib \<Rightarrow> os \<Rightarrow> 'r \<Rightarrow> nat \<Rightarrow> files
     \<Rightarrow> ((user_config \<times> 'r) test_step \<times> files \<times> (files \<Rightarrow> files)) run" where
  "NewUserConfigT G L X r n f =
     andThen (NewUserConfig G L X r n f) (\<lambda>res. Done (require_ok (\<lambda>(cfg, r).
       os_RemoveAll X (wcKeystorePath (ucOnChainWallet cfg))) res))"

text \<open>\<open>SetupContractsT\<close> registers no cleanup: the contracts stay for the tests that follow.\<close>

definition SetupContractsT ::
  "'c chain_lib \<Rightarrow> ('p, 'w) sdk \<Rightarrow> 'r gen_lib \<Rightarrow> addr_lib \<Rightarrow> os \<Rightarrow> string \<Rightarrow> bool \<Rightarrow> 'c \<times> files
     \<Rightarrow> (contract_registry test_step \<times> 'c \<times> files) run" where
  "SetupContractsT K S G L X chainURL incAssetERC20s cf =
     andThen (SetupContracts K S G L X chainURL incAssetERC20s cf) (\<lambda>(res, c, f).
       Done (case res of Inl e \<Rightarrow> FailNow | Inr contracts \<Rightarrow> Goes contracts, c, f))"

text \<open>An address is the twenty bytes that the random numbers give; \<open>asAddr\<close> is the type conversion.\<close>

definition NewRandomAddress :: "(nat \<Rightarrow> 'r \<Rightarrow> 8 word list \<times> 'r) \<Rightarrow> (8 word list \<Rightarrow> address) \<Rightarrow> 'r \<Rightarrow> address \<times> 'r" where
  "NewRandomAddress readBytes asAddr rnd = (case readBytes 20 rnd of (a, rnd) \<Rightarrow> (asAddr a, rnd))"

subsection \<open>Laws of the assertions\<close>

lemma AssertAPIError_passes:
  "AssertAPIError e categ code msgs = Some True \<longleftrightarrow>
     (\<exists>a. e = Some a \<and> aeCategory a = categ \<and> aeCode a = code \<and> (\<forall>msg\<in>set msgs. sublist msg (Message a)))"
  by (auto simp: AssertAPIError_def split: option.splits)

text \<open>Of an error with the category and information of its code, the assertion on the code is the one on the category.\<close>

lemma AssertAPIError_api_ok:
  assumes "api_ok e"
  shows "AssertAPIError (Some e) (category_of_code code) code [] = Some True \<longleftrightarrow> aeCode e = code"
  using assms by (auto simp: AssertAPIError_passes api_ok_def)

text \<open>
  An assertion on the information passes on an error with the category and information of its code only if the
  error has the code that belongs to the assertion.
\<close>

lemma assert_info_code:
  assumes "api_ok e"
  shows "AssertErrInfoPeerRequestTimedOut (aeAddInfo e) a t = Some True \<Longrightarrow> aeCode e = ErrPeerRequestTimedOut"
    and "AssertErrInfoPeerRejected (aeAddInfo e) a t = Some True \<Longrightarrow> aeCode e = ErrPeerRejected"
    and "AssertErrInfoPeerNotFunded (aeAddInfo e) a = Some True \<Longrightarrow> aeCode e = ErrPeerNotFunded"
    and "AssertErrInfoUserResponseTimedOut (aeAddInfo e) = Some True \<Longrightarrow> aeCode e = ErrUserResponseTimedOut"
    and "AssertErrInfoResourceNotFound (aeAddInfo e) ty i = Some True \<Longrightarrow> aeCode e = ErrResourceNotFound"
    and "AssertErrInfoResourceExists (aeAddInfo e) ty i = Some True \<Longrightarrow> aeCode e = ErrResourceExists"
    and "AssertErrInfoInvalidArgument (aeAddInfo e) nm v = Some True \<Longrightarrow> aeCode e = ErrInvalidArgument"
    and "AssertErrInfoFailedPreCondUnclosedChs (aeAddInfo e) cs = Some True \<Longrightarrow> aeCode e = ErrFailedPreCondition"
    and "AssertErrInfoInvalidConfig (aeAddInfo e) a t = Some True \<Longrightarrow> aeCode e = ErrInvalidConfig"
    and "AssertErrInfoInvalidContracts (aeAddInfo e) infos = Some True \<Longrightarrow> aeCode e = ErrInvalidContracts"
    and "AssertErrInfoTxTimedOut (aeAddInfo e) a t u = Some True \<Longrightarrow> aeCode e = ErrTxTimedOut"
    and "AssertErrInfoChainNotReachable (aeAddInfo e) a = Some True \<Longrightarrow> aeCode e = ErrChainNotReachable"
  using assms by (auto simp: assert_info_defs api_ok_def info_fits_def split: add_info.split_asm)

text \<open>What the constructors make is accepted for the values they were given, and for no others.\<close>

lemma assert_info_constructors:
  "AssertErrInfoPeerRequestTimedOut (aeAddInfo (NewAPIErrPeerRequestTimedOut e a t)) b u = Some True \<longleftrightarrow> b = a \<and> u = t"
  "AssertErrInfoPeerRejected (aeAddInfo (NewAPIErrPeerRejected e a t)) b u = Some True \<longleftrightarrow> b = a \<and> u = t"
  "AssertErrInfoPeerNotFunded (aeAddInfo (NewAPIErrPeerNotFunded e a)) b = Some True \<longleftrightarrow> b = a"
  "AssertErrInfoUserResponseTimedOut (aeAddInfo (NewAPIErrUserResponseTimedOut i j)) = Some True \<longleftrightarrow> i < j"
  "AssertErrInfoResourceNotFound (aeAddInfo (NewAPIErrResourceNotFound r a)) s b = Some True \<longleftrightarrow> s = r \<and> b = a"
  "AssertErrInfoResourceExists (aeAddInfo (NewAPIErrResourceExists r a)) s b = Some True \<longleftrightarrow> s = r \<and> b = a"
  "AssertErrInfoInvalidArgument (aeAddInfo (NewAPIErrInvalidArgument e n a)) m b = Some True \<longleftrightarrow> m = n \<and> b = a"
  "AssertErrInfoFailedPreCondUnclosedChs (aeAddInfo (NewAPIErrFailedPreConditionUnclosedChs e cs)) ds = Some True \<longleftrightarrow> ds = cs"
  "AssertErrInfoInvalidConfig (aeAddInfo (NewAPIErrInvalidConfig e a t)) b u = Some True \<longleftrightarrow> b = a \<and> u = t"
  "AssertErrInfoTxTimedOut (aeAddInfo (NewAPIErrTxTimedOut e a t v)) b u w = Some True \<longleftrightarrow> b = a \<and> u = t \<and> w = v"
  "AssertErrInfoChainNotReachable (aeAddInfo (NewAPIErrChainNotReachable e a)) b = Some True \<longleftrightarrow> b = a"
  by (simp_all add: assert_info_defs api_err_constructor_defs)

text \<open>The errors of the contracts are not compared.\<close>

lemma assert_contracts_any: "AssertErrInfoInvalidContracts (aeAddInfo (NewAPIErrInvalidContracts infos)) others = Some True"
  by (simp add: assert_info_defs api_err_constructor_defs)

text \<open>The registry of the tests interprets ether, whichever test asks first.\<close>

lemma test_Registry_twice: "test_Registry D (Some (test_Registry D r)) = test_Registry D r"
  by (simp add: test_Registry_def)

lemma test_Registry_ETH:
  "Symbols (test_Registry D None) = [ETHSymbol] \<and> Currency (test_Registry D None) ETHSymbol \<noteq> None"
  by (simp add: test_Registry_def Register_def isRegistered_def NewRegistry_def put_currency_def Symbols_def Currency_def Let_def)

subsection \<open>Laws of the simulated blockchain\<close>

text \<open>A setup has deployed the contracts in the order in which a demonstration deploys them.\<close>

lemma deploy_on_sim_Goes:
  assumes "deploy_on_sim K ws acc c = (Goes s, c')"
  shows "deployContracts K acc [acc] 10 c = (None, c')"
  using assms by (auto simp: deploy_on_sim_def deployContracts_def split: sum.split_asm prod.split_asm)

lemma NewSimChainBackendSetup_Goes:
  assumes "NewSimChainBackendSetup K fund c G X rng n f = Done (Goes s, c', f', cleanup)"
  obtains ws where "wsAccs ws \<noteq> []" and "deploy_on_sim K ws (wsAccs ws ! 0) (fold fund (wsAccs ws) c) = (Goes s, c')"
proof -
  from assms obtain ws acc where "idx_at (wsAccs ws) 0 = Done acc"
    and d: "deploy_on_sim K ws acc (fold fund (wsAccs ws) c) = (Goes s, c')"
    by (auto simp: NewSimChainBackendSetup_def newSimContractBackend_def Let_def
        split: test_step.split_asm prod.split_asm option.split_asm elim!: andThen_DoneE)
  then have "wsAccs ws \<noteq> []" "acc = wsAccs ws ! 0" by (auto simp: idx_at_def split: if_split_asm)
  with that d show ?thesis by blast
qed

text \<open>The contracts of a setup are those that a contract registry accepts.\<close>

lemma sim_setup_registry:
  assumes "chain_ok K G nonce code" and "deploy_on_sim K ws acc c = (Goes s, c')"
    and "nonce acc c + 3 < 2 ^ 64"
  shows "\<exists>reg. NewContractRegistry (kcEth K c') L (csAdjudicator s) (csAssetETH s) = Inr reg
    \<and> Adjudicator reg = csAdjudicator s \<and> AssetETH reg = Done (csAssetETH s)"
proof -
  let ?A = "glCreateAddress G acc" and ?n = "nonce acc c"
  from assms(2) obtain c1 c2 c3 where
    "kcDeployAdjudicator K acc c = (Inr (csAdjudicator s), c1)"
    "kcDeployETHAssetholder K (csAdjudicator s) acc c1 = (Inr (csAssetETH s), c2)"
    by (auto simp: deploy_on_sim_def DeployAdjudicator_def DeployAssetETH_def wrap_result_Inr
        split: sum.split_asm prod.split_asm)
  with assms(1) have "deploys G nonce code acc CodeAdjudicator c (Inr (csAdjudicator s), c1)"
    "deploys G nonce code acc (CodeAssetETH (csAdjudicator s)) c1 (Inr (csAssetETH s), c2)"
    unfolding chain_ok_def by metis+
  from this [THEN deploysD] have a: "csAdjudicator s = ?A ?n" "csAssetETH s = ?A (?n + 1)" by simp_all
  have ne: "?A (?n + i) \<noteq> ?A (?n + j)" if "i \<noteq> j" "i \<le> 3" "j \<le> 3" for i j
    using address_neq [OF assms(1), of "?n + i" "?n + j" acc] that assms(3) by simp
  have "code c' (?A ?n) = Some CodeAdjudicator" "code c' (?A (?n + 1)) = Some (CodeAssetETH (?A ?n))"
    using deployContracts_None [OF assms(1) deploy_on_sim_Goes [OF assms(2)]]
      ne [of 0 1] ne [of 0 2] ne [of 0 3] ne [of 1 2] ne [of 1 3] by simp_all
  with ValidateAdjudicator_None [OF assms(1)] ValidateAssetETH_None [OF assms(1)]
  have "ValidateAdjudicator (kcEth K c') L (?A ?n) = None" "ValidateAssetETH (kcEth K c') L (?A ?n) (?A (?n + 1)) = None"
    by blast+
  then obtain reg where "NewContractRegistry (kcEth K c') L (csAdjudicator s) (csAssetETH s) = Inr reg"
    by (simp add: NewContractRegistry_def a)
  with NewContractRegistry_Inr [OF this] show ?thesis by blast
qed

subsection \<open>Laws of the configurations\<close>

lemma new_accounts_length: "new_accounts G X p n r f = Done ((accs, r'), f') \<Longrightarrow> length accs = n"
  by (induction n arbitrary: r f accs r' f') (auto elim!: andThen_DoneE split: prod.split_asm sum.split_asm)

text \<open>
  Of the \<open>n\<close> participants that are asked for, two more are made, and the first two addresses are those of the
  on-chain and the off-chain account. A failure is a panic and not an error.
\<close>

lemma NewUserConfig_parts:
  assumes "NewUserConfig G L X r n f = Done (Inr (cfg, r'), f')"
  shows "length (ucPartAddrs cfg) = 2 + n \<and> ucPartAddrs cfg ! 0 = ucOnChainAddr cfg \<and> ucPartAddrs cfg ! 1 = ucOffChainAddr cfg"
proof -
  from assms obtain ws where "newUserConfig G L X r (Suc (Suc n)) f = Done (Inr ((ws, cfg), r'), f')"
    by (auto simp: NewUserConfig_def elim!: andThen_DoneE split: sum.split_asm)
  then obtain w r1 f1 where ws: "NewWalletSetup G X r (Suc (Suc (Suc (Suc n)))) f = Done (Inr (w, r1), f1)"
    and rest: "(case glFreePort G (fsTime f1) of
         Inl e \<Rightarrow> Done (Inl (EWith e ''acquiring free port''), f1)
       | Inr port \<Rightarrow>
           andThen (idx_at (wsAccs w) 0) (\<lambda>onChain. andThen (idx_at (wsAccs w) 1) (\<lambda>offChain.
           Done (Inr ((w, \<lparr>ucAlias = ''test-user'', ucOnChainAddr = alString L onChain,
               ucOnChainWallet = \<lparr>wcKeystorePath = wsKeystorePath w, wcPassword = []\<rparr>,
               ucPartAddrs = map (alString L) (take (length (drop 2 (wsAccs w))) (wsAccs w)),
               ucOffChainAddr = alString L offChain,
               ucOffChainWallet = \<lparr>wcKeystorePath = wsKeystorePath w, wcPassword = []\<rparr>,
               ucCommAddr = ''127.0.0.1:'' @ show_nat port, ucCommType = ''tcp''\<rparr>), r1), f1))))
      = Done (Inr ((ws, cfg), r'), f')"
    by (auto simp: newUserConfig_def bindR_Inr wrapR_Inr elim!: andThen_DoneE)
  from rest have c: "ucPartAddrs cfg = map (alString L) (take (length (wsAccs w) - 2) (wsAccs w))"
    "ucOnChainAddr cfg = alString L (wsAccs w ! 0)" "ucOffChainAddr cfg = alString L (wsAccs w ! 1)"
    by (cases "glFreePort G (fsTime f1)"; auto simp: run_simps)+
  from ws have l: "length (wsAccs w) = 4 + n"
    by (auto simp del: new_accounts.simps simp: NewWalletSetup_def bindR_Inr run_simps wrapR_Inr split: option.split_asm
        dest!: new_accounts_length)
  show ?thesis by (simp add: c l)
qed

lemma NewUserConfig_panics:
  "newUserConfig G L X r (2 + n) f = Done (Inl e, f') \<Longrightarrow> NewUserConfig G L X r n f = Panic NilDereference"
  by (simp add: NewUserConfig_def)

end
