(* ===== verification/Two_Parties.thy ===== *)
theory Two_Parties
  imports Payment
begin

text \<open>
  The two ends of a channel together: the node of the user who sends a payment, and the node of the
  peer, where the payment arrives as a notification that the peer answers. Each end runs the code of
  \<^verbatim>\<open>session/channel.go\<close> and \<^verbatim>\<open>app/payment\<close> on its own controller of go-perun. What is relied on of
  go-perun between the two is that it gives the peer's handler the state that the sender's update
  made, with a responder, and that accepting over this responder installs this state.
\<close>

subsection \<open>What go-perun does at the end of the peer\<close>

text \<open>
  \<open>offer r p\<close> is the state that the responder \<open>r\<close> of a controller \<open>p\<close> stands for, if there is one.
\<close>

definition responder_ok :: "'q pchannel_api \<Rightarrow> (ref \<Rightarrow> 'q \<Rightarrow> pstate option) \<Rightarrow> bool" where
  "responder_ok Q offer \<longleftrightarrow>
     (\<forall>d r p p' st. rAccept Q d r p = (p', None) \<longrightarrow> offer r p = Some st \<longrightarrow> pState Q p' = st)
     \<and> (\<forall>d r s p. pState Q (fst (rReject Q d r s p)) = pState Q p)"

definition offered ::
  "'q pchannel_api \<Rightarrow> (ref \<Rightarrow> 'q \<Rightarrow> pstate option) \<Rightarrow> pstate \<Rightarrow> ref \<Rightarrow> ('q, 'ev) channel \<Rightarrow> ('q, 'ev) channel \<Rightarrow> bool" where
  "offered Q offer st r b b' \<longleftrightarrow>
     (\<exists>p. b' = b\<lparr>chPch := p\<rparr> \<and> pState Q p = pState Q (chPch b) \<and> offer r p = Some st)"

definition update_id :: "('q, 'ev) channel \<Rightarrow> pstate \<Rightarrow> string" where
  "update_id b st = chID b @ ''_'' @ show_nat (unat (psVersion st))"

subsection \<open>An exchange\<close>

text \<open>
  A payment from the end \<open>a\<close>, and what becomes of it at the end \<open>b\<close>: it does not get there, it is
  refused by the user, the answer comes too late, or it is accepted over the update ID that the
  notification had.
\<close>

inductive exchange ::
  "'p pchannel_api \<Rightarrow> 'q pchannel_api \<Rightarrow> (ref \<Rightarrow> 'q \<Rightarrow> pstate option)
     \<Rightarrow> ('p, 'e) channel \<Rightarrow> ('q, 'f) channel \<Rightarrow> ('p, 'e) channel \<Rightarrow> ('q, 'f) channel \<Rightarrow> bool"
  for P :: "'p pchannel_api" and Q :: "'q pchannel_api" and offer where
  unsent: "SendPayChUpdate P pays a = Done ((i, Some e), a') \<Longrightarrow> exchange P Q offer a b a' b"
| refused: "SendPayChUpdate P pays a = Done ((i, Some e), a') \<Longrightarrow> offered Q offer st r b b0
    \<Longrightarrow> ch_HandleUpdate now (Some (pState Q (chPch b0))) st r b0 = Done ((), b1)
    \<Longrightarrow> RespondPayChUpdate Q now' uid False b1 = Done ((j, ae), b') \<Longrightarrow> exchange P Q offer a b a' b'"
| late: "SendPayChUpdate P pays a = Done ((i, Some e), a') \<Longrightarrow> offered Q offer st r b b0
    \<Longrightarrow> 0 < unix_after now (tcResponse (chTimeoutCfg b))
    \<Longrightarrow> ch_HandleUpdate now (Some (pState Q (chPch b0))) st r b0 = Done ((), b1)
    \<Longrightarrow> unix_after now (tcResponse (chTimeoutCfg b)) < unix now'
    \<Longrightarrow> RespondPayChUpdate Q now' (update_id b st) True b1 = Done ((j, ae), b') \<Longrightarrow> exchange P Q offer a b a' b'"
| accepted: "SendPayChUpdate P pays a = Done ((i, None), a') \<Longrightarrow> offered Q offer (pState P (chPch a')) r b b0
    \<Longrightarrow> 0 < unix_after now (tcResponse (chTimeoutCfg b))
    \<Longrightarrow> ch_HandleUpdate now (Some (pState Q (chPch b0))) (pState P (chPch a')) r b0 = Done ((), b1)
    \<Longrightarrow> RespondPayChUpdate Q now' (update_id b (pState P (chPch a'))) True b1 = Done ((j, None), b')
    \<Longrightarrow> exchange P Q offer a b a' b'"

text \<open>What an end does on its own.\<close>

inductive quiet :: "'p pchannel_api \<Rightarrow> ('p, 'e) channel \<Rightarrow> ('p, 'e) channel \<Rightarrow> bool"
  for P :: "'p pchannel_api" where
  info: "GetPayChInfo P a = Done (i, a') \<Longrightarrow> quiet P a a'"
| subscribe: "SubPayChUpdates f a = Done (ae, a') \<Longrightarrow> quiet P a a'"
| unsubscribe: "UnsubPayChUpdates a = Done (ae, a') \<Longrightarrow> quiet P a a'"

inductive two_party ::
  "'p pchannel_api \<Rightarrow> (ref \<Rightarrow> 'p \<Rightarrow> pstate option) \<Rightarrow> 'q pchannel_api \<Rightarrow> (ref \<Rightarrow> 'q \<Rightarrow> pstate option)
     \<Rightarrow> ('p, 'e) channel \<times> ('q, 'f) channel \<Rightarrow> ('p, 'e) channel \<times> ('q, 'f) channel \<Rightarrow> bool"
  for P :: "'p pchannel_api" and offP and Q :: "'q pchannel_api" and offQ where
  left: "exchange P Q offQ a b a' b' \<Longrightarrow> two_party P offP Q offQ (a, b) (a', b')"
| right: "exchange Q P offP b a b' a' \<Longrightarrow> two_party P offP Q offQ (a, b) (a', b')"
| quiet_left: "quiet P a a' \<Longrightarrow> two_party P offP Q offQ (a, b) (a', b)"
| quiet_right: "quiet Q b b' \<Longrightarrow> two_party P offP Q offQ (a, b) (a, b')"

subsection \<open>Agreement\<close>

definition same_channel :: "'p pchannel_api \<Rightarrow> ('p, 'e) channel \<Rightarrow> 'q pchannel_api \<Rightarrow> ('q, 'f) channel \<Rightarrow> bool" where
  "same_channel P a Q b \<longleftrightarrow> chID a = chID b \<and> chCurrencies a = chCurrencies b
     \<and> pState P (chPch a) = pState Q (chPch b) \<and> \<not> psIsFinal (pState P (chPch a))"

lemma same_channel_sym: "same_channel P a Q b \<Longrightarrow> same_channel Q b P a"
  by (auto simp: same_channel_def)

text \<open>Both ends show the same, up to the names they have for the participants.\<close>

lemma same_channel_info:
  assumes "same_channel P a Q b" and "getChInfo P a = Done i" and "getChInfo Q b = Done j"
  shows "ciChID i = ciChID j \<and> ciVersion i = ciVersion j
    \<and> biCurrencies (ciBalInfo i) = biCurrencies (ciBalInfo j) \<and> biBals (ciBalInfo i) = biBals (ciBalInfo j)"
proof -
  let ?st = "pState P (chPch a)"
  have st: "pState Q (chPch b) = ?st" and c: "chCurrencies b = chCurrencies a" "chID b = chID a"
    using assms(1) by (simp_all add: same_channel_def)
  have "length (psBalances ?st) \<le> length (chCurrencies a)"
    using assms(2) makeBalInfo_returns [of "chParts a" "chCurrencies a" "psBalances ?st"]
    by (auto simp: getChInfo_def makeChInfo_def makeBalInfoFromState_def returns_iff elim!: andThen_DoneE)
  from makeBalInfo_Done [OF this] assms(2,3) show ?thesis
    by (auto simp: getChInfo_def makeChInfo_def makeBalInfoFromState_def st c)
qed

lemma same_channel_evolves:
  assumes "same_channel P a Q b" and "evolves a a'" and "evolves b b'"
    and "pState P (chPch a') = pState Q (chPch b')" and "\<not> psIsFinal (pState P (chPch a'))"
  shows "same_channel P a' Q b'"
  using assms by (simp add: same_channel_def evolves_def same_params_def)

text \<open>The operations of the payment app are those of the channel.\<close>

lemma SendPayChUpdate_evolves: "SendPayChUpdate P pays a = Done (r, a') \<Longrightarrow> evolves a a'"
  by (auto simp: SendPayChUpdate_def dest: SendChUpdate_evolves elim!: andThen_DoneE split: sum.splits)

lemma RespondPayChUpdate_iff:
  "RespondPayChUpdate Q now uid acc b = Done ((j, ae), b') \<longleftrightarrow>
     (\<exists>i. RespondChUpdate Q now uid acc b = Done ((i, ae), b') \<and> j = toPayChInfo i)"
  by (auto simp: RespondPayChUpdate_def run_simps)

text \<open>
  What is there after the handler, when the channel is open: the notification of the state that was
  made at the other end, which was sent or is cached, and the entry that the user is to answer.
\<close>

lemma ch_HandleUpdate_entry:
  assumes "ch_HandleUpdate now cur st r b = Done ((), b1)" and "chStatus b = StatusOpen"
  obtains n where "cunUpdateID n = update_id b st" and "cunError n = None" and "makeChInfo b (Some st) = Done (cunProposedChInfo n)"
    and "cunType n = (if psIsFinal st then ChUpdateTypeFinal else ChUpdateTypeOpen)"
    and "case chNotifier b of None \<Rightarrow> chNotifCache b1 = chNotifCache b @ [n] \<and> chOut b1 = chOut b
          | Some f \<Rightarrow> chOut b1 = chOut b @ [f n] \<and> chNotifCache b1 = chNotifCache b"
    and "unix_after now (tcResponse (chTimeoutCfg b)) \<noteq> 0 \<Longrightarrow> chResponders b1 (update_id b st) = Some
          \<lparr>ueNotif = n, ueResponder = r, ueNotifExpiry = unix_after now (tcResponse (chTimeoutCfg b))\<rparr>"
proof -
  let ?ex = "unix_after now (tcResponse (chTimeoutCfg b))"
  from assms obtain cur' n where n: "makeChUpdateNotif (b\<lparr>chLocked := True\<rparr>) cur' st ?ex = Done n"
    and b1: "b1 = (sendChUpdateNotif n (storeUpdResponder n r ?ex (b\<lparr>chLocked := True\<rparr>)))\<lparr>chLocked := False\<rparr>"
    by (auto simp: ch_HandleUpdate_def run_simps Let_def)
  from makeChUpdateNotif_Done [OF n] show thesis
    by (intro that [of n])
      (auto simp: b1 sendChUpdateNotif_def storeUpdResponder_def update_id_def makeChInfo_def Let_def split: option.splits)
qed

lemma ch_HandleUpdate_keeps:
  assumes "ch_HandleUpdate now cur st r b = Done (x, b1)"
  shows "chPch b1 = chPch b \<and> chStatus b1 = chStatus b \<and> chTimeoutCfg b1 = chTimeoutCfg b"
  using assms
  by (cases "chStatus b")
    (auto simp: ch_HandleUpdate_def run_simps Let_def sendChUpdateNotif_def storeUpdResponder_def split: option.splits)

text \<open>A response that refuses, or comes too late, leaves the state alone.\<close>

lemma refusal_keeps_state:
  assumes "RespondPayChUpdate Q now uid acc b = Done ((j, ae), b')" and "responder_ok Q offer"
    and "acc \<Longrightarrow> \<forall>e. chResponders b uid = Some e \<longrightarrow> ueNotifExpiry e < unix now"
  shows "pState Q (chPch b') = pState Q (chPch b)"
  using assms
  by (auto simp: RespondPayChUpdate_iff answer_pch_def Let_def responder_ok_def
      dest!: RespondChUpdate_Done split: option.splits if_splits)

text \<open>A response that accepts an update which is not final installs the state of the responder of its entry.\<close>

lemma acceptance_installs_state:
  assumes "RespondPayChUpdate Q now uid True b = Done ((j, None), b')" and "responder_ok Q offer"
    and "chResponders b uid = Some e" and "cunType (ueNotif e) = ChUpdateTypeOpen" and "offer (ueResponder e) (chPch b) = Some st"
  shows "pState Q (chPch b') = st"
proof -
  from assms(1) obtain i where "RespondChUpdate Q now uid True b = Done ((i, None), b')"
    by (auto simp: RespondPayChUpdate_iff)
  from RespondChUpdate_Done [OF this] assms(3,4) have a: "chPch b' = fst (answer_pch Q now e True b)"
    "snd (answer_pch Q now e True b) = Some None"
    by (auto split: if_splits)
  with assms(4) have "rAccept Q (respChUpdate (chTimeoutCfg b)) (ueResponder e) (chPch b) = (chPch b', None)"
    by (auto simp: answer_pch_def Let_def prod_eq_iff split: if_splits)
  with assms(2,5) show ?thesis unfolding responder_ok_def by blast
qed

subsection \<open>An exchange keeps the agreement\<close>

lemma exchange_evolves: "exchange P Q offer a b a' b' \<Longrightarrow> evolves a a' \<and> evolves b b'"
proof (induction rule: exchange.induct)
  case (unsent pays a i e a' b)
  then show ?case by (auto dest: SendPayChUpdate_evolves)
qed (auto simp: offered_def RespondPayChUpdate_iff
    dest!: SendPayChUpdate_evolves ch_HandleUpdate_evolves RespondChUpdate_evolves elim: evolves_trans)

lemma exchange_agrees:
  assumes "exchange P Q offer a b a' b'" and "same_channel P a Q b" and "pchannel_ok P" and "responder_ok Q offer"
  shows "same_channel P a' Q b' \<and> map sum_list (psBalances (pState P (chPch a'))) = map sum_list (psBalances (pState P (chPch a)))"
proof -
  note ev = exchange_evolves [OF assms(1)]
  have "pState P (chPch a') = pState Q (chPch b') \<and> \<not> psIsFinal (pState P (chPch a'))
    \<and> map sum_list (psBalances (pState P (chPch a'))) = map sum_list (psBalances (pState P (chPch a)))"
    using assms(1)
  proof cases
    case (unsent pays i e)
    with SendPayChUpdate_Done [OF unsent(2) assms(3)] assms(2) show ?thesis by (auto simp: same_channel_def)
  next
    case (refused pays i e st r b0 now b1 now' uid j ae)
    have "pState Q (chPch b') = pState Q (chPch b1)" using refusal_keeps_state [OF refused(4) assms(4)] by simp
    with SendPayChUpdate_Done [OF refused(1) assms(3)] assms(2) refused(2) ch_HandleUpdate_keeps [OF refused(3)]
    show ?thesis by (auto simp: same_channel_def offered_def)
  next
    case (late pays i e st r b0 now b1 now' j ae)
    have b0: "chTimeoutCfg b0 = chTimeoutCfg b" "update_id b0 st = update_id b st"
      using late(2) by (auto simp: offered_def update_id_def)
    note k = ch_HandleUpdate_keeps [OF late(4)]
    have "pState Q (chPch b') = pState Q (chPch b1)"
    proof (cases "chStatus b0")
      case StatusOpen
      from ch_HandleUpdate_entry [OF late(4) this] late(3,5) b0
      have "\<forall>e. chResponders b1 (update_id b st) = Some e \<longrightarrow> ueNotifExpiry e < unix now'" by (metis less_irrefl upd_entry.select_convs(3) option.sel)
      with refusal_keeps_state [OF late(6) assms(4)] show ?thesis by simp
    next
      case StatusClosed
      with k late(6) show ?thesis by (auto simp: RespondPayChUpdate_iff dest!: RespondChUpdate_Done)
    qed
    with SendPayChUpdate_Done [OF late(1) assms(3)] assms(2) late(2) k show ?thesis
      by (auto simp: same_channel_def offered_def)
  next
    case (accepted pays i r b0 now b1 now' j)
    let ?st = "pState P (chPch a')"
    from SendPayChUpdate_Done [OF accepted(1) assms(3)] assms(2)
    have st: "\<not> psIsFinal ?st" "map sum_list (psBalances ?st) = map sum_list (psBalances (pState P (chPch a)))"
      by (auto simp: same_channel_def Let_def)
    have b0: "chTimeoutCfg b0 = chTimeoutCfg b" "update_id b0 ?st = update_id b ?st" "offer r (chPch b0) = Some ?st"
      using accepted(2) by (auto simp: offered_def update_id_def)
    note k = ch_HandleUpdate_keeps [OF accepted(4)]
    have open_b: "chStatus b0 = StatusOpen"
      using k accepted(5) by (cases "chStatus b0") (auto simp: RespondPayChUpdate_iff dest!: RespondChUpdate_Done)
    from accepted(3) have ex: "unix_after now (tcResponse (chTimeoutCfg b0)) \<noteq> 0" by (simp add: b0)
    obtain n where n: "cunType n = ChUpdateTypeOpen" "chResponders b1 (update_id b ?st) = Some
        \<lparr>ueNotif = n, ueResponder = r, ueNotifExpiry = unix_after now (tcResponse (chTimeoutCfg b0))\<rparr>"
      using ch_HandleUpdate_entry [OF accepted(4) open_b] st(1) ex by (metis b0(2))
    have "pState Q (chPch b') = ?st"
      using acceptance_installs_state [OF accepted(5) assms(4) n(2)] n(1) b0(3) k by simp
    with st show ?thesis by simp
  qed
  with ev assms(2) show ?thesis by (auto intro: same_channel_evolves)
qed

lemma quiet_keeps: "quiet P a a' \<Longrightarrow> evolves a a' \<and> chPch a' = chPch a"
proof (induction rule: quiet.induct)
  case (info a i a')
  then show ?case by (auto simp: GetPayChInfo_def GetChInfo_def run_simps dest: GetChInfo_evolves)
next
  case (subscribe f a ae a')
  then have run: "SubChUpdates (\<lambda>notif. f (toPayChUpdateNotif notif)) a = Done (ae, a')" by (simp add: SubPayChUpdates_def)
  then have "chPch a' = chPch a" by (auto simp: SubChUpdates_def run_simps split: if_splits)
  with SubChUpdates_evolves [OF run] show ?case by simp
next
  case (unsubscribe a ae a')
  then have run: "UnsubChUpdates a = Done (ae, a')" by (simp add: UnsubPayChUpdates_def)
  then have "chPch a' = chPch a" by (auto simp: UnsubChUpdates_def unsubChUpdates_def run_simps split: if_splits)
  with UnsubChUpdates_evolves [OF run] show ?case by simp
qed

text \<open>The totals of the currencies.\<close>

definition totals :: "'p pchannel_api \<Rightarrow> ('p, 'e) channel \<Rightarrow> int list" where
  "totals P a = map sum_list (psBalances (pState P (chPch a)))"

lemma totals_same: "same_channel P a Q b \<Longrightarrow> totals Q b = totals P a"
  by (simp add: totals_def same_channel_def)

lemma two_party_agrees:
  assumes "two_party P offP Q offQ (a, b) (a', b')" and "same_channel P a Q b"
    and "pchannel_ok P" and "pchannel_ok Q" and "responder_ok P offP" and "responder_ok Q offQ"
  shows "same_channel P a' Q b' \<and> totals P a' = totals P a"
  using assms(1)
proof cases
  case left
  from exchange_agrees [OF this assms(2,3,6)] show ?thesis by (simp add: totals_def)
next
  case right
  from exchange_agrees [OF this same_channel_sym [OF assms(2)] assms(4,5)]
  show ?thesis using totals_same [OF assms(2)] totals_same [of P a' Q b'] same_channel_sym [of Q b' P a']
    by (simp add: totals_def)
next
  case quiet_left
  with quiet_keeps [OF quiet_left(2)] assms(2) show ?thesis
    by (auto simp: totals_def same_channel_def evolves_def same_params_def)
next
  case quiet_right
  with quiet_keeps [OF quiet_right(2)] assms(2) show ?thesis
    by (auto simp: totals_def same_channel_def evolves_def same_params_def)
qed

subsection \<open>Properties\<close>



subsection \<open>A run\<close>

text \<open>
  A controller with the state and the update that waits for an answer. One payment of 4 is made, and
  accepted at the other end.
\<close>

definition two_api :: "(pstate \<times> pstate option) pchannel_api" where
  "two_api = \<lparr>pID = (\<lambda>p. psID (fst p)), pIdx = (\<lambda>p. 0), pPhase = (\<lambda>p. Acting), pState = fst,
     pPeers = (\<lambda>p. [Some 5, Some 6]), pChallengeDuration = (\<lambda>p. 10),
     pUpdateBy = (\<lambda>d u p. andThen (u (fst p)) (\<lambda>(st, err).
        Done (case err of None \<Rightarrow> ((st\<lparr>psVersion := psVersion (fst p) + 1\<rparr>, None), None) | Some e \<Rightarrow> (p, Some e)))),
     pRegister = (\<lambda>d p. (p, None)), pSettle = (\<lambda>d b p. (p, None)), pClose = (\<lambda>p. (p, None)),
     pWatchReturned = (\<lambda>p. True),
     rAccept = (\<lambda>d r p. case snd p of Some st \<Rightarrow> ((st, None), None) | None \<Rightarrow> (p, Some (ENew ''no update''))),
     rReject = (\<lambda>d r s p. ((fst p, None), None))\<rparr>"

definition two_offer :: "ref \<Rightarrow> pstate \<times> pstate option \<Rightarrow> pstate option" where
  "two_offer r p = snd p"

lemma two_api_ok: "pchannel_ok two_api" "responder_ok two_api two_offer"
  by (auto simp: pchannel_ok_def responder_ok_def two_api_def two_offer_def run_simps split: option.splits)

definition two_channel :: "string list \<Rightarrow> pstate \<Rightarrow> pstate option \<Rightarrow> (pstate \<times> pstate option, nat) channel" where
  "two_channel parts st w = newCh two_api (st, w) ''ws://chain'' [sim_currency] parts
     \<lparr>tcOnChainTx = 10 * Second, tcResponse = 10 * Second\<rparr> 10"

definition two_paid :: pstate where
  "two_paid = sim_state\<lparr>psBalances := [[6, 24]], psVersion := 1\<rparr>"

lemma two_channel_sel [simp]:
  "\<not> chLocked (two_channel parts st w)" "chStatus (two_channel parts st w) = StatusOpen"
  "chPch (two_channel parts st w) = (st, w)" "chNotifier (two_channel parts st w) = None"
  "chParts (two_channel parts st w) = parts" "chCurrencies (two_channel parts st w) = [sim_currency]"
  "chResponders (two_channel parts st w) = Map.empty" "chSymbols (two_channel parts st w) = [''ETH'' \<mapsto> 0]"
  "chTimeoutCfg (two_channel parts st w) = \<lparr>tcOnChainTx = 10 * Second, tcResponse = 10 * Second\<rparr>"
  "(two_channel parts st w)\<lparr>chPch := (st', w')\<rparr> = (two_channel parts st' w')\<lparr>chID := chID (two_channel parts st w)\<rparr>"
  by (simp_all add: two_channel_def newCh_def sim_currency_def)

lemma two_info: "\<exists>i. getChInfo two_api (ch\<lparr>chLocked := True, chPch := (two_paid, w)\<rparr>) = Done i"
  if "chCurrencies ch = [sim_currency]" for ch :: "(pstate \<times> pstate option, nat) channel"
  using that makeBalInfo_returns [of "chParts ch" "[sim_currency]" "[[6, 24]]"]
  by (auto simp: getChInfo_def makeChInfo_def makeBalInfoFromState_def two_api_def two_paid_def returns_iff)

lemma two_unlock: "(two_channel parts st w)\<lparr>chLocked := False\<rparr> = two_channel parts st w"
  by (simp add: two_channel_def newCh_def)

lemma two_sent:
  "\<exists>i. SendPayChUpdate two_api [sim_payment] (two_channel [''self'', ''bob''] sim_state None)
     = Done ((i, None), two_channel [''self'', ''bob''] two_paid None)"
proof -
  let ?ch = "two_channel [''self'', ''bob''] sim_state None"
  have parse: "read_int ''4'' = 4" by (simp add: read_int_def read_nat_def char_digit_def)
  have mk: "make_updates ?ch [sim_payment] = Done (Inr [newUpdate 0 1 0 4])"
    by (simp add: sim_payment_def ch_Currency_def sim_currency_def parse getPayerPayeeIdx_def)
  have upd: "pUpdateBy two_api d (\<lambda>state. andThen (run_updates [newUpdate 0 (Suc 0) 0 4] state) (\<lambda>st. Done (st, None)))
      (sim_state, None) = Done ((two_paid, None), None)" for d
    by (simp add: two_api_def newUpdate_def sim_state_def two_paid_def)
  obtain i where i: "getChInfo two_api (?ch\<lparr>chLocked := True, chPch := (two_paid, None)\<rparr>) = Done i"
    using two_info [of ?ch None] by auto
  have "?ch\<lparr>chLocked := True, chPch := (two_paid, None), chLocked := False\<rparr> = two_channel [''self'', ''bob''] two_paid None"
    by (simp add: two_channel_def newCh_def two_api_def two_paid_def)
  then have "SendChUpdate two_api (\<lambda>state. andThen (run_updates [newUpdate 0 (Suc 0) 0 4] state) (\<lambda>st. Done (st, None))) ?ch
      = Done ((i, None), two_channel [''self'', ''bob''] two_paid None)"
    by (simp add: SendChUpdate_def with_lock_def upd with_info_def i Let_def del: run_updates.simps)
  with mk show ?thesis by (simp add: SendPayChUpdate_def del: run_updates.simps)
qed

text \<open>The other end: the handler, and the answer of the user.\<close>

lemma two_expiry: "unix_after 0 (10 * Second) = 10"
  by (simp add: unix_after_def unix_def Second_def)

lemma two_handled:
  "\<exists>b1. ch_HandleUpdate 0 (Some sim_state) two_paid 7 (two_channel [''alice'', ''self''] sim_state (Some two_paid)) = Done ((), b1)
     \<and> \<not> chLocked b1"
proof -
  let ?b = "(two_channel [''alice'', ''self''] sim_state (Some two_paid))\<lparr>chLocked := True\<rparr>"
  have info: "\<exists>i. makeChInfo ?b (Some st) = Done i" if "length (psBalances st) \<le> 1" for st
    using that makeBalInfo_returns [of "[''alice'', ''self'']" "[sim_currency]" "psBalances st"]
    by (auto simp: makeChInfo_def makeBalInfoFromState_def returns_iff)
  obtain i where i: "makeChInfo ?b (Some sim_state) = Done i" using info [of sim_state] by (auto simp: sim_state_def)
  obtain k where k: "makeChInfo ?b (Some two_paid) = Done k" using info [of two_paid] by (auto simp: two_paid_def)
  then obtain n where n: "makeChUpdateNotif ?b i two_paid 10 = Done n" by (simp add: makeChUpdateNotif_def)
  then show ?thesis by (simp add: ch_HandleUpdate_def with_lock_def i two_expiry Let_def)
qed

lemma two_accepted:
  assumes "ch_HandleUpdate 0 (Some sim_state) two_paid 7 (two_channel [''alice'', ''self''] sim_state (Some two_paid)) = Done ((), b1)"
    and "\<not> chLocked b1"
  shows "\<exists>j b'. RespondPayChUpdate two_api 0 (update_id (two_channel [''alice'', ''self''] sim_state None) two_paid) True b1
    = Done ((j, None), b') \<and> chPch b' = (two_paid, None)"
proof -
  let ?b = "two_channel [''alice'', ''self''] sim_state (Some two_paid)"
  let ?uid = "update_id (two_channel [''alice'', ''self''] sim_state None) two_paid"
  have uid: "update_id ?b two_paid = ?uid" by (simp add: update_id_def two_channel_def newCh_def two_api_def)
  have "\<not> psIsFinal two_paid" by (simp add: two_paid_def sim_state_def)
  then obtain n where n: "cunType n = ChUpdateTypeOpen"
    and e: "chResponders b1 ?uid = Some \<lparr>ueNotif = n, ueResponder = 7, ueNotifExpiry = 10\<rparr>"
    using ch_HandleUpdate_entry [OF assms(1)] uid by (auto simp: two_expiry)
  have sel: "chStatus b1 = StatusOpen" "chPch b1 = (sim_state, Some two_paid)" "chCurrencies b1 = [sim_currency]"
    using ch_HandleUpdate_keeps [OF assms(1)] ch_HandleUpdate_evolves [OF assms(1)] by (auto simp: evolves_def same_params_def)
  obtain j where j: "getChInfo two_api (b1\<lparr>chLocked := True, chResponders := m, chPch := (two_paid, None)\<rparr>) = Done j" for m
    using two_info [of b1 None] sel(3) by (auto simp: getChInfo_def makeChInfo_def)
  have acc: "answerUpdate two_api 0 \<lparr>ueNotif = n, ueResponder = 7, ueNotifExpiry = 10\<rparr> True c = (None, c\<lparr>chPch := (two_paid, None)\<rparr>)"
    if "chPch c = (sim_state, Some two_paid)" for c :: "(pstate \<times> pstate option, nat) channel"
    using that n by (simp add: answerUpdate_def acceptChUpdate_def unix_def Let_def two_api_def)
  show ?thesis
    using assms(2) sel e j by (simp add: RespondPayChUpdate_def RespondChUpdate_def with_lock_def acc with_info_def)
qed

lemma two_offered:
  "offered two_api two_offer two_paid 7 (two_channel parts sim_state None) (two_channel parts sim_state (Some two_paid))"
  by (auto simp: offered_def two_api_def two_offer_def two_channel_def newCh_def)

lemma two_same:
  "same_channel two_api (two_channel [''self'', ''bob''] sim_state None) two_api (two_channel [''alice'', ''self''] sim_state None)"
  by (simp add: same_channel_def) (simp add: two_channel_def newCh_def two_api_def sim_state_def)

lemma two_exchange:
  "\<exists>b'. exchange two_api two_api two_offer (two_channel [''self'', ''bob''] sim_state None)
      (two_channel [''alice'', ''self''] sim_state None) (two_channel [''self'', ''bob''] two_paid None) b' \<and> chPch b' = (two_paid, None)"
proof -
  have st: "pState two_api (chPch (two_channel parts st w)) = st" for parts st w by (simp add: two_api_def)
  obtain i where i: "SendPayChUpdate two_api [sim_payment] (two_channel [''self'', ''bob''] sim_state None)
     = Done ((i, None), two_channel [''self'', ''bob''] two_paid None)" using two_sent by blast
  obtain b1 where b1: "ch_HandleUpdate 0 (Some sim_state) two_paid 7
      (two_channel [''alice'', ''self''] sim_state (Some two_paid)) = Done ((), b1)" "\<not> chLocked b1"
    using two_handled by blast
  obtain j b' where b': "RespondPayChUpdate two_api 0 (update_id (two_channel [''alice'', ''self''] sim_state None) two_paid) True b1
    = Done ((j, None), b')" "chPch b' = (two_paid, None)" using two_accepted [OF b1] by blast
  let ?a' = "two_channel [''self'', ''bob''] two_paid None" and ?b = "two_channel [''alice'', ''self''] sim_state None"
    and ?waiting = "two_channel [''alice'', ''self''] sim_state (Some two_paid)"
  have off: "offered two_api two_offer (pState two_api (chPch ?a')) 7 ?b ?waiting" unfolding st by (rule two_offered)
  have ex: "0 < unix_after 0 (tcResponse (chTimeoutCfg ?b))" by (simp add: two_expiry)
  have h: "ch_HandleUpdate 0 (Some (pState two_api (chPch ?waiting))) (pState two_api (chPch ?a')) 7 ?waiting = Done ((), b1)"
    unfolding st by (rule b1)
  have r: "RespondPayChUpdate two_api 0 (update_id ?b (pState two_api (chPch ?a'))) True b1 = Done ((j, None), b')"
    unfolding st by (rule b')
  have "exchange two_api two_api two_offer (two_channel [''self'', ''bob''] sim_state None) ?b ?a' b'"
    by (rule exchange.accepted [OF i off ex h r])
  with b' show ?thesis by blast
qed



end
