(* ===== verification/Node_Flags.thy ===== *)
theory Node_Flags
  imports Node_Command
begin

text \<open>
  The flags of \<^verbatim>\<open>perunnode\<close>: what \<^verbatim>\<open>cmd/perunnode/run.go\<close> and \<^verbatim>\<open>generate.go\<close> declare, and the
  binding of the flags of the node's configuration when the program starts. The library for flags is
  a parameter: a flag set that has a declared flag of a kind gives a value of it, and a flag that has been
  declared can be bound.
\<close>

datatype flag_value = VString string | VUint64 nat | VDuration int | VBool bool

text \<open>The flags of the command \<open>run\<close>, with their defaults.\<close>

definition defineFlags :: "(string \<times> flag_value) list" where
  "defineFlags =
     [(configfileF, VString defaultConfigFile), (grpcPortF, VUint64 defaultGrpcPort),
      (''loglevel'', VString []), (''logfile'', VString []), (''chainurl'', VString []),
      (''adjudicator'', VString []), (''assetETH'', VString []),
      (''chainconntimeout'', VDuration 0), (''onchaintxtimeout'', VDuration 0), (''responsetimeout'', VDuration 0)]"

text \<open>The flags of the command \<open>generate\<close>.\<close>

definition generate_flags :: "(string \<times> flag_value) list" where
  "generate_flags = [(onlyNodeF, VBool False), (onlySessionF, VBool False)]"

text \<open>
  The start of the program: every flag of the node's configuration is bound, so that its value comes before
  that of the file. \<open>bind\<close> is the call of the library, with the flag that was looked up, if there is one.
\<close>

primrec bind_flags ::
  "(string \<Rightarrow> flag_value option \<Rightarrow> goerr option) \<Rightarrow> (string \<times> flag_value) list \<Rightarrow> string list \<Rightarrow> unit run" where
  "bind_flags bind defs [] = Done ()"
| "bind_flags bind defs (g # gs) =
     (case bind g (map_of defs g) of
        Some e \<Rightarrow> Panic (PanicCall (err_Error e))
      | None \<Rightarrow> bind_flags bind defs gs)"

definition init_run :: "(string \<Rightarrow> flag_value option \<Rightarrow> goerr option) \<Rightarrow> unit run" where
  "init_run bind = bind_flags bind defineFlags nodeCfgFlags"

definition has_flags :: "flag_set \<Rightarrow> (string \<times> flag_value) list \<Rightarrow> bool" where
  "has_flags fs defs \<longleftrightarrow> (\<forall>(g, v) \<in> set defs. case v of
       VString s \<Rightarrow> \<exists>x. fgString fs g = Inr x
     | VUint64 n \<Rightarrow> \<exists>x. fgUint64 fs g = Inr x
     | VBool b \<Rightarrow> \<exists>x. fgBool fs g = Inr x
     | VDuration d \<Rightarrow> True)"

subsection \<open>Laws\<close>

lemma bind_flags_Done:
  "bind_flags bind defs gs = Done () \<longleftrightarrow> (\<forall>g \<in> set gs. bind g (map_of defs g) = None)"
  by (induction gs) (auto split: option.splits)

text \<open>Every flag of the configuration is declared, so that the program starts.\<close>

lemma init_run_returns:
  assumes "\<And>g v. bind g (Some v) = None"
  shows "init_run bind = Done ()"
  using assms by (auto simp: init_run_def bind_flags_Done nodeCfgFlags_def defineFlags_def configfileF_def grpcPortF_def)

text \<open>The flags of the configuration are zero unless they are given: a default is never taken for a value of the user.\<close>

lemma config_flags_zero:
  "g \<in> set nodeCfgFlags \<Longrightarrow> map_of defineFlags g \<in> {Some (VString []), Some (VDuration 0)}"
  by (auto simp: nodeCfgFlags_def defineFlags_def configfileF_def grpcPortF_def)

text \<open>With the flags that are declared neither command finds a flag that is unknown.\<close>

lemma parseNodeConfig_no_panic: "has_flags fs defineFlags \<Longrightarrow> \<exists>r. parseNodeConfig fs vp = Done r"
  by (auto simp: parseNodeConfig_def unmarshal_config_def has_flags_def defineFlags_def split: option.split prod.split)

lemma run_flags_known: "has_flags fs defineFlags \<Longrightarrow> \<exists>port. fgUint64 fs grpcPortF = Inr port"
  by (simp add: has_flags_def defineFlags_def)

lemma generate_flags_known:
  "has_flags fs generate_flags \<Longrightarrow> (\<exists>x. fgBool fs onlyNodeF = Inr x) \<and> (\<exists>x. fgBool fs onlySessionF = Inr x)"
  by (simp add: has_flags_def generate_flags_def)

end
