(* ===== verification/Client_Goroutines.thy ===== *)
theory Client_Goroutines
  imports Client
begin

text \<open>
  The goroutines of a channel client, \<open>runAsGoRoutine\<close> of \<^verbatim>\<open>session/client.go\<close>: the listener of the
  message bus, which starts with the client, and the handlers, which \<open>Handle\<close> starts. Each counts
  itself in the wait group of the client, for which \<open>Close\<close> waits. The field \<open>sdGoroutinesReturn\<close>
  of \<^verbatim>\<open>Client\<close> is whether this wait returns.
\<close>

datatype client_goroutine = Listen | HandleRequests

record wait_group =
  wgCount :: int
  wgRunning :: "client_goroutine list"

definition new_wait_group :: wait_group where
  "new_wait_group = \<lparr>wgCount = 0, wgRunning = []\<rparr>"

text \<open>The counter grows before the goroutine starts; the goroutine lowers it when its function has returned.\<close>

definition runAsGoRoutine :: "client_goroutine \<Rightarrow> wait_group \<Rightarrow> wait_group" where
  "runAsGoRoutine g wg = wg\<lparr>wgCount := wgCount wg + 1, wgRunning := wgRunning wg @ [g]\<rparr>"

definition goroutine_ends :: "client_goroutine \<Rightarrow> wait_group \<Rightarrow> wait_group run" where
  "goroutine_ends g wg =
     (if wgCount wg - 1 < 0 then Panic (PanicCall ''sync: negative WaitGroup counter'')
      else Done (wg\<lparr>wgCount := wgCount wg - 1, wgRunning := remove1 g (wgRunning wg)\<rparr>))"

definition wg_Wait :: "wait_group \<Rightarrow> unit run" where
  "wg_Wait wg = (if wgCount wg = 0 then Done () else Blocked)"

inductive wg_step :: "wait_group \<Rightarrow> wait_group \<Rightarrow> bool" where
  start: "wg_step wg (runAsGoRoutine g wg)"
| ends: "g \<in> set (wgRunning wg) \<Longrightarrow> goroutine_ends g wg = Done wg' \<Longrightarrow> wg_step wg wg'"

definition wg_inv :: "wait_group \<Rightarrow> bool" where
  "wg_inv wg \<longleftrightarrow> wgCount wg = int (length (wgRunning wg))"

lemma wg_step_inv: "wg_step wg wg' \<Longrightarrow> wg_inv wg \<Longrightarrow> wg_inv wg'"
proof (induction rule: wg_step.induct)
  case (ends g wg wg')
  have "int (length (wgRunning wg) - Suc 0) = int (length (wgRunning wg)) - 1"
    using ends(1) by (cases "wgRunning wg") auto
  with ends show ?case
    by (auto simp: goroutine_ends_def wg_inv_def length_remove1 split: if_splits)
qed (simp add: wg_inv_def runAsGoRoutine_def)

lemma wg_reachable_inv: "wg_step\<^sup>*\<^sup>* new_wait_group wg \<Longrightarrow> wg_inv wg"
  by (induction rule: rtranclp_induct) (auto simp: wg_inv_def new_wait_group_def intro: wg_step_inv [unfolded wg_inv_def])

text \<open>
  Whatever goroutines have been started and have ended: one that runs can end without a panic, and the
  wait of \<open>Close\<close> returns exactly when none runs.
\<close>

lemma goroutine_can_end:
  assumes "wg_step\<^sup>*\<^sup>* new_wait_group wg" and "g \<in> set (wgRunning wg)"
  shows "\<exists>wg'. goroutine_ends g wg = Done wg'"
proof -
  have "0 < length (wgRunning wg)" using assms(2) by auto
  with wg_reachable_inv [OF assms(1)] show ?thesis by (auto simp: goroutine_ends_def wg_inv_def)
qed

lemma Wait_returns_iff: "wg_step\<^sup>*\<^sup>* new_wait_group wg \<Longrightarrow> wg_Wait wg = Done () \<longleftrightarrow> wgRunning wg = []"
  using wg_reachable_inv [of wg] by (simp add: wg_Wait_def wg_inv_def)

text \<open>The goroutines of a client that has been made and handles requests.\<close>

lemma client_goroutines:
  "wgRunning (runAsGoRoutine HandleRequests (runAsGoRoutine Listen new_wait_group)) = [Listen, HandleRequests]"
  by (simp add: runAsGoRoutine_def new_wait_group_def)

end
