(* ===== verification/Spec2Isabelle.thy ===== *)
theory Spec2Isabelle
  imports Grpc_Errors Tui_Screens_Props Chain_Props End_To_End Test_Support Two_Parties Node_Flags Client_Goroutines
begin

text \<open>
  A model of perun-node, the node that runs payment channels of go-perun for its users, of its
  two clients, a terminal interface and a shell, and of the commands that start the node and
  generate the configurations of a demonstration.

  \<^bold>\<open>The program.\<close> A node (\<^verbatim>\<open>node/node.go\<close>) has a table of sessions and shares two registries with
  them: that of the currencies (\<^verbatim>\<open>currency\<close>) and that of the contracts on the blockchain
  (\<^verbatim>\<open>blockchain/ethereum/registry.go\<close>). A session (\<^verbatim>\<open>session/session.go\<close>) belongs to a user; it
  has the user's ID provider (\<^verbatim>\<open>idprovider/local\<close>), a client of go-perun (\<^verbatim>\<open>session/client.go\<close>) and
  the list of its channels (\<^verbatim>\<open>session/channelRegistry.go\<close>, \<^verbatim>\<open>session/channel.go\<close>). Requests come
  from the user, proposals and updates from peers through callbacks, and events from the
  blockchain; notifications go to subscribers or are cached. The payment app (\<^verbatim>\<open>app/payment\<close>)
  is a layer over this, the gRPC server (\<^verbatim>\<open>api/grpc/server.go\<close>) makes it a service, and the
  terminal client (\<^verbatim>\<open>cmd/perunnodetui\<close>) and the command line client (\<^verbatim>\<open>cmd/perunnodecli\<close>) call the
  service. The command of the node (\<^verbatim>\<open>cmd/perunnode\<close>) starts the node and the server from a
  configuration, or writes configurations, wallets and ID provider files for two users.

  \<^bold>\<open>How code is modelled.\<close> A function that can panic or wait for ever has a result of type \<open>run\<close>
  (theory \<open>Prelude\<close>): \<open>Done\<close> with the results and the new state, \<open>Panic\<close> with the reason, or
  \<open>Blocked\<close>. Errors of the node are values of \<open>api_err\<close>, errors of Go values of \<open>goerr\<close>; a pair of
  a result and an error is a sum or, where the code returns both, a pair. A mutex is a flag of the
  state: locking a held one gives \<open>Blocked\<close>. A pointer is an option, to a shared object an index
  of the list that holds it. A Go map is a map; where the code iterates over one, the order of
  the iteration is an argument. Machine integers are words where a value can reach the width
  (durations, versions, challenge durations), amounts are unbounded as \<^verbatim>\<open>big.Int\<close> is. The log is not
  part of the state of the node.

  \<^bold>\<open>Theories and code.\<close>
  \<^item> \<open>Prelude\<close>: outcomes, locks, indexing. \<open>Interfaces\<close>: the two contracts that components share,
    \<open>grow_registry\<close> (a table in which entries are only added) and \<open>subscription\<close> (notifications
    cached until somebody subscribes), each interpreted on the components that provide it.
  \<^item> \<open>Perun_Types\<close>: \<^verbatim>\<open>perun.go\<close>. \<open>Perun_Errors\<close>: \<^verbatim>\<open>errors.go\<close> and the errors of packages.
  \<^item> \<open>Timeouts\<close>: \<^verbatim>\<open>session/timeout.go\<close>. \<open>Currencies\<close>: \<^verbatim>\<open>currency\<close>. \<open>Wallets\<close>:
    \<^verbatim>\<open>blockchain/ethereum/internal/wallet.go\<close>. \<open>ID_Provider\<close>: \<^verbatim>\<open>idprovider/local\<close>. \<open>Contracts\<close>:
    \<^verbatim>\<open>blockchain/ethereum/registry.go\<close>.
  \<^item> \<open>Notifications\<close>: what sessions and channels share. \<open>Channel\<close>: \<^verbatim>\<open>session/channel.go\<close>, one
    definition for each method; \<open>Channel_Safety\<close>: the step relation of a channel, its invariant,
    the contracts of its methods. \<open>Channel_Registry\<close>: \<^verbatim>\<open>session/channelRegistry.go\<close>.
  \<^item> \<open>Client\<close>: \<^verbatim>\<open>session/client.go\<close>, \<^verbatim>\<open>session/user.go\<close> and the chain backend. \<open>Session\<close>:
    \<^verbatim>\<open>session/session.go\<close>; OpenCh and RespondChProposal are in the parts between which the code
    holds no lock. \<open>Session_Laws\<close>: the invariant of a session and how operations evolve it;
    \<open>Session_Safety\<close>: the step relation; \<open>Session_Props\<close>, \<open>Session_Requests\<close>, \<open>Session_Start\<close>:
    the properties of the requests and of the start.
  \<^item> \<open>Node\<close>: \<^verbatim>\<open>node/node.go\<close>; \<open>Node_Safety\<close>: its step relation, invariant and contracts.
    \<open>Payment\<close>: \<^verbatim>\<open>app/payment\<close>. \<open>Two_Parties\<close>: the two ends of a channel, each at its own node, with
    the payments between them as steps. \<open>Client_Goroutines\<close>: the goroutines that the client of a
    session starts and the wait group on which its Close waits.
  \<^item> \<open>Grpc_Server\<close>: \<^verbatim>\<open>api/grpc/server.go\<close>: the messages, the conversions, one definition for each
    handler. A handler that streams is two definitions, up to the subscription and the making
    of its signal, between which the lock of the server is free. \<open>Grpc_Props\<close>: the conversions;
    \<open>Grpc_Safety\<close>: every handler as steps of the node, and the invariant of the signals;
    \<open>Grpc_Streams\<close>: the properties.
  \<^item> \<open>Tui_Table\<close>, \<open>Tui\<close>, \<open>Tui_Commands\<close>: \<^verbatim>\<open>cmd/perunnodetui\<close>: the table and the registry, the
    methods of a channel, the calls to the node, the commands, the goroutines. \<open>Tui_Safety\<close>: the
    life cycle of a channel, the abstract specification of the client; \<open>Tui_Refinement\<close>: the pool
    of goroutines on the shared state and the proof that it implements the life cycle;
    \<open>Tui_Props\<close>: the properties. \<open>Tui_Main\<close>: the process around it: flags, loggers, the event loop,
    the polling of the balance. \<open>Tui_Screens\<close>: the two screens as the trees of rows, columns and
    widgets that the code builds, the dummy dashboard, and \<^verbatim>\<open>main\<close>; \<open>Tui_Screens_Props\<close>: what is shown
    on a terminal of which size.
  \<^item> \<open>Cli\<close>, \<open>Cli_Commands\<close>, \<open>Cli_Shell\<close>, \<open>Cli_Table\<close>: \<^verbatim>\<open>cmd/perunnodecli\<close>: the state of the shell, its
    commands, the goroutines that read notifications, the table of the commands. \<open>Cli_Safety\<close>,
    \<open>Cli_Steps\<close>: the invariant and the step relation; \<open>Cli_Props\<close>: the properties. \<open>Cli_Chain\<close>: the commands that
    work on the blockchain.
  \<^item> \<open>Grpc_Errors\<close>: every error message that the server sends, by its form. \<open>End_To_End\<close>: the shell
    connected to the server by a stub, whose contract is the locale \<open>payment_service\<close>.
  \<^item> \<open>Files\<close>: the file system and the calls of the standard library on it. \<open>Id_Storage\<close>: the file of
    the ID provider. \<open>Support\<close>: \<^verbatim>\<open>log/logger.go\<close> and \<^verbatim>\<open>comm/tcp/tcp.go\<close>.
  \<^item> \<open>Artifacts\<close>: \<^verbatim>\<open>cmd/perunnode/generate.go\<close> with the packages that make wallets and
    configurations; \<open>Artifacts_Laws\<close>: what its steps leave in the files; \<open>Artifacts_Props\<close>,
    \<open>Artifacts_Run\<close>: what a whole generation leaves, and a run. \<open>Node_Command\<close>:
    \<^verbatim>\<open>cmd/perunnode/run.go\<close>; \<open>Node_Flags\<close>: the flags that the commands declare and bind.
  \<^item> \<open>Chain_Setup\<close>: balances and deployments, \<^verbatim>\<open>blockchain/ethereum/chain.go\<close>, its \<^verbatim>\<open>internal/chain.go\<close> and
    \<^verbatim>\<open>ethereumtest/setupcontracts.go\<close>; \<open>Chain_Props\<close>: the property and a run.
  \<^item> \<open>Test_Support\<close>: the assertions on API errors, \<^verbatim>\<open>peruntest/assert.go\<close>, and the simulated blockchain
    of the tests, \<^verbatim>\<open>ethereumtest/chain.go\<close>: which errors the assertions accept, and that the contracts of
    the simulated blockchain are those of a contract registry; the helpers of \<^verbatim>\<open>sessiontest\<close> and
    \<^verbatim>\<open>idprovidertest\<close> that fail a test and register a cleanup.

  \<^bold>\<open>What the theorems show.\<close> Invariants of the reachable states of a channel, a session, the node
  and the server, each by induction over the steps, with the parts composed as the code composes
  them: a step of the server is a sequence of steps of the node, whose sessions move by steps of a
  session, whose channels move by steps of a channel. Contracts of the requests, on every branch
  and with their errors. Safety over time: no proposal is answered twice, a closed channel stays
  closed and silent, no notification is lost or repeated, a payment moves money and makes none.
  The terminal client refines the life cycle of a channel, and the goroutine that reads updates
  ends. A payment entered in the shell is followed through the stub, the server, the node and the
  session to the balances of the channel. Two nodes at the ends of a channel hold the same state
  after any payments between them, and a payment that one reports as made has been notified at the
  other. The files that one command writes are what another one
  reads: the ID provider file and its cache, the artifacts of two users who then know each other.
  Where the code panics, blocks or loses something, the theorem says when.

  \<^bold>\<open>Parameters and hypotheses.\<close> Code outside the repository is a parameter: go-perun (a record of
  the methods of its channel and client over an abstract state), the decimal library
  (\<open>decimal_ok\<close>: exact arithmetic but for 16 decimals in a division), the addresses of
  go-ethereum (\<open>addr_ok\<close>: the printed form has 42 characters and parses back), the validation of contracts,
  YAML, the clock, random numbers, hashes, the libraries for flags, configurations and logging, and for the
  clients the stub of the service and the formatting of its messages. The operating system may fail
  at any call (\<open>osFault\<close>). \<open>yaml_peers_ok\<close>: what the YAML library encodes decodes to the same peer IDs, and an empty
  file to none. \<open>chain_ok\<close>: a deployment puts the code at the address made of the sender and the
  number of its transactions, these addresses differ, and a validation looks for the code. \<open>pchannel_ok\<close> is what is relied on of a state channel: an update gets the next
  version and its state, a failed one, a registration, a settlement and a close change no state.
  \<open>responder_ok\<close> is what is relied on of
  it at the other end: accepting installs the state that was offered, rejecting changes none. Each hypothesis is shown to be satisfiable by the simulated instances with which the
  witnesses apply the theorems.

  \<^bold>\<open>Loops.\<close> Loops over lists are structural. The four loops of the clients that read a stream
  may run for ever and are partial functions; that one of them returns is a theorem. The event
  loop of the terminal client is a function of the events it has received. The name of a temporary
  file is tried 10000 times, the bound of the standard library; no other definition has a bound.

  \<^bold>\<open>Not modelled.\<close> The generated protobuf code and the generated mocks, which are made from the service
  description and the interfaces; what the terminal library does with a layout; the texts of help of
  commands and flags and the declarations of the interfaces, in which there is nothing to run; single
  log calls, as the log is no part of the states. Paths are taken to be clean, so that
  cleaning one gives the same path.
\<close>

end
